(* ===== verification/Prelude.thy ===== *)
theory Prelude
  imports Main "HOL-Library.Word"
begin

section \<open>Shared types, automation and generic lemmas\<close>

text \<open>
  The types every component uses (bytes and the C integer types at their width), the
  collections the component proofs feed to the simplifier, and the generic facts on lists of
  bytes: a store into a buffer (\<open>put_at\<close>, what \<open>memcpy\<close> does), a load from one
  (\<open>get_at\<close>), and the little-endian encoding of integers in memory.
\<close>

type_synonym byte = "8 word"
type_synonym u8 = "8 word"
type_synonym u16 = "16 word"
type_synonym u32 = "32 word"
type_synonym u64 = "64 word"

text \<open>
  The error numbers the functions return, negated in C. A function returning \<open>int rc\<close> gives
  \<open>None\<close> for 0 and \<open>Some e\<close> for \<open>-e\<close>.
\<close>

datatype errno = EPERM | EIO | EBADF | ENOMEM | EBUSY | ENODEV | EINVAL | ENOTSUP

type_synonym rc = "errno option"

named_theorems buf_simps \<open>loads and stores of byte buffers\<close>
named_theorems handler_defs \<open>unfoldings of the command handlers\<close>
named_theorems eval_simps \<open>evaluation at concrete inputs\<close>

subsection \<open>Byte buffers\<close>

text \<open>
  \<open>put_at n ys xs\<close> is the buffer \<open>xs\<close> after \<open>memcpy(xs + n, ys, length ys)\<close>, and
  \<open>get_at n l xs\<close> the \<open>l\<close> bytes \<open>memcpy(_, xs + n, l)\<close> reads. Both are used in range
  only, and the models say so where the source does not check it.
\<close>

definition put_at :: "nat \<Rightarrow> 'a list \<Rightarrow> 'a list \<Rightarrow> 'a list" where
  "put_at n ys xs = take n xs @ ys @ drop (n + length ys) xs"

definition get_at :: "nat \<Rightarrow> nat \<Rightarrow> 'a list \<Rightarrow> 'a list" where
  "get_at n l xs = take l (drop n xs)"

lemmas put_get_eval [eval_simps] = put_at_def get_at_def

lemma length_put_at [simp]:
  "n + length ys \<le> length xs \<Longrightarrow> length (put_at n ys xs) = length xs"
  by (simp add: put_at_def)

lemma length_get_at [simp]: "length (get_at n l xs) = min l (length xs - n)"
  by (simp add: get_at_def)

lemma put_at_nil [simp, buf_simps]: "put_at n [] xs = xs"
  by (simp add: put_at_def)

lemma get_at_0 [simp, buf_simps]: "get_at n 0 xs = []"
  by (simp add: get_at_def)

lemma get_put_same [buf_simps]:
  "n \<le> length xs \<Longrightarrow> get_at n (length ys) (put_at n ys xs) = ys"
  by (simp add: put_at_def get_at_def)

lemma put_at_0_full [buf_simps]: "length ys = length xs \<Longrightarrow> put_at 0 ys xs = ys"
  by (simp add: put_at_def)

lemma put_at_twice_adjacent [buf_simps]:
  "n \<le> length xs \<Longrightarrow>
   put_at (n + length ys) zs (put_at n ys xs) = put_at n (ys @ zs) xs"
  by (simp add: put_at_def min_def ac_simps)

lemma put_at_append_left:
  "n + length ys \<le> length xs \<Longrightarrow> put_at n ys (xs @ zs) = put_at n ys xs @ zs"
  by (simp add: put_at_def)

lemma put_at_append_right:
  "put_at (length xs + n) ys (xs @ zs) = xs @ put_at n ys zs"
  by (simp add: put_at_def add.assoc)

lemma get_at_append_left:
  "n + l \<le> length xs \<Longrightarrow> get_at n l (xs @ zs) = get_at n l xs"
  by (simp add: get_at_def)

lemma get_at_append_right:
  "get_at (length xs + n) l (xs @ zs) = get_at n l zs"
  by (simp add: get_at_def)

lemma take_get_at: "take k (get_at n l xs) = get_at n (min k l) xs"
  by (simp add: get_at_def)

lemma get_at_add: "get_at n (k + m) xs = get_at n k xs @ get_at (n + k) m xs"
  by (simp add: get_at_def take_add add.commute)

subsection \<open>Lists\<close>

lemma list_split_nth:
  "i < length xs \<Longrightarrow> xs = take i xs @ xs ! i # drop (Suc i) xs"
  by (simp add: id_take_nth_drop)

lemma concat_split_nth:
  "i < length xss \<Longrightarrow> concat xss = concat (take i xss) @ xss ! i @ concat (drop (Suc i) xss)"
  by (metis concat.simps(2) concat_append list_split_nth)

lemma sum_list_split_nth:
  "i < length (ls :: nat list) \<Longrightarrow> sum_list ls = sum_list (take i ls) + ls ! i + sum_list (drop (Suc i) ls)"
  by (metis id_take_nth_drop sum_list.Cons sum_list_append add.assoc)

lemma take_Suc_concat:
  "i < length xss \<Longrightarrow> length (concat (take (Suc i) xss)) = length (concat (take i xss)) + length (xss ! i)"
  by (simp add: take_Suc_conv_app_nth)

lemma map_length_update [simp]:
  "i < length xss \<Longrightarrow> length ys = length (xss ! i) \<Longrightarrow>
   map length (xss[i := ys]) = map length xss"
  by (simp add: map_update list_update_same_conv)

lemma length_concat_map: "length (concat xss) = sum_list (map length xss)"
  by (simp add: length_concat)

lemma same_shape_length_concat:
  "map length xss = map length yss \<Longrightarrow> length (concat xss) = length (concat yss)"
  by (simp add: length_concat)

subsection \<open>Widening conversions\<close>

lemma unat_ucast_widen:
  "LENGTH('a::len) \<le> LENGTH('b::len) \<Longrightarrow> unat (ucast (x :: 'a word) :: 'b word) = unat x"
proof -
  assume le: "LENGTH('a) \<le> LENGTH('b)"
  have "unat x < 2 ^ LENGTH('a)" by (rule unsigned_less)
  also have "\<dots> \<le> 2 ^ LENGTH('b)" using le by (simp add: power_increasing)
  finally show ?thesis by (simp add: unsigned_ucast_eq take_bit_eq_mod)
qed

lemma unat_widen [simp]:
  "unat (ucast (a :: u8) :: u32) = unat a"
  "unat (ucast (a :: u8) :: u64) = unat a"
  "unat (ucast (b :: u16) :: u32) = unat b"
  "unat (ucast (b :: u16) :: u64) = unat b"
  "unat (ucast (c :: u32) :: u64) = unat c"
  by (rule unat_ucast_widen; simp)+

lemma unat_bounds:
  "unat (a :: u8) < 256" "unat (b :: u16) < 65536" "unat (c :: u32) < 4294967296"
  "unat (d :: u64) < 18446744073709551616"
  using unsigned_less [of a] unsigned_less [of b] unsigned_less [of c] unsigned_less [of d]
  by simp_all

subsection \<open>Little-endian integers in memory\<close>

fun le_bytes :: "nat \<Rightarrow> nat \<Rightarrow> byte list" where
  "le_bytes 0 n = []"
| "le_bytes (Suc k) n = word_of_nat (n mod 256) # le_bytes k (n div 256)"

fun le_nat :: "byte list \<Rightarrow> nat" where
  "le_nat [] = 0"
| "le_nat (b # bs) = unat b + 256 * le_nat bs"

lemma le_bytes_numeral [eval_simps]:
  "le_bytes (numeral k) n = word_of_nat (n mod 256) # le_bytes (pred_numeral k) (n div 256)"
  by (simp only: numeral_eq_Suc [of k] le_bytes.simps)

lemma length_le_bytes [simp]: "length (le_bytes k n) = k"
  by (induction k arbitrary: n) auto

lemma unat_of_nat_byte [simp]: "unat (word_of_nat (n mod 256) :: byte) = n mod 256"
  by (simp add: unat_of_nat)

lemma le_nat_le_bytes: "le_nat (le_bytes k n) = n mod 256 ^ k"
proof (induction k arbitrary: n)
  case 0
  then show ?case by simp
next
  case (Suc k)
  have "le_nat (le_bytes (Suc k) n) = n mod 256 + 256 * ((n div 256) mod 256 ^ k)"
    by (simp add: Suc.IH)
  then show ?case by (simp add: mod_mult2_eq)
qed

lemma le_nat_bound: "le_nat bs < 256 ^ length bs"
proof (induction bs)
  case Nil
  then show ?case by simp
next
  case (Cons b bs)
  have "unat b < 256" using unsigned_less [of b] by simp
  with Cons.IH show ?case by simp
qed

text \<open>A 64-bit unsigned integer as the eight bytes a little-endian machine stores for it.\<close>

definition le64_bytes :: "u64 \<Rightarrow> byte list" where
  "le64_bytes w = le_bytes 8 (unat w)"

definition le64_word :: "byte list \<Rightarrow> u64" where
  "le64_word bs = word_of_nat (le_nat bs)"

lemma length_le64_bytes [simp]: "length (le64_bytes w) = 8"
  by (simp add: le64_bytes_def)

lemma le64_word_bytes [simp]: "le64_word (le64_bytes w) = w"
proof -
  have "unat w < 256 ^ 8" using unsigned_less [of w] by simp
  then show ?thesis by (simp add: le64_word_def le64_bytes_def le_nat_le_bytes)
qed

end
