(* ===== verification/Util.thy ===== *)
theory Util
  imports Prelude
begin

section \<open>Integer helpers of the utility library\<close>

text \<open>
  The helpers of \<open>include/spdk/util.h\<close> and \<open>lib/util/math.c\<close> the block layer uses to
  avoid divisions: the power-of-two test, the base-two logarithm by counting leading zeros, and the
  division rounding up, all at their C width. The lemmas reduce the shift path to division.
\<close>

unbundle bit_operations_syntax

definition spdk_u32_is_pow2 :: "u32 \<Rightarrow> bool" where
  "spdk_u32_is_pow2 x = (if x = 0 then False else x AND (x - 1) = 0)"

text \<open>
  The compiler intrinsic \<open>__builtin_clz\<close>: the number of zero bits above the most significant
  set bit. It is undefined at 0, where the source does not call it.
\<close>

fun builtin_clz_from :: "nat \<Rightarrow> 'a::len word \<Rightarrow> nat" where
  "builtin_clz_from 0 x = 0"
| "builtin_clz_from (Suc i) x = (if bit x i then 0 else Suc (builtin_clz_from i x))"

definition spdk_u32log2 :: "u32 \<Rightarrow> u32" where
  "spdk_u32log2 x = (if x = 0 then 0 else 31 - word_of_nat (builtin_clz_from 32 x))"

definition spdk_u64log2 :: "u64 \<Rightarrow> u64" where
  "spdk_u64log2 x = (if x = 0 then 0 else 63 - word_of_nat (builtin_clz_from 64 x))"

definition spdk_divide_round_up :: "u64 \<Rightarrow> u64 \<Rightarrow> u64" where
  "spdk_divide_round_up num divisor = (num + divisor - 1) div divisor"

subsection \<open>Powers of two\<close>

lemma bit_unat: "bit (unat (x :: 'a::len word)) n \<longleftrightarrow> bit x n"
  by (simp add: bit_unsigned_iff)

lemma high_bit_nat:
  assumes "2 ^ k \<le> n" and "n < 2 ^ Suc k"
  shows "bit (n :: nat) k"
proof -
  have "n div 2 ^ k = 1"
    using assms by (intro div_nat_eqI) simp_all
  then show ?thesis by (simp add: bit_iff_odd)
qed

lemma unat_minus_one_u32: "x \<noteq> 0 \<Longrightarrow> unat (x - 1 :: u32) = unat x - 1"
  by (rule unat_minus_one)

lemma u32_is_pow2_power:
  assumes "spdk_u32_is_pow2 x"
  obtains k where "k < 32" and "unat x = 2 ^ k"
proof -
  from assms have x0: "x \<noteq> 0" and x1: "x AND (x - 1) = 0"
    by (simp_all add: spdk_u32_is_pow2_def split: if_splits)
  from x0 have pos: "0 < unat x" by (simp add: unat_gt_0)
  then obtain k where k: "2 ^ k \<le> unat x" "unat x < 2 ^ Suc k"
    using ex_power_ivl1 [of 2 "unat x"] by auto
  have "2 ^ k < (2 :: nat) ^ 32"
    using k(1) unat_bounds(3) [of x] by simp
  then have k32: "k < 32" by (simp only: power_strict_increasing_iff)
  have "unat x = 2 ^ k"
  proof (rule ccontr)
    assume "unat x \<noteq> 2 ^ k"
    with k have "2 ^ k \<le> unat x - 1" "unat x - 1 < 2 ^ Suc k" by simp_all
    then have "bit (unat (x - 1)) k"
      using unat_minus_one_u32 [OF x0] by (simp add: high_bit_nat)
    moreover have "bit (unat x) k" using k by (rule high_bit_nat)
    ultimately have "bit (x AND (x - 1)) k" by (simp add: bit_unat bit_and_iff)
    with x1 show False by simp
  qed
  with k32 show thesis by (rule that)
qed

lemma clz_from_above:
  "(\<And>j. k < j \<Longrightarrow> j < n \<Longrightarrow> \<not> bit x j) \<Longrightarrow> bit x k \<Longrightarrow> k < n \<Longrightarrow> builtin_clz_from n x = n - Suc k"
proof (induction n)
  case 0
  then show ?case by simp
next
  case (Suc n)
  show ?case
  proof (cases "n = k")
    case True
    with Suc.prems show ?thesis by simp
  next
    case False
    with Suc.prems have "k < n" "\<not> bit x n" by auto
    with Suc show ?thesis by (simp add: Suc_diff_Suc)
  qed
qed

lemma bit_power_nat: "bit (2 ^ k :: nat) j \<longleftrightarrow> j = k"
  by (auto simp: bit_exp_iff)

lemma u32log2_power:
  assumes "k < 32" and "unat x = 2 ^ k"
  shows "unat (spdk_u32log2 x) = k"
proof -
  have b: "bit x j \<longleftrightarrow> j = k" for j
    using assms(2) bit_power_nat [of k j] by (simp add: bit_unat [symmetric])
  have "builtin_clz_from 32 x = 31 - k"
    using clz_from_above [of k 32 x] b assms(1) by simp
  moreover have "x \<noteq> 0" using assms(2) by auto
  moreover have "(31 :: u32) - word_of_nat (31 - k) = word_of_nat k"
    using assms(1) by (simp add: of_nat_diff)
  ultimately show ?thesis
    using assms(1) by (simp add: spdk_u32log2_def unat_of_nat)
qed

text \<open>Shifting by the logarithm is dividing by the power.\<close>

lemma pow2_shift:
  assumes "spdk_u32_is_pow2 b"
  shows "drop_bit (unat (spdk_u32log2 b)) (x :: u64) = x div ucast b"
    and "x - push_bit (unat (spdk_u32log2 b)) (drop_bit (unat (spdk_u32log2 b)) x) = x mod ucast b"
proof -
  obtain k where k: "k < 32" "unat b = 2 ^ k" by (rule u32_is_pow2_power [OF assms])
  then have l: "unat (spdk_u32log2 b) = k" by (rule u32log2_power)
  have "(ucast b :: u64) = word_of_nat (unat b)"
    by (simp add: unsigned_of_nat)
  then have bw: "ucast b = (2 ^ k :: u64)" using k(2) by simp
  show d: "drop_bit (unat (spdk_u32log2 b)) x = x div ucast b"
    by (simp only: l bw drop_bit_eq_div)
  show "x - push_bit (unat (spdk_u32log2 b)) (drop_bit (unat (spdk_u32log2 b)) x) = x mod ucast b"
    by (simp only: d) (simp add: l bw push_bit_eq_mult minus_div_mult_eq_mod)
qed

lemma divide_round_up_nat:
  assumes "0 < unat d" and "unat n + unat d \<le> 2 ^ 64"
  shows "unat (spdk_divide_round_up n d) = (unat n + unat d - 1) div unat d"
proof -
  have d1: "1 \<le> d" using assms(1) by (simp add: word_le_nat_alt)
  have "unat (d - 1) = unat d - 1" using d1 by (simp add: unat_sub)
  then have "unat (n + (d - 1)) = unat n + (unat d - 1)"
    using assms by (simp add: unat_plus_simple [THEN iffD1] no_olen_add_nat unat_add_lem [THEN iffD1])
  then show ?thesis
    using assms(1) by (simp add: spdk_divide_round_up_def unat_div add_diff_eq)
qed

end
