(* ===== verification/Nvme_Spec.thy ===== *)
theory Nvme_Spec
  imports Prelude
begin

section \<open>NVMe commands, completions and status codes\<close>

text \<open>
  The parts of \<open>include/spdk/nvme_spec.h\<close> the target relies on: the 64-byte command with its
  command dwords, the completion entry, the status codes and opcodes as enumerations with their
  numeric codes, and the data-transfer direction the low two bits of an opcode encode. Bit-fields
  keep their width; a field read across two dwords is assembled the way \<open>from_le64\<close> does.
\<close>

unbundle bit_operations_syntax

subsection \<open>Status codes\<close>

datatype spdk_nvme_status_code_type =
    SPDK_NVME_SCT_GENERIC
  | SPDK_NVME_SCT_COMMAND_SPECIFIC
  | SPDK_NVME_SCT_MEDIA_ERROR
  | SPDK_NVME_SCT_PATH
  | SPDK_NVME_SCT_VENDOR_SPECIFIC

primrec sct_code :: "spdk_nvme_status_code_type \<Rightarrow> 3 word" where
  "sct_code SPDK_NVME_SCT_GENERIC = 0"
| "sct_code SPDK_NVME_SCT_COMMAND_SPECIFIC = 1"
| "sct_code SPDK_NVME_SCT_MEDIA_ERROR = 2"
| "sct_code SPDK_NVME_SCT_PATH = 3"
| "sct_code SPDK_NVME_SCT_VENDOR_SPECIFIC = 7"

datatype spdk_nvme_generic_command_status_code =
    SPDK_NVME_SC_SUCCESS
  | SPDK_NVME_SC_INVALID_OPCODE
  | SPDK_NVME_SC_INVALID_FIELD
  | SPDK_NVME_SC_COMMAND_ID_CONFLICT
  | SPDK_NVME_SC_DATA_TRANSFER_ERROR
  | SPDK_NVME_SC_ABORTED_POWER_LOSS
  | SPDK_NVME_SC_INTERNAL_DEVICE_ERROR
  | SPDK_NVME_SC_ABORTED_BY_REQUEST
  | SPDK_NVME_SC_ABORTED_SQ_DELETION
  | SPDK_NVME_SC_ABORTED_FAILED_FUSED
  | SPDK_NVME_SC_ABORTED_MISSING_FUSED
  | SPDK_NVME_SC_INVALID_NAMESPACE_OR_FORMAT
  | SPDK_NVME_SC_COMMAND_SEQUENCE_ERROR
  | SPDK_NVME_SC_INVALID_SGL_SEG_DESCRIPTOR
  | SPDK_NVME_SC_INVALID_NUM_SGL_DESCIRPTORS
  | SPDK_NVME_SC_DATA_SGL_LENGTH_INVALID
  | SPDK_NVME_SC_METADATA_SGL_LENGTH_INVALID
  | SPDK_NVME_SC_SGL_DESCRIPTOR_TYPE_INVALID
  | SPDK_NVME_SC_INVALID_CONTROLLER_MEM_BUF
  | SPDK_NVME_SC_INVALID_PRP_OFFSET
  | SPDK_NVME_SC_ATOMIC_WRITE_UNIT_EXCEEDED
  | SPDK_NVME_SC_OPERATION_DENIED
  | SPDK_NVME_SC_INVALID_SGL_OFFSET
  | SPDK_NVME_SC_HOSTID_INCONSISTENT_FORMAT
  | SPDK_NVME_SC_KEEP_ALIVE_EXPIRED
  | SPDK_NVME_SC_KEEP_ALIVE_INVALID
  | SPDK_NVME_SC_ABORTED_PREEMPT
  | SPDK_NVME_SC_SANITIZE_FAILED
  | SPDK_NVME_SC_SANITIZE_IN_PROGRESS
  | SPDK_NVME_SC_SGL_DATA_BLOCK_GRANULARITY_INVALID
  | SPDK_NVME_SC_COMMAND_INVALID_IN_CMB
  | SPDK_NVME_SC_COMMAND_NAMESPACE_IS_PROTECTED
  | SPDK_NVME_SC_COMMAND_INTERRUPTED
  | SPDK_NVME_SC_COMMAND_TRANSIENT_TRANSPORT_ERROR
  | SPDK_NVME_SC_COMMAND_PROHIBITED_BY_LOCKDOWN
  | SPDK_NVME_SC_ADMIN_COMMAND_MEDIA_NOT_READY
  | SPDK_NVME_SC_FDP_DISABLED
  | SPDK_NVME_SC_INVALID_PLACEMENT_HANDLE_LIST
  | SPDK_NVME_SC_LBA_OUT_OF_RANGE
  | SPDK_NVME_SC_CAPACITY_EXCEEDED
  | SPDK_NVME_SC_NAMESPACE_NOT_READY
  | SPDK_NVME_SC_RESERVATION_CONFLICT
  | SPDK_NVME_SC_FORMAT_IN_PROGRESS
  | SPDK_NVME_SC_INVALID_VALUE_SIZE
  | SPDK_NVME_SC_INVALID_KEY_SIZE
  | SPDK_NVME_SC_KV_KEY_DOES_NOT_EXIST
  | SPDK_NVME_SC_UNRECOVERED_ERROR
  | SPDK_NVME_SC_KEY_EXISTS

primrec generic_sc :: "spdk_nvme_generic_command_status_code \<Rightarrow> u8" where
  "generic_sc SPDK_NVME_SC_SUCCESS = 0x00"
| "generic_sc SPDK_NVME_SC_INVALID_OPCODE = 0x01"
| "generic_sc SPDK_NVME_SC_INVALID_FIELD = 0x02"
| "generic_sc SPDK_NVME_SC_COMMAND_ID_CONFLICT = 0x03"
| "generic_sc SPDK_NVME_SC_DATA_TRANSFER_ERROR = 0x04"
| "generic_sc SPDK_NVME_SC_ABORTED_POWER_LOSS = 0x05"
| "generic_sc SPDK_NVME_SC_INTERNAL_DEVICE_ERROR = 0x06"
| "generic_sc SPDK_NVME_SC_ABORTED_BY_REQUEST = 0x07"
| "generic_sc SPDK_NVME_SC_ABORTED_SQ_DELETION = 0x08"
| "generic_sc SPDK_NVME_SC_ABORTED_FAILED_FUSED = 0x09"
| "generic_sc SPDK_NVME_SC_ABORTED_MISSING_FUSED = 0x0a"
| "generic_sc SPDK_NVME_SC_INVALID_NAMESPACE_OR_FORMAT = 0x0b"
| "generic_sc SPDK_NVME_SC_COMMAND_SEQUENCE_ERROR = 0x0c"
| "generic_sc SPDK_NVME_SC_INVALID_SGL_SEG_DESCRIPTOR = 0x0d"
| "generic_sc SPDK_NVME_SC_INVALID_NUM_SGL_DESCIRPTORS = 0x0e"
| "generic_sc SPDK_NVME_SC_DATA_SGL_LENGTH_INVALID = 0x0f"
| "generic_sc SPDK_NVME_SC_METADATA_SGL_LENGTH_INVALID = 0x10"
| "generic_sc SPDK_NVME_SC_SGL_DESCRIPTOR_TYPE_INVALID = 0x11"
| "generic_sc SPDK_NVME_SC_INVALID_CONTROLLER_MEM_BUF = 0x12"
| "generic_sc SPDK_NVME_SC_INVALID_PRP_OFFSET = 0x13"
| "generic_sc SPDK_NVME_SC_ATOMIC_WRITE_UNIT_EXCEEDED = 0x14"
| "generic_sc SPDK_NVME_SC_OPERATION_DENIED = 0x15"
| "generic_sc SPDK_NVME_SC_INVALID_SGL_OFFSET = 0x16"
| "generic_sc SPDK_NVME_SC_HOSTID_INCONSISTENT_FORMAT = 0x18"
| "generic_sc SPDK_NVME_SC_KEEP_ALIVE_EXPIRED = 0x19"
| "generic_sc SPDK_NVME_SC_KEEP_ALIVE_INVALID = 0x1a"
| "generic_sc SPDK_NVME_SC_ABORTED_PREEMPT = 0x1b"
| "generic_sc SPDK_NVME_SC_SANITIZE_FAILED = 0x1c"
| "generic_sc SPDK_NVME_SC_SANITIZE_IN_PROGRESS = 0x1d"
| "generic_sc SPDK_NVME_SC_SGL_DATA_BLOCK_GRANULARITY_INVALID = 0x1e"
| "generic_sc SPDK_NVME_SC_COMMAND_INVALID_IN_CMB = 0x1f"
| "generic_sc SPDK_NVME_SC_COMMAND_NAMESPACE_IS_PROTECTED = 0x20"
| "generic_sc SPDK_NVME_SC_COMMAND_INTERRUPTED = 0x21"
| "generic_sc SPDK_NVME_SC_COMMAND_TRANSIENT_TRANSPORT_ERROR = 0x22"
| "generic_sc SPDK_NVME_SC_COMMAND_PROHIBITED_BY_LOCKDOWN = 0x23"
| "generic_sc SPDK_NVME_SC_ADMIN_COMMAND_MEDIA_NOT_READY = 0x24"
| "generic_sc SPDK_NVME_SC_FDP_DISABLED = 0x29"
| "generic_sc SPDK_NVME_SC_INVALID_PLACEMENT_HANDLE_LIST = 0x2A"
| "generic_sc SPDK_NVME_SC_LBA_OUT_OF_RANGE = 0x80"
| "generic_sc SPDK_NVME_SC_CAPACITY_EXCEEDED = 0x81"
| "generic_sc SPDK_NVME_SC_NAMESPACE_NOT_READY = 0x82"
| "generic_sc SPDK_NVME_SC_RESERVATION_CONFLICT = 0x83"
| "generic_sc SPDK_NVME_SC_FORMAT_IN_PROGRESS = 0x84"
| "generic_sc SPDK_NVME_SC_INVALID_VALUE_SIZE = 0x85"
| "generic_sc SPDK_NVME_SC_INVALID_KEY_SIZE = 0x86"
| "generic_sc SPDK_NVME_SC_KV_KEY_DOES_NOT_EXIST = 0x87"
| "generic_sc SPDK_NVME_SC_UNRECOVERED_ERROR = 0x88"
| "generic_sc SPDK_NVME_SC_KEY_EXISTS = 0x89"

text \<open>The codes of the other status code types the target sends.\<close>

definition SPDK_NVME_SC_CMD_SIZE_LIMIT_SIZE_EXCEEDED :: u8 where
  "SPDK_NVME_SC_CMD_SIZE_LIMIT_SIZE_EXCEEDED = 0x83"

datatype spdk_nvme_media_error_status_code =
    SPDK_NVME_SC_WRITE_FAULTS
  | SPDK_NVME_SC_UNRECOVERED_READ_ERROR
  | SPDK_NVME_SC_GUARD_CHECK_ERROR
  | SPDK_NVME_SC_APPLICATION_TAG_CHECK_ERROR
  | SPDK_NVME_SC_REFERENCE_TAG_CHECK_ERROR
  | SPDK_NVME_SC_COMPARE_FAILURE
  | SPDK_NVME_SC_ACCESS_DENIED
  | SPDK_NVME_SC_DEALLOCATED_OR_UNWRITTEN_BLOCK
  | SPDK_NVME_SC_END_TO_END_STORAGE_TAG_CHECK_ERROR

primrec media_sc :: "spdk_nvme_media_error_status_code \<Rightarrow> u8" where
  "media_sc SPDK_NVME_SC_WRITE_FAULTS = 0x80"
| "media_sc SPDK_NVME_SC_UNRECOVERED_READ_ERROR = 0x81"
| "media_sc SPDK_NVME_SC_GUARD_CHECK_ERROR = 0x82"
| "media_sc SPDK_NVME_SC_APPLICATION_TAG_CHECK_ERROR = 0x83"
| "media_sc SPDK_NVME_SC_REFERENCE_TAG_CHECK_ERROR = 0x84"
| "media_sc SPDK_NVME_SC_COMPARE_FAILURE = 0x85"
| "media_sc SPDK_NVME_SC_ACCESS_DENIED = 0x86"
| "media_sc SPDK_NVME_SC_DEALLOCATED_OR_UNWRITTEN_BLOCK = 0x87"
| "media_sc SPDK_NVME_SC_END_TO_END_STORAGE_TAG_CHECK_ERROR = 0x88"

datatype spdk_nvme_path_status_code =
    SPDK_NVME_SC_INTERNAL_PATH_ERROR
  | SPDK_NVME_SC_ASYMMETRIC_ACCESS_PERSISTENT_LOSS
  | SPDK_NVME_SC_ASYMMETRIC_ACCESS_INACCESSIBLE
  | SPDK_NVME_SC_ASYMMETRIC_ACCESS_TRANSITION
  | SPDK_NVME_SC_CONTROLLER_PATH_ERROR
  | SPDK_NVME_SC_HOST_PATH_ERROR
  | SPDK_NVME_SC_ABORTED_BY_HOST

primrec path_sc :: "spdk_nvme_path_status_code \<Rightarrow> u8" where
  "path_sc SPDK_NVME_SC_INTERNAL_PATH_ERROR = 0x00"
| "path_sc SPDK_NVME_SC_ASYMMETRIC_ACCESS_PERSISTENT_LOSS = 0x01"
| "path_sc SPDK_NVME_SC_ASYMMETRIC_ACCESS_INACCESSIBLE = 0x02"
| "path_sc SPDK_NVME_SC_ASYMMETRIC_ACCESS_TRANSITION = 0x03"
| "path_sc SPDK_NVME_SC_CONTROLLER_PATH_ERROR = 0x60"
| "path_sc SPDK_NVME_SC_HOST_PATH_ERROR = 0x70"
| "path_sc SPDK_NVME_SC_ABORTED_BY_HOST = 0x71"

subsection \<open>Opcodes and the transfer direction\<close>

datatype spdk_nvme_nvm_opcode =
    SPDK_NVME_OPC_FLUSH
  | SPDK_NVME_OPC_WRITE
  | SPDK_NVME_OPC_READ
  | SPDK_NVME_OPC_WRITE_UNCORRECTABLE
  | SPDK_NVME_OPC_COMPARE
  | SPDK_NVME_OPC_WRITE_ZEROES
  | SPDK_NVME_OPC_DATASET_MANAGEMENT
  | SPDK_NVME_OPC_VERIFY
  | SPDK_NVME_OPC_RESERVATION_REGISTER
  | SPDK_NVME_OPC_RESERVATION_REPORT
  | SPDK_NVME_OPC_RESERVATION_ACQUIRE
  | SPDK_NVME_OPC_IO_MANAGEMENT_RECEIVE
  | SPDK_NVME_OPC_RESERVATION_RELEASE
  | SPDK_NVME_OPC_COPY
  | SPDK_NVME_OPC_IO_MANAGEMENT_SEND
  | SPDK_NVME_OPC_CUSTOM_ECHO
  | SPDK_NVME_OPC_CUSTOM_GREP
  | SPDK_NVME_OPC_CUSTOM_HEAAN_ADD
  | SPDK_NVME_OPC_CUSTOM_HEAAN_SUB
  | SPDK_NVME_OPC_CUSTOM_HEAAN_MUL
  | SPDK_NVME_OPC_CUSTOM_HEAAN_DIV
  | SPDK_NVME_OPC_CUSTOM_HEAAN_DEC
  | SPDK_NVME_OPC_CUSTOM_HEAAN_BTSRP

primrec nvm_opc :: "spdk_nvme_nvm_opcode \<Rightarrow> u8" where
  "nvm_opc SPDK_NVME_OPC_FLUSH = 0x00"
| "nvm_opc SPDK_NVME_OPC_WRITE = 0x01"
| "nvm_opc SPDK_NVME_OPC_READ = 0x02"
| "nvm_opc SPDK_NVME_OPC_WRITE_UNCORRECTABLE = 0x04"
| "nvm_opc SPDK_NVME_OPC_COMPARE = 0x05"
| "nvm_opc SPDK_NVME_OPC_WRITE_ZEROES = 0x08"
| "nvm_opc SPDK_NVME_OPC_DATASET_MANAGEMENT = 0x09"
| "nvm_opc SPDK_NVME_OPC_VERIFY = 0x0c"
| "nvm_opc SPDK_NVME_OPC_RESERVATION_REGISTER = 0x0d"
| "nvm_opc SPDK_NVME_OPC_RESERVATION_REPORT = 0x0e"
| "nvm_opc SPDK_NVME_OPC_RESERVATION_ACQUIRE = 0x11"
| "nvm_opc SPDK_NVME_OPC_IO_MANAGEMENT_RECEIVE = 0x12"
| "nvm_opc SPDK_NVME_OPC_RESERVATION_RELEASE = 0x15"
| "nvm_opc SPDK_NVME_OPC_COPY = 0x19"
| "nvm_opc SPDK_NVME_OPC_IO_MANAGEMENT_SEND = 0x1D"
| "nvm_opc SPDK_NVME_OPC_CUSTOM_ECHO = 0xd0"
| "nvm_opc SPDK_NVME_OPC_CUSTOM_GREP = 0xd1"
| "nvm_opc SPDK_NVME_OPC_CUSTOM_HEAAN_ADD = 0xe0"
| "nvm_opc SPDK_NVME_OPC_CUSTOM_HEAAN_SUB = 0xe1"
| "nvm_opc SPDK_NVME_OPC_CUSTOM_HEAAN_MUL = 0xe2"
| "nvm_opc SPDK_NVME_OPC_CUSTOM_HEAAN_DIV = 0xe3"
| "nvm_opc SPDK_NVME_OPC_CUSTOM_HEAAN_DEC = 0xe4"
| "nvm_opc SPDK_NVME_OPC_CUSTOM_HEAAN_BTSRP = 0xe5"

definition SPDK_NVME_OPC_FABRIC :: u8 where
  "SPDK_NVME_OPC_FABRIC = 0x7f"

datatype spdk_nvme_data_transfer =
    SPDK_NVME_DATA_NONE
  | SPDK_NVME_DATA_HOST_TO_CONTROLLER
  | SPDK_NVME_DATA_CONTROLLER_TO_HOST
  | SPDK_NVME_DATA_BIDIRECTIONAL

definition spdk_nvme_opc_get_data_transfer :: "u8 \<Rightarrow> spdk_nvme_data_transfer" where
  "spdk_nvme_opc_get_data_transfer opc =
     (let x = opc AND 3 in
      if x = 0 then SPDK_NVME_DATA_NONE
      else if x = 1 then SPDK_NVME_DATA_HOST_TO_CONTROLLER
      else if x = 2 then SPDK_NVME_DATA_CONTROLLER_TO_HOST
      else SPDK_NVME_DATA_BIDIRECTIONAL)"

subsection \<open>Commands\<close>

text \<open>
  The union of the scatter-gather descriptor is its dword of length: the unkeyed length is all of
  it, the keyed length its low 24 bits.
\<close>

record spdk_nvme_sgl_descriptor =
  sgl_address :: u64
  sgl_dw2 :: u32
  sgl_subtype :: "4 word"
  sgl_type :: "4 word"

definition sgl_unkeyed_length :: "spdk_nvme_sgl_descriptor \<Rightarrow> u32" where
  "sgl_unkeyed_length sgl = sgl_dw2 sgl"

definition sgl_keyed_length :: "spdk_nvme_sgl_descriptor \<Rightarrow> 24 word" where
  "sgl_keyed_length sgl = ucast (sgl_dw2 sgl)"

datatype spdk_nvme_cmd_fuse =
    SPDK_NVME_CMD_FUSE_NONE
  | SPDK_NVME_CMD_FUSE_FIRST
  | SPDK_NVME_CMD_FUSE_SECOND
  | SPDK_NVME_CMD_FUSE_MASK

record spdk_nvme_cmd =
  opc :: u8
  fuse :: "2 word"
  psdt :: "2 word"
  cid :: u16
  nsid :: u32
  mptr :: u64
  sgl1 :: spdk_nvme_sgl_descriptor
  cdw10 :: u32
  cdw11 :: u32
  cdw12 :: u32
  cdw13 :: u32
  cdw14 :: u32
  cdw15 :: u32

primrec fuse_code :: "spdk_nvme_cmd_fuse \<Rightarrow> 2 word" where
  "fuse_code SPDK_NVME_CMD_FUSE_NONE = 0"
| "fuse_code SPDK_NVME_CMD_FUSE_FIRST = 1"
| "fuse_code SPDK_NVME_CMD_FUSE_SECOND = 2"
| "fuse_code SPDK_NVME_CMD_FUSE_MASK = 3"

text \<open>
  Reading the dwords: \<open>from_le64(&cmd->cdw10)\<close>, and the bit-fields \<open>dsm\<close>, \<open>copy\<close> and
  \<open>write_zeroes\<close> of the command dword unions.
\<close>

definition from_le64_cdw10 :: "spdk_nvme_cmd \<Rightarrow> u64" where
  "from_le64_cdw10 cmd = push_bit 32 (ucast (cdw11 cmd)) OR ucast (cdw10 cmd)"

definition dsm_nr :: "spdk_nvme_cmd \<Rightarrow> u8" where
  "dsm_nr cmd = ucast (cdw10 cmd)"

definition dsm_ad :: "spdk_nvme_cmd \<Rightarrow> bool" where
  "dsm_ad cmd = bit (cdw11 cmd) 2"

definition copy_nr :: "spdk_nvme_cmd \<Rightarrow> u8" where
  "copy_nr cmd = ucast (cdw12 cmd)"

definition copy_df :: "spdk_nvme_cmd \<Rightarrow> 4 word" where
  "copy_df cmd = ucast (drop_bit 8 (cdw12 cmd))"

definition write_zeroes_deac :: "spdk_nvme_cmd \<Rightarrow> bool" where
  "write_zeroes_deac cmd = bit (cdw12 cmd) 25"

subsection \<open>Completions\<close>

record spdk_nvme_status =
  sc :: u8
  sct :: "3 word"
  crd :: "2 word"
  m_more :: bool
  dnr :: bool

record spdk_nvme_cpl =
  cdw0 :: u32
  cdw1 :: u32
  sqhd :: u16
  sqid :: u16
  cpl_cid :: u16
  status :: spdk_nvme_status

definition spdk_nvme_cpl_is_error :: "spdk_nvme_cpl \<Rightarrow> bool" where
  "spdk_nvme_cpl_is_error cpl \<longleftrightarrow>
     sc (status cpl) \<noteq> generic_sc SPDK_NVME_SC_SUCCESS \<or>
     sct (status cpl) \<noteq> sct_code SPDK_NVME_SCT_GENERIC"

text \<open>The two assignments \<open>response->status.sct = ...; response->status.sc = ...\<close>.\<close>

definition set_status :: "3 word \<Rightarrow> u8 \<Rightarrow> spdk_nvme_cpl \<Rightarrow> spdk_nvme_cpl" where
  "set_status t c cpl = cpl\<lparr>status := (status cpl)\<lparr>sct := t, sc := c\<rparr>\<rparr>"

definition set_generic :: "spdk_nvme_generic_command_status_code \<Rightarrow> spdk_nvme_cpl \<Rightarrow> spdk_nvme_cpl" where
  "set_generic c = set_status (sct_code SPDK_NVME_SCT_GENERIC) (generic_sc c)"

lemma set_status_simps [simp]:
  "sc (status (set_status t c cpl)) = c"
  "sct (status (set_status t c cpl)) = t"
  "dnr (status (set_status t c cpl)) = dnr (status cpl)"
  "cdw0 (set_status t c cpl) = cdw0 cpl"
  "cpl_cid (set_status t c cpl) = cpl_cid cpl"
  by (simp_all add: set_status_def)

lemma generic_sc_eq_0 [simp]: "generic_sc c = 0 \<longleftrightarrow> c = SPDK_NVME_SC_SUCCESS"
  by (cases c) simp_all

lemma set_generic_is_error [simp]:
  "spdk_nvme_cpl_is_error (set_generic c cpl) \<longleftrightarrow> c \<noteq> SPDK_NVME_SC_SUCCESS"
  by (simp add: spdk_nvme_cpl_is_error_def set_generic_def)

lemma set_generic_simps [simp]:
  "sc (status (set_generic c cpl)) = generic_sc c"
  "sct (status (set_generic c cpl)) = 0"
  "dnr (status (set_generic c cpl)) = dnr (status cpl)"
  "cdw0 (set_generic c cpl) = cdw0 cpl"
  "cpl_cid (set_generic c cpl) = cpl_cid cpl"
  by (simp_all add: set_generic_def)

text \<open>The 64-bit starting LBA is the pair of dwords, the low one first.\<close>

lemma from_le64_cdw10_nat:
  "unat (from_le64_cdw10 cmd) = unat (cdw10 cmd) + 2 ^ 32 * unat (cdw11 cmd)"
proof -
  let ?h = "push_bit 32 (ucast (cdw11 cmd)) :: u64" and ?l = "ucast (cdw10 cmd) :: u64"
  have disj: "?h AND ?l = 0"
    by (rule bit_word_eqI) (auto simp: bit_simps dest: bit_imp_le_length)
  have h: "unat ?h = 2 ^ 32 * unat (cdw11 cmd)"
    using unat_bounds(3) [of "cdw11 cmd"]
    by (simp only: unsigned_push_bit_eq) (simp add: push_bit_eq_mult take_bit_eq_mod)
  have "unat (from_le64_cdw10 cmd) = unat ?h OR unat ?l"
    by (simp add: from_le64_cdw10_def unsigned_or_eq)
  also have "\<dots> = unat ?h + unat ?l"
  proof (rule disjunctive_add_eq_or [symmetric])
    have "unat (?h AND ?l) = 0" using disj by simp
    then show "unat ?h AND unat ?l = 0" by (simp only: unsigned_and_eq)
  qed
  finally show ?thesis by (simp add: h)
qed

end
