(* ===== verification/Bdev.thy ===== *)
theory Bdev
  imports Util Nvme_Spec
begin

section \<open>The block device layer\<close>

text \<open>
  The submission side of \<open>lib/bdev/bdev.c\<close>: the conversion of byte offsets to blocks, the range
  check, the pool of I/O descriptors with its per-thread cache and wait queue, one definition per
  submit function the NVMe-oF target calls, and the translation of an I/O status to NVMe status
  codes. A block device I/O is handed to one of a few places (the submitted list, the list of I/Os
  held back by a locked range, a thread message, ...): the channel records them in order, with the
  place. What happens behind these places (module, QoS, splitting, accel framework) is not part of
  this theory. The type variable \<open>'p\<close> is the caller's designator of a buffer, \<open>'c\<close> its
  callback with its argument.
\<close>

subsection \<open>Data\<close>

datatype spdk_bdev_io_type =
    SPDK_BDEV_IO_TYPE_INVALID
  | SPDK_BDEV_IO_TYPE_READ
  | SPDK_BDEV_IO_TYPE_WRITE
  | SPDK_BDEV_IO_TYPE_UNMAP
  | SPDK_BDEV_IO_TYPE_CUSTOM_ECHO
  | SPDK_BDEV_IO_TYPE_FLUSH
  | SPDK_BDEV_IO_TYPE_RESET
  | SPDK_BDEV_IO_TYPE_NVME_ADMIN
  | SPDK_BDEV_IO_TYPE_NVME_IO
  | SPDK_BDEV_IO_TYPE_NVME_IO_MD
  | SPDK_BDEV_IO_TYPE_WRITE_ZEROES
  | SPDK_BDEV_IO_TYPE_ZCOPY
  | SPDK_BDEV_IO_TYPE_GET_ZONE_INFO
  | SPDK_BDEV_IO_TYPE_ZONE_MANAGEMENT
  | SPDK_BDEV_IO_TYPE_ZONE_APPEND
  | SPDK_BDEV_IO_TYPE_COMPARE
  | SPDK_BDEV_IO_TYPE_COMPARE_AND_WRITE
  | SPDK_BDEV_IO_TYPE_ABORT
  | SPDK_BDEV_IO_TYPE_SEEK_HOLE
  | SPDK_BDEV_IO_TYPE_SEEK_DATA
  | SPDK_BDEV_IO_TYPE_COPY
  | SPDK_BDEV_IO_TYPE_NVME_IOV_MD

datatype spdk_bdev_io_status =
    SPDK_BDEV_IO_STATUS_AIO_ERROR
  | SPDK_BDEV_IO_STATUS_ABORTED
  | SPDK_BDEV_IO_STATUS_FIRST_FUSED_FAILED
  | SPDK_BDEV_IO_STATUS_MISCOMPARE
  | SPDK_BDEV_IO_STATUS_NOMEM
  | SPDK_BDEV_IO_STATUS_SCSI_ERROR
  | SPDK_BDEV_IO_STATUS_NVME_ERROR
  | SPDK_BDEV_IO_STATUS_FAILED
  | SPDK_BDEV_IO_STATUS_PENDING
  | SPDK_BDEV_IO_STATUS_SUCCESS

text \<open>
  The fields of \<open>struct spdk_bdev\<close> the layer reads; \<open>fn_table->io_type_supported\<close> is the
  predicate the module provides.
\<close>

record spdk_bdev =
  io_type_supported :: "spdk_bdev_io_type \<Rightarrow> bool"
  blocklen :: u32
  phys_blocklen :: u32
  blockcnt :: u64
  split_on_write_unit :: bool
  write_unit_size :: u32
  acwu :: u16
  split_on_optimal_io_boundary :: bool
  optimal_io_boundary :: u32
  max_segment_size :: u32
  max_num_segments :: u32
  max_unmap :: u32
  max_unmap_segments :: u32
  max_write_zeroes :: u32
  max_copy :: u32
  max_rw_size :: u32
  md_len :: u32
  md_interleave :: bool
  dif_check_flags :: u32

record spdk_bdev_desc =
  desc_bdev :: spdk_bdev
  desc_write :: bool
  memory_domains_supported :: bool
  accel_sequence_supported :: "spdk_bdev_io_type \<Rightarrow> bool"

definition spdk_bdev_is_md_interleaved :: "spdk_bdev \<Rightarrow> bool" where
  "spdk_bdev_is_md_interleaved bdev \<longleftrightarrow> md_len bdev \<noteq> 0 \<and> md_interleave bdev"

definition spdk_bdev_is_md_separate :: "spdk_bdev \<Rightarrow> bool" where
  "spdk_bdev_is_md_separate bdev \<longleftrightarrow> md_len bdev \<noteq> 0 \<and> \<not> md_interleave bdev"

definition spdk_bdev_get_data_block_size :: "spdk_bdev \<Rightarrow> u32" where
  "spdk_bdev_get_data_block_size bdev =
     (if spdk_bdev_is_md_interleaved bdev then blocklen bdev - md_len bdev else blocklen bdev)"

definition bdev_get_block_size_with_md :: "spdk_bdev \<Rightarrow> u32" where
  "bdev_get_block_size_with_md bdev =
     (if \<not> spdk_bdev_is_md_interleaved bdev then blocklen bdev + md_len bdev else blocklen bdev)"

definition spdk_bdev_io_type_supported :: "spdk_bdev \<Rightarrow> spdk_bdev_io_type \<Rightarrow> bool" where
  "spdk_bdev_io_type_supported bdev t =
     (let supported = io_type_supported bdev t in
      if \<not> supported then
        (if t = SPDK_BDEV_IO_TYPE_WRITE_ZEROES
         then io_type_supported bdev SPDK_BDEV_IO_TYPE_WRITE else supported)
      else supported)"

text \<open>
  The data buffers of an I/O: no iovec array, the caller's array with the lengths of its elements,
  or the descriptor's own single iovec with its base address. Bases are \<open>NULL\<close>, the manager's
  zero buffer at an offset, or the caller's.
\<close>

datatype 'p io_base = Null | Zero_Buffer u64 | Caller_Buf 'p

datatype 'p io_iovs = No_Iovs | Iov_Array 'p "nat list" | One_Iov "'p io_base" nat

primrec iov_lens :: "'p io_iovs \<Rightarrow> nat list" where
  "iov_lens No_Iovs = []"
| "iov_lens (Iov_Array p ls) = ls"
| "iov_lens (One_Iov b l) = [l]"

text \<open>
  The caller-visible fields of \<open>struct spdk_bdev_io\<close> (its union \<open>u.bdev\<close>, \<open>u.nvme_passthru\<close>,
  \<open>u.abort\<close>), and the descriptor with its completion callback: the caller's, or one of the layer's own
  with the parent I/O as its argument.
\<close>

record ('p, 'c) bdev_io_u =
  io_type :: spdk_bdev_io_type
  iovs :: "'p io_iovs"
  md_buf :: "'p io_base"
  offset_blocks :: u64
  num_blocks :: u64
  src_offset_blocks :: u64
  fused_iovs :: "'p io_iovs"
  zcopy_populate :: bool
  zcopy_commit :: bool
  zcopy_start :: bool
  memory_domain :: "nat option"
  accel_sequence :: "nat option"
  int_memory_domain :: "nat option"
  int_accel_sequence :: "nat option"
  io_dif_check_flags :: u32
  nvme_cdw12 :: u32
  nvme_cdw13 :: u32
  passthru_cmd :: "spdk_nvme_cmd option"
  passthru_nbytes :: nat
  bio_cb_arg :: "'c option"

datatype ('p, 'c) bdev_io = Bdev_Io (u: "('p, 'c) bdev_io_u") (cb: "('p, 'c) bdev_cb")
  and ('p, 'c) bdev_cb =
    Caller_Cb 'c
  | Bdev_Compare_Do_Read_Done "('p, 'c) bdev_io"
  | Bdev_Write_Zero_Buffer_Done "('p, 'c) bdev_io"

text \<open>The descriptor as an empty one is before the submit functions fill it.\<close>

definition empty_io :: "('p, 'c) bdev_io_u" where
  "empty_io = \<lparr>io_type = SPDK_BDEV_IO_TYPE_INVALID, iovs = No_Iovs, md_buf = Null,
     offset_blocks = 0, num_blocks = 0, src_offset_blocks = 0, fused_iovs = No_Iovs,
     zcopy_populate = False, zcopy_commit = False, zcopy_start = False,
     memory_domain = None, accel_sequence = None,
     int_memory_domain = None, int_accel_sequence = None, io_dif_check_flags = 0,
     nvme_cdw12 = 0, nvme_cdw13 = 0, passthru_cmd = None, passthru_nbytes = 0, bio_cb_arg = None\<rparr>"

text \<open>Where a descriptor is after the submit function, and what waits for a free descriptor.\<close>

datatype io_place =
    Io_Submitted
  | Io_Locked
  | Complete_Msg
  | Complete_Unsubmitted spdk_bdev_io_status
  | Complete_Now spdk_bdev_io_status
  | Bounce_Buffer
  | Exec_Sequence
  | Lock_Lba_Range
  | Copy_Get_Buf
  | Abort_Parent

datatype ('p, 'c) bdev_waiter =
    Wait_Caller 'c
  | Wait_Compare_Do_Read "('p, 'c) bdev_io"

text \<open>
  The context a callback receives: the caller's argument, or the parent I/O. A locked range holds
  the context of the I/O that locked it when the lock was taken on this channel.
\<close>

primrec caller_ctx :: "('p, 'c) bdev_cb \<Rightarrow> 'c + ('p, 'c) bdev_io" where
  "caller_ctx (Caller_Cb c) = Inl c"
| "caller_ctx (Bdev_Compare_Do_Read_Done io) = Inr io"
| "caller_ctx (Bdev_Write_Zero_Buffer_Done io) = Inr io"

record ('p, 'c) lba_range =
  range_offset :: u64
  range_length :: u64
  range_quiesce :: bool
  range_locked_ctx :: "('c + ('p, 'c) bdev_io) option"

text \<open>
  A channel with the management channel and pool behind it: the number of cached descriptors and
  the cache's size, the descriptors left in the global pool, the wait queue, the locked ranges and
  whether a reset is in progress, the memory domain of the accel framework, and the descriptors handed off, in order.
\<close>

record ('p, 'c) bdev_channel =
  per_thread_cache_count :: nat
  bdev_io_cache_size :: nat
  bdev_io_pool :: nat
  io_wait_queue :: "('p, 'c) bdev_waiter list"
  locked_ranges :: "('p, 'c) lba_range list"
  reset_in_progress :: bool
  accel_memory_domain :: "nat option"
  handed :: "(io_place \<times> ('p, 'c) bdev_io) list"

subsection \<open>Blocks and ranges\<close>

definition bdev_bytes_to_blocks :: "spdk_bdev \<Rightarrow> u64 \<Rightarrow> u64 \<Rightarrow> u64 \<times> u64 \<times> u64" where
  "bdev_bytes_to_blocks bdev offset_bytes num_bytes =
     (let block_size = blocklen bdev in
      if spdk_u32_is_pow2 block_size then
        let shift_cnt = unat (ucast (spdk_u32log2 block_size) :: u8);
            off = drop_bit shift_cnt offset_bytes;
            num = drop_bit shift_cnt num_bytes
        in (off, num, (offset_bytes - push_bit shift_cnt off) OR (num_bytes - push_bit shift_cnt num))
      else
        (offset_bytes div ucast block_size, num_bytes div ucast block_size,
         (offset_bytes mod ucast block_size) OR (num_bytes mod ucast block_size)))"

definition bdev_io_valid_blocks :: "spdk_bdev \<Rightarrow> u64 \<Rightarrow> u64 \<Rightarrow> bool" where
  "bdev_io_valid_blocks bdev offset num =
     (if offset + num < offset then False
      else if blockcnt bdev < offset + num then False
      else True)"

definition bdev_lba_range_overlapped :: "('p, 'c) lba_range \<Rightarrow> u64 \<Rightarrow> u64 \<Rightarrow> bool" where
  "bdev_lba_range_overlapped range1 offset2 length2 =
     (if range_length range1 = 0 \<or> length2 = 0 then False
      else if range_offset range1 + range_length range1 \<le> offset2 then False
      else if offset2 + length2 \<le> range_offset range1 then False
      else True)"

definition bdev_io_range_is_locked :: "('p, 'c) bdev_io \<Rightarrow> ('p, 'c) lba_range \<Rightarrow> bool" where
  "bdev_io_range_is_locked io rng =
     (let overlap =
        (if \<not> bdev_lba_range_overlapped rng (offset_blocks (u io)) (num_blocks (u io)) then False
         else if range_locked_ctx rng = Some (caller_ctx (cb io)) then False
         else True)
      in case io_type (u io) of
           SPDK_BDEV_IO_TYPE_NVME_IO \<Rightarrow> True
         | SPDK_BDEV_IO_TYPE_NVME_IO_MD \<Rightarrow> True
         | SPDK_BDEV_IO_TYPE_READ \<Rightarrow> if \<not> range_quiesce rng then False else overlap
         | SPDK_BDEV_IO_TYPE_WRITE \<Rightarrow> overlap
         | SPDK_BDEV_IO_TYPE_UNMAP \<Rightarrow> overlap
         | SPDK_BDEV_IO_TYPE_WRITE_ZEROES \<Rightarrow> overlap
         | SPDK_BDEV_IO_TYPE_ZCOPY \<Rightarrow> overlap
         | SPDK_BDEV_IO_TYPE_COPY \<Rightarrow> overlap
         | _ \<Rightarrow> False)"

subsection \<open>Splitting decision\<close>

definition bdev_rw_should_split :: "spdk_bdev \<Rightarrow> ('p, 'c) bdev_io_u \<Rightarrow> bool" where
  "bdev_rw_should_split bdev io =
     (let io_boundary =
        (if io_type io = SPDK_BDEV_IO_TYPE_WRITE \<and> split_on_write_unit bdev then write_unit_size bdev
         else if split_on_optimal_io_boundary bdev then optimal_io_boundary bdev
         else 0);
        start = offset_blocks io;
        last = start + num_blocks io - 1;
        shift = unat (spdk_u32log2 io_boundary)
      in
      if io_boundary = 0 \<and> max_num_segments bdev = 0 \<and> max_segment_size bdev = 0 \<and> max_rw_size bdev = 0
      then False
      else if io_boundary \<noteq> 0 \<and>
        (if spdk_u32_is_pow2 io_boundary then drop_bit shift start \<noteq> drop_bit shift last
         else start div ucast io_boundary \<noteq> last div ucast io_boundary)
      then True
      else if max_num_segments bdev \<noteq> 0 \<and> int (length (iov_lens (iovs io))) > sint (max_num_segments bdev)
      then True
      else if max_segment_size bdev \<noteq> 0 \<and> (\<exists>l \<in> set (iov_lens (iovs io)). unat (max_segment_size bdev) < l)
      then True
      else if max_rw_size bdev \<noteq> 0 \<and> ucast (max_rw_size bdev) < num_blocks io
      then True
      else False)"

definition bdev_unmap_should_split :: "spdk_bdev \<Rightarrow> ('p, 'c) bdev_io_u \<Rightarrow> bool" where
  "bdev_unmap_should_split bdev io =
     (if max_unmap bdev = 0 \<or> max_unmap_segments bdev = 0 then False
      else max_unmap_segments bdev
             < ucast (spdk_divide_round_up (num_blocks io) (ucast (max_unmap bdev))))"

definition bdev_write_zeroes_should_split :: "spdk_bdev \<Rightarrow> ('p, 'c) bdev_io_u \<Rightarrow> bool" where
  "bdev_write_zeroes_should_split bdev io =
     (if max_write_zeroes bdev = 0 then False
      else ucast (max_write_zeroes bdev) < num_blocks io)"

definition bdev_copy_should_split :: "spdk_bdev \<Rightarrow> ('p, 'c) bdev_io_u \<Rightarrow> bool" where
  "bdev_copy_should_split bdev io \<longleftrightarrow>
     max_copy bdev \<noteq> 0 \<and> ucast (max_copy bdev) < num_blocks io"

definition bdev_io_should_split :: "spdk_bdev \<Rightarrow> ('p, 'c) bdev_io_u \<Rightarrow> bool" where
  "bdev_io_should_split bdev io =
     (case io_type io of
        SPDK_BDEV_IO_TYPE_READ \<Rightarrow> bdev_rw_should_split bdev io
      | SPDK_BDEV_IO_TYPE_WRITE \<Rightarrow> bdev_rw_should_split bdev io
      | SPDK_BDEV_IO_TYPE_UNMAP \<Rightarrow> bdev_unmap_should_split bdev io
      | SPDK_BDEV_IO_TYPE_WRITE_ZEROES \<Rightarrow> bdev_write_zeroes_should_split bdev io
      | SPDK_BDEV_IO_TYPE_COPY \<Rightarrow> bdev_copy_should_split bdev io
      | _ \<Rightarrow> False)"

subsection \<open>Descriptors\<close>

definition bdev_channel_get_io :: "('p, 'c) bdev_channel \<Rightarrow> ('p, 'c) bdev_channel option" where
  "bdev_channel_get_io ch =
     (if 0 < per_thread_cache_count ch then
        Some (ch\<lparr>per_thread_cache_count := per_thread_cache_count ch - 1\<rparr>)
      else if io_wait_queue ch \<noteq> [] then None
      else if 0 < bdev_io_pool ch then Some (ch\<lparr>bdev_io_pool := bdev_io_pool ch - 1\<rparr>)
      else None)"

text \<open>
  Freeing a descriptor wakes waiters while the cache has descriptors: \<open>run\<close> is the call of a
  waiter's function. The loop may run forever if the waiters put themselves back without taking
  a descriptor, hence the \<open>option\<close>.
\<close>

partial_function (option) bdev_wake ::
  "(('p, 'c) bdev_waiter \<Rightarrow> ('p, 'c) bdev_channel \<Rightarrow> ('p, 'c) bdev_channel)
     \<Rightarrow> ('p, 'c) bdev_channel \<Rightarrow> ('p, 'c) bdev_channel option" where
  "bdev_wake run ch =
     (if 0 < per_thread_cache_count ch \<and> io_wait_queue ch \<noteq> []
      then bdev_wake run (run (hd (io_wait_queue ch)) (ch\<lparr>io_wait_queue := tl (io_wait_queue ch)\<rparr>))
      else Some ch)"

definition spdk_bdev_free_io ::
  "(('p, 'c) bdev_waiter \<Rightarrow> ('p, 'c) bdev_channel \<Rightarrow> ('p, 'c) bdev_channel)
     \<Rightarrow> ('p, 'c) bdev_channel \<Rightarrow> ('p, 'c) bdev_channel option" where
  "spdk_bdev_free_io run ch =
     (if per_thread_cache_count ch < bdev_io_cache_size ch
      then bdev_wake run (ch\<lparr>per_thread_cache_count := per_thread_cache_count ch + 1\<rparr>)
      else Some (ch\<lparr>bdev_io_pool := bdev_io_pool ch + 1\<rparr>))"

definition spdk_bdev_queue_io_wait ::
  "('p, 'c) bdev_channel \<Rightarrow> ('p, 'c) bdev_waiter \<Rightarrow> rc \<times> ('p, 'c) bdev_channel" where
  "spdk_bdev_queue_io_wait ch entry =
     (if 0 < per_thread_cache_count ch then (Some EINVAL, ch)
      else (None, ch\<lparr>io_wait_queue := io_wait_queue ch @ [entry]\<rparr>))"

definition hand :: "io_place \<Rightarrow> ('p, 'c) bdev_io \<Rightarrow> ('p, 'c) bdev_channel \<Rightarrow> ('p, 'c) bdev_channel" where
  "hand place io ch = ch\<lparr>handed := handed ch @ [(place, io)]\<rparr>"

definition bdev_io_submit :: "('p, 'c) bdev_channel \<Rightarrow> ('p, 'c) bdev_io \<Rightarrow> ('p, 'c) bdev_channel" where
  "bdev_io_submit ch io =
     (if list_ex (bdev_io_range_is_locked io) (locked_ranges ch) then hand Io_Locked io ch
      else hand Io_Submitted io ch)"

definition bdev_io_needs_sequence_exec :: "spdk_bdev_desc \<Rightarrow> ('p, 'c) bdev_io_u \<Rightarrow> bool" where
  "bdev_io_needs_sequence_exec desc io =
     (if int_accel_sequence io = None then False
      else \<not> accel_sequence_supported desc (io_type io) \<or> bdev_io_should_split (desc_bdev desc) io)"

definition bdev_io_submit_ext ::
  "spdk_bdev_desc \<Rightarrow> ('p, 'c) bdev_channel \<Rightarrow> ('p, 'c) bdev_io \<Rightarrow> ('p, 'c) bdev_channel" where
  "bdev_io_submit_ext desc ch io =
     (let needs_exec = bdev_io_needs_sequence_exec desc (u io) in
      if reset_in_progress ch then hand (Complete_Unsubmitted SPDK_BDEV_IO_STATUS_ABORTED) io ch
      else if int_memory_domain (u io) \<noteq> None \<and> \<not> memory_domains_supported desc \<or>
              needs_exec \<and> int_memory_domain (u io) = accel_memory_domain ch
      then hand Bounce_Buffer (Bdev_Io ((u io)\<lparr>memory_domain := None\<rparr>) (cb io)) ch
      else if needs_exec then
        (if io_type (u io) = SPDK_BDEV_IO_TYPE_WRITE then hand Exec_Sequence io ch
         else bdev_io_submit ch (Bdev_Io ((u io)\<lparr>accel_sequence := None\<rparr>) (cb io)))
      else bdev_io_submit ch io)"

subsection \<open>Submit functions\<close>

text \<open>
  Each function checks its arguments, takes a descriptor, fills it and hands it on. The buffer of
  the single-buffer functions becomes the descriptor's own iovec.
\<close>

definition one_iov :: "spdk_bdev \<Rightarrow> 'p io_base \<Rightarrow> u64 \<Rightarrow> 'p io_iovs" where
  "one_iov bdev buf num = One_Iov buf (unat (num * ucast (blocklen bdev)))"

definition bdev_read_blocks_with_md ::
  "spdk_bdev_desc \<Rightarrow> ('p, 'c) bdev_channel \<Rightarrow> 'p io_base \<Rightarrow> 'p io_base \<Rightarrow> u64 \<Rightarrow> u64 \<Rightarrow> ('p, 'c) bdev_cb
     \<Rightarrow> rc \<times> ('p, 'c) bdev_channel" where
  "bdev_read_blocks_with_md desc ch buf md offset num cb_fn =
     (let bdev = desc_bdev desc in
      if \<not> bdev_io_valid_blocks bdev offset num then (Some EINVAL, ch)
      else case bdev_channel_get_io ch of
        None \<Rightarrow> (Some ENOMEM, ch)
      | Some ch' \<Rightarrow>
          (None, bdev_io_submit ch' (Bdev_Io (empty_io\<lparr>io_type := SPDK_BDEV_IO_TYPE_READ,
             iovs := one_iov bdev buf num, md_buf := md, num_blocks := num, offset_blocks := offset,
             io_dif_check_flags := dif_check_flags bdev\<rparr>) cb_fn)))"

definition spdk_bdev_read_blocks ::
  "spdk_bdev_desc \<Rightarrow> ('p, 'c) bdev_channel \<Rightarrow> 'p io_base \<Rightarrow> u64 \<Rightarrow> u64 \<Rightarrow> ('p, 'c) bdev_cb
     \<Rightarrow> rc \<times> ('p, 'c) bdev_channel" where
  "spdk_bdev_read_blocks desc ch buf offset num cb_fn =
     bdev_read_blocks_with_md desc ch buf Null offset num cb_fn"

definition spdk_bdev_read ::
  "spdk_bdev_desc \<Rightarrow> ('p, 'c) bdev_channel \<Rightarrow> 'p io_base \<Rightarrow> u64 \<Rightarrow> u64 \<Rightarrow> ('p, 'c) bdev_cb
     \<Rightarrow> rc \<times> ('p, 'c) bdev_channel" where
  "spdk_bdev_read desc ch buf offset nbytes cb_fn =
     (case bdev_bytes_to_blocks (desc_bdev desc) offset nbytes of (off, num, rem) \<Rightarrow>
      if rem \<noteq> 0 then (Some EINVAL, ch)
      else spdk_bdev_read_blocks desc ch buf off num cb_fn)"

definition bdev_readv_blocks_with_md ::
  "spdk_bdev_desc \<Rightarrow> ('p, 'c) bdev_channel \<Rightarrow> 'p io_iovs \<Rightarrow> 'p io_base \<Rightarrow> u64 \<Rightarrow> u64
     \<Rightarrow> nat option \<Rightarrow> nat option \<Rightarrow> u32 \<Rightarrow> ('p, 'c) bdev_cb \<Rightarrow> rc \<times> ('p, 'c) bdev_channel" where
  "bdev_readv_blocks_with_md desc ch iov md offset num domain seq flags cb_fn =
     (let bdev = desc_bdev desc in
      if \<not> bdev_io_valid_blocks bdev offset num then (Some EINVAL, ch)
      else case bdev_channel_get_io ch of
        None \<Rightarrow> (Some ENOMEM, ch)
      | Some ch' \<Rightarrow>
          (None, bdev_io_submit_ext desc ch' (Bdev_Io (empty_io\<lparr>io_type := SPDK_BDEV_IO_TYPE_READ,
             iovs := iov, md_buf := md, num_blocks := num, offset_blocks := offset,
             int_memory_domain := domain, int_accel_sequence := seq,
             memory_domain := domain, accel_sequence := seq, io_dif_check_flags := flags\<rparr>) cb_fn)))"

text \<open>The options of the \<open>_ext\<close> functions; the size guards the later fields.\<close>

record 'p spdk_bdev_ext_io_opts =
  opts_size :: nat
  opts_memory_domain :: "nat option"
  opts_metadata :: "'p io_base"
  opts_accel_sequence :: "nat option"
  opts_dif_check_flags_exclude_mask :: u32
  opts_nvme_cdw12 :: u32
  opts_nvme_cdw13 :: u32

definition SIZEOF_OPTS_METADATA :: nat where "SIZEOF_OPTS_METADATA = 32"
definition SIZEOF_OPTS_ACCEL_SEQUENCE :: nat where "SIZEOF_OPTS_ACCEL_SEQUENCE = 40"
definition SIZEOF_OPTS_DIF :: nat where "SIZEOF_OPTS_DIF = 44"
definition SIZEOF_OPTS_CDW12 :: nat where "SIZEOF_OPTS_CDW12 = 48"
definition SIZEOF_OPTS :: nat where "SIZEOF_OPTS = 52"

definition is_buf_allocated :: "'p io_iovs \<Rightarrow> bool" where
  "is_buf_allocated iov = (case iov of No_Iovs \<Rightarrow> False | Iov_Array p ls \<Rightarrow> True | One_Iov b l \<Rightarrow> b \<noteq> Null)"

definition bdev_io_check_opts :: "'p spdk_bdev_ext_io_opts \<Rightarrow> 'p io_iovs \<Rightarrow> bool" where
  "bdev_io_check_opts opts iov \<longleftrightarrow>
     SIZEOF_OPTS_METADATA \<le> opts_size opts \<and> opts_size opts \<le> SIZEOF_OPTS \<and>
     (opts_memory_domain opts = None \<or> is_buf_allocated iov)"

definition opts_reject :: "spdk_bdev \<Rightarrow> 'p io_iovs \<Rightarrow> 'p spdk_bdev_ext_io_opts option \<Rightarrow> bool" where
  "opts_reject bdev iov opts =
     (case opts of None \<Rightarrow> False
      | Some x \<Rightarrow> \<not> bdev_io_check_opts x iov \<or>
          opts_metadata x \<noteq> Null \<and>
            (\<not> spdk_bdev_is_md_separate bdev \<or> \<not> is_buf_allocated iov \<or>
             (SIZEOF_OPTS_ACCEL_SEQUENCE \<le> opts_size x \<and> opts_accel_sequence x \<noteq> None)))"

text \<open>\<open>bdev_get_ext_io_opt\<close>: a field beyond the caller's structure size has its default.\<close>

definition get_ext_io_opt ::
  "'p spdk_bdev_ext_io_opts option \<Rightarrow> nat \<Rightarrow> ('p spdk_bdev_ext_io_opts \<Rightarrow> 'a) \<Rightarrow> 'a \<Rightarrow> 'a" where
  "get_ext_io_opt opts field_end field defval =
     (case opts of None \<Rightarrow> defval
      | Some x \<Rightarrow> if field_end \<le> opts_size x then field x else defval)"

definition opts_domain :: "'p spdk_bdev_ext_io_opts option \<Rightarrow> nat option" where
  "opts_domain opts = get_ext_io_opt opts 16 opts_memory_domain None"

definition opts_seq :: "'p spdk_bdev_ext_io_opts option \<Rightarrow> nat option" where
  "opts_seq opts = get_ext_io_opt opts SIZEOF_OPTS_ACCEL_SEQUENCE opts_accel_sequence None"

definition opts_md :: "'p spdk_bdev_ext_io_opts option \<Rightarrow> 'p io_base" where
  "opts_md opts = (case opts of None \<Rightarrow> Null | Some x \<Rightarrow> opts_metadata x)"

definition opts_dif_flags :: "spdk_bdev \<Rightarrow> 'p spdk_bdev_ext_io_opts option \<Rightarrow> u32" where
  "opts_dif_flags bdev opts =
     dif_check_flags bdev AND NOT (get_ext_io_opt opts SIZEOF_OPTS_DIF opts_dif_check_flags_exclude_mask 0)"

definition spdk_bdev_readv_blocks_ext ::
  "spdk_bdev_desc \<Rightarrow> ('p, 'c) bdev_channel \<Rightarrow> 'p io_iovs \<Rightarrow> u64 \<Rightarrow> u64 \<Rightarrow> ('p, 'c) bdev_cb
     \<Rightarrow> 'p spdk_bdev_ext_io_opts option \<Rightarrow> rc \<times> ('p, 'c) bdev_channel" where
  "spdk_bdev_readv_blocks_ext desc ch iov offset num cb_fn opts =
     (let bdev = desc_bdev desc in
      if opts_reject bdev iov opts then (Some EINVAL, ch)
      else bdev_readv_blocks_with_md desc ch iov (opts_md opts) offset num
             (opts_domain opts) (opts_seq opts) (opts_dif_flags bdev opts) cb_fn)"

definition bdev_write_blocks_with_md ::
  "spdk_bdev_desc \<Rightarrow> ('p, 'c) bdev_channel \<Rightarrow> 'p io_base \<Rightarrow> 'p io_base \<Rightarrow> u64 \<Rightarrow> u64 \<Rightarrow> ('p, 'c) bdev_cb
     \<Rightarrow> rc \<times> ('p, 'c) bdev_channel" where
  "bdev_write_blocks_with_md desc ch buf md offset num cb_fn =
     (let bdev = desc_bdev desc in
      if \<not> desc_write desc then (Some EBADF, ch)
      else if \<not> bdev_io_valid_blocks bdev offset num then (Some EINVAL, ch)
      else case bdev_channel_get_io ch of
        None \<Rightarrow> (Some ENOMEM, ch)
      | Some ch' \<Rightarrow>
          (None, bdev_io_submit ch' (Bdev_Io (empty_io\<lparr>io_type := SPDK_BDEV_IO_TYPE_WRITE,
             iovs := one_iov bdev buf num, md_buf := md, num_blocks := num, offset_blocks := offset,
             io_dif_check_flags := dif_check_flags bdev\<rparr>) cb_fn)))"

definition spdk_bdev_write_blocks ::
  "spdk_bdev_desc \<Rightarrow> ('p, 'c) bdev_channel \<Rightarrow> 'p io_base \<Rightarrow> u64 \<Rightarrow> u64 \<Rightarrow> ('p, 'c) bdev_cb
     \<Rightarrow> rc \<times> ('p, 'c) bdev_channel" where
  "spdk_bdev_write_blocks desc ch buf offset num cb_fn =
     bdev_write_blocks_with_md desc ch buf Null offset num cb_fn"

definition spdk_bdev_write ::
  "spdk_bdev_desc \<Rightarrow> ('p, 'c) bdev_channel \<Rightarrow> 'p io_base \<Rightarrow> u64 \<Rightarrow> u64 \<Rightarrow> ('p, 'c) bdev_cb
     \<Rightarrow> rc \<times> ('p, 'c) bdev_channel" where
  "spdk_bdev_write desc ch buf offset nbytes cb_fn =
     (case bdev_bytes_to_blocks (desc_bdev desc) offset nbytes of (off, num, rem) \<Rightarrow>
      if rem \<noteq> 0 then (Some EINVAL, ch)
      else spdk_bdev_write_blocks desc ch buf off num cb_fn)"

definition bdev_writev_blocks_with_md ::
  "spdk_bdev_desc \<Rightarrow> ('p, 'c) bdev_channel \<Rightarrow> 'p io_iovs \<Rightarrow> 'p io_base \<Rightarrow> u64 \<Rightarrow> u64
     \<Rightarrow> nat option \<Rightarrow> nat option \<Rightarrow> u32 \<Rightarrow> u32 \<Rightarrow> u32 \<Rightarrow> ('p, 'c) bdev_cb
     \<Rightarrow> rc \<times> ('p, 'c) bdev_channel" where
  "bdev_writev_blocks_with_md desc ch iov md offset num domain seq flags raw12 raw13 cb_fn =
     (let bdev = desc_bdev desc in
      if \<not> desc_write desc then (Some EBADF, ch)
      else if \<not> bdev_io_valid_blocks bdev offset num then (Some EINVAL, ch)
      else case bdev_channel_get_io ch of
        None \<Rightarrow> (Some ENOMEM, ch)
      | Some ch' \<Rightarrow>
          (None, bdev_io_submit_ext desc ch' (Bdev_Io (empty_io\<lparr>io_type := SPDK_BDEV_IO_TYPE_WRITE,
             iovs := iov, md_buf := md, num_blocks := num, offset_blocks := offset,
             int_memory_domain := domain, int_accel_sequence := seq,
             memory_domain := domain, accel_sequence := seq, io_dif_check_flags := flags,
             nvme_cdw12 := raw12, nvme_cdw13 := raw13\<rparr>) cb_fn)))"

definition spdk_bdev_writev_blocks_ext ::
  "spdk_bdev_desc \<Rightarrow> ('p, 'c) bdev_channel \<Rightarrow> 'p io_iovs \<Rightarrow> u64 \<Rightarrow> u64 \<Rightarrow> ('p, 'c) bdev_cb
     \<Rightarrow> 'p spdk_bdev_ext_io_opts option \<Rightarrow> rc \<times> ('p, 'c) bdev_channel" where
  "spdk_bdev_writev_blocks_ext desc ch iov offset num cb_fn opts =
     (let bdev = desc_bdev desc in
      if opts_reject bdev iov opts then (Some EINVAL, ch)
      else bdev_writev_blocks_with_md desc ch iov (opts_md opts) offset num
             (opts_domain opts) (opts_seq opts) (opts_dif_flags bdev opts)
             (get_ext_io_opt opts SIZEOF_OPTS_CDW12 opts_nvme_cdw12 0)
             (get_ext_io_opt opts SIZEOF_OPTS opts_nvme_cdw13 0) cb_fn)"

text \<open>
  A compare on a module without the command is emulated by a read; it waits for a descriptor when
  there is none, and completes with an error when the read is refused.
\<close>

definition bdev_compare_do_read ::
  "spdk_bdev_desc \<Rightarrow> ('p, 'c) bdev_io \<Rightarrow> ('p, 'c) bdev_channel \<Rightarrow> ('p, 'c) bdev_channel" where
  "bdev_compare_do_read desc io ch =
     (case spdk_bdev_read_blocks desc ch Null (offset_blocks (u io)) (num_blocks (u io))
             (Bdev_Compare_Do_Read_Done io) of
        (None, ch') \<Rightarrow> ch'
      | (Some ENOMEM, ch') \<Rightarrow>
          (case spdk_bdev_queue_io_wait ch' (Wait_Compare_Do_Read io) of
             (None, ch'') \<Rightarrow> ch''
           | (Some e, ch'') \<Rightarrow> hand (Complete_Now SPDK_BDEV_IO_STATUS_FAILED) io ch'')
      | (Some e, ch') \<Rightarrow> hand (Complete_Now SPDK_BDEV_IO_STATUS_FAILED) io ch')"

definition bdev_comparev_blocks_with_md ::
  "spdk_bdev_desc \<Rightarrow> ('p, 'c) bdev_channel \<Rightarrow> 'p io_iovs \<Rightarrow> 'p io_base \<Rightarrow> u64 \<Rightarrow> u64 \<Rightarrow> ('p, 'c) bdev_cb
     \<Rightarrow> rc \<times> ('p, 'c) bdev_channel" where
  "bdev_comparev_blocks_with_md desc ch iov md offset num cb_fn =
     (let bdev = desc_bdev desc in
      if \<not> bdev_io_valid_blocks bdev offset num then (Some EINVAL, ch)
      else case bdev_channel_get_io ch of
        None \<Rightarrow> (Some ENOMEM, ch)
      | Some ch' \<Rightarrow>
          (let io = Bdev_Io (empty_io\<lparr>io_type := SPDK_BDEV_IO_TYPE_COMPARE, iovs := iov, md_buf := md,
                      num_blocks := num, offset_blocks := offset\<rparr>) cb_fn
           in if io_type_supported bdev SPDK_BDEV_IO_TYPE_COMPARE then (None, bdev_io_submit ch' io)
              else (None, bdev_compare_do_read desc io ch')))"

definition spdk_bdev_comparev_blocks ::
  "spdk_bdev_desc \<Rightarrow> ('p, 'c) bdev_channel \<Rightarrow> 'p io_iovs \<Rightarrow> u64 \<Rightarrow> u64 \<Rightarrow> ('p, 'c) bdev_cb
     \<Rightarrow> rc \<times> ('p, 'c) bdev_channel" where
  "spdk_bdev_comparev_blocks desc ch iov offset num cb_fn =
     bdev_comparev_blocks_with_md desc ch iov Null offset num cb_fn"

text \<open>
  Compare and write on a module without the command takes a lock on the range first;
  \<open>calloc_ok\<close> says whether the lock's context could be allocated. The descriptor stays taken
  when it could not.
\<close>

definition bdev_lock_lba_range ::
  "bool \<Rightarrow> ('p, 'c) bdev_channel \<Rightarrow> ('p, 'c) bdev_io \<Rightarrow> rc \<times> ('p, 'c) bdev_channel" where
  "bdev_lock_lba_range calloc_ok ch io =
     (if \<not> calloc_ok then (Some ENOMEM, ch) else (None, hand Lock_Lba_Range io ch))"

definition spdk_bdev_comparev_and_writev_blocks ::
  "bool \<Rightarrow> spdk_bdev_desc \<Rightarrow> ('p, 'c) bdev_channel \<Rightarrow> 'p io_iovs \<Rightarrow> 'p io_iovs \<Rightarrow> u64 \<Rightarrow> u64
     \<Rightarrow> ('p, 'c) bdev_cb \<Rightarrow> rc \<times> ('p, 'c) bdev_channel" where
  "spdk_bdev_comparev_and_writev_blocks calloc_ok desc ch compare_iov write_iov offset num cb_fn =
     (let bdev = desc_bdev desc in
      if \<not> desc_write desc then (Some EBADF, ch)
      else if \<not> bdev_io_valid_blocks bdev offset num then (Some EINVAL, ch)
      else if ucast (acwu bdev) < num then (Some EINVAL, ch)
      else case bdev_channel_get_io ch of
        None \<Rightarrow> (Some ENOMEM, ch)
      | Some ch' \<Rightarrow>
          (let io = Bdev_Io (empty_io\<lparr>io_type := SPDK_BDEV_IO_TYPE_COMPARE_AND_WRITE,
                      iovs := compare_iov, fused_iovs := write_iov,
                      num_blocks := num, offset_blocks := offset\<rparr>) cb_fn
           in if io_type_supported bdev SPDK_BDEV_IO_TYPE_COMPARE_AND_WRITE
              then (None, bdev_io_submit ch' io)
              else bdev_lock_lba_range calloc_ok ch' io))"

definition spdk_bdev_zcopy_start ::
  "spdk_bdev_desc \<Rightarrow> ('p, 'c) bdev_channel \<Rightarrow> 'p io_iovs \<Rightarrow> u64 \<Rightarrow> u64 \<Rightarrow> bool \<Rightarrow> ('p, 'c) bdev_cb
     \<Rightarrow> rc \<times> ('p, 'c) bdev_channel" where
  "spdk_bdev_zcopy_start desc ch iov offset num populate cb_fn =
     (let bdev = desc_bdev desc in
      if \<not> desc_write desc then (Some EBADF, ch)
      else if \<not> bdev_io_valid_blocks bdev offset num then (Some EINVAL, ch)
      else if \<not> spdk_bdev_io_type_supported bdev SPDK_BDEV_IO_TYPE_ZCOPY then (Some ENOTSUP, ch)
      else case bdev_channel_get_io ch of
        None \<Rightarrow> (Some ENOMEM, ch)
      | Some ch' \<Rightarrow>
          (None, bdev_io_submit ch' (Bdev_Io (empty_io\<lparr>io_type := SPDK_BDEV_IO_TYPE_ZCOPY,
             num_blocks := num, offset_blocks := offset, iovs := iov,
             zcopy_populate := populate, zcopy_commit := False, zcopy_start := True\<rparr>) cb_fn)))"

definition spdk_bdev_zcopy_end ::
  "('p, 'c) bdev_channel \<Rightarrow> ('p, 'c) bdev_io \<Rightarrow> bool \<Rightarrow> ('p, 'c) bdev_cb
     \<Rightarrow> rc \<times> ('p, 'c) bdev_channel" where
  "spdk_bdev_zcopy_end ch io commit cb_fn =
     (if io_type (u io) \<noteq> SPDK_BDEV_IO_TYPE_ZCOPY then (Some EINVAL, ch)
      else (None, bdev_io_submit ch
              (Bdev_Io ((u io)\<lparr>zcopy_commit := commit, zcopy_start := False\<rparr>) cb_fn)))"

definition bdev_write_zero_buffer ::
  "spdk_bdev_desc \<Rightarrow> ('p, 'c) bdev_channel \<Rightarrow> ('p, 'c) bdev_io \<Rightarrow> rc \<times> ('p, 'c) bdev_channel" where
  "bdev_write_zero_buffer desc ch io =
     (let bdev = desc_bdev desc; num = num_blocks (u io);
          md = (if spdk_bdev_is_md_separate bdev then Zero_Buffer (ucast (blocklen bdev) * num) else Null)
      in bdev_write_blocks_with_md desc ch (Zero_Buffer 0) md (offset_blocks (u io)) num
           (Bdev_Write_Zero_Buffer_Done io))"

definition spdk_bdev_write_zeroes_blocks ::
  "spdk_bdev_desc \<Rightarrow> ('p, 'c) bdev_channel \<Rightarrow> u64 \<Rightarrow> u64 \<Rightarrow> ('p, 'c) bdev_cb
     \<Rightarrow> rc \<times> ('p, 'c) bdev_channel" where
  "spdk_bdev_write_zeroes_blocks desc ch offset num cb_fn =
     (let bdev = desc_bdev desc in
      if \<not> desc_write desc then (Some EBADF, ch)
      else if \<not> bdev_io_valid_blocks bdev offset num then (Some EINVAL, ch)
      else if \<not> io_type_supported bdev SPDK_BDEV_IO_TYPE_WRITE_ZEROES \<and>
              \<not> io_type_supported bdev SPDK_BDEV_IO_TYPE_WRITE then (Some ENOTSUP, ch)
      else case bdev_channel_get_io ch of
        None \<Rightarrow> (Some ENOMEM, ch)
      | Some ch' \<Rightarrow>
          (let io = Bdev_Io (empty_io\<lparr>io_type := SPDK_BDEV_IO_TYPE_WRITE_ZEROES,
                      offset_blocks := offset, num_blocks := num\<rparr>) cb_fn
           in if io_type_supported bdev SPDK_BDEV_IO_TYPE_WRITE_ZEROES \<or> bdev_io_should_split bdev (u io)
              then (None, bdev_io_submit ch' io)
              else bdev_write_zero_buffer desc ch' io))"

definition spdk_bdev_unmap_blocks ::
  "spdk_bdev_desc \<Rightarrow> ('p, 'c) bdev_channel \<Rightarrow> u64 \<Rightarrow> u64 \<Rightarrow> ('p, 'c) bdev_cb
     \<Rightarrow> rc \<times> ('p, 'c) bdev_channel" where
  "spdk_bdev_unmap_blocks desc ch offset num cb_fn =
     (let bdev = desc_bdev desc in
      if \<not> desc_write desc then (Some EBADF, ch)
      else if \<not> bdev_io_valid_blocks bdev offset num then (Some EINVAL, ch)
      else case bdev_channel_get_io ch of
        None \<Rightarrow> (Some ENOMEM, ch)
      | Some ch' \<Rightarrow>
          (let io = Bdev_Io (empty_io\<lparr>io_type := SPDK_BDEV_IO_TYPE_UNMAP, iovs := One_Iov Null 0,
                      offset_blocks := offset, num_blocks := num\<rparr>) cb_fn
           in if num = 0 then (None, hand Complete_Msg io ch') else (None, bdev_io_submit ch' io)))"

definition spdk_bdev_flush_blocks ::
  "spdk_bdev_desc \<Rightarrow> ('p, 'c) bdev_channel \<Rightarrow> u64 \<Rightarrow> u64 \<Rightarrow> ('p, 'c) bdev_cb
     \<Rightarrow> rc \<times> ('p, 'c) bdev_channel" where
  "spdk_bdev_flush_blocks desc ch offset num cb_fn =
     (let bdev = desc_bdev desc in
      if \<not> desc_write desc then (Some EBADF, ch)
      else if \<not> bdev_io_valid_blocks bdev offset num then (Some EINVAL, ch)
      else case bdev_channel_get_io ch of
        None \<Rightarrow> (Some ENOMEM, ch)
      | Some ch' \<Rightarrow>
          (None, bdev_io_submit ch' (Bdev_Io (empty_io\<lparr>io_type := SPDK_BDEV_IO_TYPE_FLUSH,
             iovs := No_Iovs, offset_blocks := offset, num_blocks := num\<rparr>) cb_fn)))"

definition spdk_bdev_copy_blocks ::
  "spdk_bdev_desc \<Rightarrow> ('p, 'c) bdev_channel \<Rightarrow> u64 \<Rightarrow> u64 \<Rightarrow> u64 \<Rightarrow> ('p, 'c) bdev_cb
     \<Rightarrow> rc \<times> ('p, 'c) bdev_channel" where
  "spdk_bdev_copy_blocks desc ch dst src num cb_fn =
     (let bdev = desc_bdev desc in
      if \<not> desc_write desc then (Some EBADF, ch)
      else if \<not> bdev_io_valid_blocks bdev dst num \<or> \<not> bdev_io_valid_blocks bdev src num
      then (Some EINVAL, ch)
      else case bdev_channel_get_io ch of
        None \<Rightarrow> (Some ENOMEM, ch)
      | Some ch' \<Rightarrow>
          (let io = Bdev_Io (empty_io\<lparr>io_type := SPDK_BDEV_IO_TYPE_COPY, offset_blocks := dst,
                      src_offset_blocks := src, num_blocks := num\<rparr>) cb_fn
           in if dst = src \<or> num = 0 then (None, hand Complete_Msg io ch')
              else if spdk_bdev_io_type_supported bdev SPDK_BDEV_IO_TYPE_COPY \<or>
                      bdev_io_should_split bdev (u io)
              then (None, bdev_io_submit ch' io)
              else (None, hand Copy_Get_Buf io ch')))"

definition spdk_bdev_nvme_admin_passthru ::
  "spdk_bdev_desc \<Rightarrow> ('p, 'c) bdev_channel \<Rightarrow> spdk_nvme_cmd \<Rightarrow> 'p io_base \<Rightarrow> nat \<Rightarrow> ('p, 'c) bdev_cb
     \<Rightarrow> rc \<times> ('p, 'c) bdev_channel" where
  "spdk_bdev_nvme_admin_passthru desc ch cmd buf nbytes cb_fn =
     (if \<not> desc_write desc then (Some EBADF, ch)
      else if \<not> io_type_supported (desc_bdev desc) SPDK_BDEV_IO_TYPE_NVME_ADMIN then (Some ENOTSUP, ch)
      else case bdev_channel_get_io ch of
        None \<Rightarrow> (Some ENOMEM, ch)
      | Some ch' \<Rightarrow>
          (None, bdev_io_submit ch' (Bdev_Io (empty_io\<lparr>io_type := SPDK_BDEV_IO_TYPE_NVME_ADMIN,
             passthru_cmd := Some cmd, iovs := One_Iov buf nbytes, passthru_nbytes := nbytes\<rparr>) cb_fn)))"

definition spdk_bdev_nvme_iov_passthru_md ::
  "spdk_bdev_desc \<Rightarrow> ('p, 'c) bdev_channel \<Rightarrow> spdk_nvme_cmd \<Rightarrow> 'p io_iovs \<Rightarrow> nat \<Rightarrow> 'p io_base
     \<Rightarrow> ('p, 'c) bdev_cb \<Rightarrow> rc \<times> ('p, 'c) bdev_channel" where
  "spdk_bdev_nvme_iov_passthru_md desc ch cmd iov nbytes md cb_fn =
     (let bdev = desc_bdev desc in
      if \<not> desc_write desc then (Some EBADF, ch)
      else if md \<noteq> Null \<and> \<not> io_type_supported bdev SPDK_BDEV_IO_TYPE_NVME_IO_MD then (Some ENOTSUP, ch)
      else if \<not> io_type_supported bdev SPDK_BDEV_IO_TYPE_NVME_IO then (Some ENOTSUP, ch)
      else case bdev_channel_get_io ch of
        None \<Rightarrow> (Some ENOMEM, ch)
      | Some ch' \<Rightarrow>
          (None, bdev_io_submit ch' (Bdev_Io (empty_io\<lparr>io_type := SPDK_BDEV_IO_TYPE_NVME_IOV_MD,
             passthru_cmd := Some cmd, iovs := iov, passthru_nbytes := nbytes, md_buf := md\<rparr>) cb_fn)))"

definition spdk_bdev_abort ::
  "spdk_bdev_desc \<Rightarrow> ('p, 'c) bdev_channel \<Rightarrow> 'c option \<Rightarrow> ('p, 'c) bdev_cb
     \<Rightarrow> rc \<times> ('p, 'c) bdev_channel" where
  "spdk_bdev_abort desc ch to_abort cb_fn =
     (if to_abort = None then (Some EINVAL, ch)
      else if \<not> spdk_bdev_io_type_supported (desc_bdev desc) SPDK_BDEV_IO_TYPE_ABORT then (Some ENOTSUP, ch)
      else case bdev_channel_get_io ch of
        None \<Rightarrow> (Some ENOMEM, ch)
      | Some ch' \<Rightarrow>
          (None, hand Abort_Parent (Bdev_Io (empty_io\<lparr>io_type := SPDK_BDEV_IO_TYPE_ABORT,
             bio_cb_arg := to_abort\<rparr>) cb_fn) ch'))"

subsection \<open>Status of a completed I/O\<close>

text \<open>
  The result a completion carries: the layer's status and, for an NVMe error, the completion dword
  and status code. \<open>cdw0\<close> is 0 unless the module set it.
\<close>

record bdev_io_result =
  io_status :: spdk_bdev_io_status
  err_cdw0 :: u32
  err_sct :: "3 word"
  err_sc :: u8

definition spdk_bdev_io_get_nvme_status ::
  "spdk_bdev_io_type \<Rightarrow> bdev_io_result \<Rightarrow> u32 \<times> 3 word \<times> u8" where
  "spdk_bdev_io_get_nvme_status t r =
     (if t = SPDK_BDEV_IO_TYPE_ABORT then
        (if io_status r = SPDK_BDEV_IO_STATUS_SUCCESS then 0 else 1,
         sct_code SPDK_NVME_SCT_GENERIC, generic_sc SPDK_NVME_SC_SUCCESS)
      else
        let (tc, c) =
          (if io_status r = SPDK_BDEV_IO_STATUS_SUCCESS
           then (sct_code SPDK_NVME_SCT_GENERIC, generic_sc SPDK_NVME_SC_SUCCESS)
           else if io_status r = SPDK_BDEV_IO_STATUS_NVME_ERROR then (err_sct r, err_sc r)
           else if io_status r = SPDK_BDEV_IO_STATUS_ABORTED
           then (sct_code SPDK_NVME_SCT_GENERIC, generic_sc SPDK_NVME_SC_ABORTED_BY_REQUEST)
           else (sct_code SPDK_NVME_SCT_GENERIC, generic_sc SPDK_NVME_SC_INTERNAL_DEVICE_ERROR))
        in (err_cdw0 r, tc, c))"

definition spdk_bdev_io_get_nvme_fused_status ::
  "bdev_io_result \<Rightarrow> u32 \<times> (3 word \<times> u8) \<times> (3 word \<times> u8)" where
  "spdk_bdev_io_get_nvme_fused_status r =
     (let gen = sct_code SPDK_NVME_SCT_GENERIC;
          (first, second) =
       (case io_status r of
          SPDK_BDEV_IO_STATUS_NVME_ERROR \<Rightarrow>
            if err_sct r = sct_code SPDK_NVME_SCT_MEDIA_ERROR \<and>
               err_sc r = media_sc SPDK_NVME_SC_COMPARE_FAILURE
            then ((err_sct r, err_sc r), (gen, generic_sc SPDK_NVME_SC_ABORTED_FAILED_FUSED))
            else ((gen, generic_sc SPDK_NVME_SC_SUCCESS), (err_sct r, err_sc r))
        | SPDK_BDEV_IO_STATUS_ABORTED \<Rightarrow>
            ((gen, generic_sc SPDK_NVME_SC_ABORTED_BY_REQUEST),
             (gen, generic_sc SPDK_NVME_SC_ABORTED_BY_REQUEST))
        | SPDK_BDEV_IO_STATUS_SUCCESS \<Rightarrow>
            ((gen, generic_sc SPDK_NVME_SC_SUCCESS), (gen, generic_sc SPDK_NVME_SC_SUCCESS))
        | SPDK_BDEV_IO_STATUS_FIRST_FUSED_FAILED \<Rightarrow>
            ((gen, generic_sc SPDK_NVME_SC_INTERNAL_DEVICE_ERROR),
             (gen, generic_sc SPDK_NVME_SC_ABORTED_FAILED_FUSED))
        | SPDK_BDEV_IO_STATUS_MISCOMPARE \<Rightarrow>
            ((sct_code SPDK_NVME_SCT_MEDIA_ERROR, media_sc SPDK_NVME_SC_COMPARE_FAILURE),
             (gen, generic_sc SPDK_NVME_SC_ABORTED_FAILED_FUSED))
        | _ \<Rightarrow>
            ((gen, generic_sc SPDK_NVME_SC_INTERNAL_DEVICE_ERROR),
             (gen, generic_sc SPDK_NVME_SC_INTERNAL_DEVICE_ERROR)))
      in (err_cdw0 r, first, second))"

definition complete_nvme_status :: "u32 \<Rightarrow> 3 word \<Rightarrow> u8 \<Rightarrow> bdev_io_result" where
  "complete_nvme_status c0 t c =
     \<lparr>io_status =
        (if t = sct_code SPDK_NVME_SCT_GENERIC \<and> c = generic_sc SPDK_NVME_SC_SUCCESS
         then SPDK_BDEV_IO_STATUS_SUCCESS
         else if t = sct_code SPDK_NVME_SCT_GENERIC \<and> c = generic_sc SPDK_NVME_SC_ABORTED_BY_REQUEST
         then SPDK_BDEV_IO_STATUS_ABORTED
         else SPDK_BDEV_IO_STATUS_NVME_ERROR),
      err_cdw0 = c0, err_sct = t, err_sc = c\<rparr>"

subsection \<open>Blocks and ranges: correctness\<close>

lemma log2_fits_u8:
  "spdk_u32_is_pow2 b \<Longrightarrow> unat (ucast (spdk_u32log2 b) :: u8) = unat (spdk_u32log2 b)"
proof -
  assume "spdk_u32_is_pow2 b"
  then obtain k where "k < 32" "unat b = 2 ^ k" by (rule u32_is_pow2_power)
  then have "unat (spdk_u32log2 b) < 256" using u32log2_power [of k b] by simp
  then show ?thesis by (simp add: unsigned_ucast_eq take_bit_eq_mod)
qed

lemma bytes_to_blocks_div:
  "bdev_bytes_to_blocks bdev off n =
     (off div ucast (blocklen bdev), n div ucast (blocklen bdev),
      (off mod ucast (blocklen bdev)) OR (n mod ucast (blocklen bdev)))"
proof (cases "spdk_u32_is_pow2 (blocklen bdev)")
  case True
  note sh = pow2_shift [OF True] and l = log2_fits_u8 [OF True]
  show ?thesis
    by (simp only: bdev_bytes_to_blocks_def Let_def True if_True l sh(2)) (simp only: sh(1))
next
  case False
  then show ?thesis by (simp add: bdev_bytes_to_blocks_def Let_def)
qed

lemma or_eq_0_word: "(a :: 'a::len word) OR b = 0 \<longleftrightarrow> a = 0 \<and> b = 0"
  by (auto simp: bit_eq_iff bit_or_iff)

lemma bytes_to_blocks_aligned:
  "snd (snd (bdev_bytes_to_blocks bdev off n)) = 0 \<longleftrightarrow>
     unat off mod unat (blocklen bdev) = 0 \<and> unat n mod unat (blocklen bdev) = 0"
proof -
  have "(x mod ucast (blocklen bdev) = (0 :: u64)) = (unat x mod unat (blocklen bdev) = 0)" for x
    by (simp add: unat_eq_0 [symmetric] unat_mod del: unat_eq_0)
  then show ?thesis by (simp add: bytes_to_blocks_div or_eq_0_word)
qed

lemma valid_blocks_nat:
  "bdev_io_valid_blocks bdev off n \<longleftrightarrow> unat off + unat n \<le> unat (blockcnt bdev)"
proof -
  have "off + n < off \<longleftrightarrow> 2 ^ 64 \<le> unat off + unat n"
    using unat_bounds(4) [of off] unat_bounds(4) [of n]
    by (auto simp: word_less_nat_alt unat_plus_if')
  then show ?thesis
    using unat_bounds(4) [of off] unat_bounds(4) [of n] unat_bounds(4) [of "blockcnt bdev"]
    by (simp add: bdev_io_valid_blocks_def word_less_nat_alt unat_plus_if')
qed

subsection \<open>The contract of the submit functions\<close>

text \<open>
  The contract the callers rely on: a refused I/O leaves the channel as it was, an accepted one
  lies within the device, takes one descriptor, and is handed on once with the range and the
  callback the caller gave. The lemmas below hold for every function with the contract.
\<close>

definition free_descs :: "('p, 'c) bdev_channel \<Rightarrow> nat" where
  "free_descs ch = per_thread_cache_count ch + bdev_io_pool ch"

definition handed_as ::
  "('p, 'c) bdev_channel \<Rightarrow> u64 \<Rightarrow> u64 \<Rightarrow> ('p, 'c) bdev_cb \<Rightarrow> ('p, 'c) bdev_channel \<Rightarrow> bool" where
  "handed_as ch off n cb_fn ch' \<longleftrightarrow>
     (\<exists>ch1 place io. bdev_channel_get_io ch = Some ch1 \<and> ch' = hand place io ch1 \<and>
        offset_blocks (u io) = off \<and> num_blocks (u io) = n \<and> cb io = cb_fn)"

locale bdev_submit =
  fixes op :: "spdk_bdev_desc \<Rightarrow> ('p, 'c) bdev_channel \<Rightarrow> u64 \<Rightarrow> u64 \<Rightarrow> ('p, 'c) bdev_cb
                 \<Rightarrow> rc \<times> ('p, 'c) bdev_channel"
  assumes refused: "op d ch off n c = (Some e, ch') \<Longrightarrow> ch' = ch"
    and accepted: "op d ch off n c = (None, ch') \<Longrightarrow>
      bdev_io_valid_blocks (desc_bdev d) off n \<and> handed_as ch off n c ch'"
    and no_memory: "op d ch off n c = (Some ENOMEM, ch') \<Longrightarrow> bdev_channel_get_io ch = None"
begin

lemma in_device:
  "op d ch off n c = (None, ch') \<Longrightarrow> unat off + unat n \<le> unat (blockcnt (desc_bdev d))"
  using accepted by (simp add: valid_blocks_nat)

lemma takes_one_descriptor:
  "op d ch off n c = (None, ch') \<Longrightarrow> Suc (free_descs ch') = free_descs ch"
  by (drule accepted)
     (auto simp: handed_as_def hand_def free_descs_def bdev_channel_get_io_def split: if_splits)

lemma hands_one:
  "op d ch off n c = (None, ch') \<Longrightarrow>
   \<exists>place io. handed ch' = handed ch @ [(place, io)] \<and>
     offset_blocks (u io) = off \<and> num_blocks (u io) = n \<and> cb io = c"
  by (drule accepted)
     (fastforce simp: handed_as_def hand_def bdev_channel_get_io_def split: if_splits)

lemma nomem_blocked:
  "op d ch off n c = (Some ENOMEM, ch') \<Longrightarrow> per_thread_cache_count ch = 0"
  by (drule no_memory) (simp add: bdev_channel_get_io_def split: if_splits)

lemma accepted_queue:
  "op d ch off n c = (None, ch') \<Longrightarrow> io_wait_queue ch' = io_wait_queue ch"
  by (drule accepted)
     (auto simp: handed_as_def hand_def bdev_channel_get_io_def split: if_splits)

end

lemma io_submit_hand: "\<exists>place. bdev_io_submit ch io = hand place io ch"
  by (simp add: bdev_io_submit_def) blast

lemma handed_as_submit:
  "bdev_channel_get_io ch = Some ch1 \<Longrightarrow> offset_blocks (u io) = off \<Longrightarrow> num_blocks (u io) = n \<Longrightarrow>
   cb io = c \<Longrightarrow> handed_as ch off n c (bdev_io_submit ch1 io)"
  using io_submit_hand [of ch1 io] unfolding handed_as_def by blast

lemma handed_as_hand:
  "bdev_channel_get_io ch = Some ch1 \<Longrightarrow> offset_blocks (u io) = off \<Longrightarrow> num_blocks (u io) = n \<Longrightarrow>
   cb io = c \<Longrightarrow> handed_as ch off n c (hand place io ch1)"
  unfolding handed_as_def by blast

lemma handed_as_submit_ext:
  "bdev_channel_get_io ch = Some ch1 \<Longrightarrow> offset_blocks (u io) = off \<Longrightarrow> num_blocks (u io) = n \<Longrightarrow>
   cb io = c \<Longrightarrow> handed_as ch off n c (bdev_io_submit_ext desc ch1 io)"
  by (simp add: bdev_io_submit_ext_def Let_def handed_as_submit handed_as_hand)

lemmas handed_intros = handed_as_submit handed_as_hand handed_as_submit_ext

interpretation rd: bdev_submit "\<lambda>d ch. spdk_bdev_read_blocks d ch buf" for buf
  by unfold_locales
     (auto simp: spdk_bdev_read_blocks_def bdev_read_blocks_with_md_def Let_def
           intro: handed_intros split: if_splits option.splits)

interpretation wr: bdev_submit "\<lambda>d ch. spdk_bdev_write_blocks d ch buf" for buf
  by unfold_locales
     (auto simp: spdk_bdev_write_blocks_def bdev_write_blocks_with_md_def Let_def
           intro: handed_intros split: if_splits option.splits)

interpretation rdv: bdev_submit "\<lambda>d ch off n c. spdk_bdev_readv_blocks_ext d ch iov off n c opts"
  for iov opts
  by unfold_locales
     (auto simp: spdk_bdev_readv_blocks_ext_def bdev_readv_blocks_with_md_def Let_def
           intro: handed_intros split: if_splits option.splits)

interpretation wrv: bdev_submit "\<lambda>d ch off n c. spdk_bdev_writev_blocks_ext d ch iov off n c opts"
  for iov opts
  by unfold_locales
     (auto simp: spdk_bdev_writev_blocks_ext_def bdev_writev_blocks_with_md_def Let_def
           intro: handed_intros split: if_splits option.splits)

interpretation unm: bdev_submit spdk_bdev_unmap_blocks
  by unfold_locales
     (auto simp: spdk_bdev_unmap_blocks_def Let_def
           intro: handed_intros split: if_splits option.splits)

interpretation fl: bdev_submit spdk_bdev_flush_blocks
  by unfold_locales
     (auto simp: spdk_bdev_flush_blocks_def Let_def
           intro: handed_intros split: if_splits option.splits)

interpretation zc: bdev_submit "\<lambda>d ch off n. spdk_bdev_zcopy_start d ch iov off n populate" for iov populate
  by unfold_locales
     (auto simp: spdk_bdev_zcopy_start_def Let_def
           intro: handed_intros split: if_splits option.splits)

interpretation cpy: bdev_submit "\<lambda>d ch dst n. spdk_bdev_copy_blocks d ch dst src n" for src
  by unfold_locales
     (auto simp: spdk_bdev_copy_blocks_def Let_def
           intro: handed_intros split: if_splits option.splits)

subsection \<open>Waking the waiters\<close>

text \<open>
  The loop that wakes waiters returns when a waiter only puts itself back on the queue once the
  cache is empty, which is what \<open>spdk_bdev_queue_io_wait\<close> enforces.
\<close>

locale bdev_waiters =
  fixes run :: "('p, 'c) bdev_waiter \<Rightarrow> ('p, 'c) bdev_channel \<Rightarrow> ('p, 'c) bdev_channel"
  assumes no_growth: "0 < per_thread_cache_count (run w ch) \<Longrightarrow>
      length (io_wait_queue (run w ch)) \<le> length (io_wait_queue ch)"
begin

lemma wake_returns:
  "\<exists>ch'. bdev_wake run ch = Some ch' \<and> (per_thread_cache_count ch' = 0 \<or> io_wait_queue ch' = [])"
proof (induction "length (io_wait_queue ch)" arbitrary: ch rule: less_induct)
  case less
  let ?pop = "ch\<lparr>io_wait_queue := tl (io_wait_queue ch)\<rparr>"
  let ?next = "run (hd (io_wait_queue ch)) ?pop"
  show ?case
  proof (cases "0 < per_thread_cache_count ch \<and> io_wait_queue ch \<noteq> []")
    case False
    then show ?thesis by (auto simp: bdev_wake.simps [of run ch])
  next
    case True
    show ?thesis
    proof (cases "0 < per_thread_cache_count ?next")
      case False
      with True show ?thesis
        by (simp add: bdev_wake.simps [of run ch] bdev_wake.simps [of run ?next])
    next
      case more: True
      with no_growth [OF more] True have "length (io_wait_queue ?next) < length (io_wait_queue ch)"
        by (cases "io_wait_queue ch") auto
      from less [OF this] True show ?thesis by (simp add: bdev_wake.simps [of run ch])
    qed
  qed
qed

lemma free_io_returns:
  "\<exists>ch'. spdk_bdev_free_io run ch = Some ch' \<and>
     (per_thread_cache_count ch < bdev_io_cache_size ch \<longrightarrow>
        per_thread_cache_count ch' = 0 \<or> io_wait_queue ch' = [])"
  using wake_returns [of "ch\<lparr>per_thread_cache_count := per_thread_cache_count ch + 1\<rparr>"]
  by (auto simp: spdk_bdev_free_io_def)

end

lemma queue_io_wait_no_growth:
  "spdk_bdev_queue_io_wait ch w = (r, ch') \<Longrightarrow> 0 < per_thread_cache_count ch' \<Longrightarrow>
   io_wait_queue ch' = io_wait_queue ch"
  by (auto simp: spdk_bdev_queue_io_wait_def split: if_splits)

lemma compare_do_read_no_growth:
  "0 < per_thread_cache_count (bdev_compare_do_read desc io ch) \<Longrightarrow>
   io_wait_queue (bdev_compare_do_read desc io ch) = io_wait_queue ch"
proof -
  obtain r ch' where eq: "spdk_bdev_read_blocks desc ch Null (offset_blocks (u io)) (num_blocks (u io))
      (Bdev_Compare_Do_Read_Done io) = (r, ch')" by fastforce
  assume "0 < per_thread_cache_count (bdev_compare_do_read desc io ch)"
  moreover have "io_wait_queue ch' = io_wait_queue ch"
    using eq by (cases r) (auto dest: rd.accepted_queue rd.refused)
  ultimately show ?thesis
    using eq by (auto simp: bdev_compare_do_read_def hand_def spdk_bdev_queue_io_wait_def
                      split: option.splits errno.splits if_splits)
qed

subsection \<open>Properties\<close>

text \<open>
  C33: The conversion of a byte range to blocks, by shifts for a power-of-two block size and by
  division otherwise, is the division by the block size, and its return value is zero exactly
  when offset and length are multiples of the block size.
\<close>

theorem bytes_to_blocks_is_division:
  assumes "blocklen bdev \<noteq> 0" "bdev_bytes_to_blocks bdev off n = (off_blocks, n_blocks, rem)"
  shows "unat off_blocks = unat off div unat (blocklen bdev) \<and> unat n_blocks = unat n div unat (blocklen bdev) \<and>
    (rem = 0 \<longleftrightarrow> unat (blocklen bdev) dvd unat off \<and> unat (blocklen bdev) dvd unat n)"
  using assms(2) bytes_to_blocks_aligned [of bdev off n]
  by (auto simp: bytes_to_blocks_div unat_div dvd_eq_mod_eq_0)

text \<open>The range check, in wrapping arithmetic, is exact.\<close>

theorem valid_blocks_iff_in_device:
  "bdev_io_valid_blocks bdev off n \<longleftrightarrow> unat off + unat n \<le> unat (blockcnt bdev)"
  by (rule valid_blocks_nat)

text \<open>The status a module completes with is the status a caller reads.\<close>

theorem nvme_status_roundtrip:
  assumes "t \<noteq> SPDK_BDEV_IO_TYPE_ABORT"
  shows "spdk_bdev_io_get_nvme_status t (complete_nvme_status c0 tc c) = (c0, tc, c)"
  using assms by (simp add: spdk_bdev_io_get_nvme_status_def complete_nvme_status_def)

end
