(* ===== verification/Iov.thy ===== *)
theory Iov
  imports Prelude
begin

section \<open>Scatter-gather buffers (\<open>spdk/lib/util/iov.c\<close>)\<close>

text \<open>
  An array of \<open>struct iovec\<close> is modelled by the list of its segments, each segment by the bytes
  at \<open>iov_base\<close> (so \<open>iov_len\<close> is its length, and a NULL base is the empty segment); the
  segments of one array do not overlap. The abstraction of an array is the flat buffer
  \<open>concat iovs\<close>: every routine below is shown to be the obvious operation on it.
\<close>

type_synonym iovs = "byte list list"

fun spdk_iov_memset :: "iovs \<Rightarrow> byte \<Rightarrow> iovs" where
  "spdk_iov_memset [] c = []"
| "spdk_iov_memset (iov # rest) c = replicate (length iov) c # spdk_iov_memset rest c"

subsection \<open>The transfer cursor: \<open>spdk_iov_xfer\<close>\<close>

record spdk_iov_xfer =
  ix_iovs :: iovs
  cur_iov_idx :: nat
  cur_iov_offset :: nat

definition spdk_iov_xfer_init :: "iovs \<Rightarrow> spdk_iov_xfer" where
  "spdk_iov_xfer_init iovs = \<lparr>ix_iovs = iovs, cur_iov_idx = 0, cur_iov_offset = 0\<rparr>"

text \<open>
  The loop of \<open>iov_xfer\<close>, from a cursor, the caller's buffer and \<open>copied_len\<close>. The exit test
  of the source is \<open>buf_len == copied_len\<close>; \<open>copied_len\<close> never exceeds \<open>buf_len\<close>, so
  \<open>\<le>\<close> is the same test.
\<close>

function iov_xfer_loop ::
  "bool \<Rightarrow> spdk_iov_xfer \<Rightarrow> byte list \<Rightarrow> nat \<Rightarrow> spdk_iov_xfer \<times> byte list \<times> nat" where
  "iov_xfer_loop to_buf ix buf copied_len =
    (if cur_iov_idx ix < length (ix_iovs ix) then
       (let iov = ix_iovs ix ! cur_iov_idx ix;
            iov_remain_len = length iov - cur_iov_offset ix
        in if iov_remain_len = 0
           then iov_xfer_loop to_buf
                  (ix\<lparr>cur_iov_idx := Suc (cur_iov_idx ix), cur_iov_offset := 0\<rparr>) buf copied_len
           else
             (let len = min iov_remain_len (length buf - copied_len);
                  buf' = (if to_buf
                          then put_at copied_len (get_at (cur_iov_offset ix) len iov) buf
                          else buf);
                  iov' = (if to_buf then iov
                          else put_at (cur_iov_offset ix) (get_at copied_len len buf) iov);
                  ix' = ix\<lparr>ix_iovs := (ix_iovs ix)[cur_iov_idx ix := iov'],
                           cur_iov_offset := cur_iov_offset ix + len\<rparr>;
                  copied_len' = copied_len + len
              in if length buf \<le> copied_len' then (ix', buf', copied_len')
                 else iov_xfer_loop to_buf ix' buf' copied_len'))
     else (ix, buf, copied_len))"
  by pat_completeness auto
termination
  by (relation "measures
        [\<lambda>(to_buf, ix, buf, c). length (ix_iovs ix) - cur_iov_idx ix,
         \<lambda>(to_buf, ix, buf, c). length (ix_iovs ix ! cur_iov_idx ix) - cur_iov_offset ix]")
     (auto simp: Let_def min_def)

declare iov_xfer_loop.simps [simp del]

definition iov_xfer ::
  "spdk_iov_xfer \<Rightarrow> byte list \<Rightarrow> bool \<Rightarrow> spdk_iov_xfer \<times> byte list \<times> nat" where
  "iov_xfer ix buf to_buf =
     (if length buf = 0 then (ix, buf, 0) else iov_xfer_loop to_buf ix buf 0)"

definition spdk_iov_xfer_from_buf ::
  "spdk_iov_xfer \<Rightarrow> byte list \<Rightarrow> spdk_iov_xfer \<times> byte list \<times> nat" where
  "spdk_iov_xfer_from_buf ix buf = iov_xfer ix buf False"

definition spdk_iov_xfer_to_buf ::
  "spdk_iov_xfer \<Rightarrow> byte list \<Rightarrow> spdk_iov_xfer \<times> byte list \<times> nat" where
  "spdk_iov_xfer_to_buf ix buf = iov_xfer ix buf True"

definition spdk_copy_iovs_to_buf :: "byte list \<Rightarrow> iovs \<Rightarrow> byte list" where
  "spdk_copy_iovs_to_buf buf iovs =
     fst (snd (spdk_iov_xfer_to_buf (spdk_iov_xfer_init iovs) buf))"

definition spdk_copy_buf_to_iovs :: "iovs \<Rightarrow> byte list \<Rightarrow> iovs" where
  "spdk_copy_buf_to_iovs iovs buf =
     ix_iovs (fst (spdk_iov_xfer_from_buf (spdk_iov_xfer_init iovs) buf))"

subsection \<open>The cursor as a position in the flat buffer\<close>

definition ix_pos :: "spdk_iov_xfer \<Rightarrow> nat" where
  "ix_pos ix = length (concat (take (cur_iov_idx ix) (ix_iovs ix))) + cur_iov_offset ix"

definition ix_wf :: "spdk_iov_xfer \<Rightarrow> bool" where
  "ix_wf ix \<longleftrightarrow>
     (if cur_iov_idx ix < length (ix_iovs ix)
      then cur_iov_offset ix \<le> length (ix_iovs ix ! cur_iov_idx ix)
      else cur_iov_idx ix = length (ix_iovs ix) \<and> cur_iov_offset ix = 0)"

definition ix_flat :: "spdk_iov_xfer \<Rightarrow> byte list" where
  "ix_flat ix = concat (ix_iovs ix)"

lemma ix_init [simp]:
  "ix_pos (spdk_iov_xfer_init iovs) = 0" "ix_wf (spdk_iov_xfer_init iovs)"
  "ix_flat (spdk_iov_xfer_init iovs) = concat iovs"
  by (auto simp: ix_pos_def ix_wf_def ix_flat_def spdk_iov_xfer_init_def)

text \<open>Advancing past an exhausted segment does not move the flat position.\<close>

lemma ix_advance:
  assumes "cur_iov_idx ix < length (ix_iovs ix)" "ix_wf ix"
    and "length (ix_iovs ix ! cur_iov_idx ix) - cur_iov_offset ix = 0"
  defines "ix' \<equiv> ix\<lparr>cur_iov_idx := Suc (cur_iov_idx ix), cur_iov_offset := 0\<rparr>"
  shows "ix_wf ix'" "ix_pos ix' = ix_pos ix" "ix_flat ix' = ix_flat ix"
  using assms by (auto simp: ix_wf_def ix_pos_def ix_flat_def take_Suc_concat split: if_splits)

lemma ix_end_pos:
  "ix_wf ix \<Longrightarrow> \<not> cur_iov_idx ix < length (ix_iovs ix) \<Longrightarrow> ix_pos ix = length (ix_flat ix)"
  by (auto simp: ix_wf_def ix_pos_def ix_flat_def)

text \<open>Loads and stores inside the current segment are loads and stores of the flat buffer.\<close>

lemma ix_segment:
  assumes "cur_iov_idx ix < length (ix_iovs ix)"
  obtains A B where "ix_flat ix = A @ ix_iovs ix ! cur_iov_idx ix @ B"
    "ix_pos ix = length A + cur_iov_offset ix"
    "\<And>v. concat ((ix_iovs ix)[cur_iov_idx ix := v]) = A @ v @ B"
proof
  let ?i = "cur_iov_idx ix" and ?xs = "ix_iovs ix"
  show "ix_flat ix = concat (take ?i ?xs) @ ?xs ! ?i @ concat (drop (Suc ?i) ?xs)"
    using assms by (simp add: ix_flat_def concat_split_nth)
  show "ix_pos ix = length (concat (take ?i ?xs)) + cur_iov_offset ix"
    by (simp add: ix_pos_def)
  show "concat (?xs[?i := v]) = concat (take ?i ?xs) @ v @ concat (drop (Suc ?i) ?xs)" for v
    using assms by (simp add: upd_conv_take_nth_drop)
qed

lemma ix_load:
  assumes "cur_iov_idx ix < length (ix_iovs ix)"
    and "cur_iov_offset ix + len \<le> length (ix_iovs ix ! cur_iov_idx ix)"
  shows "get_at (cur_iov_offset ix) len (ix_iovs ix ! cur_iov_idx ix) = get_at (ix_pos ix) len (ix_flat ix)"
    and "ix_pos ix + len \<le> length (ix_flat ix)"
  using assms by (auto elim!: ix_segment simp: get_at_append_right get_at_append_left)

lemma ix_store:
  assumes "cur_iov_idx ix < length (ix_iovs ix)"
    and "cur_iov_offset ix + length ys \<le> length (ix_iovs ix ! cur_iov_idx ix)"
  shows "concat ((ix_iovs ix)[cur_iov_idx ix := put_at (cur_iov_offset ix) ys (ix_iovs ix ! cur_iov_idx ix)])
       = put_at (ix_pos ix) ys (ix_flat ix)"
  using assms by (auto elim!: ix_segment simp: put_at_append_right put_at_append_left)

text \<open>Moving the cursor inside the segment, with the segment replaced by one of the same length.\<close>

lemma ix_move:
  assumes "cur_iov_idx ix < length (ix_iovs ix)"
    and "cur_iov_offset ix + len \<le> length (ix_iovs ix ! cur_iov_idx ix)"
    and "length iov' = length (ix_iovs ix ! cur_iov_idx ix)"
  defines "ix' \<equiv> ix\<lparr>ix_iovs := (ix_iovs ix)[cur_iov_idx ix := iov'], cur_iov_offset := cur_iov_offset ix + len\<rparr>"
  shows "ix_wf ix'" "ix_pos ix' = ix_pos ix + len"
    "ix_flat ix' = concat ((ix_iovs ix)[cur_iov_idx ix := iov'])"
    "map length (ix_iovs ix') = map length (ix_iovs ix)"
  using assms by (auto simp: ix_wf_def ix_pos_def ix_flat_def)

text \<open>
  One copy of the loop: \<open>len\<close> bytes move between the caller's buffer at \<open>c\<close> and the current
  segment; in the flat view they move at the cursor's position.
\<close>

definition ix_copy :: "bool \<Rightarrow> nat \<Rightarrow> spdk_iov_xfer \<Rightarrow> byte list \<Rightarrow> nat \<Rightarrow> spdk_iov_xfer \<times> byte list" where
  "ix_copy to_buf len ix buf c =
    (let iov = ix_iovs ix ! cur_iov_idx ix
     in (ix\<lparr>ix_iovs := (ix_iovs ix)[cur_iov_idx ix :=
              (if to_buf then iov else put_at (cur_iov_offset ix) (get_at c len buf) iov)],
            cur_iov_offset := cur_iov_offset ix + len\<rparr>,
         if to_buf then put_at c (get_at (cur_iov_offset ix) len iov) buf else buf))"

definition flat_copied ::
  "bool \<Rightarrow> nat \<Rightarrow> spdk_iov_xfer \<Rightarrow> byte list \<Rightarrow> nat \<Rightarrow> spdk_iov_xfer \<Rightarrow> byte list \<Rightarrow> bool" where
  "flat_copied to_buf n ix buf c ix' buf' \<longleftrightarrow>
     ix_wf ix' \<and> ix_pos ix' = ix_pos ix + n \<and> map length (ix_iovs ix') = map length (ix_iovs ix) \<and>
     (if to_buf
      then ix_iovs ix' = ix_iovs ix \<and> buf' = put_at c (get_at (ix_pos ix) n (ix_flat ix)) buf
      else buf' = buf \<and> ix_flat ix' = put_at (ix_pos ix) (get_at c n buf) (ix_flat ix))"

lemma ix_copy_flat:
  assumes "cur_iov_idx ix < length (ix_iovs ix)"
    and "cur_iov_offset ix + len \<le> length (ix_iovs ix ! cur_iov_idx ix)" "c + len \<le> length buf"
    and "ix_copy to_buf len ix buf c = (ix1, buf1)"
  shows "flat_copied to_buf len ix buf c ix1 buf1"
    and "ix_pos ix + len \<le> length (ix_flat ix)" and "length buf1 = length buf"
proof -
  let ?iov = "ix_iovs ix ! cur_iov_idx ix"
  define iov1 where "iov1 = (if to_buf then ?iov else put_at (cur_iov_offset ix) (get_at c len buf) ?iov)"
  have lens: "length (get_at c len buf) = len" using assms(3) by simp
  then have "length iov1 = length ?iov" using assms(2) by (simp add: iov1_def)
  note mv = ix_move [OF assms(1,2) this] and ld = ix_load [OF assms(1,2)]
  have ix1: "ix1 = ix\<lparr>ix_iovs := (ix_iovs ix)[cur_iov_idx ix := iov1], cur_iov_offset := cur_iov_offset ix + len\<rparr>"
    and buf1: "buf1 = (if to_buf then put_at c (get_at (ix_pos ix) len (ix_flat ix)) buf else buf)"
    using assms(4) unfolding ix_copy_def Let_def iov1_def ld(1) by simp_all
  have st: "concat ((ix_iovs ix)[cur_iov_idx ix := put_at (cur_iov_offset ix) (get_at c len buf) ?iov])
      = put_at (ix_pos ix) (get_at c len buf) (ix_flat ix)"
    by (rule ix_store [OF assms(1)]) (use assms(2) lens in simp)
  show "ix_pos ix + len \<le> length (ix_flat ix)" by (rule ld)
  then show "length buf1 = length buf" using assms(3) by (simp add: buf1)
  show "flat_copied to_buf len ix buf c ix1 buf1"
    unfolding flat_copied_def ix1 buf1 using mv st by (cases to_buf) (simp_all add: iov1_def)
qed

lemma ix_flat_length: "map length (ix_iovs ix') = map length (ix_iovs ix) \<Longrightarrow> length (ix_flat ix') = length (ix_flat ix)"
  unfolding ix_flat_def by (rule same_shape_length_concat)

lemma flat_copied_trans:
  assumes "flat_copied to_buf m ix buf c ix1 buf1" "flat_copied to_buf n ix1 buf1 (c + m) ix2 buf2"
    and "ix_pos ix + m \<le> length (ix_flat ix)" "c + m \<le> length buf"
  shows "flat_copied to_buf (m + n) ix buf c ix2 buf2"
  using assms put_at_twice_adjacent [of c buf "get_at (ix_pos ix) m (ix_flat ix)"]
    put_at_twice_adjacent [of "ix_pos ix" "ix_flat ix" "get_at c m buf"]
  by (auto simp: flat_copied_def get_at_add ix_flat_def min_absorb1)

text \<open>
  The result of the transfer loop: as many bytes as both sides have left move between the buffer
  and the flat view of the segments, and the cursor ends that many bytes further.
\<close>

definition xfer_len :: "spdk_iov_xfer \<Rightarrow> byte list \<Rightarrow> nat \<Rightarrow> nat" where
  "xfer_len ix buf c = min (length buf - c) (length (ix_flat ix) - ix_pos ix)"

lemma iov_xfer_loop_step:
  fixes ix buf c
  defines "len \<equiv> min (length (ix_iovs ix ! cur_iov_idx ix) - cur_iov_offset ix) (length buf - c)"
  assumes "cur_iov_idx ix < length (ix_iovs ix)" "length (ix_iovs ix ! cur_iov_idx ix) - cur_iov_offset ix \<noteq> 0"
    and "ix_copy to_buf len ix buf c = (ix1, buf1)"
  shows "iov_xfer_loop to_buf ix buf c =
    (if length buf \<le> c + len then (ix1, buf1, c + len) else iov_xfer_loop to_buf ix1 buf1 (c + len))"
proof -
  note cp = assms(4) [unfolded ix_copy_def Let_def prod.inject]
  show ?thesis
    using assms(2,3) unfolding iov_xfer_loop.simps [of to_buf ix buf c] Let_def len_def [symmetric]
    by (simp only: cp [THEN conjunct1] cp [THEN conjunct2] if_True if_False simp_thms)
qed

lemma iov_xfer_loop_spec:
  assumes "ix_wf ix" "c < length buf" "iov_xfer_loop to_buf ix buf c = (ix', buf', c')"
  shows "flat_copied to_buf (xfer_len ix buf c) ix buf c ix' buf' \<and> c' = c + xfer_len ix buf c"
  using assms
proof (induction to_buf ix buf c rule: iov_xfer_loop.induct)
  case (1 to_buf ix buf c)
  note IH1 = "1.IH"(1) and IH2 = "1.IH"(2) and wf = "1.prems"(1) and c = "1.prems"(2) and run = "1.prems"(3)
  let ?iov = "ix_iovs ix ! cur_iov_idx ix"
  consider (stop) "\<not> cur_iov_idx ix < length (ix_iovs ix)"
    | (skip) "cur_iov_idx ix < length (ix_iovs ix)" "length ?iov - cur_iov_offset ix = 0"
    | (copy) "cur_iov_idx ix < length (ix_iovs ix)" "length ?iov - cur_iov_offset ix \<noteq> 0"
    by blast
  then show ?case
  proof cases
    case stop
    with run wf show ?thesis
      by (auto simp: xfer_len_def ix_end_pos flat_copied_def iov_xfer_loop.simps [of to_buf ix buf c])
  next
    case skip
    note adv = ix_advance [OF skip(1) wf skip(2)]
    let ?ix = "ix\<lparr>cur_iov_idx := Suc (cur_iov_idx ix), cur_iov_offset := 0\<rparr>"
    have "xfer_len ?ix buf c = xfer_len ix buf c" by (simp add: xfer_len_def adv)
    moreover have "iov_xfer_loop to_buf ?ix buf c = (ix', buf', c')"
      using run skip by (simp add: iov_xfer_loop.simps [of to_buf ix buf c] Let_def)
    ultimately show ?thesis
      using IH1 [OF skip(1) refl refl skip(2) adv(1) c] adv by (simp add: flat_copied_def)
  next
    case copy
    define len where "len = min (length ?iov - cur_iov_offset ix) (length buf - c)"
    obtain ix1 buf1 where cp: "ix_copy to_buf len ix buf c = (ix1, buf1)" by fastforce
    have fit: "cur_iov_offset ix + len \<le> length ?iov" "c + len \<le> length buf"
      using copy c by (auto simp: len_def)
    note st = ix_copy_flat [OF copy(1) fit cp]
    have len1: "length (ix_flat ix1) = length (ix_flat ix)" "ix_pos ix1 = ix_pos ix + len" "ix_wf ix1"
      using st(1) ix_flat_length [of ix1 ix] by (auto simp: flat_copied_def)
    have raw: "ix1 = ix\<lparr>ix_iovs := (ix_iovs ix)[cur_iov_idx ix :=
          (if to_buf then ?iov else put_at (cur_iov_offset ix) (get_at c len buf) ?iov)],
          cur_iov_offset := cur_iov_offset ix + len\<rparr>"
        "buf1 = (if to_buf then put_at c (get_at (cur_iov_offset ix) len ?iov) buf else buf)"
      using cp unfolding ix_copy_def Let_def by simp_all
    note eq = iov_xfer_loop_step [OF copy cp [unfolded len_def], folded len_def]
    show ?thesis
    proof (cases "length buf \<le> c + len")
      case True
      then have "xfer_len ix buf c = len" using st(2) fit by (auto simp: xfer_len_def)
      then show ?thesis using run eq True st(1) by auto
    next
      case False
      then have n: "xfer_len ix buf c = len + xfer_len ix1 buf1 (c + len)"
        using fit st len1 by (auto simp: xfer_len_def)
      have rec: "iov_xfer_loop to_buf ix1 buf1 (c + len) = (ix', buf', c')" using run eq False by simp
      have "flat_copied to_buf (xfer_len ix1 buf1 (c + len)) ix1 buf1 (c + len) ix' buf' \<and>
          c' = c + len + xfer_len ix1 buf1 (c + len)"
        using IH2 [OF copy(1) refl refl copy(2) len_def raw(2) refl raw(1) refl False len1(3) _ rec] False st(3)
        by simp
      then show ?thesis using flat_copied_trans [OF st(1) _ st(2) fit(2)] n by auto
    qed
  qed
qed

subsection \<open>The routines on the flat buffer\<close>

lemma iov_xfer_flat:
  assumes "ix_wf ix" "iov_xfer ix buf to_buf = (ix', buf', n)"
  shows "flat_copied to_buf n ix buf 0 ix' buf' \<and> n = min (length buf) (length (ix_flat ix) - ix_pos ix)"
proof (cases "buf = []")
  case True
  with assms show ?thesis by (auto simp: iov_xfer_def flat_copied_def)
next
  case False
  then have "iov_xfer_loop to_buf ix buf 0 = (ix', buf', n)" using assms(2) by (simp add: iov_xfer_def)
  with False iov_xfer_loop_spec [OF assms(1) _ this] show ?thesis by (auto simp: xfer_len_def)
qed

lemma xfer_to_buf_chunk:
  assumes "ix_wf ix" and "ix_pos ix + length buf \<le> length (ix_flat ix)"
  obtains ix' where "spdk_iov_xfer_to_buf ix buf = (ix', get_at (ix_pos ix) (length buf) (ix_flat ix), length buf)"
    and "ix_wf ix'" and "ix_pos ix' = ix_pos ix + length buf" and "ix_flat ix' = ix_flat ix"
proof -
  obtain ix' buf' n where r: "iov_xfer ix buf True = (ix', buf', n)" using prod_cases3 by blast
  have "n = length buf" and fc: "flat_copied True n ix buf 0 ix' buf'"
    using iov_xfer_flat [OF assms(1) r] assms(2) by auto
  moreover have "put_at 0 (get_at (ix_pos ix) (length buf) (ix_flat ix)) buf =
      get_at (ix_pos ix) (length buf) (ix_flat ix)"
    using assms(2) by (intro put_at_0_full) simp
  ultimately show thesis
    using that [of ix'] r by (simp add: flat_copied_def spdk_iov_xfer_to_buf_def ix_flat_def)
qed

lemma copy_iovs_to_buf_flat:
  "spdk_copy_iovs_to_buf buf iovs = take (length buf) (concat iovs) @ drop (length (concat iovs)) buf"
proof -
  obtain ix' buf' n where r: "iov_xfer (spdk_iov_xfer_init iovs) buf True = (ix', buf', n)"
    using prod_cases3 by blast
  show ?thesis
    using iov_xfer_flat [OF ix_init(2) r]
    by (auto simp: spdk_copy_iovs_to_buf_def spdk_iov_xfer_to_buf_def r flat_copied_def put_at_def get_at_def min_def)
qed

lemma copy_buf_to_iovs_flat:
  "concat (spdk_copy_buf_to_iovs iovs buf) =
     take (length (concat iovs)) buf @ drop (length buf) (concat iovs)"
  "map length (spdk_copy_buf_to_iovs iovs buf) = map length iovs"
proof -
  obtain ix' buf' n where r: "iov_xfer (spdk_iov_xfer_init iovs) buf False = (ix', buf', n)"
    using prod_cases3 by blast
  have "ix_iovs (spdk_iov_xfer_init iovs) = iovs" by (simp add: spdk_iov_xfer_init_def)
  with iov_xfer_flat [OF ix_init(2) r]
  show "concat (spdk_copy_buf_to_iovs iovs buf) =
     take (length (concat iovs)) buf @ drop (length buf) (concat iovs)"
    "map length (spdk_copy_buf_to_iovs iovs buf) = map length iovs"
    by (auto simp: spdk_copy_buf_to_iovs_def spdk_iov_xfer_from_buf_def r flat_copied_def ix_flat_def
        put_at_def get_at_def min_def)
qed

lemma concat_iov_memset: "concat (spdk_iov_memset iovs c) = replicate (length (concat iovs)) c"
  by (induction iovs c rule: spdk_iov_memset.induct) (simp_all add: replicate_add)

lemma shape_iov_memset: "map length (spdk_iov_memset iovs c) = map length iovs"
  by (induction iovs c rule: spdk_iov_memset.induct) simp_all

text \<open>
  The contract the command handlers rely on: a scatter-gather array is a fixed-size flat buffer
  with a fill, a store of a prefix and a load of a prefix.
\<close>

locale flat_buffer =
  fixes flat :: "'b \<Rightarrow> byte list"
    and fill :: "'b \<Rightarrow> byte \<Rightarrow> 'b"
    and store :: "'b \<Rightarrow> byte list \<Rightarrow> 'b"
    and load :: "byte list \<Rightarrow> 'b \<Rightarrow> byte list"
  assumes flat_fill: "flat (fill b c) = replicate (length (flat b)) c"
    and flat_store: "flat (store b xs) = take (length (flat b)) xs @ drop (length xs) (flat b)"
    and load_flat: "load buf b = take (length buf) (flat b) @ drop (length (flat b)) buf"
begin

lemma length_store: "length (flat (store b xs)) = length (flat b)"
  by (simp add: flat_store)

lemma load_store:
  "length xs \<le> length (flat b) \<Longrightarrow> length buf = length xs \<Longrightarrow> load buf (store b xs) = xs"
  by (simp add: load_flat flat_store)

lemma store_after_fill:
  "flat (store (fill b c) xs) =
     take (length (flat b)) xs @ replicate (length (flat b) - length xs) c"
  by (simp add: flat_store flat_fill)

end

interpretation iov: flat_buffer concat spdk_iov_memset spdk_copy_buf_to_iovs spdk_copy_iovs_to_buf
  by unfold_locales (simp_all add: concat_iov_memset copy_buf_to_iovs_flat copy_iovs_to_buf_flat)

subsection \<open>Properties\<close>

text \<open>
  C36: What is copied from a buffer into a scatter-gather array that can hold it is read back
  unchanged, and the array keeps its segments' lengths.
\<close>

theorem iov_store_load_roundtrip:
  assumes "length xs \<le> length (concat iovs)"
  shows "spdk_copy_iovs_to_buf (replicate (length xs) 0) (spdk_copy_buf_to_iovs iovs xs) = xs \<and>
    map length (spdk_copy_buf_to_iovs iovs xs) = map length iovs"
  using iov.load_store [OF assms, of "replicate (length xs) 0"] copy_buf_to_iovs_flat(2) by simp

theorem iov_store_load_roundtrip_witness:
  "spdk_copy_iovs_to_buf (replicate 3 0) (spdk_copy_buf_to_iovs [[9, 9], [], [9, 9]] [1, 2, 3]) = [1, 2, 3 :: byte]"
  using iov_store_load_roundtrip [of "[1, 2, 3]" "[[9, 9], [], [9, 9]]"] by (simp add: numeral_3_eq_3)

text \<open>Filling and then storing leaves the bytes stored, followed by the fill byte.\<close>

theorem iov_clear_then_store:
  "concat (spdk_copy_buf_to_iovs (spdk_iov_memset iovs c) xs) =
     take (length (concat iovs)) xs @ replicate (length (concat iovs) - length xs) c"
  by (rule iov.store_after_fill)

end
