(* ===== verification/Iov_Iter.thy ===== *)
theory Iov_Iter
  imports Iov
begin

section \<open>The iterator over several scatter-gather arrays (\<open>spdk/lib/util/iov.c\<close>)\<close>

text \<open>
  \<open>spdk_ioviter\<close> walks several arrays at once, in chunks that are contiguous in all of them. An
  iterator keeps the segment lengths of its array, the current segment, how many bytes of it are
  left (\<open>iov_len\<close>) and how far \<open>iov_base\<close> has moved into it.
\<close>

record spdk_single_ioviter =
  it_lens :: "nat list"
  it_idx :: nat
  it_len :: nat
  it_base :: nat

type_synonym spdk_ioviter = "spdk_single_ioviter list"

definition UINT32_MAX :: nat where
  "UINT32_MAX = 4294967295"

text \<open>
  The first loop of \<open>spdk_ioviter_nextv\<close>: the smallest remaining segment, or \<open>None\<close> where the source
  returns 0. (\<open>idx\<close> never passes \<open>iovcnt\<close>, so \<open>\<ge>\<close> is the source's equality.)
\<close>

fun ioviter_min_len :: "nat \<Rightarrow> spdk_ioviter \<Rightarrow> nat option" where
  "ioviter_min_len len [] = Some len"
| "ioviter_min_len len (it # its) =
     (if it_idx it \<ge> length (it_lens it) \<or> it_len it = 0 then None
      else ioviter_min_len (min len (it_len it)) its)"

text \<open>The second loop advances every iterator by \<open>len\<close>.\<close>

definition ioviter_advance :: "nat \<Rightarrow> spdk_single_ioviter \<Rightarrow> spdk_single_ioviter" where
  "ioviter_advance len it =
     (if it_len it = len
      then (let it' = it\<lparr>it_idx := Suc (it_idx it)\<rparr>
            in if it_idx it' \<noteq> length (it_lens it')
               then it'\<lparr>it_len := it_lens it' ! it_idx it', it_base := 0\<rparr> else it')
      else it\<lparr>it_base := it_base it + len, it_len := it_len it - len\<rparr>)"

text \<open>Each output pointer is a segment index and an offset into that segment.\<close>

definition spdk_ioviter_nextv :: "spdk_ioviter \<Rightarrow> nat \<times> spdk_ioviter \<times> (nat \<times> nat) list" where
  "spdk_ioviter_nextv iters =
     (case ioviter_min_len UINT32_MAX iters of
        None \<Rightarrow> (0, iters, [])
      | Some len \<Rightarrow> (len, map (ioviter_advance len) iters, map (\<lambda>it. (it_idx it, it_base it)) iters))"

text \<open>\<open>firstv\<close> reads the first segment of every array, so every array has one.\<close>

definition ioviter_start :: "nat list \<Rightarrow> spdk_single_ioviter" where
  "ioviter_start lens = \<lparr>it_lens = lens, it_idx = 0, it_len = hd lens, it_base = 0\<rparr>"

definition spdk_ioviter_firstv :: "nat list list \<Rightarrow> nat \<times> spdk_ioviter \<times> (nat \<times> nat) list" where
  "spdk_ioviter_firstv lenss = spdk_ioviter_nextv (map ioviter_start lenss)"

subsection \<open>What one iterator has left\<close>








subsection \<open>\<open>spdk_iovcpy\<close>\<close>






subsection \<open>The copy on the flat buffers\<close>








subsection \<open>Property\<close>



end
