(* ===== verification/Nvmf_Request.thy ===== *)
theory Nvmf_Request
  imports Bdev Iov_Iter
begin

section \<open>NVMe-oF requests\<close>

text \<open>
  The request of \<open>include/spdk/nvmf_transport.h\<close>: the command, the response being built, the
  data buffers, and the direction the data moves. \<open>spdk_nvmf_req_get_xfer\<close> determines the
  direction, with the two special cases added for the near-data commands. The thread state holds
  the block device channel and the statistic the handlers update.
\<close>

datatype spdk_nvmf_zcopy_phase =
    NVMF_ZCOPY_PHASE_NONE
  | NVMF_ZCOPY_PHASE_INIT
  | NVMF_ZCOPY_PHASE_EXECUTE
  | NVMF_ZCOPY_PHASE_END_PENDING
  | NVMF_ZCOPY_PHASE_COMPLETE
  | NVMF_ZCOPY_PHASE_INIT_FAILED

datatype spdk_nvmf_request_exec_status =
    SPDK_NVMF_REQUEST_EXEC_STATUS_COMPLETE
  | SPDK_NVMF_REQUEST_EXEC_STATUS_ASYNCHRONOUS

text \<open>
  What the handlers name to the block layer. Buffers: the iovec array of a request, the base of its
  first element, a buffer the handler allocated, a ciphertext buffer of the near-data addition at an offset.
  Callbacks: the completion functions and, for a request waiting for a descriptor, the resubmit
  functions; each with the identity of its request.
\<close>

datatype nvmf_buf =
    Req_Iov nat
  | Req_Iov0 nat
  | Dma_Buf nat
  | Cip_Buf nat nat

datatype nvmf_cb =
    Complete_Cmd nat
  | Complete_Admin_Cmd nat
  | Complete_Abort_Cmd nat
  | Complete_Cmd_Custom nat
  | Unmap_Cpl nat
  | Zcopy_Start_Complete nat
  | Zcopy_End_Complete nat
  | First_Read_Complete nat
  | Second_Read_Complete nat
  | Heaan_Buffer_Fill_Complete nat
  | Heaan_Cip_Write_Complete nat
  | Process_Io_Cmd_Resubmit nat
  | Process_Admin_Cmd_Resubmit nat
  | Unmap_Resubmit nat

type_synonym nvmf_channel = "(nvmf_buf, nvmf_cb) bdev_channel"
type_synonym nvmf_bdev_io = "(nvmf_buf, nvmf_cb) bdev_io"

record spdk_nvmf_request =
  req_id :: nat
  req_length :: u32
  xfer :: spdk_nvme_data_transfer
  first_fused :: bool
  zcopy_phase :: spdk_nvmf_zcopy_phase
  req_cmd :: spdk_nvme_cmd
  fctype :: u8
  rsp :: spdk_nvme_cpl
  req_memory_domain :: "nat option"
  req_accel_sequence :: "nat option"
  iov :: iovs
  first_fused_req :: "nat option"
  zcopy_bdev_io :: "nvmf_bdev_io option"

text \<open>
  The state of the thread that runs the handlers: the channel, and \<open>stat.pending_bdev_io\<close> of the
  poll group.
\<close>

record nvmf_thread =
  bch :: nvmf_channel
  pending_bdev_io :: nat

text \<open>
  What a completion callback does besides updating the request, in order: \<open>spdk_nvmf_request_complete\<close>
  with the response as it is then, and \<open>spdk_bdev_free_io\<close>.
\<close>

datatype nvmf_event =
    Request_Complete nat spdk_nvme_cpl
  | Bdev_Free_Io

subsection \<open>Data transfer direction\<close>

definition spdk_nvmf_req_get_xfer :: "spdk_nvmf_request \<Rightarrow> spdk_nvme_data_transfer" where
  "spdk_nvmf_req_get_xfer req =
     (let cmd = req_cmd req; sgl = sgl1 cmd in
      if opc cmd = 0xD0 then SPDK_NVME_DATA_CONTROLLER_TO_HOST
      else if opc cmd = 0xE0 then SPDK_NVME_DATA_HOST_TO_CONTROLLER
      else
        let x = (if opc cmd = SPDK_NVME_OPC_FABRIC
                 then spdk_nvme_opc_get_data_transfer (fctype req)
                 else spdk_nvme_opc_get_data_transfer (opc cmd))
        in if x = SPDK_NVME_DATA_NONE then x
           else if sgl_type sgl \<in> {0x0, 0x1, 0x2, 0x3, 0x5} then
             (if sgl_unkeyed_length sgl = 0 then SPDK_NVME_DATA_NONE else x)
           else if sgl_type sgl = 0x4 then
             (if sgl_keyed_length sgl = 0 then SPDK_NVME_DATA_NONE else x)
           else x)"

text \<open>The response fields the handlers set, through the request.\<close>

definition upd_rsp :: "(spdk_nvme_cpl \<Rightarrow> spdk_nvme_cpl) \<Rightarrow> spdk_nvmf_request \<Rightarrow> spdk_nvmf_request" where
  "upd_rsp f req = req\<lparr>rsp := f (rsp req)\<rparr>"

definition set_sc :: "u8 \<Rightarrow> spdk_nvme_cpl \<Rightarrow> spdk_nvme_cpl" where
  "set_sc c cpl = cpl\<lparr>status := (status cpl)\<lparr>sc := c\<rparr>\<rparr>"

definition set_dnr :: "spdk_nvme_cpl \<Rightarrow> spdk_nvme_cpl" where
  "set_dnr cpl = cpl\<lparr>status := (status cpl)\<lparr>dnr := True\<rparr>\<rparr>"

definition set_result :: "u32 \<Rightarrow> 3 word \<Rightarrow> u8 \<Rightarrow> spdk_nvme_cpl \<Rightarrow> spdk_nvme_cpl" where
  "set_result c0 t c cpl = (set_status t c cpl)\<lparr>cdw0 := c0\<rparr>"

definition req_iovs :: "spdk_nvmf_request \<Rightarrow> nvmf_buf io_iovs" where
  "req_iovs req = Iov_Array (Req_Iov (req_id req)) (map length (iov req))"

lemma rsp_upd_rsp [simp]: "rsp (upd_rsp f req) = f (rsp req)"
  by (simp add: upd_rsp_def)

lemma upd_rsp_simps [simp]:
  "req_id (upd_rsp f req) = req_id req"
  "iov (upd_rsp f req) = iov req"
  "req_cmd (upd_rsp f req) = req_cmd req"
  "req_length (upd_rsp f req) = req_length req"
  "zcopy_phase (upd_rsp f req) = zcopy_phase req"
  by (simp_all add: upd_rsp_def)

lemma set_result_simps [simp]:
  "cdw0 (set_result c0 t c cpl) = c0"
  "sct (status (set_result c0 t c cpl)) = t"
  "sc (status (set_result c0 t c cpl)) = c"
  by (simp_all add: set_result_def)

end
