(* ===== verification/Samples.thy ===== *)
theory Samples
  imports Nvmf_Request
begin

section \<open>Sample objects\<close>

text \<open>
  A small block device, its descriptor, a fresh channel and thread, and an empty request: the
  concrete inputs at which the theorems are applied.
\<close>

definition sample_bdev :: spdk_bdev where
  "sample_bdev = \<lparr>io_type_supported = (\<lambda>t. True), blocklen = 512, phys_blocklen = 4096, blockcnt = 1000,
     split_on_write_unit = False, write_unit_size = 1, acwu = 8,
     split_on_optimal_io_boundary = False, optimal_io_boundary = 0,
     max_segment_size = 0, max_num_segments = 0, max_unmap = 0, max_unmap_segments = 0,
     max_write_zeroes = 0, max_copy = 0, max_rw_size = 0, md_len = 0, md_interleave = False,
     dif_check_flags = 0\<rparr>"

definition sample_desc :: spdk_bdev_desc where
  "sample_desc = \<lparr>desc_bdev = sample_bdev, desc_write = True, memory_domains_supported = True,
     accel_sequence_supported = (\<lambda>t. True)\<rparr>"

definition sample_channel :: nvmf_channel where
  "sample_channel = \<lparr>per_thread_cache_count = 4, bdev_io_cache_size = 4, bdev_io_pool = 16,
     io_wait_queue = [], locked_ranges = [], reset_in_progress = False, accel_memory_domain = None,
     handed = []\<rparr>"

definition sample_thread :: nvmf_thread where
  "sample_thread = \<lparr>bch = sample_channel, pending_bdev_io = 0\<rparr>"

definition busy_thread :: nvmf_thread where
  "busy_thread = \<lparr>bch = sample_channel\<lparr>per_thread_cache_count := 0, bdev_io_pool := 0\<rparr>, pending_bdev_io = 0\<rparr>"

definition sample_cmd :: spdk_nvme_cmd where
  "sample_cmd = \<lparr>opc = 0x02, fuse = 0, psdt = 0, cid = 7, nsid = 1, mptr = 0,
     sgl1 = \<lparr>sgl_address = 0, sgl_dw2 = 4096, sgl_subtype = 0, sgl_type = 0\<rparr>,
     cdw10 = 0, cdw11 = 0, cdw12 = 0, cdw13 = 0, cdw14 = 0, cdw15 = 0\<rparr>"

definition sample_cpl :: spdk_nvme_cpl where
  "sample_cpl = \<lparr>cdw0 = 0, cdw1 = 0, sqhd = 0, sqid = 1, cpl_cid = 7,
     status = \<lparr>sc = 0, sct = 0, crd = 0, m_more = False, dnr = False\<rparr>\<rparr>"

definition sample_req :: spdk_nvmf_request where
  "sample_req = \<lparr>req_id = 3, req_length = 4, xfer = SPDK_NVME_DATA_CONTROLLER_TO_HOST,
     first_fused = False, zcopy_phase = NVMF_ZCOPY_PHASE_NONE, req_cmd = sample_cmd, fctype = 0,
     rsp = sample_cpl, req_memory_domain = None, req_accel_sequence = None,
     iov = [replicate 4 0], first_fused_req = None, zcopy_bdev_io = None\<rparr>"

definition ok_result :: bdev_io_result where
  "ok_result = \<lparr>io_status = SPDK_BDEV_IO_STATUS_SUCCESS, err_cdw0 = 0, err_sct = 0, err_sc = 0\<rparr>"

definition failed_result :: bdev_io_result where
  "failed_result = \<lparr>io_status = SPDK_BDEV_IO_STATUS_FAILED, err_cdw0 = 0, err_sct = 0, err_sc = 0\<rparr>"

lemmas sample_defs = sample_bdev_def sample_desc_def sample_channel_def sample_thread_def
  busy_thread_def sample_cmd_def sample_cpl_def sample_req_def ok_result_def failed_result_def

subsection \<open>The block layer at the sample device\<close>

lemma sample_bytes_to_blocks: "bdev_bytes_to_blocks sample_bdev 8192 4096 = (16, 8, 0)"
  by (simp add: bytes_to_blocks_div sample_bdev_def)

theorem bytes_to_blocks_is_division_witness:
  "unat (16 :: u64) = unat (8192 :: u64) div unat (blocklen sample_bdev) \<and>
   unat (blocklen sample_bdev) dvd unat (8192 :: u64)"
proof -
  have "blocklen sample_bdev \<noteq> 0" by (simp add: sample_bdev_def)
  from bytes_to_blocks_is_division [OF this sample_bytes_to_blocks] show ?thesis by blast
qed

theorem nvme_status_roundtrip_witness:
  "spdk_bdev_io_get_nvme_status SPDK_BDEV_IO_TYPE_READ (complete_nvme_status 5 2 0x81) = (5, 2, 0x81)"
  using nvme_status_roundtrip [of SPDK_BDEV_IO_TYPE_READ 5 2 "0x81"] by simp

end
