(* ===== verification/Ctrlr_Bdev.thy ===== *)
theory Ctrlr_Bdev
  imports Nvmf_Request Samples
begin

section \<open>Standard NVM command handlers\<close>

text \<open>
  The handlers of \<open>lib/nvmf/ctrlr_bdev.c\<close> for the NVM command set: one definition per handler and
  completion callback, with every guard of the source and in its order. A handler takes the
  descriptor of the namespace's block device, the thread state and the request; it gives the
  execution status, the thread state and the request. A callback takes the result of the I/O and
  gives the request and what it did.
\<close>

subsection \<open>Parameters and ranges\<close>

definition nvmf_bdev_ctrlr_get_rw_params :: "spdk_nvme_cmd \<Rightarrow> u64 \<times> u64" where
  "nvmf_bdev_ctrlr_get_rw_params cmd =
     (from_le64_cdw10 cmd, ucast ((cdw12 cmd AND 0xFFFF) + 1))"

definition nvmf_bdev_ctrlr_get_rw_ext_params ::
  "spdk_nvme_cmd \<Rightarrow> nvmf_buf spdk_bdev_ext_io_opts \<Rightarrow> nvmf_buf spdk_bdev_ext_io_opts" where
  "nvmf_bdev_ctrlr_get_rw_ext_params cmd opts =
     opts\<lparr>opts_nvme_cdw12 := cdw12 cmd, opts_nvme_cdw13 := cdw13 cmd\<rparr>"

definition nvmf_bdev_ctrlr_lba_in_range :: "u64 \<Rightarrow> u64 \<Rightarrow> u64 \<Rightarrow> bool" where
  "nvmf_bdev_ctrlr_lba_in_range bdev_num_blocks io_start_lba io_num_blocks =
     (if bdev_num_blocks < io_start_lba + io_num_blocks \<or> io_start_lba + io_num_blocks < io_start_lba
      then False else True)"

definition nvmf_bdev_ctrl_queue_io :: "nvmf_thread \<Rightarrow> nvmf_cb \<Rightarrow> nvmf_thread" where
  "nvmf_bdev_ctrl_queue_io th w =
     th\<lparr>bch := snd (spdk_bdev_queue_io_wait (bch th) (Wait_Caller w)),
        pending_bdev_io := pending_bdev_io th + 1\<rparr>"

definition nvmf_bdev_zcopy_enabled :: "spdk_bdev \<Rightarrow> bool" where
  "nvmf_bdev_zcopy_enabled bdev = spdk_bdev_io_type_supported bdev SPDK_BDEV_IO_TYPE_ZCOPY"

text \<open>
  The tail every handler has after its submit function: out of descriptors, the request waits and
  is resubmitted; on any other error the response is filled in and the request is complete.
\<close>

definition after_submit ::
  "nvmf_cb \<Rightarrow> (errno \<Rightarrow> spdk_nvme_cpl \<Rightarrow> spdk_nvme_cpl) \<Rightarrow> nvmf_thread \<Rightarrow> spdk_nvmf_request
     \<Rightarrow> rc \<times> nvmf_channel \<Rightarrow> spdk_nvmf_request_exec_status \<times> nvmf_thread \<times> spdk_nvmf_request" where
  "after_submit w err th req res =
     (case res of (r, ch) \<Rightarrow>
      let th' = th\<lparr>bch := ch\<rparr> in
      case r of
        None \<Rightarrow> (SPDK_NVMF_REQUEST_EXEC_STATUS_ASYNCHRONOUS, th', req)
      | Some e \<Rightarrow>
          if e = ENOMEM
          then (SPDK_NVMF_REQUEST_EXEC_STATUS_ASYNCHRONOUS, nvmf_bdev_ctrl_queue_io th' w, req)
          else (SPDK_NVMF_REQUEST_EXEC_STATUS_COMPLETE, th', upd_rsp (err e) req))"

definition complete_with ::
  "spdk_nvme_generic_command_status_code \<Rightarrow> nvmf_thread \<Rightarrow> spdk_nvmf_request
     \<Rightarrow> spdk_nvmf_request_exec_status \<times> nvmf_thread \<times> spdk_nvmf_request" where
  "complete_with c th req = (SPDK_NVMF_REQUEST_EXEC_STATUS_COMPLETE, th, upd_rsp (set_generic c) req)"

definition internal_error :: "errno \<Rightarrow> spdk_nvme_cpl \<Rightarrow> spdk_nvme_cpl" where
  "internal_error e = set_generic SPDK_NVME_SC_INTERNAL_DEVICE_ERROR"

subsection \<open>Read, write and compare\<close>

definition read_opts :: "spdk_nvmf_request \<Rightarrow> nvmf_buf spdk_bdev_ext_io_opts" where
  "read_opts req = \<lparr>opts_size = SIZEOF_OPTS_ACCEL_SEQUENCE, opts_memory_domain = req_memory_domain req,
     opts_metadata = Null, opts_accel_sequence = req_accel_sequence req,
     opts_dif_check_flags_exclude_mask = 0, opts_nvme_cdw12 = 0, opts_nvme_cdw13 = 0\<rparr>"

definition write_opts :: "spdk_nvmf_request \<Rightarrow> nvmf_buf spdk_bdev_ext_io_opts" where
  "write_opts req = \<lparr>opts_size = SIZEOF_OPTS, opts_memory_domain = req_memory_domain req,
     opts_metadata = Null, opts_accel_sequence = req_accel_sequence req,
     opts_dif_check_flags_exclude_mask = 0, opts_nvme_cdw12 = 0, opts_nvme_cdw13 = 0\<rparr>"

definition nvmf_bdev_ctrlr_read_cmd ::
  "spdk_bdev_desc \<Rightarrow> nvmf_thread \<Rightarrow> spdk_nvmf_request
     \<Rightarrow> spdk_nvmf_request_exec_status \<times> nvmf_thread \<times> spdk_nvmf_request" where
  "nvmf_bdev_ctrlr_read_cmd desc th req =
     (let bdev = desc_bdev desc;
          (start_lba, nlb) = nvmf_bdev_ctrlr_get_rw_params (req_cmd req)
      in
      if \<not> nvmf_bdev_ctrlr_lba_in_range (blockcnt bdev) start_lba nlb
      then complete_with SPDK_NVME_SC_LBA_OUT_OF_RANGE th req
      else if ucast (req_length req) < nlb * ucast (blocklen bdev)
      then complete_with SPDK_NVME_SC_DATA_SGL_LENGTH_INVALID th req
      else after_submit (Process_Io_Cmd_Resubmit (req_id req)) internal_error th req
             (spdk_bdev_readv_blocks_ext desc (bch th) (req_iovs req) start_lba nlb
                (Caller_Cb (Complete_Cmd (req_id req))) (Some (read_opts req))))"

definition nvmf_bdev_ctrlr_write_cmd ::
  "spdk_bdev_desc \<Rightarrow> nvmf_thread \<Rightarrow> spdk_nvmf_request
     \<Rightarrow> spdk_nvmf_request_exec_status \<times> nvmf_thread \<times> spdk_nvmf_request" where
  "nvmf_bdev_ctrlr_write_cmd desc th req =
     (let bdev = desc_bdev desc;
          (start_lba, nlb) = nvmf_bdev_ctrlr_get_rw_params (req_cmd req);
          opts = nvmf_bdev_ctrlr_get_rw_ext_params (req_cmd req) (write_opts req)
      in
      if \<not> nvmf_bdev_ctrlr_lba_in_range (blockcnt bdev) start_lba nlb
      then complete_with SPDK_NVME_SC_LBA_OUT_OF_RANGE th req
      else if ucast (req_length req) < nlb * ucast (blocklen bdev)
      then complete_with SPDK_NVME_SC_DATA_SGL_LENGTH_INVALID th req
      else after_submit (Process_Io_Cmd_Resubmit (req_id req)) internal_error th req
             (spdk_bdev_writev_blocks_ext desc (bch th) (req_iovs req) start_lba nlb
                (Caller_Cb (Complete_Cmd (req_id req))) (Some opts)))"

definition nvmf_bdev_ctrlr_compare_cmd ::
  "spdk_bdev_desc \<Rightarrow> nvmf_thread \<Rightarrow> spdk_nvmf_request
     \<Rightarrow> spdk_nvmf_request_exec_status \<times> nvmf_thread \<times> spdk_nvmf_request" where
  "nvmf_bdev_ctrlr_compare_cmd desc th req =
     (let bdev = desc_bdev desc;
          (start_lba, nlb) = nvmf_bdev_ctrlr_get_rw_params (req_cmd req)
      in
      if \<not> nvmf_bdev_ctrlr_lba_in_range (blockcnt bdev) start_lba nlb
      then complete_with SPDK_NVME_SC_LBA_OUT_OF_RANGE th req
      else if ucast (req_length req) < nlb * ucast (blocklen bdev)
      then complete_with SPDK_NVME_SC_DATA_SGL_LENGTH_INVALID th req
      else after_submit (Process_Io_Cmd_Resubmit (req_id req)) internal_error th req
             (spdk_bdev_comparev_blocks desc (bch th) (req_iovs req) start_lba nlb
                (Caller_Cb (Complete_Cmd (req_id req)))))"

text \<open>
  The fused pair. Only the write request's response is set on an error; out of descriptors, both
  requests are queued. \<open>calloc_ok\<close> is the allocation in the block layer's emulation.
\<close>

definition nvmf_bdev_ctrlr_compare_and_write_cmd ::
  "bool \<Rightarrow> spdk_bdev_desc \<Rightarrow> nvmf_thread \<Rightarrow> spdk_nvmf_request \<Rightarrow> spdk_nvmf_request
     \<Rightarrow> spdk_nvmf_request_exec_status \<times> nvmf_thread \<times> spdk_nvmf_request" where
  "nvmf_bdev_ctrlr_compare_and_write_cmd calloc_ok desc th cmp_req write_req =
     (let bdev = desc_bdev desc;
          (cmp_lba, cmp_nlb) = nvmf_bdev_ctrlr_get_rw_params (req_cmd cmp_req);
          (write_lba, write_nlb) = nvmf_bdev_ctrlr_get_rw_params (req_cmd write_req)
      in
      if write_lba \<noteq> cmp_lba \<or> write_nlb \<noteq> cmp_nlb
      then complete_with SPDK_NVME_SC_INVALID_FIELD th write_req
      else if \<not> nvmf_bdev_ctrlr_lba_in_range (blockcnt bdev) write_lba write_nlb
      then complete_with SPDK_NVME_SC_LBA_OUT_OF_RANGE th write_req
      else if ucast (req_length write_req) < write_nlb * ucast (blocklen bdev)
      then complete_with SPDK_NVME_SC_DATA_SGL_LENGTH_INVALID th write_req
      else
        case spdk_bdev_comparev_and_writev_blocks calloc_ok desc (bch th) (req_iovs cmp_req)
               (req_iovs write_req) write_lba write_nlb (Caller_Cb (Complete_Cmd (req_id write_req))) of
          (r, ch) \<Rightarrow>
          let th' = th\<lparr>bch := ch\<rparr> in
          (case r of
             None \<Rightarrow> (SPDK_NVMF_REQUEST_EXEC_STATUS_ASYNCHRONOUS, th', write_req)
           | Some e \<Rightarrow>
               if e = ENOMEM
               then (SPDK_NVMF_REQUEST_EXEC_STATUS_ASYNCHRONOUS,
                     nvmf_bdev_ctrl_queue_io
                       (nvmf_bdev_ctrl_queue_io th' (Process_Io_Cmd_Resubmit (req_id cmp_req)))
                       (Process_Io_Cmd_Resubmit (req_id write_req)), write_req)
               else complete_with SPDK_NVME_SC_INTERNAL_DEVICE_ERROR th' write_req))"

subsection \<open>Write zeroes and flush\<close>

record spdk_nvmf_subsystem_limits =
  max_discard_size_kib :: u64
  max_write_zeroes_size_kib :: u64

definition nvmf_bdev_ctrlr_write_zeroes_cmd ::
  "spdk_nvmf_subsystem_limits \<Rightarrow> spdk_bdev_desc \<Rightarrow> nvmf_thread \<Rightarrow> spdk_nvmf_request
     \<Rightarrow> spdk_nvmf_request_exec_status \<times> nvmf_thread \<times> spdk_nvmf_request" where
  "nvmf_bdev_ctrlr_write_zeroes_cmd subsys desc th req =
     (let bdev = desc_bdev desc;
          max_size = max_write_zeroes_size_kib subsys;
          (start_lba, nlb) = nvmf_bdev_ctrlr_get_rw_params (req_cmd req)
      in
      if 0 < max_size \<and> push_bit 10 max_size div ucast (blocklen bdev) < nlb
      then complete_with SPDK_NVME_SC_INVALID_FIELD th req
      else if \<not> nvmf_bdev_ctrlr_lba_in_range (blockcnt bdev) start_lba nlb
      then complete_with SPDK_NVME_SC_LBA_OUT_OF_RANGE th req
      else if write_zeroes_deac (req_cmd req)
      then complete_with SPDK_NVME_SC_INVALID_FIELD th req
      else after_submit (Process_Io_Cmd_Resubmit (req_id req)) internal_error th req
             (spdk_bdev_write_zeroes_blocks desc (bch th) start_lba nlb
                (Caller_Cb (Complete_Cmd (req_id req)))))"

definition nvmf_bdev_ctrlr_flush_cmd ::
  "spdk_bdev_desc \<Rightarrow> nvmf_thread \<Rightarrow> spdk_nvmf_request
     \<Rightarrow> spdk_nvmf_request_exec_status \<times> nvmf_thread \<times> spdk_nvmf_request" where
  "nvmf_bdev_ctrlr_flush_cmd desc th req =
     (let bdev = desc_bdev desc in
      if \<not> spdk_bdev_io_type_supported bdev SPDK_BDEV_IO_TYPE_FLUSH
      then complete_with SPDK_NVME_SC_SUCCESS th req
      else after_submit (Process_Io_Cmd_Resubmit (req_id req))
             (\<lambda>e. set_sc (generic_sc SPDK_NVME_SC_INTERNAL_DEVICE_ERROR)) th req
             (spdk_bdev_flush_blocks desc (bch th) 0 (blockcnt bdev)
                (Caller_Cb (Complete_Cmd (req_id req)))))"

subsection \<open>Dataset management: unmap\<close>

record nvmf_bdev_ctrlr_unmap_ctx =
  unmap_count :: u32
  unmap_range_index :: u32

text \<open>
  The 16 bytes of a \<open>struct spdk_nvme_dsm_range\<close>: attributes, length, starting LBA.
\<close>

definition dsm_range_length :: "byte list \<Rightarrow> u32" where
  "dsm_range_length bs = word_of_nat (le_nat (get_at 4 4 bs))"

definition dsm_range_starting_lba :: "byte list \<Rightarrow> u64" where
  "dsm_range_starting_lba bs = le64_word (get_at 8 8 bs)"

text \<open>
  The function after its loop: free the context when no unmap is outstanding. A context that was
  freed is \<open>None\<close> in the result.
\<close>

definition unmap_done ::
  "nvmf_bdev_ctrlr_unmap_ctx \<Rightarrow> nvmf_thread \<Rightarrow> spdk_nvmf_request
     \<Rightarrow> spdk_nvmf_request_exec_status \<times> nvmf_bdev_ctrlr_unmap_ctx option \<times> nvmf_thread \<times> spdk_nvmf_request" where
  "unmap_done ctx th req =
     (if unmap_count ctx = 0 then (SPDK_NVMF_REQUEST_EXEC_STATUS_COMPLETE, None, th, req)
      else (SPDK_NVMF_REQUEST_EXEC_STATUS_ASYNCHRONOUS, Some ctx, th, req))"

text \<open>The loop over the ranges, with the number of iterations left, \<open>nr - i\<close>.\<close>

fun unmap_loop ::
  "nat \<Rightarrow> u64 \<Rightarrow> spdk_bdev_desc \<Rightarrow> spdk_iov_xfer \<Rightarrow> nvmf_bdev_ctrlr_unmap_ctx \<Rightarrow> nvmf_thread \<Rightarrow> spdk_nvmf_request
     \<Rightarrow> spdk_nvmf_request_exec_status \<times> nvmf_bdev_ctrlr_unmap_ctx option \<times> nvmf_thread \<times> spdk_nvmf_request" where
  "unmap_loop 0 max_discard desc ix ctx th req = unmap_done ctx th req"
| "unmap_loop (Suc k) max_discard desc ix ctx th req =
     (case spdk_iov_xfer_to_buf ix (replicate 16 0) of (ix', dsm_range, copied) \<Rightarrow>
      let lba = dsm_range_starting_lba dsm_range;
          lba_count = dsm_range_length dsm_range
      in
      if 0 < max_discard \<and>
         push_bit 10 max_discard div ucast (blocklen (desc_bdev desc)) < ucast lba_count
      then (SPDK_NVMF_REQUEST_EXEC_STATUS_COMPLETE, Some ctx, th,
            upd_rsp (set_generic SPDK_NVME_SC_INVALID_FIELD) req)
      else
        let ctx1 = ctx\<lparr>unmap_count := unmap_count ctx + 1\<rparr> in
        case spdk_bdev_unmap_blocks desc (bch th) lba (ucast lba_count)
               (Caller_Cb (Unmap_Cpl (req_id req))) of
          (None, ch) \<Rightarrow>
            unmap_loop k max_discard desc ix'
              (ctx1\<lparr>unmap_range_index := unmap_range_index ctx1 + 1\<rparr>) (th\<lparr>bch := ch\<rparr>) req
        | (Some e, ch) \<Rightarrow>
            if e = ENOMEM
            then (SPDK_NVMF_REQUEST_EXEC_STATUS_ASYNCHRONOUS, Some ctx1,
                  nvmf_bdev_ctrl_queue_io (th\<lparr>bch := ch\<rparr>) (Unmap_Resubmit (req_id req)), req)
            else unmap_done (ctx1\<lparr>unmap_count := unmap_count ctx1 - 1\<rparr>) (th\<lparr>bch := ch\<rparr>)
                   (upd_rsp (set_sc (generic_sc SPDK_NVME_SC_INTERNAL_DEVICE_ERROR)) req))"

definition nvmf_bdev_ctrlr_unmap ::
  "bool \<Rightarrow> spdk_nvmf_subsystem_limits \<Rightarrow> spdk_bdev_desc \<Rightarrow> nvmf_thread \<Rightarrow> spdk_nvmf_request
     \<Rightarrow> nvmf_bdev_ctrlr_unmap_ctx option
     \<Rightarrow> spdk_nvmf_request_exec_status \<times> nvmf_bdev_ctrlr_unmap_ctx option \<times> nvmf_thread \<times> spdk_nvmf_request" where
  "nvmf_bdev_ctrlr_unmap calloc_ok subsys desc th req unmap_ctx =
     (let nr = unat (dsm_nr (req_cmd req)) + 1 in
      if unat (req_length req) < nr * 16
      then (SPDK_NVMF_REQUEST_EXEC_STATUS_COMPLETE, unmap_ctx, th,
            upd_rsp (set_sc (generic_sc SPDK_NVME_SC_DATA_SGL_LENGTH_INVALID)) req)
      else
        let loop = (\<lambda>ctx r. unmap_loop (nr - unat (unmap_range_index ctx)) (max_discard_size_kib subsys)
                              desc (spdk_iov_xfer_init (iov r)) ctx th r) in
        case unmap_ctx of
          None \<Rightarrow>
            if \<not> calloc_ok
            then (SPDK_NVMF_REQUEST_EXEC_STATUS_COMPLETE, None, th,
                  upd_rsp (set_sc (generic_sc SPDK_NVME_SC_INTERNAL_DEVICE_ERROR)) req)
            else loop \<lparr>unmap_count = 0, unmap_range_index = 0\<rparr>
                   (upd_rsp (set_generic SPDK_NVME_SC_SUCCESS) req)
        | Some ctx \<Rightarrow> loop (ctx\<lparr>unmap_count := unmap_count ctx - 1\<rparr>) req)"

text \<open>The waiter discards the status the function returns.\<close>

definition nvmf_bdev_ctrlr_unmap_resubmit ::
  "bool \<Rightarrow> spdk_nvmf_subsystem_limits \<Rightarrow> spdk_bdev_desc \<Rightarrow> nvmf_thread \<Rightarrow> spdk_nvmf_request
     \<Rightarrow> nvmf_bdev_ctrlr_unmap_ctx \<Rightarrow> nvmf_bdev_ctrlr_unmap_ctx option \<times> nvmf_thread \<times> spdk_nvmf_request" where
  "nvmf_bdev_ctrlr_unmap_resubmit calloc_ok subsys desc th req ctx =
     snd (nvmf_bdev_ctrlr_unmap calloc_ok subsys desc th req (Some ctx))"

definition nvmf_bdev_ctrlr_unmap_cpl ::
  "nvmf_bdev_ctrlr_unmap_ctx \<Rightarrow> spdk_nvmf_request \<Rightarrow> spdk_bdev_io_type \<Rightarrow> bdev_io_result
     \<Rightarrow> nvmf_bdev_ctrlr_unmap_ctx option \<times> spdk_nvmf_request \<times> nvmf_event list" where
  "nvmf_bdev_ctrlr_unmap_cpl ctx req t res =
     (let ctx' = ctx\<lparr>unmap_count := unmap_count ctx - 1\<rparr>;
          req' = (if sct (status (rsp req)) = sct_code SPDK_NVME_SCT_GENERIC \<and>
                     sc (status (rsp req)) = generic_sc SPDK_NVME_SC_SUCCESS
                  then (case spdk_bdev_io_get_nvme_status t res of (c0, tc, c) \<Rightarrow>
                          upd_rsp (set_result c0 tc c) req)
                  else req)
      in if unmap_count ctx' = 0
         then (None, req', [Request_Complete (req_id req') (rsp req'), Bdev_Free_Io])
         else (Some ctx', req', [Bdev_Free_Io]))"

definition nvmf_bdev_ctrlr_dsm_cmd ::
  "bool \<Rightarrow> spdk_nvmf_subsystem_limits \<Rightarrow> spdk_bdev_desc \<Rightarrow> nvmf_thread \<Rightarrow> spdk_nvmf_request
     \<Rightarrow> spdk_nvmf_request_exec_status \<times> nvmf_bdev_ctrlr_unmap_ctx option \<times> nvmf_thread \<times> spdk_nvmf_request" where
  "nvmf_bdev_ctrlr_dsm_cmd calloc_ok subsys desc th req =
     (if dsm_ad (req_cmd req) then nvmf_bdev_ctrlr_unmap calloc_ok subsys desc th req None
      else case complete_with SPDK_NVME_SC_SUCCESS th req of (st, th', req') \<Rightarrow> (st, None, th', req'))"

subsection \<open>Copy\<close>

definition scc_slba :: "byte list \<Rightarrow> u64" where
  "scc_slba bs = le64_word (get_at 8 8 bs)"

definition scc_nlb :: "byte list \<Rightarrow> u16" where
  "scc_nlb bs = word_of_nat (le_nat (get_at 16 2 bs))"

definition nvmf_bdev_ctrlr_copy_cmd ::
  "spdk_bdev_desc \<Rightarrow> nvmf_thread \<Rightarrow> spdk_nvmf_request
     \<Rightarrow> spdk_nvmf_request_exec_status \<times> nvmf_thread \<times> spdk_nvmf_request" where
  "nvmf_bdev_ctrlr_copy_cmd desc th req =
     (let cmd = req_cmd req;
          sdlba = push_bit 32 (ucast (cdw11 cmd)) + ucast (cdw10 cmd) :: u64
      in
      if unat (req_length req) \<noteq> (unat (copy_nr cmd) + 1) * 32
      then complete_with SPDK_NVME_SC_DATA_SGL_LENGTH_INVALID th req
      else if 0 < copy_nr cmd
      then (SPDK_NVMF_REQUEST_EXEC_STATUS_COMPLETE, th,
            upd_rsp (set_status (sct_code SPDK_NVME_SCT_COMMAND_SPECIFIC)
                       SPDK_NVME_SC_CMD_SIZE_LIMIT_SIZE_EXCEEDED) req)
      else if copy_df cmd \<noteq> 0
      then complete_with SPDK_NVME_SC_INVALID_FIELD th req
      else
        let range_bytes = fst (snd (spdk_iov_xfer_to_buf (spdk_iov_xfer_init (iov req)) (replicate 32 0)))
        in after_submit (Process_Io_Cmd_Resubmit (req_id req)) internal_error th req
             (spdk_bdev_copy_blocks desc (bch th) sdlba (scc_slba range_bytes)
                (ucast (scc_nlb range_bytes) + 1) (Caller_Cb (Complete_Cmd (req_id req)))))"

subsection \<open>Passthrough and abort\<close>

definition nvmf_bdev_ctrlr_nvme_passthru_io ::
  "spdk_bdev_desc \<Rightarrow> nvmf_thread \<Rightarrow> spdk_nvmf_request
     \<Rightarrow> spdk_nvmf_request_exec_status \<times> nvmf_thread \<times> spdk_nvmf_request" where
  "nvmf_bdev_ctrlr_nvme_passthru_io desc th req =
     after_submit (Process_Io_Cmd_Resubmit (req_id req))
       (\<lambda>e. set_dnr \<circ> set_generic SPDK_NVME_SC_INVALID_OPCODE) th req
       (spdk_bdev_nvme_iov_passthru_md desc (bch th) (req_cmd req) (req_iovs req)
          (unat (req_length req)) Null (Caller_Cb (Complete_Cmd (req_id req))))"

definition spdk_nvmf_bdev_ctrlr_nvme_passthru_admin ::
  "spdk_bdev_desc \<Rightarrow> nvmf_thread \<Rightarrow> spdk_nvmf_request
     \<Rightarrow> spdk_nvmf_request_exec_status \<times> nvmf_thread \<times> spdk_nvmf_request" where
  "spdk_nvmf_bdev_ctrlr_nvme_passthru_admin desc th req =
     (if 1 < length (iov req)
      then (SPDK_NVMF_REQUEST_EXEC_STATUS_COMPLETE, th,
            upd_rsp (set_dnr \<circ> set_generic SPDK_NVME_SC_INTERNAL_DEVICE_ERROR) req)
      else after_submit (Process_Admin_Cmd_Resubmit (req_id req))
             (\<lambda>e. set_dnr \<circ> set_generic (if e = ENOTSUP then SPDK_NVME_SC_INVALID_OPCODE
                                       else SPDK_NVME_SC_INTERNAL_DEVICE_ERROR)) th req
             (spdk_bdev_nvme_admin_passthru desc (bch th) (req_cmd req) (Caller_Buf (Req_Iov0 (req_id req)))
                (unat (req_length req)) (Caller_Cb (Complete_Admin_Cmd (req_id req)))))"

definition nvmf_bdev_ctrlr_complete_abort_cmd ::
  "bool \<Rightarrow> spdk_nvmf_request \<Rightarrow> spdk_nvmf_request \<times> nvmf_event list" where
  "nvmf_bdev_ctrlr_complete_abort_cmd success req =
     (let req' = (if success then upd_rsp (\<lambda>c. c\<lparr>cdw0 := cdw0 c AND NOT 1\<rparr>) req else req)
      in (req', [Request_Complete (req_id req') (rsp req'), Bdev_Free_Io]))"

definition spdk_nvmf_bdev_ctrlr_abort_cmd ::
  "spdk_bdev_desc \<Rightarrow> nvmf_thread \<Rightarrow> spdk_nvmf_request \<Rightarrow> nat option
     \<Rightarrow> spdk_nvmf_request_exec_status \<times> nvmf_thread \<times> spdk_nvmf_request" where
  "spdk_nvmf_bdev_ctrlr_abort_cmd desc th req req_to_abort =
     after_submit (Process_Admin_Cmd_Resubmit (req_id req)) (\<lambda>e c. c) th req
       (spdk_bdev_abort desc (bch th) (map_option Complete_Cmd req_to_abort)
          (Caller_Cb (Complete_Abort_Cmd (req_id req))))"

subsection \<open>Zero copy\<close>

definition nvmf_bdev_ctrlr_zcopy_start_complete ::
  "spdk_nvmf_request \<Rightarrow> nvmf_bdev_io \<Rightarrow> iovs \<Rightarrow> bool \<Rightarrow> bdev_io_result
     \<Rightarrow> spdk_nvmf_request \<times> nvmf_event list" where
  "nvmf_bdev_ctrlr_zcopy_start_complete req io io_iov success res =
     (if \<not> success then
        (case spdk_bdev_io_get_nvme_status (io_type (u io)) res of (c0, tc, c) \<Rightarrow>
         let req' = upd_rsp (set_result c0 tc c) req
         in (req', [Bdev_Free_Io, Request_Complete (req_id req') (rsp req')]))
      else
        let req' = req\<lparr>iov := io_iov, zcopy_bdev_io := Some io\<rparr>
        in (req', [Request_Complete (req_id req') (rsp req')]))"

definition nvmf_bdev_ctrlr_zcopy_start ::
  "spdk_bdev_desc \<Rightarrow> nvmf_thread \<Rightarrow> spdk_nvmf_request
     \<Rightarrow> spdk_nvmf_request_exec_status \<times> nvmf_thread \<times> spdk_nvmf_request" where
  "nvmf_bdev_ctrlr_zcopy_start desc th req =
     (let bdev = desc_bdev desc;
          (start_lba, nlb) = nvmf_bdev_ctrlr_get_rw_params (req_cmd req)
      in
      if \<not> nvmf_bdev_ctrlr_lba_in_range (blockcnt bdev) start_lba nlb
      then complete_with SPDK_NVME_SC_LBA_OUT_OF_RANGE th req
      else if ucast (req_length req) < nlb * ucast (blocklen bdev)
      then complete_with SPDK_NVME_SC_DATA_SGL_LENGTH_INVALID th req
      else after_submit (Process_Io_Cmd_Resubmit (req_id req)) internal_error th req
             (spdk_bdev_zcopy_start desc (bch th) (req_iovs req) start_lba nlb
                (opc (req_cmd req) = nvm_opc SPDK_NVME_OPC_READ)
                (Caller_Cb (Zcopy_Start_Complete (req_id req)))))"

definition nvmf_bdev_ctrlr_zcopy_end_complete ::
  "spdk_nvmf_request \<Rightarrow> nvmf_bdev_io \<Rightarrow> bool \<Rightarrow> bdev_io_result \<Rightarrow> spdk_nvmf_request \<times> nvmf_event list" where
  "nvmf_bdev_ctrlr_zcopy_end_complete req io success res =
     (let req1 = (if \<not> success then
                    (case spdk_bdev_io_get_nvme_status (io_type (u io)) res of (c0, tc, c) \<Rightarrow>
                       upd_rsp (set_result c0 tc c) req)
                  else req);
          req' = req1\<lparr>zcopy_bdev_io := None\<rparr>
      in (req', [Bdev_Free_Io, Request_Complete (req_id req') (rsp req')]))"

definition nvmf_bdev_ctrlr_zcopy_end ::
  "nvmf_thread \<Rightarrow> spdk_nvmf_request \<Rightarrow> nvmf_bdev_io \<Rightarrow> bool \<Rightarrow> nvmf_thread" where
  "nvmf_bdev_ctrlr_zcopy_end th req io commit =
     th\<lparr>bch := snd (spdk_bdev_zcopy_end (bch th) io commit (Caller_Cb (Zcopy_End_Complete (req_id req))))\<rparr>"

subsection \<open>Completion of a command\<close>

text \<open>
  The common callback. The second request of a fused pair completes the first one too; it is passed
  with it.
\<close>

definition nvmf_bdev_ctrlr_complete_cmd ::
  "spdk_nvmf_request \<Rightarrow> spdk_nvmf_request \<Rightarrow> spdk_bdev_io_type \<Rightarrow> bdev_io_result
     \<Rightarrow> spdk_nvmf_request \<times> spdk_nvmf_request \<times> nvmf_event list" where
  "nvmf_bdev_ctrlr_complete_cmd req first_req t res =
     (if first_fused req then
        (case spdk_bdev_io_get_nvme_fused_status res of (c0, (first_sct, first_sc), (tc, c)) \<Rightarrow>
         let first_req' = upd_rsp (set_result c0 first_sct first_sc) first_req;
             req' = upd_rsp (set_result c0 tc c) (req\<lparr>first_fused_req := None, first_fused := False\<rparr>)
         in (req', first_req',
             [Request_Complete (req_id first_req') (rsp first_req'),
              Request_Complete (req_id req') (rsp req'), Bdev_Free_Io]))
      else
        (case spdk_bdev_io_get_nvme_status t res of (c0, tc, c) \<Rightarrow>
         let req' = upd_rsp (set_result c0 tc c) req
         in (req', first_req, [Request_Complete (req_id req') (rsp req'), Bdev_Free_Io])))"

text \<open>\<open>cmd_cb_fn\<close> is the function a custom admin handler may install; it runs first.\<close>

definition nvmf_bdev_ctrlr_complete_admin_cmd ::
  "(spdk_nvmf_request \<Rightarrow> spdk_nvmf_request) option \<Rightarrow> spdk_nvmf_request \<Rightarrow> spdk_nvmf_request
     \<Rightarrow> spdk_bdev_io_type \<Rightarrow> bdev_io_result \<Rightarrow> spdk_nvmf_request \<times> spdk_nvmf_request \<times> nvmf_event list" where
  "nvmf_bdev_ctrlr_complete_admin_cmd cmd_cb_fn req first_req t res =
     (let req' = (case cmd_cb_fn of None \<Rightarrow> req | Some f \<Rightarrow> f req)
      in nvmf_bdev_ctrlr_complete_cmd req' first_req t res)"

subsection \<open>Namespace capabilities\<close>

text \<open>A subsystem's namespaces, a namespace without a block device being \<open>None\<close>.\<close>

fun nvmf_subsystem_bdev_io_type_supported :: "spdk_bdev option list \<Rightarrow> spdk_bdev_io_type \<Rightarrow> bool" where
  "nvmf_subsystem_bdev_io_type_supported [] t = True"
| "nvmf_subsystem_bdev_io_type_supported (None # ns) t = nvmf_subsystem_bdev_io_type_supported ns t"
| "nvmf_subsystem_bdev_io_type_supported (Some bdev # ns) t =
     (if \<not> spdk_bdev_io_type_supported bdev t then False
      else nvmf_subsystem_bdev_io_type_supported ns t)"

definition nvmf_ctrlr_dsm_supported :: "spdk_bdev option list \<Rightarrow> bool" where
  "nvmf_ctrlr_dsm_supported ns = nvmf_subsystem_bdev_io_type_supported ns SPDK_BDEV_IO_TYPE_UNMAP"

definition nvmf_ctrlr_write_zeroes_supported :: "spdk_bdev option list \<Rightarrow> bool" where
  "nvmf_ctrlr_write_zeroes_supported ns = nvmf_subsystem_bdev_io_type_supported ns SPDK_BDEV_IO_TYPE_WRITE_ZEROES"

definition nvmf_ctrlr_copy_supported :: "spdk_bdev option list \<Rightarrow> bool" where
  "nvmf_ctrlr_copy_supported ns = nvmf_subsystem_bdev_io_type_supported ns SPDK_BDEV_IO_TYPE_COPY"

subsection \<open>Ranges: correctness\<close>

lemma lba_in_range_valid:
  "nvmf_bdev_ctrlr_lba_in_range (blockcnt bdev) start n = bdev_io_valid_blocks bdev start n"
  by (auto simp: nvmf_bdev_ctrlr_lba_in_range_def bdev_io_valid_blocks_def)

lemma rw_params_nat:
  assumes "nvmf_bdev_ctrlr_get_rw_params cmd = (start, n)"
  shows "unat start = unat (cdw10 cmd) + 2 ^ 32 * unat (cdw11 cmd)"
    and "unat n = unat (cdw12 cmd) mod 2 ^ 16 + 1"
proof -
  show "unat start = unat (cdw10 cmd) + 2 ^ 32 * unat (cdw11 cmd)"
    using assms from_le64_cdw10_nat [of cmd] by (simp add: nvmf_bdev_ctrlr_get_rw_params_def)
  have m: "unat (cdw12 cmd AND 0xFFFF) = unat (cdw12 cmd) mod 2 ^ 16"
  proof -
    have "cdw12 cmd AND 0xFFFF = take_bit 16 (cdw12 cmd)"
      by (simp add: take_bit_eq_mask mask_eq_exp_minus_1)
    then have "unat (cdw12 cmd AND 0xFFFF) = take_bit 16 (unat (cdw12 cmd))"
      by (simp only: unsigned_take_bit_eq)
    then show ?thesis by (simp only: take_bit_eq_mod)
  qed
  moreover have "unat (cdw12 cmd) mod 2 ^ 16 < 65536" by simp
  ultimately have "unat ((cdw12 cmd AND 0xFFFF) + 1) = unat (cdw12 cmd) mod 2 ^ 16 + 1"
    by (simp add: unat_plus_if')
  with assms show "unat n = unat (cdw12 cmd) mod 2 ^ 16 + 1"
    by (auto simp: nvmf_bdev_ctrlr_get_rw_params_def)
qed

lemma transfer_size_nat:
  assumes "nvmf_bdev_ctrlr_get_rw_params cmd = (start, n)"
  shows "unat (n * ucast (blocklen bdev)) = unat n * unat (blocklen bdev)"
proof -
  have "unat n \<le> 65536" using rw_params_nat(2) [OF assms] by simp
  moreover have "unat (blocklen bdev) < 4294967296" by (rule unat_bounds)
  ultimately have "unat n * unat (blocklen bdev) \<le> 65536 * 4294967296"
    by (intro mult_mono) simp_all
  then show ?thesis
    by (simp add: unat_mult_lem [THEN iffD1])
qed

subsection \<open>The contract of the transfer handlers\<close>

text \<open>
  Read, write and the zero-copy start check the range and the buffer, then submit. The contract is
  that shape over a submit function; the facts below follow from the block layer's contract.
\<close>

locale rw_handler =
  fixes op :: "spdk_nvmf_request \<Rightarrow> spdk_bdev_desc \<Rightarrow> nvmf_channel \<Rightarrow> u64 \<Rightarrow> u64
                 \<Rightarrow> (nvmf_buf, nvmf_cb) bdev_cb \<Rightarrow> rc \<times> nvmf_channel"
    and done_cb :: "nat \<Rightarrow> nvmf_cb"
    and handler :: "spdk_bdev_desc \<Rightarrow> nvmf_thread \<Rightarrow> spdk_nvmf_request
                 \<Rightarrow> spdk_nvmf_request_exec_status \<times> nvmf_thread \<times> spdk_nvmf_request"
  assumes submit: "bdev_submit (op req)"
    and shape: "nvmf_bdev_ctrlr_get_rw_params (req_cmd req) = (start, n) \<Longrightarrow>
      handler desc th req =
        (if \<not> nvmf_bdev_ctrlr_lba_in_range (blockcnt (desc_bdev desc)) start n
         then complete_with SPDK_NVME_SC_LBA_OUT_OF_RANGE th req
         else if ucast (req_length req) < n * ucast (blocklen (desc_bdev desc))
         then complete_with SPDK_NVME_SC_DATA_SGL_LENGTH_INVALID th req
         else after_submit (Process_Io_Cmd_Resubmit (req_id req)) internal_error th req
                (op req desc (bch th) start n (Caller_Cb (done_cb (req_id req)))))"
begin

lemma complete_is_error:
  assumes "handler desc th req = (SPDK_NVMF_REQUEST_EXEC_STATUS_COMPLETE, th', req')"
  shows "th' = th \<and> spdk_nvme_cpl_is_error (rsp req') \<and> iov req' = iov req"
proof -
  obtain start n where p: "nvmf_bdev_ctrlr_get_rw_params (req_cmd req) = (start, n)" by fastforce
  obtain r ch where o: "op req desc (bch th) start n (Caller_Cb (done_cb (req_id req))) = (r, ch)"
    by fastforce
  have "r = Some e \<Longrightarrow> ch = bch th" for e
    using bdev_submit.refused [OF submit] o by metis
  with assms show ?thesis
    by (auto simp: shape [OF p] complete_with_def after_submit_def o internal_error_def Let_def
             split: if_splits option.splits)
qed

lemma async_submits:
  assumes "nvmf_bdev_ctrlr_get_rw_params (req_cmd req) = (start, n)"
    and "handler desc th req = (SPDK_NVMF_REQUEST_EXEC_STATUS_ASYNCHRONOUS, th', req')"
  shows "req' = req \<and> unat start + unat n \<le> unat (blockcnt (desc_bdev desc)) \<and>
    unat n * unat (blocklen (desc_bdev desc)) \<le> unat (req_length req) \<and>
    ((\<exists>place io. handed (bch th') = handed (bch th) @ [(place, io)] \<and> offset_blocks (u io) = start \<and>
        num_blocks (u io) = n \<and> cb io = Caller_Cb (done_cb (req_id req))) \<or>
     per_thread_cache_count (bch th) = 0 \<and> handed (bch th') = handed (bch th) \<and>
     io_wait_queue (bch th') = io_wait_queue (bch th) @ [Wait_Caller (Process_Io_Cmd_Resubmit (req_id req))])"
proof -
  obtain r ch where o: "op req desc (bch th) start n (Caller_Cb (done_cb (req_id req))) = (r, ch)"
    by fastforce
  have range: "nvmf_bdev_ctrlr_lba_in_range (blockcnt (desc_bdev desc)) start n"
    and fits: "\<not> ucast (req_length req) < n * ucast (blocklen (desc_bdev desc))"
    and rest: "after_submit (Process_Io_Cmd_Resubmit (req_id req)) internal_error th req (r, ch) =
       (SPDK_NVMF_REQUEST_EXEC_STATUS_ASYNCHRONOUS, th', req')"
    using assms(2) by (simp_all add: shape [OF assms(1)] o complete_with_def split: if_splits)
  have "unat start + unat n \<le> unat (blockcnt (desc_bdev desc))"
    using range by (simp add: lba_in_range_valid valid_blocks_nat)
  moreover have "unat n * unat (blocklen (desc_bdev desc)) \<le> unat (req_length req)"
    using fits transfer_size_nat [OF assms(1), of "desc_bdev desc"] by (simp add: word_less_nat_alt)
  moreover have "r = None \<Longrightarrow> \<exists>place io. handed ch = handed (bch th) @ [(place, io)] \<and>
      offset_blocks (u io) = start \<and> num_blocks (u io) = n \<and> cb io = Caller_Cb (done_cb (req_id req))"
    using bdev_submit.hands_one [OF submit] o by metis
  moreover have "r = Some ENOMEM \<Longrightarrow> ch = bch th \<and> per_thread_cache_count (bch th) = 0"
    using bdev_submit.refused [OF submit] bdev_submit.nomem_blocked [OF submit] o by metis
  ultimately show ?thesis
    using rest by (auto simp: after_submit_def nvmf_bdev_ctrl_queue_io_def spdk_bdev_queue_io_wait_def
                        Let_def split: option.splits if_splits)
qed

end

interpretation rdc: rw_handler
  "\<lambda>req d ch off n c. spdk_bdev_readv_blocks_ext d ch (req_iovs req) off n c (Some (read_opts req))"
  Complete_Cmd nvmf_bdev_ctrlr_read_cmd
  by unfold_locales
     (auto simp: nvmf_bdev_ctrlr_read_cmd_def Let_def dest: rdv.refused rdv.accepted rdv.no_memory)

interpretation wrc: rw_handler
  "\<lambda>req d ch off n c. spdk_bdev_writev_blocks_ext d ch (req_iovs req) off n c
     (Some (nvmf_bdev_ctrlr_get_rw_ext_params (req_cmd req) (write_opts req)))"
  Complete_Cmd nvmf_bdev_ctrlr_write_cmd
  by unfold_locales
     (auto simp: nvmf_bdev_ctrlr_write_cmd_def Let_def dest: wrv.refused wrv.accepted wrv.no_memory)

interpretation zcs: rw_handler
  "\<lambda>req d ch off n. spdk_bdev_zcopy_start d ch (req_iovs req) off n
     (opc (req_cmd req) = nvm_opc SPDK_NVME_OPC_READ)"
  Zcopy_Start_Complete nvmf_bdev_ctrlr_zcopy_start
  by unfold_locales
     (auto simp: nvmf_bdev_ctrlr_zcopy_start_def Let_def dest: zc.refused zc.accepted zc.no_memory)

subsection \<open>Properties\<close>

text \<open>The range check of the NVM command handlers is exact.\<close>

theorem lba_in_range_iff:
  "nvmf_bdev_ctrlr_lba_in_range cnt start n \<longleftrightarrow> unat start + unat n \<le> unat cnt"
  using lba_in_range_valid [of "undefined\<lparr>blockcnt := cnt\<rparr>" start n]
    valid_blocks_nat [of "undefined\<lparr>blockcnt := cnt\<rparr>" start n] by simp

text \<open>
  C31: A Read that is not completed at once lies within the device, its blocks fit the data
  buffer, and it is either handed to the block layer once with its range and callback, or queued
  for resubmission because no descriptor was free.
\<close>

theorem read_cmd_submits_in_range:
  assumes "nvmf_bdev_ctrlr_get_rw_params (req_cmd req) = (start, n)"
    and "nvmf_bdev_ctrlr_read_cmd desc th req = (SPDK_NVMF_REQUEST_EXEC_STATUS_ASYNCHRONOUS, th', req')"
  shows "req' = req \<and> unat start + unat n \<le> unat (blockcnt (desc_bdev desc)) \<and>
    unat n * unat (blocklen (desc_bdev desc)) \<le> unat (req_length req) \<and>
    ((\<exists>place io. handed (bch th') = handed (bch th) @ [(place, io)] \<and> offset_blocks (u io) = start \<and>
        num_blocks (u io) = n \<and> cb io = Caller_Cb (Complete_Cmd (req_id req))) \<or>
     per_thread_cache_count (bch th) = 0 \<and> handed (bch th') = handed (bch th) \<and>
     io_wait_queue (bch th') = io_wait_queue (bch th) @ [Wait_Caller (Process_Io_Cmd_Resubmit (req_id req))])"
  using assms by (rule rdc.async_submits)

text \<open>A Write that is not completed at once lies within the device and its buffer.\<close>

theorem write_cmd_submits_in_range:
  assumes "nvmf_bdev_ctrlr_get_rw_params (req_cmd req) = (start, n)"
    and "nvmf_bdev_ctrlr_write_cmd desc th req = (SPDK_NVMF_REQUEST_EXEC_STATUS_ASYNCHRONOUS, th', req')"
  shows "req' = req \<and> unat start + unat n \<le> unat (blockcnt (desc_bdev desc)) \<and>
    unat n * unat (blocklen (desc_bdev desc)) \<le> unat (req_length req) \<and>
    ((\<exists>place io. handed (bch th') = handed (bch th) @ [(place, io)] \<and> offset_blocks (u io) = start \<and>
        num_blocks (u io) = n \<and> cb io = Caller_Cb (Complete_Cmd (req_id req))) \<or>
     per_thread_cache_count (bch th) = 0 \<and> handed (bch th') = handed (bch th) \<and>
     io_wait_queue (bch th') = io_wait_queue (bch th) @ [Wait_Caller (Process_Io_Cmd_Resubmit (req_id req))])"
  using assms by (rule wrc.async_submits)

text \<open>
  C32: A Write that the handler completes itself carries an error status, and neither the
  channel nor the data buffer has changed.
\<close>

theorem write_cmd_error_leaves_state:
  assumes "nvmf_bdev_ctrlr_write_cmd desc th req = (SPDK_NVMF_REQUEST_EXEC_STATUS_COMPLETE, th', req')"
  shows "th' = th \<and> spdk_nvme_cpl_is_error (rsp req') \<and> iov req' = iov req"
  using assms by (rule wrc.complete_is_error)

text \<open>A miscompare completes both requests of a fused pair, the compare first.\<close>

theorem fused_miscompare_status:
  assumes "first_fused req" "io_status res = SPDK_BDEV_IO_STATUS_MISCOMPARE"
    and "nvmf_bdev_ctrlr_complete_cmd req first_req t res = (req', first_req', ev)"
  shows "ev = [Request_Complete (req_id first_req) (rsp first_req'), Request_Complete (req_id req) (rsp req'),
               Bdev_Free_Io] \<and>
    sct (status (rsp first_req')) = sct_code SPDK_NVME_SCT_MEDIA_ERROR \<and>
    sc (status (rsp first_req')) = media_sc SPDK_NVME_SC_COMPARE_FAILURE \<and>
    sct (status (rsp req')) = sct_code SPDK_NVME_SCT_GENERIC \<and>
    sc (status (rsp req')) = generic_sc SPDK_NVME_SC_ABORTED_FAILED_FUSED \<and>
    \<not> first_fused req' \<and> first_fused_req req' = None"
  using assms
  by (auto simp: nvmf_bdev_ctrlr_complete_cmd_def spdk_bdev_io_get_nvme_fused_status_def Let_def upd_rsp_def)

subsection \<open>Witnesses\<close>

text \<open>Eight blocks at LBA 16, and a request whose range ends behind the device.\<close>

definition rw_req :: spdk_nvmf_request where
  "rw_req = sample_req\<lparr>req_cmd := sample_cmd\<lparr>cdw10 := 16, cdw12 := 7\<rparr>, req_length := 4096\<rparr>"

definition beyond_req :: spdk_nvmf_request where
  "beyond_req = sample_req\<lparr>req_cmd := sample_cmd\<lparr>cdw10 := 993, cdw12 := 7\<rparr>, req_length := 4096\<rparr>"

lemma sample_rw_params:
  "nvmf_bdev_ctrlr_get_rw_params (req_cmd rw_req) = (16, 8)"
  "nvmf_bdev_ctrlr_get_rw_params (req_cmd beyond_req) = (993, 8)"
  by (simp_all add: nvmf_bdev_ctrlr_get_rw_params_def from_le64_cdw10_def rw_req_def beyond_req_def sample_defs)

lemmas rw_sample_defs = sample_defs rw_req_def complete_with_def after_submit_def Let_def
  nvmf_bdev_ctrlr_lba_in_range_def bdev_io_valid_blocks_def bdev_channel_get_io_def
  opts_reject_def bdev_io_check_opts_def read_opts_def write_opts_def nvmf_bdev_ctrlr_get_rw_ext_params_def
  SIZEOF_OPTS_METADATA_def SIZEOF_OPTS_def SIZEOF_OPTS_ACCEL_SEQUENCE_def

lemma sample_read_async:
  "\<exists>th' req'. nvmf_bdev_ctrlr_read_cmd sample_desc sample_thread rw_req =
     (SPDK_NVMF_REQUEST_EXEC_STATUS_ASYNCHRONOUS, th', req')"
  using sample_rw_params(1)
  by (simp add: nvmf_bdev_ctrlr_read_cmd_def spdk_bdev_readv_blocks_ext_def bdev_readv_blocks_with_md_def
      rw_sample_defs)

lemma sample_write_async:
  "\<exists>th' req'. nvmf_bdev_ctrlr_write_cmd sample_desc sample_thread rw_req =
     (SPDK_NVMF_REQUEST_EXEC_STATUS_ASYNCHRONOUS, th', req')"
  using sample_rw_params(1)
  by (simp add: nvmf_bdev_ctrlr_write_cmd_def spdk_bdev_writev_blocks_ext_def bdev_writev_blocks_with_md_def
      rw_sample_defs)

theorem read_cmd_submits_in_range_witness:
  "\<exists>th' req'. nvmf_bdev_ctrlr_read_cmd sample_desc sample_thread rw_req =
     (SPDK_NVMF_REQUEST_EXEC_STATUS_ASYNCHRONOUS, th', req') \<and>
     (\<exists>place io. handed (bch th') = [(place, io)] \<and> offset_blocks (u io) = 16 \<and> num_blocks (u io) = 8)"
proof -
  obtain th' req' where r: "nvmf_bdev_ctrlr_read_cmd sample_desc sample_thread rw_req =
     (SPDK_NVMF_REQUEST_EXEC_STATUS_ASYNCHRONOUS, th', req')" using sample_read_async by blast
  have "handed (bch sample_thread) = []" "per_thread_cache_count (bch sample_thread) \<noteq> 0"
    by (simp_all add: sample_defs)
  with read_cmd_submits_in_range [OF sample_rw_params(1) r] r show ?thesis by auto
qed

theorem write_cmd_submits_in_range_witness:
  "\<exists>th' req'. nvmf_bdev_ctrlr_write_cmd sample_desc sample_thread rw_req =
     (SPDK_NVMF_REQUEST_EXEC_STATUS_ASYNCHRONOUS, th', req') \<and>
     (\<exists>place io. handed (bch th') = [(place, io)] \<and> offset_blocks (u io) = 16 \<and> num_blocks (u io) = 8)"
proof -
  obtain th' req' where r: "nvmf_bdev_ctrlr_write_cmd sample_desc sample_thread rw_req =
     (SPDK_NVMF_REQUEST_EXEC_STATUS_ASYNCHRONOUS, th', req')" using sample_write_async by blast
  have "handed (bch sample_thread) = []" "per_thread_cache_count (bch sample_thread) \<noteq> 0"
    by (simp_all add: sample_defs)
  with write_cmd_submits_in_range [OF sample_rw_params(1) r] r show ?thesis by auto
qed

theorem write_cmd_error_leaves_state_witness:
  "\<exists>req'. nvmf_bdev_ctrlr_write_cmd sample_desc sample_thread beyond_req =
     (SPDK_NVMF_REQUEST_EXEC_STATUS_COMPLETE, sample_thread, req') \<and> spdk_nvme_cpl_is_error (rsp req')"
proof -
  have "nvmf_bdev_ctrlr_write_cmd sample_desc sample_thread beyond_req =
     (SPDK_NVMF_REQUEST_EXEC_STATUS_COMPLETE, sample_thread,
      upd_rsp (set_generic SPDK_NVME_SC_LBA_OUT_OF_RANGE) beyond_req)"
    using sample_rw_params(2)
    by (simp add: nvmf_bdev_ctrlr_write_cmd_def complete_with_def nvmf_bdev_ctrlr_lba_in_range_def
        sample_desc_def sample_bdev_def)
  with write_cmd_error_leaves_state [OF this] show ?thesis by blast
qed

theorem fused_miscompare_status_witness:
  "\<exists>req' first_req' ev. nvmf_bdev_ctrlr_complete_cmd (sample_req\<lparr>first_fused := True\<rparr>) rw_req
      SPDK_BDEV_IO_TYPE_COMPARE_AND_WRITE (ok_result\<lparr>io_status := SPDK_BDEV_IO_STATUS_MISCOMPARE\<rparr>) =
      (req', first_req', ev) \<and> sc (status (rsp first_req')) = 0x85 \<and> sc (status (rsp req')) = 0x09"
proof -
  let ?req = "sample_req\<lparr>first_fused := True\<rparr>" and ?res = "ok_result\<lparr>io_status := SPDK_BDEV_IO_STATUS_MISCOMPARE\<rparr>"
  obtain req' first_req' ev where r: "nvmf_bdev_ctrlr_complete_cmd ?req rw_req
      SPDK_BDEV_IO_TYPE_COMPARE_AND_WRITE ?res = (req', first_req', ev)" using prod_cases3 by blast
  have "first_fused ?req" "io_status ?res = SPDK_BDEV_IO_STATUS_MISCOMPARE" by simp_all
  from fused_miscompare_status [OF this r] r show ?thesis by simp
qed

end
