(* ===== verification/Dsm_Unmap.thy ===== *)
theory Dsm_Unmap
  imports Ctrlr_Bdev Samples
begin

section \<open>Dataset management: ranges, completion and resubmission\<close>

text \<open>
  The specification of the unmap handler of \<open>lib/nvmf/ctrlr_bdev.c\<close> and what it achieves: the
  ranges of the command are the 16-byte records of the flat data buffer, all of them are submitted
  in order when descriptors suffice, and the completions end the request once with the first error.
  When the handler is resumed after it ran out of descriptors, or stops at an oversized range, it
  deviates from this specification; the lemmas say how.
\<close>

subsection \<open>Specification\<close>

definition dsm_range_of :: "byte list \<Rightarrow> nat \<Rightarrow> u64 \<times> u64" where
  "dsm_range_of fl j =
     (dsm_range_starting_lba (get_at (16 * j) 16 fl), ucast (dsm_range_length (get_at (16 * j) 16 fl)))"

definition io_range :: "io_place \<times> nvmf_bdev_io \<Rightarrow> u64 \<times> u64" where
  "io_range p = (offset_blocks (u (snd p)), num_blocks (u (snd p)))"

text \<open>The descriptors a caller can take in a row.\<close>

definition avail_descs :: "('p, 'c) bdev_channel \<Rightarrow> nat" where
  "avail_descs ch =
     (if io_wait_queue ch = [] then per_thread_cache_count ch + bdev_io_pool ch
      else per_thread_cache_count ch)"

definition unmap_range_ok :: "spdk_bdev_desc \<Rightarrow> u64 \<Rightarrow> u64 \<times> u64 \<Rightarrow> bool" where
  "unmap_range_ok desc max_discard r \<longleftrightarrow>
     bdev_io_valid_blocks (desc_bdev desc) (fst r) (snd r) \<and>
     (max_discard = 0 \<or> snd r \<le> push_bit 10 max_discard div ucast (blocklen (desc_bdev desc)))"

lemma avail_descs_get_io:
  assumes "0 < avail_descs ch"
  obtains ch1 where "bdev_channel_get_io ch = Some ch1" and "avail_descs ch1 = avail_descs ch - 1"
    and "handed ch1 = handed ch"
proof -
  have "\<exists>ch1. bdev_channel_get_io ch = Some ch1 \<and> avail_descs ch1 = avail_descs ch - 1 \<and> handed ch1 = handed ch"
    using assms by (auto simp: avail_descs_def bdev_channel_get_io_def split: if_splits)
  then show thesis using that by blast
qed

lemma unmap_blocks_ok:
  assumes "desc_write desc" "bdev_io_valid_blocks (desc_bdev desc) off n" "0 < avail_descs ch"
  obtains ch1 place io where "spdk_bdev_unmap_blocks desc ch off n c = (None, ch1)"
    and "avail_descs ch1 = avail_descs ch - 1" and "handed ch1 = handed ch @ [(place, io)]"
    and "offset_blocks (u io) = off" and "num_blocks (u io) = n" and "cb io = c"
proof -
  obtain ch0 where g: "bdev_channel_get_io ch = Some ch0" "avail_descs ch0 = avail_descs ch - 1"
    "handed ch0 = handed ch" using avail_descs_get_io [OF assms(3)] .
  then obtain ch1 where ok: "spdk_bdev_unmap_blocks desc ch off n c = (None, ch1)"
    using assms by (cases "n = 0") (simp_all add: spdk_bdev_unmap_blocks_def Let_def)
  from unm.hands_one [OF ok] obtain place io where
    h: "handed ch1 = handed ch @ [(place, io)]" "offset_blocks (u io) = off" "num_blocks (u io) = n" "cb io = c"
    by blast
  have "avail_descs ch1 = avail_descs ch0"
    using ok g assms
    by (auto simp: spdk_bdev_unmap_blocks_def Let_def hand_def bdev_io_submit_def avail_descs_def split: if_splits)
  with ok g h show thesis using that by simp
qed

subsection \<open>The loop submits the ranges in order\<close>

lemma unmap_loop_prefix:
  assumes "desc_write desc" "ix_wf ix" "ix_pos ix = 16 * j" "ix_flat ix = fl" "16 * (j + k) \<le> length fl"
    and "\<forall>i. j \<le> i \<and> i < j + k \<longrightarrow> unmap_range_ok desc md (dsm_range_of fl i)"
    and "k \<le> avail_descs (bch th)"
  shows "\<exists>ix' th' new. unmap_loop (k + m) md desc ix ctx th req =
      unmap_loop m md desc ix' (ctx\<lparr>unmap_count := unmap_count ctx + word_of_nat k,
                      unmap_range_index := unmap_range_index ctx + word_of_nat k\<rparr>) th' req \<and>
    ix_wf ix' \<and> ix_pos ix' = 16 * (j + k) \<and> ix_flat ix' = fl \<and>
    handed (bch th') = handed (bch th) @ new \<and> map io_range new = map (dsm_range_of fl) [j..<j + k] \<and>
    (\<forall>p \<in> set new. cb (snd p) = Caller_Cb (Unmap_Cpl (req_id req)))"
  using assms
proof (induction k arbitrary: ix j ctx th)
  case 0
  then show ?case by (intro exI [of _ ix] exI [of _ th] exI [of _ "[]"]) simp
next
  case (Suc k)
  let ?b = "get_at (16 * j) 16 fl"
  let ?lba = "dsm_range_starting_lba ?b" and ?n = "ucast (dsm_range_length ?b) :: u64"
  have fit: "ix_pos ix + length (replicate 16 (0::byte)) \<le> length (ix_flat ix)" using Suc.prems by simp
  obtain ix' where x: "spdk_iov_xfer_to_buf ix (replicate 16 0) = (ix', ?b, 16)" and wf: "ix_wf ix'"
    and pos: "ix_pos ix' = 16 * Suc j" and fl: "ix_flat ix' = fl"
    using xfer_to_buf_chunk [OF Suc.prems(2) fit] Suc.prems(3,4) by (metis add.commute length_replicate mult_Suc_right)
  have ok: "unmap_range_ok desc md (?lba, ?n)"
    using Suc.prems(6) [rule_format, of j] by (simp add: dsm_range_of_def)
  obtain ch1 place io where s: "spdk_bdev_unmap_blocks desc (bch th) ?lba ?n (Caller_Cb (Unmap_Cpl (req_id req))) = (None, ch1)"
    and av: "avail_descs ch1 = avail_descs (bch th) - 1" and h: "handed ch1 = handed (bch th) @ [(place, io)]"
    and io: "offset_blocks (u io) = ?lba" "num_blocks (u io) = ?n" "cb io = Caller_Cb (Unmap_Cpl (req_id req))"
  proof (rule unmap_blocks_ok)
    show "desc_write desc" by (rule Suc.prems(1))
    show "bdev_io_valid_blocks (desc_bdev desc) ?lba ?n" using ok by (simp add: unmap_range_ok_def)
    show "0 < avail_descs (bch th)" using Suc.prems(7) by simp
  qed
  let ?ctx = "ctx\<lparr>unmap_count := unmap_count ctx + 1, unmap_range_index := unmap_range_index ctx + 1\<rparr>"
  have "16 * (Suc j + k) \<le> length fl" "k \<le> avail_descs (bch (th\<lparr>bch := ch1\<rparr>))"
    "\<forall>i. Suc j \<le> i \<and> i < Suc j + k \<longrightarrow> unmap_range_ok desc md (dsm_range_of fl i)"
    using Suc.prems(5-7) av by auto
  from Suc.IH [OF Suc.prems(1) wf pos fl this(1,3,2), of ?ctx]
  obtain ix2 th' new where IH: "unmap_loop (k + m) md desc ix' ?ctx (th\<lparr>bch := ch1\<rparr>) req =
      unmap_loop m md desc ix2 (?ctx\<lparr>unmap_count := unmap_count ?ctx + word_of_nat k,
                      unmap_range_index := unmap_range_index ?ctx + word_of_nat k\<rparr>) th' req"
    and ix2: "ix_wf ix2" "ix_pos ix2 = 16 * (Suc j + k)" "ix_flat ix2 = fl"
    and hn: "handed (bch th') = handed ch1 @ new" "map io_range new = map (dsm_range_of fl) [Suc j..<Suc j + k]"
      "\<forall>p \<in> set new. cb (snd p) = Caller_Cb (Unmap_Cpl (req_id req))"
    by auto
  have nle: "\<not> (0 < md \<and> push_bit 10 md div ucast (blocklen (desc_bdev desc)) < ?n)"
    using ok by (auto simp: unmap_range_ok_def)
  have "unmap_loop (Suc k + m) md desc ix ctx th req =
      unmap_loop m md desc ix2 (ctx\<lparr>unmap_count := unmap_count ctx + word_of_nat (Suc k),
                      unmap_range_index := unmap_range_index ctx + word_of_nat (Suc k)\<rparr>) th' req"
    using IH by (simp only: add_Suc unmap_loop.simps x s nle prod.case option.case if_False Let_def)
      (simp add: add.assoc del: unmap_loop.simps)
  moreover have "map io_range ((place, io) # new) = map (dsm_range_of fl) [j..<j + Suc k]"
    using hn(2) io by (simp add: upt_conv_Cons io_range_def dsm_range_of_def del: upt_Suc)
  ultimately show ?case
    using h hn(1,3) io ix2 by (intro exI [of _ ix2] exI [of _ th'] exI [of _ "(place, io) # new"]) (simp del: unmap_loop.simps)
qed

lemma unmap_loop_ok:
  assumes "desc_write desc" "ix_wf ix" "ix_pos ix = 16 * j" "ix_flat ix = fl" "16 * (j + k) \<le> length fl"
    and "\<forall>i. j \<le> i \<and> i < j + k \<longrightarrow> unmap_range_ok desc md (dsm_range_of fl i)"
    and "k \<le> avail_descs (bch th)"
  shows "\<exists>th' new. unmap_loop k md desc ix ctx th req =
      unmap_done (ctx\<lparr>unmap_count := unmap_count ctx + word_of_nat k,
                      unmap_range_index := unmap_range_index ctx + word_of_nat k\<rparr>) th' req \<and>
    handed (bch th') = handed (bch th) @ new \<and> map io_range new = map (dsm_range_of fl) [j..<j + k] \<and>
    (\<forall>p \<in> set new. cb (snd p) = Caller_Cb (Unmap_Cpl (req_id req)))"
  using unmap_loop_prefix [OF assms, of 0 ctx req] by auto

subsection \<open>The completions end the request once\<close>

text \<open>
  The callbacks of the outstanding unmaps, one result each, in the order they arrive: \<open>None\<close>
  when a callback finds its context freed.
\<close>

fun unmap_run ::
  "nvmf_bdev_ctrlr_unmap_ctx option \<Rightarrow> spdk_nvmf_request \<Rightarrow> bdev_io_result list
     \<Rightarrow> (nvmf_bdev_ctrlr_unmap_ctx option \<times> spdk_nvmf_request \<times> nvmf_event list) option" where
  "unmap_run ctx req [] = Some (ctx, req, [])"
| "unmap_run None req (r # rs) = None"
| "unmap_run (Some ctx) req (r # rs) =
     (case nvmf_bdev_ctrlr_unmap_cpl ctx req SPDK_BDEV_IO_TYPE_UNMAP r of (ctx', req', ev) \<Rightarrow>
      map_option (\<lambda>(ctx'', req'', ev'). (ctx'', req'', ev @ ev')) (unmap_run ctx' req' rs))"

definition io_code :: "bdev_io_result \<Rightarrow> 3 word \<times> u8" where
  "io_code r = snd (spdk_bdev_io_get_nvme_status SPDK_BDEV_IO_TYPE_UNMAP r)"

definition rsp_code :: "spdk_nvmf_request \<Rightarrow> 3 word \<times> u8" where
  "rsp_code req = (sct (status (rsp req)), sc (status (rsp req)))"

fun first_error :: "3 word \<times> u8 \<Rightarrow> bdev_io_result list \<Rightarrow> 3 word \<times> u8" where
  "first_error c [] = c"
| "first_error c (r # rs) = first_error (if c = (0, 0) then io_code r else c) rs"

lemma unmap_cpl_step:
  fixes ctx req r
  defines "req' \<equiv> fst (snd (nvmf_bdev_ctrlr_unmap_cpl ctx req SPDK_BDEV_IO_TYPE_UNMAP r))"
  shows "rsp_code req' = (if rsp_code req = (0, 0) then io_code r else rsp_code req)"
    and "req_id req' = req_id req"
    and "unmap_count ctx = 1 \<Longrightarrow> nvmf_bdev_ctrlr_unmap_cpl ctx req SPDK_BDEV_IO_TYPE_UNMAP r =
           (None, req', [Request_Complete (req_id req) (rsp req'), Bdev_Free_Io])"
    and "unmap_count ctx \<noteq> 1 \<Longrightarrow> nvmf_bdev_ctrlr_unmap_cpl ctx req SPDK_BDEV_IO_TYPE_UNMAP r =
           (Some (ctx\<lparr>unmap_count := unmap_count ctx - 1\<rparr>), req', [Bdev_Free_Io])"
  by (auto simp: req'_def nvmf_bdev_ctrlr_unmap_cpl_def Let_def rsp_code_def io_code_def
           split: prod.splits if_splits)

lemma unmap_run_once:
  assumes "unat (unmap_count ctx) = length rs" "rs \<noteq> []"
  shows "\<exists>req'. unmap_run (Some ctx) req rs =
      Some (None, req', replicate (length rs - 1) Bdev_Free_Io @
                        [Request_Complete (req_id req) (rsp req'), Bdev_Free_Io]) \<and>
    rsp_code req' = first_error (rsp_code req) rs \<and> req_id req' = req_id req"
  using assms
proof (induction rs arbitrary: ctx req)
  case Nil
  then show ?case by simp
next
  case (Cons r rs)
  define req1 where "req1 = fst (snd (nvmf_bdev_ctrlr_unmap_cpl ctx req SPDK_BDEV_IO_TYPE_UNMAP r))"
  note step = unmap_cpl_step [of ctx req r, folded req1_def]
  show ?case
  proof (cases "rs = []")
    case True
    with Cons.prems have "unmap_count ctx = 1" by (simp add: word_unat_eq_iff)
    with step True show ?thesis by auto
  next
    case False
    with Cons.prems have n1: "unmap_count ctx \<noteq> 1" by auto
    have "unmap_count ctx \<noteq> 0" using Cons.prems(1) by auto
    then have "unat (unmap_count (ctx\<lparr>unmap_count := unmap_count ctx - 1\<rparr>)) = length rs"
      using Cons.prems(1) by (simp add: unat_minus_one)
    from Cons.IH [OF this False, of req1] obtain req' where
      "unmap_run (Some (ctx\<lparr>unmap_count := unmap_count ctx - 1\<rparr>)) req1 rs =
         Some (None, req', replicate (length rs - 1) Bdev_Free_Io @
                        [Request_Complete (req_id req1) (rsp req'), Bdev_Free_Io])"
      "rsp_code req' = first_error (rsp_code req1) rs" "req_id req' = req_id req1"
      by auto
    moreover have "Bdev_Free_Io # replicate (length rs - 1) Bdev_Free_Io = replicate (length rs) Bdev_Free_Io"
      using False by (cases rs) simp_all
    ultimately show ?thesis using step n1 by (intro exI [of _ req']) simp
  qed
qed

subsection \<open>Submission as a whole\<close>

lemma unmap_count_small: "n \<le> 256 \<Longrightarrow> unat (word_of_nat n :: u32) = n"
  by (simp add: unsigned_of_nat take_bit_eq_mod)

lemma dsm_nr_small: "unat (dsm_nr cmd) + 1 \<le> 256"
  using unat_bounds(1) [of "dsm_nr cmd"] by simp

lemma unmap_unfold:
  assumes "unat (dsm_nr (req_cmd req)) + 1 = nr" "16 * nr \<le> unat (req_length req)"
  shows "nvmf_bdev_ctrlr_unmap True subsys desc th req None =
      unmap_loop nr (max_discard_size_kib subsys) desc (spdk_iov_xfer_init (iov req))
        \<lparr>unmap_count = 0, unmap_range_index = 0\<rparr> th (upd_rsp (set_generic SPDK_NVME_SC_SUCCESS) req)"
    and "nvmf_bdev_ctrlr_unmap True subsys desc th req (Some ctx) =
      unmap_loop (nr - unat (unmap_range_index ctx)) (max_discard_size_kib subsys) desc (spdk_iov_xfer_init (iov req))
        (ctx\<lparr>unmap_count := unmap_count ctx - 1\<rparr>) th req"
  using assms(2) unfolding nvmf_bdev_ctrlr_unmap_def Let_def assms(1) by simp_all

lemma unmap_from:
  fixes req :: spdk_nvmf_request
  defines "nr \<equiv> unat (dsm_nr (req_cmd req)) + 1" and "fl \<equiv> concat (iov req)"
  assumes "desc_write desc" "j \<le> nr" "16 * (nr - j) \<le> length fl"
    and "\<forall>i < nr - j. unmap_range_ok desc md (dsm_range_of fl i)"
    and "nr - j \<le> avail_descs (bch th)" and "iov req' = iov req" "req_id req' = req_id req"
  shows "\<exists>th' new. unmap_loop (nr - j) md desc (spdk_iov_xfer_init (iov req')) ctx th req' =
      unmap_done (ctx\<lparr>unmap_count := unmap_count ctx + word_of_nat (nr - j),
                      unmap_range_index := unmap_range_index ctx + word_of_nat (nr - j)\<rparr>) th' req' \<and>
    handed (bch th') = handed (bch th) @ new \<and> map io_range new = map (dsm_range_of fl) [0..<nr - j] \<and>
    (\<forall>p \<in> set new. cb (snd p) = Caller_Cb (Unmap_Cpl (req_id req)))"
  using unmap_loop_ok [of desc "spdk_iov_xfer_init (iov req')" 0 fl "nr - j" md th ctx req'] assms(3-)
  by (simp add: fl_def)

text \<open>
  C29: A Dataset Management command with the deallocate attribute whose ranges all lie within
  the device and the discard limit submits, when descriptors suffice, exactly one unmap per
  range, in the order of the ranges in the data buffer, and is outstanding with that count.
\<close>

theorem unmap_submits_all_ranges:
  fixes req :: spdk_nvmf_request
  defines "nr \<equiv> unat (dsm_nr (req_cmd req)) + 1"
  assumes "desc_write desc" "dsm_ad (req_cmd req)"
    and "16 * nr \<le> unat (req_length req)" "16 * nr \<le> length (concat (iov req))"
    and "\<forall>i < nr. unmap_range_ok desc (max_discard_size_kib subsys) (dsm_range_of (concat (iov req)) i)"
    and "nr \<le> avail_descs (bch th)"
  shows "\<exists>ctx th' new. nvmf_bdev_ctrlr_dsm_cmd True subsys desc th req =
      (SPDK_NVMF_REQUEST_EXEC_STATUS_ASYNCHRONOUS, Some ctx, th', upd_rsp (set_generic SPDK_NVME_SC_SUCCESS) req) \<and>
    unat (unmap_count ctx) = nr \<and> handed (bch th') = handed (bch th) @ new \<and>
    map io_range new = map (dsm_range_of (concat (iov req))) [0..<nr] \<and>
    (\<forall>p \<in> set new. cb (snd p) = Caller_Cb (Unmap_Cpl (req_id req)))"
proof -
  let ?req = "upd_rsp (set_generic SPDK_NVME_SC_SUCCESS) req"
  let ?ctx = "\<lparr>unmap_count = 0, unmap_range_index = 0\<rparr> :: nvmf_bdev_ctrlr_unmap_ctx"
  obtain th' new where l: "unmap_loop nr (max_discard_size_kib subsys) desc (spdk_iov_xfer_init (iov ?req)) ?ctx th ?req =
      unmap_done (?ctx\<lparr>unmap_count := word_of_nat nr, unmap_range_index := word_of_nat nr\<rparr>) th' ?req"
    and n: "handed (bch th') = handed (bch th) @ new" "map io_range new = map (dsm_range_of (concat (iov req))) [0..<nr]"
      "\<forall>p \<in> set new. cb (snd p) = Caller_Cb (Unmap_Cpl (req_id req))"
    using unmap_from [of desc 0 req "max_discard_size_kib subsys" th ?req ?ctx] assms by auto
  have c: "unat (word_of_nat nr :: u32) = nr"
    unfolding nr_def by (rule unmap_count_small [OF dsm_nr_small])
  then have "(word_of_nat nr :: u32) \<noteq> 0" by (auto simp: nr_def)
  then have "nvmf_bdev_ctrlr_dsm_cmd True subsys desc th req =
      (SPDK_NVMF_REQUEST_EXEC_STATUS_ASYNCHRONOUS,
       Some (?ctx\<lparr>unmap_count := word_of_nat nr, unmap_range_index := word_of_nat nr\<rparr>), th', ?req)"
    using l assms(3) unmap_unfold(1) [of req nr subsys desc th] assms(4)
    by (simp add: nvmf_bdev_ctrlr_dsm_cmd_def unmap_done_def nr_def)
  with n c show ?thesis by auto
qed

text \<open>
  C30: The completions of the outstanding unmaps, in whatever order and with whatever results
  they arrive, complete the request exactly once, at the last of them, with the status of the
  first failed one, and no callback finds its context freed.
\<close>

theorem unmap_completes_once:
  assumes "unat (unmap_count ctx) = length rs" "rs \<noteq> []" "rsp_code req = (0, 0)"
  shows "\<exists>req'. unmap_run (Some ctx) req rs =
      Some (None, req', replicate (length rs - 1) Bdev_Free_Io @
                        [Request_Complete (req_id req) (rsp req'), Bdev_Free_Io]) \<and>
    rsp_code req' = first_error (0, 0) rs"
  using unmap_run_once [OF assms(1,2), of req] assms(3) by auto

text \<open>
  C34: A Dataset Management command resumed at range j after it ran out of descriptors submits
  the first ranges of the buffer again instead of the ranges from j on, because the data cursor
  restarts at the beginning.
\<close>

theorem unmap_resume_repeats_first_ranges:
  fixes req :: spdk_nvmf_request
  defines "nr \<equiv> unat (dsm_nr (req_cmd req)) + 1"
  assumes "desc_write desc" "16 * nr \<le> unat (req_length req)" "16 * nr \<le> length (concat (iov req))"
    and "unat (unmap_range_index ctx) = j" "j < nr"
    and "\<forall>i < nr - j. unmap_range_ok desc (max_discard_size_kib subsys) (dsm_range_of (concat (iov req)) i)"
    and "nr - j \<le> avail_descs (bch th)"
    and "nvmf_bdev_ctrlr_unmap_resubmit True subsys desc th req ctx = (ctx', th', req')"
  shows "\<exists>new. handed (bch th') = handed (bch th) @ new \<and>
    map io_range new = map (dsm_range_of (concat (iov req))) [0..<nr - j]"
proof -
  let ?ctx = "ctx\<lparr>unmap_count := unmap_count ctx - 1\<rparr>"
  have r: "snd (unmap_loop (nr - j) (max_discard_size_kib subsys) desc (spdk_iov_xfer_init (iov req)) ?ctx th req)
      = (ctx', th', req')"
    using assms(9) unmap_unfold(2) [of req nr subsys desc th ctx] assms(3,5)
    by (simp add: nvmf_bdev_ctrlr_unmap_resubmit_def nr_def)
  have "j \<le> nr" "16 * (nr - j) \<le> length (concat (iov req))" using assms(4,6) by simp_all
  with unmap_from [of desc j req "max_discard_size_kib subsys" th req ?ctx] assms(2,7,8)
  obtain th'' new where
    l: "unmap_loop (nr - j) (max_discard_size_kib subsys) desc (spdk_iov_xfer_init (iov req)) ?ctx th req =
      unmap_done (?ctx\<lparr>unmap_count := unmap_count ?ctx + word_of_nat (nr - j),
                      unmap_range_index := unmap_range_index ?ctx + word_of_nat (nr - j)\<rparr>) th'' req"
    and n: "handed (bch th'') = handed (bch th) @ new"
      "map io_range new = map (dsm_range_of (concat (iov req))) [0..<nr - j]"
    unfolding nr_def by blast
  have "th' = th''" using r unfolding l by (auto simp: unmap_done_def split: if_splits)
  with n show ?thesis by blast
qed

text \<open>
  C35: A Dataset Management command with a range above the discard limit after some acceptable
  ones is reported complete while their unmaps are outstanding, and their completions complete
  the same request a second time.
\<close>

theorem unmap_oversized_range_completes_twice:
  fixes req :: spdk_nvmf_request and subsys :: spdk_nvmf_subsystem_limits
  defines "nr \<equiv> unat (dsm_nr (req_cmd req)) + 1" and "md \<equiv> max_discard_size_kib subsys"
  assumes "desc_write desc" "16 * nr \<le> unat (req_length req)" "16 * nr \<le> length (concat (iov req))"
    and "0 < k" "k < nr" "\<forall>i < k. unmap_range_ok desc md (dsm_range_of (concat (iov req)) i)"
    and "0 < md" "push_bit 10 md div ucast (blocklen (desc_bdev desc)) < snd (dsm_range_of (concat (iov req)) k)"
    and "k \<le> avail_descs (bch th)" and "length rs = k"
  shows "\<exists>ctx th' req' req'' ev. nvmf_bdev_ctrlr_unmap True subsys desc th req None =
      (SPDK_NVMF_REQUEST_EXEC_STATUS_COMPLETE, Some ctx, th', req') \<and>
    length (handed (bch th')) = length (handed (bch th)) + k \<and>
    unmap_run (Some ctx) req' rs = Some (None, req'', ev) \<and> Request_Complete (req_id req) (rsp req'') \<in> set ev"
proof -
  let ?req = "upd_rsp (set_generic SPDK_NVME_SC_SUCCESS) req" and ?fl = "concat (iov req)"
  let ?ctx = "\<lparr>unmap_count = 0, unmap_range_index = 0\<rparr> :: nvmf_bdev_ctrlr_unmap_ctx"
  obtain m where m: "nr = k + Suc m" using assms(7) less_imp_Suc_add by (metis add_Suc_right)
  have "16 * (0 + k) \<le> length ?fl" using assms(5,7) by simp
  with unmap_loop_prefix [of desc "spdk_iov_xfer_init (iov req)" 0 ?fl k md th "Suc m" ?ctx ?req] assms(3,8,11)
  obtain ix' th' new where
    l: "unmap_loop (k + Suc m) md desc (spdk_iov_xfer_init (iov req)) ?ctx th ?req =
      unmap_loop (Suc m) md desc ix' (?ctx\<lparr>unmap_count := word_of_nat k, unmap_range_index := word_of_nat k\<rparr>) th' ?req"
    and ix: "ix_wf ix'" "ix_pos ix' = 16 * k" "ix_flat ix' = ?fl"
    and h: "handed (bch th') = handed (bch th) @ new" "map io_range new = map (dsm_range_of ?fl) [0..<k]"
    by auto
  have fit: "ix_pos ix' + length (replicate 16 (0::byte)) \<le> length (ix_flat ix')"
    using assms(5,7) ix by simp
  obtain ix2 where x: "spdk_iov_xfer_to_buf ix' (replicate 16 0) = (ix2, get_at (16 * k) 16 ?fl, 16)"
    using xfer_to_buf_chunk [OF ix(1) fit] ix(2,3) by (metis length_replicate)
  let ?ctx' = "?ctx\<lparr>unmap_count := word_of_nat k, unmap_range_index := word_of_nat k\<rparr>"
  let ?req' = "upd_rsp (set_generic SPDK_NVME_SC_INVALID_FIELD) ?req"
  have "nvmf_bdev_ctrlr_unmap True subsys desc th req None =
      (SPDK_NVMF_REQUEST_EXEC_STATUS_COMPLETE, Some ?ctx', th', ?req')"
    using assms(9,10)
    unfolding unmap_unfold(1) [OF nr_def [THEN meta_eq_to_obj_eq, symmetric] assms(4)] md_def [symmetric] m l
    by (simp add: x dsm_range_of_def)
  moreover have "length new = k" using h(2) by (metis length_map length_upt minus_nat.diff_0)
  moreover have "unat (unmap_count ?ctx') = length rs"
    using unmap_count_small [of k] assms(7,12) dsm_nr_small [of "req_cmd req"] by (simp add: nr_def)
  then obtain req'' where "unmap_run (Some ?ctx') ?req' rs = Some (None, req'', replicate (length rs - 1) Bdev_Free_Io @
                        [Request_Complete (req_id ?req') (rsp req''), Bdev_Free_Io])"
    using unmap_run_once [of ?ctx' rs ?req'] assms(6,12) by auto
  ultimately show ?thesis using h(1) by (intro exI conjI) auto
qed

subsection \<open>Witnesses\<close>

text \<open>A command with two ranges: 8 blocks at 16, 4 blocks at 64.\<close>

definition sample_limits :: spdk_nvmf_subsystem_limits where
  "sample_limits = \<lparr>max_discard_size_kib = 4, max_write_zeroes_size_kib = 0\<rparr>"

definition sample_range :: "nat \<Rightarrow> nat \<Rightarrow> byte list" where
  "sample_range lba n = le_bytes 4 0 @ le_bytes 4 n @ le_bytes 8 lba"

definition sample_dsm_req :: spdk_nvmf_request where
  "sample_dsm_req = sample_req\<lparr>req_cmd := sample_cmd\<lparr>opc := 0x09, cdw10 := 1, cdw11 := 4\<rparr>,
     req_length := 32, iov := [sample_range 16 8, sample_range 64 4]\<rparr>"

definition oversized_dsm_req :: spdk_nvmf_request where
  "oversized_dsm_req = sample_dsm_req\<lparr>iov := [sample_range 16 8, sample_range 64 9]\<rparr>"

lemmas dsm_sample_defs = sample_defs sample_limits_def sample_range_def sample_dsm_req_def oversized_dsm_req_def

lemma sample_dsm_data:
  "concat (iov sample_dsm_req) =
     [0,0,0,0,8,0,0,0,16,0,0,0,0,0,0,0, 0,0,0,0,4,0,0,0,64,0,0,0,0,0,0,0]"
  "concat (iov oversized_dsm_req) =
     [0,0,0,0,8,0,0,0,16,0,0,0,0,0,0,0, 0,0,0,0,9,0,0,0,64,0,0,0,0,0,0,0]"
  by (simp_all add: dsm_sample_defs eval_simps)

lemma sample_dsm_ranges:
  "dsm_range_of (concat (iov sample_dsm_req)) 0 = (16, 8)"
  "dsm_range_of (concat (iov sample_dsm_req)) 1 = (64, 4)"
  "dsm_range_of (concat (iov oversized_dsm_req)) 0 = (16, 8)"
  "dsm_range_of (concat (iov oversized_dsm_req)) 1 = (64, 9)"
  by (simp_all add: sample_dsm_data dsm_range_of_def get_at_def dsm_range_starting_lba_def
        dsm_range_length_def le64_word_def)

lemmas sample_dsm_ranges_Suc = sample_dsm_ranges [unfolded One_nat_def]

lemma sample_dsm_size:
  "length (concat (iov sample_dsm_req)) = 32" "length (concat (iov oversized_dsm_req)) = 32"
  unfolding sample_dsm_data by simp_all

lemma sample_dsm_nr:
  "unat (dsm_nr (req_cmd sample_dsm_req)) + 1 = 2" "unat (dsm_nr (req_cmd oversized_dsm_req)) + 1 = 2"
  by (simp_all add: dsm_sample_defs dsm_nr_def)

lemma sample_dsm_simps:
  "desc_write sample_desc" "dsm_ad (req_cmd sample_dsm_req)"
  "unat (req_length sample_dsm_req) = 32" "unat (req_length oversized_dsm_req) = 32"
  "req_id sample_dsm_req = 3" "req_id oversized_dsm_req = 3"
  "avail_descs (bch sample_thread) = 20" "handed (bch sample_thread) = []"
  by (simp_all add: dsm_sample_defs dsm_ad_def avail_descs_def)

lemma sample_ranges_ok:
  "unmap_range_ok sample_desc (max_discard_size_kib sample_limits) (16, 8)"
  "unmap_range_ok sample_desc (max_discard_size_kib sample_limits) (64, 4)"
  "0 < max_discard_size_kib sample_limits"
  "push_bit 10 (max_discard_size_kib sample_limits) div ucast (blocklen (desc_bdev sample_desc)) < 9"
  by code_simp+

lemma all_less_2: "(\<forall>i < 2. P i) \<longleftrightarrow> P 0 \<and> P (1 :: nat)"
  by (auto simp: less_2_cases_iff)

theorem unmap_submits_all_ranges_witness:
  "\<exists>ctx th' new. nvmf_bdev_ctrlr_dsm_cmd True sample_limits sample_desc sample_thread sample_dsm_req =
      (SPDK_NVMF_REQUEST_EXEC_STATUS_ASYNCHRONOUS, Some ctx, th',
       upd_rsp (set_generic SPDK_NVME_SC_SUCCESS) sample_dsm_req) \<and>
    handed (bch th') = new \<and> map io_range new = [(16, 8), (64, 4)]"
proof -
  have "[0..<2] = [0, 1::nat]" by (simp add: upt_rec)
  then show ?thesis
    using unmap_submits_all_ranges [of sample_desc sample_dsm_req sample_limits sample_thread]
    unfolding sample_dsm_nr
    by (auto simp: sample_dsm_simps all_less_2 sample_dsm_ranges_Suc sample_ranges_ok sample_dsm_size
        simp del: length_concat)
qed

theorem unmap_completes_once_witness:
  "\<exists>req'. unmap_run (Some \<lparr>unmap_count = 2, unmap_range_index = 2\<rparr>) sample_dsm_req [ok_result, failed_result] =
      Some (None, req', [Bdev_Free_Io, Request_Complete 3 (rsp req'), Bdev_Free_Io]) \<and>
    rsp_code req' = (0, 6)"
proof -
  have "rsp_code sample_dsm_req = (0, 0)" "first_error (0, 0) [ok_result, failed_result] = (0, 6)"
    by (simp_all add: dsm_sample_defs rsp_code_def io_code_def spdk_bdev_io_get_nvme_status_def)
  then show ?thesis
    using unmap_completes_once [of "\<lparr>unmap_count = 2, unmap_range_index = 2\<rparr>" "[ok_result, failed_result]" sample_dsm_req]
    by (simp add: sample_dsm_simps)
qed

theorem unmap_resume_repeats_first_ranges_witness:
  "\<exists>new. handed (bch (fst (snd (nvmf_bdev_ctrlr_unmap_resubmit True sample_limits sample_desc sample_thread
       sample_dsm_req \<lparr>unmap_count = 2, unmap_range_index = 1\<rparr>)))) = new \<and> map io_range new = [(16, 8)]"
proof -
  let ?ctx = "\<lparr>unmap_count = 2, unmap_range_index = 1\<rparr> :: nvmf_bdev_ctrlr_unmap_ctx"
  obtain ctx' th' req' where r: "nvmf_bdev_ctrlr_unmap_resubmit True sample_limits sample_desc sample_thread
       sample_dsm_req ?ctx = (ctx', th', req')" using prod_cases3 by blast
  then show ?thesis
    using unmap_resume_repeats_first_ranges [of sample_desc sample_dsm_req ?ctx 1 sample_limits sample_thread ctx' th' req']
    unfolding sample_dsm_nr
    by (simp add: sample_dsm_simps sample_dsm_ranges_Suc sample_ranges_ok sample_dsm_size)
qed

theorem unmap_oversized_range_completes_twice_witness:
  "\<exists>ctx th' req' req'' ev. nvmf_bdev_ctrlr_unmap True sample_limits sample_desc sample_thread oversized_dsm_req None =
      (SPDK_NVMF_REQUEST_EXEC_STATUS_COMPLETE, Some ctx, th', req') \<and>
    unmap_run (Some ctx) req' [ok_result] = Some (None, req'', ev) \<and> Request_Complete 3 (rsp req'') \<in> set ev"
  using unmap_oversized_range_completes_twice [of sample_desc oversized_dsm_req 1 sample_limits sample_thread "[ok_result]"]
  unfolding sample_dsm_nr
  by (auto simp: sample_dsm_simps sample_dsm_ranges_Suc sample_ranges_ok sample_dsm_size)

end
