(* ===== verification/Bdev_Split.thy ===== *)
theory Bdev_Split
  imports Bdev Iov_Iter
begin

section \<open>Splitting of I/Os (\<open>lib/bdev/bdev.c\<close>)\<close>

text \<open>
  An I/O that exceeds the limits of its device, or crosses a boundary, is replaced by children that do not. The children of a round are
  submitted together; when the last of them completes, the next round is submitted or the parent completes. A child is submitted by the
  functions of \<open>Bdev\<close>; a parent without a descriptor for its first child waits in the channel's queue.
\<close>

subsection \<open>Parent and children\<close>

text \<open>
  A segment of a child's iovec array: the index of the parent's iovec, the offset into it, the length. The callback
  \<open>bdev_io_split_done\<close> and the function that continues the split, both with the parent as argument, and the arrays and metadata pointers of
  the children are opaque to the submit functions; they are parameters, and so is \<open>internal.orig_iovcnt\<close>, which is not 0 when the parent
  has a bounce buffer. A parent waits for a descriptor, for a buffer, or, with all its children completed, for its accel sequence or for its
  bounce buffer.
\<close>

type_synonym seg = "nat \<times> nat \<times> nat"

record ('p, 'c) split_env =
  sp_desc :: spdk_bdev_desc
  sp_parent :: "('p, 'c) bdev_io_u"
  sp_done_cb :: "('p, 'c) bdev_cb"
  sp_wait_entry :: "('p, 'c) bdev_waiter"
  sp_orig_iovcnt :: nat
  sp_child_iov :: "seg list \<Rightarrow> 'p io_iovs"
  sp_child_md :: "u64 \<Rightarrow> 'p io_base"

datatype split_wait = Not_Waiting | Wait_Descriptor | Wait_Buffer | Wait_Sequence | Wait_Push

text \<open>
  The fields of the parent the split changes, and the channel. The last three fields are the history: the children submitted, the results
  of those completed, and the status of each completion of the parent.
\<close>

record ('p, 'c) split_state =
  split_ch :: "('p, 'c) bdev_channel"
  split_current_offset_blocks :: u64
  split_remaining_num_blocks :: u64
  split_outstanding :: nat
  split_status :: spdk_bdev_io_status
  split_waiting :: split_wait
  split_children :: "(u64 \<times> u64 \<times> seg list) list"
  split_results :: "bool list"
  split_completed :: "spdk_bdev_io_status list"

definition SPDK_BDEV_IO_NUM_CHILD_IOV :: nat where
  "SPDK_BDEV_IO_NUM_CHILD_IOV = 32"

definition SPDK_BDEV_MAX_CHILDREN_UNMAP_WRITE_ZEROES_REQS :: nat where
  "SPDK_BDEV_MAX_CHILDREN_UNMAP_WRITE_ZEROES_REQS = 8"

definition SPDK_BDEV_MAX_CHILDREN_COPY_REQS :: nat where
  "SPDK_BDEV_MAX_CHILDREN_COPY_REQS = 8"

definition complete_parent :: "spdk_bdev_io_status \<Rightarrow> ('p, 'c) split_state \<Rightarrow> ('p, 'c) split_state" where
  "complete_parent s st = st\<lparr>split_status := s, split_completed := split_completed st @ [s]\<rparr>"

subsection \<open>Submitting a child\<close>

definition submit_child ::
  "('p, 'c) split_env \<Rightarrow> ('p, 'c) bdev_channel \<Rightarrow> seg list \<Rightarrow> 'p io_base \<Rightarrow> u64 \<Rightarrow> u64 \<Rightarrow> rc \<times> ('p, 'c) bdev_channel" where
  "submit_child env ch segs md offset num =
     (let desc = sp_desc env; parent = sp_parent env; cb_fn = sp_done_cb env in
      case io_type parent of
        SPDK_BDEV_IO_TYPE_READ \<Rightarrow>
          bdev_readv_blocks_with_md desc ch (sp_child_iov env segs) md offset num
            (int_memory_domain parent) None (io_dif_check_flags parent) cb_fn
      | SPDK_BDEV_IO_TYPE_WRITE \<Rightarrow>
          bdev_writev_blocks_with_md desc ch (sp_child_iov env segs) md offset num
            (int_memory_domain parent) None (io_dif_check_flags parent) (nvme_cdw12 parent) (nvme_cdw13 parent) cb_fn
      | SPDK_BDEV_IO_TYPE_UNMAP \<Rightarrow> spdk_bdev_unmap_blocks desc ch offset num cb_fn
      | SPDK_BDEV_IO_TYPE_WRITE_ZEROES \<Rightarrow> spdk_bdev_write_zeroes_blocks desc ch offset num cb_fn
      | SPDK_BDEV_IO_TYPE_COPY \<Rightarrow>
          spdk_bdev_copy_blocks desc ch offset (src_offset_blocks parent + (offset - offset_blocks parent)) num cb_fn
      | _ \<Rightarrow> (Some EINVAL, ch))"

definition bdev_queue_io_wait_with_cb :: "('p, 'c) split_env \<Rightarrow> ('p, 'c) split_state \<Rightarrow> ('p, 'c) split_state" where
  "bdev_queue_io_wait_with_cb env st =
     (case spdk_bdev_queue_io_wait (split_ch st) (sp_wait_entry env) of
        (None, ch) \<Rightarrow> st\<lparr>split_ch := ch, split_waiting := Wait_Descriptor\<rparr>
      | (Some e, ch) \<Rightarrow> complete_parent SPDK_BDEV_IO_STATUS_FAILED (st\<lparr>split_ch := ch\<rparr>))"

definition bdev_io_split_submit ::
  "('p, 'c) split_env \<Rightarrow> seg list \<Rightarrow> 'p io_base \<Rightarrow> u64 \<Rightarrow> ('p, 'c) split_state \<Rightarrow> rc \<times> ('p, 'c) split_state" where
  "bdev_io_split_submit env segs md num st =
     (let offset = split_current_offset_blocks st in
      case submit_child env (split_ch st) segs md offset num of
        (None, ch) \<Rightarrow>
          (None, st\<lparr>split_ch := ch, split_outstanding := split_outstanding st + 1,
             split_current_offset_blocks := offset + num,
             split_remaining_num_blocks := split_remaining_num_blocks st - num,
             split_children := split_children st @ [(offset, num, segs)]\<rparr>)
      | (Some e, ch) \<Rightarrow>
          let st1 = st\<lparr>split_ch := ch\<rparr> in
          (Some e,
           if e = ENOMEM then
             (if split_outstanding st1 = 0 then bdev_queue_io_wait_with_cb env st1 else st1)
           else if split_outstanding st1 = 0 then complete_parent SPDK_BDEV_IO_STATUS_FAILED st1
           else st1\<lparr>split_status := SPDK_BDEV_IO_STATUS_FAILED\<rparr>))"

subsection \<open>Unmap, write zeroes, copy\<close>

primrec split_loop :: "('p, 'c) split_env \<Rightarrow> u64 \<Rightarrow> nat \<Rightarrow> ('p, 'c) split_state \<Rightarrow> ('p, 'c) split_state" where
  "split_loop env limit 0 st = st"
| "split_loop env limit (Suc n) st =
     (if split_remaining_num_blocks st = 0 then st
      else case bdev_io_split_submit env [] Null (min (split_remaining_num_blocks st) limit) st of
        (None, st') \<Rightarrow> split_loop env limit n st'
      | (Some e, st') \<Rightarrow> st')"

definition bdev_unmap_split :: "('p, 'c) split_env \<Rightarrow> ('p, 'c) split_state \<Rightarrow> ('p, 'c) split_state" where
  "bdev_unmap_split env st =
     (let bdev = desc_bdev (sp_desc env) in
      split_loop env (ucast (max_unmap bdev * max_unmap_segments bdev)) SPDK_BDEV_MAX_CHILDREN_UNMAP_WRITE_ZEROES_REQS st)"

definition bdev_write_zeroes_split :: "('p, 'c) split_env \<Rightarrow> ('p, 'c) split_state \<Rightarrow> ('p, 'c) split_state" where
  "bdev_write_zeroes_split env st =
     split_loop env (ucast (max_write_zeroes (desc_bdev (sp_desc env)))) SPDK_BDEV_MAX_CHILDREN_UNMAP_WRITE_ZEROES_REQS st"

definition bdev_copy_split :: "('p, 'c) split_env \<Rightarrow> ('p, 'c) split_state \<Rightarrow> ('p, 'c) split_state" where
  "bdev_copy_split env st =
     split_loop env (ucast (max_copy (desc_bdev (sp_desc env)))) SPDK_BDEV_MAX_CHILDREN_COPY_REQS st"

subsection \<open>Read and write\<close>

text \<open>
  Sizes in bytes and blocks are numbers; where the source stores a product or a difference in a \<open>uint32_t\<close>, \<open>wrap32\<close> says so. The
  segments of a child are built last first.
\<close>

definition wrap32 :: "nat \<Rightarrow> nat" where
  "wrap32 n = n mod 2 ^ 32"

fun skip_iovs :: "nat list \<Rightarrow> nat \<Rightarrow> nat \<Rightarrow> nat \<times> nat" where
  "skip_iovs [] pos off = (pos, off)"
| "skip_iovs (l # lens) pos off = (if off < l then (pos, off) else skip_iovs lens (Suc pos) (off - l))"

primrec fill_iovs ::
  "nat list \<Rightarrow> nat \<Rightarrow> nat \<Rightarrow> nat \<Rightarrow> nat \<Rightarrow> nat \<Rightarrow> seg list \<Rightarrow> nat \<times> nat \<times> nat \<times> seg list" where
  "fill_iovs lens max_seg 0 bytes pos off segs = (bytes, pos, off, segs)"
| "fill_iovs lens max_seg (Suc n) bytes pos off segs =
     (if 0 < bytes \<and> pos < length lens then
        let iov_len = min (min (wrap32 (lens ! pos - off)) max_seg) bytes in
        if iov_len < lens ! pos - off
        then fill_iovs lens max_seg n (bytes - iov_len) pos (wrap32 (off + iov_len)) ((pos, off, iov_len) # segs)
        else fill_iovs lens max_seg n (bytes - iov_len) (Suc pos) 0 ((pos, off, iov_len) # segs)
      else (bytes, pos, off, segs))"

text \<open>
  Cutting the child back to whole blocks; \<open>None\<close> when nothing is left of it. Stepping back into the iovec before, its length is taken as
  it is, not modulo \<open>2 ^ 32\<close>: the model is exact for iovecs below 4 GiB.
\<close>

fun trim_iovs :: "nat list \<Rightarrow> nat \<Rightarrow> seg list \<Rightarrow> nat \<Rightarrow> nat \<Rightarrow> (seg list \<times> nat \<times> nat) option" where
  "trim_iovs lens k [] pos off = Some ([], pos, off)"
| "trim_iovs lens k ((p, o1, l) # segs) pos off =
     (if k = 0 then Some ((p, o1, l) # segs, pos, off)
      else
        let iov_len = min k l;
            (pos1, off1) = (if off = 0 then (pos - 1, lens ! (pos - 1)) else (pos, off))
        in if l - iov_len = 0
           then (if segs = [] then None else trim_iovs lens (k - iov_len) segs pos1 (off1 - iov_len))
           else Some ((p, o1, l - iov_len) # segs, pos1, off1 - iov_len))"

datatype rw_child = Divide_By_Zero | Short_Child | Rw_Child nat "seg list" nat nat nat

definition or_max :: "u32 \<Rightarrow> nat" where
  "or_max n = (if n \<noteq> 0 then unat n else UINT32_MAX)"

definition rw_max_iovcnt :: "spdk_bdev \<Rightarrow> nat" where
  "rw_max_iovcnt bdev =
     (if max_num_segments bdev \<noteq> 0 then min (unat (max_num_segments bdev)) SPDK_BDEV_IO_NUM_CHILD_IOV
      else SPDK_BDEV_IO_NUM_CHILD_IOV)"

definition rw_boundary :: "spdk_bdev \<Rightarrow> spdk_bdev_io_type \<Rightarrow> nat" where
  "rw_boundary bdev t =
     (if t = SPDK_BDEV_IO_TYPE_WRITE \<and> split_on_write_unit bdev then unat (write_unit_size bdev)
      else if split_on_optimal_io_boundary bdev then unat (optimal_io_boundary bdev)
      else UINT32_MAX)"

definition to_next_boundary :: "nat \<Rightarrow> nat \<Rightarrow> nat" where
  "to_next_boundary offset boundary = boundary - offset mod boundary"

definition rw_blocks :: "spdk_bdev \<Rightarrow> spdk_bdev_io_type \<Rightarrow> nat \<Rightarrow> nat \<Rightarrow> nat" where
  "rw_blocks bdev t current_offset remaining =
     min (or_max (max_rw_size bdev)) (min remaining (to_next_boundary current_offset (rw_boundary bdev t)))"

text \<open>
  The body of the loop up to the submission: the number of blocks and the segments of the child, the position in the parent's iovecs
  behind it, and the number of child iovecs used.
\<close>

definition next_rw_child :: "spdk_bdev \<Rightarrow> spdk_bdev_io_type \<Rightarrow> nat list \<Rightarrow> nat \<Rightarrow> nat \<Rightarrow> nat \<Rightarrow> nat \<Rightarrow> nat \<Rightarrow> rw_child" where
  "next_rw_child bdev t lens current_offset remaining pos off child_iovcnt =
     (let bl = unat (blocklen bdev) in
      if rw_boundary bdev t = 0 \<or> bl = 0 then Divide_By_Zero
      else
        let blocks = rw_blocks bdev t current_offset remaining;
            child_iovsize = min (SPDK_BDEV_IO_NUM_CHILD_IOV - child_iovcnt) (rw_max_iovcnt bdev);
            (bytes, pos1, off1, segs) =
              fill_iovs lens (or_max (max_segment_size bdev)) child_iovsize (wrap32 (blocks * bl)) pos off [];
            used = child_iovcnt + length segs
        in if bytes = 0 then Rw_Child blocks (rev segs) pos1 off1 used
           else if bytes mod bl = 0 then Rw_Child (blocks - bytes div bl) (rev segs) pos1 off1 used
           else
             let k = bl - bytes mod bl in
             case trim_iovs lens k segs pos1 off1 of
               None \<Rightarrow> Short_Child
             | Some (segs', pos2, off2) \<Rightarrow>
                 Rw_Child (blocks - wrap32 (bytes + k) div bl) (rev segs') pos2 off2 used)"

lemma fill_iovs_length:
  assumes "fill_iovs lens ms n bytes pos off segs = (bytes', pos', off', segs')"
  shows "length segs \<le> length segs'" "0 < n \<Longrightarrow> 0 < bytes \<Longrightarrow> pos < length lens \<Longrightarrow> length segs < length segs'" "bytes' \<le> bytes"
  using assms
proof (induction n arbitrary: bytes pos off segs)
  case 0
  { case 1 then show ?case by simp }
  { case 2 then show ?case by simp }
  { case 3 then show ?case by simp }
next
  case (Suc n)
  { case 1 then show ?case by (fastforce simp: Let_def dest: Suc.IH(1) split: if_splits) }
  { case 2 then show ?case by (fastforce simp: Let_def dest: Suc.IH(1) split: if_splits) }
  { case 3 then show ?case by (fastforce simp: Let_def dest: Suc.IH(3) split: if_splits) }
qed

lemma rw_max_iovcnt_pos: "0 < rw_max_iovcnt bdev" "rw_max_iovcnt bdev \<le> SPDK_BDEV_IO_NUM_CHILD_IOV"
  by (auto simp: rw_max_iovcnt_def SPDK_BDEV_IO_NUM_CHILD_IOV_def unat_gt_0)

lemma or_max_pos: "0 < or_max n"
  by (simp add: or_max_def UINT32_MAX_def unat_gt_0)

lemma next_rw_child_cases:
  assumes "next_rw_child bdev t lens cur rem pos off cnt = Rw_Child n segs pos' off' cnt'"
  obtains bytes pos1 off1 sg where
    "rw_boundary bdev t \<noteq> 0" "unat (blocklen bdev) \<noteq> 0"
    "fill_iovs lens (or_max (max_segment_size bdev)) (min (SPDK_BDEV_IO_NUM_CHILD_IOV - cnt) (rw_max_iovcnt bdev))
       (wrap32 (rw_blocks bdev t cur rem * unat (blocklen bdev))) pos off [] = (bytes, pos1, off1, sg)"
    "cnt' = cnt + length sg"
    "bytes mod unat (blocklen bdev) = 0 \<longrightarrow>
       n = rw_blocks bdev t cur rem - bytes div unat (blocklen bdev) \<and> segs = rev sg \<and> pos' = pos1 \<and> off' = off1"
    "bytes mod unat (blocklen bdev) \<noteq> 0 \<longrightarrow>
       n = rw_blocks bdev t cur rem - wrap32 (bytes + (unat (blocklen bdev) - bytes mod unat (blocklen bdev))) div unat (blocklen bdev) \<and>
       trim_iovs lens (unat (blocklen bdev) - bytes mod unat (blocklen bdev)) sg pos1 off1 = Some (rev segs, pos', off')"
proof -
  obtain bytes pos1 off1 sg where fill:
    "fill_iovs lens (or_max (max_segment_size bdev)) (min (SPDK_BDEV_IO_NUM_CHILD_IOV - cnt) (rw_max_iovcnt bdev))
       (wrap32 (rw_blocks bdev t cur rem * unat (blocklen bdev))) pos off [] = (bytes, pos1, off1, sg)"
    by (metis prod_cases4)
  show thesis
    by (rule that [OF _ _ fill])
      (use assms fill in \<open>auto simp: next_rw_child_def Let_def split: if_splits option.splits\<close>)
qed

lemma rw_blocks_pos: "rw_boundary bdev t \<noteq> 0 \<Longrightarrow> 0 < rem \<Longrightarrow> 0 < rw_blocks bdev t cur rem"
  by (simp add: rw_blocks_def to_next_boundary_def or_max_pos)

lemma next_rw_child_progress:
  assumes "next_rw_child bdev t lens cur rem pos off cnt = Rw_Child n segs pos' off' cnt'"
    and "0 < rem" "pos < length lens" "cnt < SPDK_BDEV_IO_NUM_CHILD_IOV"
  shows "n \<le> rem" "n = 0 \<Longrightarrow> cnt < cnt'"
proof -
  obtain bytes pos1 off1 sg where c:
    "rw_boundary bdev t \<noteq> 0"
    "fill_iovs lens (or_max (max_segment_size bdev)) (min (SPDK_BDEV_IO_NUM_CHILD_IOV - cnt) (rw_max_iovcnt bdev))
       (wrap32 (rw_blocks bdev t cur rem * unat (blocklen bdev))) pos off [] = (bytes, pos1, off1, sg)"
    "cnt' = cnt + length sg" "n \<le> rw_blocks bdev t cur rem" "bytes = 0 \<Longrightarrow> n = rw_blocks bdev t cur rem"
    by (rule next_rw_child_cases [OF assms(1)]) (metis diff_le_self div_0 minus_nat.diff_0 mod_0)
  show "n \<le> rem" using c(4) by (simp add: rw_blocks_def)
  have "0 < bytes \<Longrightarrow> 0 < length sg"
    using fill_iovs_length [OF c(2)] assms(3,4) rw_max_iovcnt_pos(1) by auto
  then show "n = 0 \<Longrightarrow> cnt < cnt'" using c(3,5) rw_blocks_pos [OF c(1) assms(2), of cur] by (cases "bytes = 0") auto
qed

lemma split_submit_ok:
  assumes "bdev_io_split_submit env segs md num st = (None, st')"
  shows "split_current_offset_blocks st' = split_current_offset_blocks st + num"
    "split_remaining_num_blocks st' = split_remaining_num_blocks st - num"
    "split_outstanding st' = split_outstanding st + 1"
    "split_children st' = split_children st @ [(split_current_offset_blocks st, num, segs)]"
    "split_status st' = split_status st" "split_waiting st' = split_waiting st" "split_results st' = split_results st"
    "split_completed st' = split_completed st"
  using assms by (auto simp: bdev_io_split_submit_def Let_def split: prod.splits option.splits if_splits)

lemma unat_sub_of_nat: "n \<le> unat (w :: u64) \<Longrightarrow> unat (w - of_nat n) = unat w - n"
proof -
  assume le: "n \<le> unat w"
  have "n < 2 ^ 64" using le unat_bounds(4) [of w] by simp
  then have "unat (of_nat n :: u64) = n" by (simp add: unat_of_nat)
  with le show ?thesis by (simp add: unat_sub word_le_nat_alt)
qed

lemma rw_loop_decreases:
  assumes "next_rw_child bdev t lens cur (unat (split_remaining_num_blocks st)) pos off cnt = Rw_Child n segs pos' off' cnt'"
    and "split_remaining_num_blocks st \<noteq> 0" "pos < length lens" "cnt < SPDK_BDEV_IO_NUM_CHILD_IOV"
    and "bdev_io_split_submit env segs md (of_nat n) st = (None, st')"
  shows "unat (split_remaining_num_blocks st') = unat (split_remaining_num_blocks st) - n"
    "unat (split_remaining_num_blocks st') < unat (split_remaining_num_blocks st) \<or>
     unat (split_remaining_num_blocks st') = unat (split_remaining_num_blocks st) \<and> cnt < cnt'"
proof -
  have pos: "0 < unat (split_remaining_num_blocks st)" using assms(2) by (simp add: unat_gt_0)
  note prog = next_rw_child_progress [OF assms(1) pos assms(3,4)]
  show eq: "unat (split_remaining_num_blocks st') = unat (split_remaining_num_blocks st) - n"
    using split_submit_ok(2) [OF assms(5)] unat_sub_of_nat [OF prog(1)] by simp
  show "unat (split_remaining_num_blocks st') < unat (split_remaining_num_blocks st) \<or>
     unat (split_remaining_num_blocks st') = unat (split_remaining_num_blocks st) \<and> cnt < cnt'"
    using eq prog pos by (cases "n = 0") auto
qed

text \<open>The loop of \<open>_bdev_rw_split\<close>; \<open>None\<close> is a division by zero.\<close>

function rw_split_loop ::
  "('p, 'c) split_env \<Rightarrow> nat \<Rightarrow> nat \<Rightarrow> nat \<Rightarrow> ('p, 'c) split_state \<Rightarrow> ('p, 'c) split_state option" where
  "rw_split_loop env pos off child_iovcnt st =
     (let parent = sp_parent env; bdev = desc_bdev (sp_desc env); lens = iov_lens (iovs parent) in
      if split_remaining_num_blocks st \<noteq> 0 \<and> pos < length lens \<and> child_iovcnt < SPDK_BDEV_IO_NUM_CHILD_IOV then
        (case next_rw_child bdev (io_type parent) lens (unat (split_current_offset_blocks st))
           (unat (split_remaining_num_blocks st)) pos off child_iovcnt of
           Divide_By_Zero \<Rightarrow> None
         | Short_Child \<Rightarrow>
             Some (if split_outstanding st = 0 then complete_parent SPDK_BDEV_IO_STATUS_FAILED st else st)
         | Rw_Child n segs pos' off' child_iovcnt' \<Rightarrow>
             let md = (if md_buf parent = Null then Null
                       else sp_child_md env (split_current_offset_blocks st - offset_blocks parent)) in
             (case bdev_io_split_submit env segs md (of_nat n) st of
                (None, st') \<Rightarrow> rw_split_loop env pos' off' child_iovcnt' st'
              | (Some e, st') \<Rightarrow> Some st'))
      else Some st)"
  by pat_completeness auto
termination
  by (relation "measures [\<lambda>(env, pos, off, cnt, st). unat (split_remaining_num_blocks st),
        \<lambda>(env, pos, off, cnt, st). SPDK_BDEV_IO_NUM_CHILD_IOV - cnt]")
    (auto dest: rw_loop_decreases(2) [OF _ _ _ _ sym])


declare rw_split_loop.simps [simp del]

definition bdev_rw_split :: "('p, 'c) split_env \<Rightarrow> ('p, 'c) split_state \<Rightarrow> ('p, 'c) split_state option" where
  "bdev_rw_split env st =
     (let parent = sp_parent env; bdev = desc_bdev (sp_desc env);
          parent_iov_offset =
            wrap32 (unat ((split_current_offset_blocks st - offset_blocks parent) * ucast (blocklen bdev)));
          (pos, off) = skip_iovs (iov_lens (iovs parent)) 0 parent_iov_offset
      in rw_split_loop env pos off 0 st)"

subsection \<open>Rounds\<close>

definition continue_split :: "('p, 'c) split_env \<Rightarrow> ('p, 'c) split_state \<Rightarrow> ('p, 'c) split_state option" where
  "continue_split env st =
     (case io_type (sp_parent env) of
        SPDK_BDEV_IO_TYPE_READ \<Rightarrow> bdev_rw_split env st
      | SPDK_BDEV_IO_TYPE_WRITE \<Rightarrow> bdev_rw_split env st
      | SPDK_BDEV_IO_TYPE_UNMAP \<Rightarrow> Some (bdev_unmap_split env st)
      | SPDK_BDEV_IO_TYPE_WRITE_ZEROES \<Rightarrow> Some (bdev_write_zeroes_split env st)
      | SPDK_BDEV_IO_TYPE_COPY \<Rightarrow> Some (bdev_copy_split env st)
      | _ \<Rightarrow> Some st)"

definition parent_bdev_io_complete :: "rc \<Rightarrow> ('p, 'c) split_state \<Rightarrow> ('p, 'c) split_state" where
  "parent_bdev_io_complete rc st =
     complete_parent (if rc \<noteq> None then SPDK_BDEV_IO_STATUS_FAILED else split_status st) st"

text \<open>
  The completion of a child; \<open>ch\<close> is the channel behind the return of its descriptor, and \<open>child_accel\<close> what the code then still reads
  from that descriptor, its flag \<open>has_accel_sequence\<close>.
\<close>

definition bdev_io_split_done ::
  "('p, 'c) split_env \<Rightarrow> ('p, 'c) bdev_channel \<Rightarrow> bool \<Rightarrow> bool \<Rightarrow> ('p, 'c) split_state \<Rightarrow> ('p, 'c) split_state option" where
  "bdev_io_split_done env ch child_accel success st =
     (let st0 = st\<lparr>split_ch := ch, split_results := split_results st @ [success]\<rparr>;
          st1 = (if success then st0
                 else st0\<lparr>split_status := SPDK_BDEV_IO_STATUS_FAILED,
                   split_current_offset_blocks := split_current_offset_blocks st + split_remaining_num_blocks st,
                   split_remaining_num_blocks := 0\<rparr>);
          st2 = st1\<lparr>split_outstanding := split_outstanding st - 1\<rparr>
      in if split_outstanding st2 \<noteq> 0 then Some st2
         else if split_remaining_num_blocks st2 = 0 then
           Some (if split_status st2 = SPDK_BDEV_IO_STATUS_SUCCESS \<and> bdev_io_needs_sequence_exec (sp_desc env) (sp_parent env)
                 then st2\<lparr>split_waiting := Wait_Sequence\<rparr>
                 else if split_status st2 = SPDK_BDEV_IO_STATUS_SUCCESS \<and> sp_orig_iovcnt env \<noteq> 0 \<and> \<not> child_accel
                 then st2\<lparr>split_waiting := Wait_Push\<rparr>
                 else parent_bdev_io_complete None st2)
         else continue_split env st2)"

definition split_start :: "('p, 'c) split_env \<Rightarrow> ('p, 'c) bdev_channel \<Rightarrow> ('p, 'c) split_state" where
  "split_start env ch =
     \<lparr>split_ch = ch, split_current_offset_blocks = offset_blocks (sp_parent env),
      split_remaining_num_blocks = num_blocks (sp_parent env), split_outstanding = 0,
      split_status = SPDK_BDEV_IO_STATUS_SUCCESS, split_waiting = Not_Waiting,
      split_children = [], split_results = [], split_completed = []\<rparr>"

definition is_rw :: "spdk_bdev_io_type \<Rightarrow> bool" where
  "is_rw t \<longleftrightarrow> t = SPDK_BDEV_IO_TYPE_READ \<or> t = SPDK_BDEV_IO_TYPE_WRITE"

definition bdev_io_split :: "('p, 'c) split_env \<Rightarrow> ('p, 'c) bdev_channel \<Rightarrow> ('p, 'c) split_state option" where
  "bdev_io_split env ch =
     (let parent = sp_parent env; st = split_start env ch in
      if is_rw (io_type parent) \<and> \<not> is_buf_allocated (iovs parent)
      then Some (st\<lparr>split_waiting := Wait_Buffer\<rparr>)
      else continue_split env st)"

definition bdev_rw_split_get_buf_cb :: "('p, 'c) split_env \<Rightarrow> bool \<Rightarrow> ('p, 'c) split_state \<Rightarrow> ('p, 'c) split_state option" where
  "bdev_rw_split_get_buf_cb env success st =
     (let st1 = st\<lparr>split_waiting := Not_Waiting\<rparr> in
      if \<not> success then Some (complete_parent SPDK_BDEV_IO_STATUS_FAILED st1) else bdev_rw_split env st1)"

text \<open>
  The life of a parent: a child completes, the parent's turn for a descriptor or a buffer comes, its accel sequence or the copy from its
  bounce buffer ends with \<open>rc\<close>, or other I/Os of the channel go on.
\<close>

inductive split_step :: "('p, 'c) split_env \<Rightarrow> ('p, 'c) split_state \<Rightarrow> ('p, 'c) split_state \<Rightarrow> bool" for env where
  child_done: "0 < split_outstanding st \<Longrightarrow> bdev_io_split_done env ch child_accel success st = Some st' \<Longrightarrow> split_step env st st'"
| wait_over: "split_waiting st = Wait_Descriptor \<Longrightarrow>
    continue_split env (st\<lparr>split_ch := ch, split_waiting := Not_Waiting\<rparr>) = Some st' \<Longrightarrow> split_step env st st'"
| buffer: "split_waiting st = Wait_Buffer \<Longrightarrow> is_rw (io_type (sp_parent env)) \<Longrightarrow> bdev_rw_split_get_buf_cb env success (st\<lparr>split_ch := ch\<rparr>) = Some st' \<Longrightarrow>
    split_step env st st'"
| finish: "split_waiting st = Wait_Sequence \<or> split_waiting st = Wait_Push \<Longrightarrow>
    split_step env st (parent_bdev_io_complete rc (st\<lparr>split_ch := ch, split_waiting := Not_Waiting\<rparr>))"
| other_io: "split_step env st (st\<lparr>split_ch := ch\<rparr>)"

inductive_cases split_stepE: "split_step env st st'"

subsection \<open>The invariant\<close>

text \<open>Children follow each other without gap or overlap.\<close>

fun tiled :: "nat \<Rightarrow> (u64 \<times> u64 \<times> seg list) list \<Rightarrow> nat \<Rightarrow> bool" where
  "tiled a [] b \<longleftrightarrow> a = b"
| "tiled a ((offset, num, segs) # cs) b \<longleftrightarrow> unat offset = a \<and> tiled (a + unat num) cs b"

lemma tiled_append: "tiled a (cs @ [(offset, num, segs)]) b \<longleftrightarrow> tiled a cs (unat offset) \<and> b = unat offset + unat num"
  by (induction a cs b rule: tiled.induct) auto

definition split_end :: "('p, 'c) split_env \<Rightarrow> nat" where
  "split_end env = unat (offset_blocks (sp_parent env)) + unat (num_blocks (sp_parent env))"

text \<open>
  In every state of a round: the children tile the range up to the current offset, unless a child failed; the counts agree; the parent is
  not completed and not waiting while children are outstanding.
\<close>

definition split_core :: "('p, 'c) split_env \<Rightarrow> ('p, 'c) split_state \<Rightarrow> bool" where
  "split_core env st \<longleftrightarrow>
     unat (split_current_offset_blocks st) + unat (split_remaining_num_blocks st) = split_end env \<and>
     (split_remaining_num_blocks st = 0 \<and> split_status st = SPDK_BDEV_IO_STATUS_FAILED \<or>
      tiled (unat (offset_blocks (sp_parent env))) (split_children st) (unat (split_current_offset_blocks st))) \<and>
     (\<exists>b. tiled (unat (offset_blocks (sp_parent env))) (split_children st) b \<and> b \<le> split_end env) \<and>
     length (split_children st) = split_outstanding st + length (split_results st) \<and>
     (split_status st = SPDK_BDEV_IO_STATUS_FAILED \<or>
      split_status st = SPDK_BDEV_IO_STATUS_SUCCESS \<and> list_all (\<lambda>r. r) (split_results st))"

definition split_ended :: "('p, 'c) split_state \<Rightarrow> bool" where
  "split_ended st \<longleftrightarrow>
     split_outstanding st = 0 \<and> split_waiting st = Not_Waiting \<and> split_completed st = [split_status st] \<and>
     (split_status st = SPDK_BDEV_IO_STATUS_SUCCESS \<longrightarrow> split_remaining_num_blocks st = 0)"

definition split_alive :: "('p, 'c) split_state \<Rightarrow> bool" where
  "split_alive st \<longleftrightarrow>
     split_completed st = [] \<and> (0 < split_outstanding st \<and> split_waiting st = Not_Waiting \<or>
       split_outstanding st = 0 \<and>
         (if split_waiting st = Wait_Descriptor \<or> split_waiting st = Wait_Buffer then split_remaining_num_blocks st \<noteq> 0
          else split_waiting st \<noteq> Not_Waiting \<and> split_remaining_num_blocks st = 0))"

definition split_idle :: "('p, 'c) split_state \<Rightarrow> bool" where
  "split_idle st \<longleftrightarrow> split_completed st = [] \<and> split_waiting st = Not_Waiting"

definition split_inv :: "('p, 'c) split_env \<Rightarrow> ('p, 'c) split_state \<Rightarrow> bool" where
  "split_inv env st \<longleftrightarrow> split_core env st \<and> (split_ended st \<or> split_alive st)"

lemma wait_with_cb_fields:
  "split_current_offset_blocks (bdev_queue_io_wait_with_cb env st) = split_current_offset_blocks st"
  "split_remaining_num_blocks (bdev_queue_io_wait_with_cb env st) = split_remaining_num_blocks st"
  "split_outstanding (bdev_queue_io_wait_with_cb env st) = split_outstanding st"
  "split_children (bdev_queue_io_wait_with_cb env st) = split_children st"
  "split_results (bdev_queue_io_wait_with_cb env st) = split_results st"
  by (auto simp: bdev_queue_io_wait_with_cb_def complete_parent_def split: prod.splits option.splits)

lemma wait_with_cb_ends:
  assumes "split_idle st" "split_outstanding st = 0" "split_remaining_num_blocks st \<noteq> 0"
  shows "split_ended (bdev_queue_io_wait_with_cb env st) \<or>
    split_alive (bdev_queue_io_wait_with_cb env st) \<and> split_status (bdev_queue_io_wait_with_cb env st) = split_status st"
    "split_status (bdev_queue_io_wait_with_cb env st) = SPDK_BDEV_IO_STATUS_FAILED \<or>
     split_status (bdev_queue_io_wait_with_cb env st) = split_status st"
  using assms
  by (auto simp: bdev_queue_io_wait_with_cb_def complete_parent_def split_ended_def split_alive_def split_idle_def
      split: prod.splits option.splits)

lemma split_submit_refused:
  assumes "bdev_io_split_submit env segs md num st = (Some e, st')" "split_remaining_num_blocks st \<noteq> 0"
  shows "split_current_offset_blocks st' = split_current_offset_blocks st"
    "split_remaining_num_blocks st' = split_remaining_num_blocks st" "split_outstanding st' = split_outstanding st"
    "split_children st' = split_children st" "split_results st' = split_results st"
    "split_idle st \<Longrightarrow> split_status st' = split_status st \<or> split_status st' = SPDK_BDEV_IO_STATUS_FAILED"
    "split_idle st \<Longrightarrow> split_ended st' \<or> split_alive st'"
proof -
  obtain ch where child: "submit_child env (split_ch st) segs md (split_current_offset_blocks st) num = (Some e, ch)"
    using assms(1) by (auto simp: bdev_io_split_submit_def Let_def split: prod.splits option.splits)
  define st1 where "st1 = st\<lparr>split_ch := ch\<rparr>"
  have st': "st' = (if e = ENOMEM then
        (if split_outstanding st1 = 0 then bdev_queue_io_wait_with_cb env st1 else st1)
      else if split_outstanding st1 = 0 then complete_parent SPDK_BDEV_IO_STATUS_FAILED st1
      else st1\<lparr>split_status := SPDK_BDEV_IO_STATUS_FAILED\<rparr>)"
    using assms(1) child by (auto simp: bdev_io_split_submit_def Let_def st1_def split: if_splits)
  have st1: "split_current_offset_blocks st1 = split_current_offset_blocks st"
    "split_remaining_num_blocks st1 = split_remaining_num_blocks st" "split_outstanding st1 = split_outstanding st"
    "split_children st1 = split_children st" "split_results st1 = split_results st" "split_status st1 = split_status st"
    "split_idle st1 = split_idle st"
    by (simp_all add: st1_def split_idle_def)
  show "split_current_offset_blocks st' = split_current_offset_blocks st"
    "split_remaining_num_blocks st' = split_remaining_num_blocks st" "split_outstanding st' = split_outstanding st"
    "split_children st' = split_children st" "split_results st' = split_results st"
    using st1 by (simp_all add: st' wait_with_cb_fields complete_parent_def)
  show "split_idle st \<Longrightarrow> split_status st' = split_status st \<or> split_status st' = SPDK_BDEV_IO_STATUS_FAILED"
    using st1 assms(2) wait_with_cb_ends(2) [of st1 env] by (auto simp: st' complete_parent_def)
  show "split_idle st \<Longrightarrow> split_ended st' \<or> split_alive st'"
    using st1 assms(2) wait_with_cb_ends(1) [of st1 env]
    by (auto simp: st' complete_parent_def split_ended_def split_alive_def split_idle_def)
qed

text \<open>A submission in a round: either one more child, or the round ends here, in order.\<close>

lemma split_submit_core:
  assumes "bdev_io_split_submit env segs md num st = (e, st')" "split_core env st" "split_idle st"
    and "split_remaining_num_blocks st \<noteq> 0" "num \<le> split_remaining_num_blocks st" "split_end env < 2 ^ 64"
  shows "split_core env st'" "e = None \<Longrightarrow> split_idle st' \<and> 0 < split_outstanding st'" "e \<noteq> None \<Longrightarrow> split_ended st' \<or> split_alive st'"
proof -
  have "split_core env st' \<and> split_idle st' \<and> 0 < split_outstanding st'" if "e = None"
  proof -
    note ok = split_submit_ok [OF assms(1) [unfolded that]]
    have sum: "unat (split_current_offset_blocks st) + unat (split_remaining_num_blocks st) = split_end env"
      and tile: "tiled (unat (offset_blocks (sp_parent env))) (split_children st) (unat (split_current_offset_blocks st))"
      using assms(2,4) by (auto simp: split_core_def)
    have le: "unat num \<le> unat (split_remaining_num_blocks st)" using assms(5) by (simp add: word_le_nat_alt)
    have "unat (split_current_offset_blocks st + num) = unat (split_current_offset_blocks st) + unat num"
      using sum le assms(6) by (subst unat_plus_simple [THEN iffD1]) (simp_all add: no_olen_add_nat)
    moreover have "unat (split_remaining_num_blocks st - num) = unat (split_remaining_num_blocks st) - unat num"
      using assms(5) by (rule unat_sub)
    ultimately show ?thesis
      using assms(2,3) sum le tile by (auto simp: ok split_core_def split_idle_def tiled_append)
  qed
  moreover have "split_core env st' \<and> (split_ended st' \<or> split_alive st')" if "e \<noteq> None"
  proof -
    from that obtain e' where "e = Some e'" by blast
    note no = split_submit_refused [OF assms(1) [unfolded this] assms(4)]
    show ?thesis using assms(2,4) no(1-5) no(6,7) [OF assms(3)] by (auto simp: split_core_def)
  qed
  ultimately show "split_core env st'" "e = None \<Longrightarrow> split_idle st' \<and> 0 < split_outstanding st'" "e \<noteq> None \<Longrightarrow> split_ended st' \<or> split_alive st'"
    by (cases e; blast)+
qed

lemma split_loop_inv:
  assumes "split_core env st" "split_idle st" "0 < split_outstanding st \<or> split_remaining_num_blocks st \<noteq> 0 \<and> 0 < n"
    and "split_end env < 2 ^ 64"
  shows "split_inv env (split_loop env limit n st)"
  using assms(1-3)
proof (induction n arbitrary: st)
  case 0
  then show ?case by (auto simp: split_inv_def split_alive_def split_idle_def)
next
  case (Suc n)
  show ?case
  proof (cases "split_remaining_num_blocks st = 0")
    case True
    with Suc.prems show ?thesis by (auto simp: split_inv_def split_alive_def split_idle_def)
  next
    case False
    obtain e st' where sub: "bdev_io_split_submit env [] Null (min (split_remaining_num_blocks st) limit) st = (e, st')" by fastforce
    note core = split_submit_core [OF sub Suc.prems(1,2) False _ assms(4)]
    show ?thesis
      using Suc.IH [of st'] core False sub by (cases e) (auto simp: split_inv_def)
  qed
qed

text \<open>Induction over the loop of a round, by what its first child comes to.\<close>

definition rw_go :: "('p, 'c) split_env \<Rightarrow> nat \<Rightarrow> nat \<Rightarrow> ('p, 'c) split_state \<Rightarrow> bool" where
  "rw_go env pos cnt st \<longleftrightarrow>
     split_remaining_num_blocks st \<noteq> 0 \<and> pos < length (iov_lens (iovs (sp_parent env))) \<and> cnt < SPDK_BDEV_IO_NUM_CHILD_IOV"

definition rw_next :: "('p, 'c) split_env \<Rightarrow> nat \<Rightarrow> nat \<Rightarrow> nat \<Rightarrow> ('p, 'c) split_state \<Rightarrow> rw_child" where
  "rw_next env pos off cnt st =
     next_rw_child (desc_bdev (sp_desc env)) (io_type (sp_parent env)) (iov_lens (iovs (sp_parent env)))
       (unat (split_current_offset_blocks st)) (unat (split_remaining_num_blocks st)) pos off cnt"

lemma rw_split_loop_induct [consumes 1, case_names stop short refused child]:
  assumes "rw_split_loop env pos off cnt st = Some st'"
    and "\<And>pos off cnt st. \<not> rw_go env pos cnt st \<Longrightarrow> P pos off cnt st st"
    and "\<And>pos off cnt st. rw_go env pos cnt st \<Longrightarrow> rw_next env pos off cnt st = Short_Child \<Longrightarrow>
      P pos off cnt st (if split_outstanding st = 0 then complete_parent SPDK_BDEV_IO_STATUS_FAILED st else st)"
    and "\<And>pos off cnt st n segs pos' off' cnt' md e st1. rw_go env pos cnt st \<Longrightarrow>
      rw_next env pos off cnt st = Rw_Child n segs pos' off' cnt' \<Longrightarrow>
      bdev_io_split_submit env segs md (of_nat n) st = (Some e, st1) \<Longrightarrow> P pos off cnt st st1"
    and "\<And>pos off cnt st n segs pos' off' cnt' md st1 st'. rw_go env pos cnt st \<Longrightarrow>
      rw_next env pos off cnt st = Rw_Child n segs pos' off' cnt' \<Longrightarrow>
      bdev_io_split_submit env segs md (of_nat n) st = (None, st1) \<Longrightarrow> P pos' off' cnt' st1 st' \<Longrightarrow> P pos off cnt st st'"
  shows "P pos off cnt st st'"
  using assms
proof (induction env pos off cnt st rule: rw_split_loop.induct)
  case (1 env pos off cnt st)
  note run = "1.prems"(1) [unfolded rw_split_loop.simps [of env pos off cnt st] Let_def, folded rw_go_def rw_next_def]
  show ?case
  proof (cases "rw_go env pos cnt st")
    case False
    with run "1.prems"(2) show ?thesis by auto
  next
    case go: True
    note go' = go [unfolded rw_go_def]
    show ?thesis
    proof (cases "rw_next env pos off cnt st")
      case Divide_By_Zero
      with run go show ?thesis by simp
    next
      case Short_Child
      with run go "1.prems"(3) [OF go] show ?thesis by simp
    next
      case child: (Rw_Child n segs pos' off' cnt')
      let ?md = "if md_buf (sp_parent env) = Null then Null
         else sp_child_md env (split_current_offset_blocks st - offset_blocks (sp_parent env))"
      obtain e st1 where sub: "bdev_io_split_submit env segs ?md (of_nat n) st = (e, st1)" by fastforce
      show ?thesis
      proof (cases e)
        case None
        then have "rw_split_loop env pos' off' cnt' st1 = Some st'" using run go child sub by simp
        then have "P pos' off' cnt' st1 st'"
          using "1.IH" [OF refl refl refl go' child [unfolded rw_next_def] refl sub [symmetric] None] "1.prems"(2-) by blast
        with "1.prems"(5) [OF go child] sub None show ?thesis by blast
      next
        case (Some x)
        then have "st' = st1" using run go child sub by simp
        with "1.prems"(4) [OF go child] sub Some show ?thesis by blast
      qed
    qed
  qed
qed

lemma rw_next_blocks:
  assumes "rw_go env pos cnt st" "rw_next env pos off cnt st = Rw_Child n segs pos' off' cnt'"
  shows "unat (of_nat n :: u64) = n" "of_nat n \<le> split_remaining_num_blocks st"
proof -
  have "0 < unat (split_remaining_num_blocks st)" using assms(1) by (simp add: rw_go_def unat_gt_0)
  then have "n \<le> unat (split_remaining_num_blocks st)"
    using next_rw_child_progress(1) [OF assms(2) [unfolded rw_next_def]] assms(1) by (simp add: rw_go_def)
  moreover from this show "unat (of_nat n :: u64) = n"
    using unat_bounds(4) [of "split_remaining_num_blocks st"] by (simp add: unat_of_nat)
  ultimately show "of_nat n \<le> split_remaining_num_blocks st" by (simp add: word_le_nat_alt)
qed

lemma rw_split_loop_inv:
  assumes "rw_split_loop env pos off cnt st = Some st'" "split_core env st" "split_idle st"
    and "0 < split_outstanding st \<or> rw_go env pos cnt st" "split_end env < 2 ^ 64"
  shows "split_inv env st'"
  using assms(1-4)
proof (induction rule: rw_split_loop_induct)
  case (stop pos off cnt st)
  then show ?case by (auto simp: split_inv_def split_alive_def split_idle_def)
next
  case (short pos off cnt st)
  then show ?case
    by (auto simp: split_inv_def split_core_def split_alive_def split_idle_def split_ended_def complete_parent_def rw_go_def)
next
  case (refused pos off cnt st n segs pos' off' cnt' md e st1)
  have "split_remaining_num_blocks st \<noteq> 0" using refused(1) by (simp add: rw_go_def)
  from split_submit_core [OF refused(3,4,5) this rw_next_blocks(2) [OF refused(1,2)] assms(5)] show ?case
    by (simp add: split_inv_def)
next
  case (child pos off cnt st n segs pos' off' cnt' md st1 st')
  have "split_remaining_num_blocks st \<noteq> 0" using child(1) by (simp add: rw_go_def)
  from split_submit_core [OF child(3,5,6) this rw_next_blocks(2) [OF child(1,2)] assms(5)] child(4) show ?case by simp
qed

subsection \<open>Positions in the parent's buffers\<close>

definition fpos :: "nat list \<Rightarrow> nat \<Rightarrow> nat \<Rightarrow> nat" where
  "fpos lens pos off = sum_list (take pos lens) + off"

lemma skip_iovs_pos:
  assumes "skip_iovs lens p k = (pos, off)" "k < sum_list lens"
  shows "p \<le> pos \<and> pos - p < length lens \<and> off < lens ! (pos - p) \<and> fpos lens (pos - p) off = k"
  using assms
proof (induction lens p k rule: skip_iovs.induct)
  case (1 p k)
  then show ?case by simp
next
  case (2 l lens p k)
  show ?case
  proof (cases "k < l")
    case True
    with 2 show ?thesis by (auto simp: fpos_def)
  next
    case False
    with 2 have "Suc p \<le> pos \<and> pos - Suc p < length lens \<and> off < lens ! (pos - Suc p) \<and> fpos lens (pos - Suc p) off = k - l" by simp
    moreover from this obtain j where "pos - p = Suc j" "pos - Suc p = j" by (metis Suc_diff_le diff_Suc_Suc)
    ultimately show ?thesis using False by (auto simp: fpos_def)
  qed
qed

text \<open>
  What is assumed of a parent: its range does not wrap and is not empty, it has a type that is split, and the buffers of a read or write are as
  long as the range and shorter than 4 GiB.
\<close>

definition splittable :: "('p, 'c) split_env \<Rightarrow> bool" where
  "splittable env \<longleftrightarrow>
     (let parent = sp_parent env; bytes = unat (num_blocks parent) * unat (blocklen (desc_bdev (sp_desc env))) in
      split_end env < 2 ^ 64 \<and> num_blocks parent \<noteq> 0 \<and>
      (is_rw (io_type parent) \<and> sum_list (iov_lens (iovs parent)) = bytes \<and> 0 < bytes \<and> bytes < 2 ^ 32 \<or>
       io_type parent = SPDK_BDEV_IO_TYPE_UNMAP \<or> io_type parent = SPDK_BDEV_IO_TYPE_WRITE_ZEROES \<or>
       io_type parent = SPDK_BDEV_IO_TYPE_COPY))"

definition disp :: "('p, 'c) split_env \<Rightarrow> ('p, 'c) split_state \<Rightarrow> nat" where
  "disp env st = (unat (split_current_offset_blocks st) - unat (offset_blocks (sp_parent env))) * unat (blocklen (desc_bdev (sp_desc env)))"

lemma tiled_le: "tiled a cs b \<Longrightarrow> a \<le> b"
  by (induction a cs b rule: tiled.induct) auto

lemma rw_split_position:
  assumes "splittable env" "is_rw (io_type (sp_parent env))" "split_core env st" "split_remaining_num_blocks st \<noteq> 0"
    and "skip_iovs (iov_lens (iovs (sp_parent env))) 0
      (wrap32 (unat ((split_current_offset_blocks st - offset_blocks (sp_parent env)) * ucast (blocklen (desc_bdev (sp_desc env)))))) = (pos, off)"
  shows "pos < length (iov_lens (iovs (sp_parent env)))" "off < iov_lens (iovs (sp_parent env)) ! pos"
    "fpos (iov_lens (iovs (sp_parent env))) pos off = disp env st"
proof -
  let ?cur = "split_current_offset_blocks st" and ?off = "offset_blocks (sp_parent env)" and ?bl = "blocklen (desc_bdev (sp_desc env))"
  have tile: "tiled (unat ?off) (split_children st) (unat ?cur)" and sum: "unat ?cur + unat (split_remaining_num_blocks st) = split_end env"
    using assms(3,4) by (auto simp: split_core_def)
  have rem: "0 < unat (split_remaining_num_blocks st)" using assms(4) by (simp add: unat_gt_0)
  have bytes: "sum_list (iov_lens (iovs (sp_parent env))) = unat (num_blocks (sp_parent env)) * unat ?bl"
    "unat (num_blocks (sp_parent env)) * unat ?bl < 2 ^ 32" "0 < unat ?bl"
    using assms(1,2) by (auto simp: splittable_def Let_def is_rw_def)
  have le: "?off \<le> ?cur" using tiled_le [OF tile] by (simp add: word_le_nat_alt)
  then have d: "unat (?cur - ?off) = unat ?cur - unat ?off" by (rule unat_sub)
  have lt: "unat ?cur - unat ?off < unat (num_blocks (sp_parent env))" using sum rem tiled_le [OF tile] unfolding split_end_def by linarith
  then have small: "(unat ?cur - unat ?off) * unat ?bl < unat (num_blocks (sp_parent env)) * unat ?bl" using bytes(3) by simp
  from less_trans [OF this bytes(2)] have w32: "(unat ?cur - unat ?off) * unat ?bl < 2 ^ 32" .
  then have "(unat ?cur - unat ?off) * unat ?bl < 2 ^ 64" by (rule less_trans) simp
  then have "unat ((?cur - ?off) * ucast ?bl) = (unat ?cur - unat ?off) * unat ?bl"
    using d by (subst unat_mult_lem [THEN iffD1]) simp_all
  then have "wrap32 (unat ((?cur - ?off) * ucast ?bl)) = disp env st" "disp env st < sum_list (iov_lens (iovs (sp_parent env)))"
    using small w32 bytes(1) by (simp_all only: wrap32_def disp_def mod_less)
  with skip_iovs_pos [OF assms(5)]
  show "pos < length (iov_lens (iovs (sp_parent env)))" "off < iov_lens (iovs (sp_parent env)) ! pos"
    "fpos (iov_lens (iovs (sp_parent env))) pos off = disp env st"
    by auto
qed

lemma continue_split_inv:
  assumes "continue_split env st = Some st'" "splittable env" "split_core env st" "split_idle st" "split_remaining_num_blocks st \<noteq> 0"
  shows "split_inv env st'"
proof -
  have lt: "split_end env < 2 ^ 64" using assms(2) by (simp add: splittable_def Let_def)
  have loop: "0 < n \<Longrightarrow> split_inv env (split_loop env limit n st)" for limit n
    by (rule split_loop_inv [OF assms(3,4) _ lt]) (use assms(5) in simp)
  then have loops: "split_inv env (bdev_unmap_split env st)" "split_inv env (bdev_write_zeroes_split env st)"
    "split_inv env (bdev_copy_split env st)"
    by (simp_all add: bdev_unmap_split_def bdev_write_zeroes_split_def bdev_copy_split_def Let_def
        SPDK_BDEV_MAX_CHILDREN_UNMAP_WRITE_ZEROES_REQS_def SPDK_BDEV_MAX_CHILDREN_COPY_REQS_def)
  show ?thesis
  proof (cases "is_rw (io_type (sp_parent env))")
    case True
    obtain pos off where skip: "skip_iovs (iov_lens (iovs (sp_parent env))) 0
      (wrap32 (unat ((split_current_offset_blocks st - offset_blocks (sp_parent env)) * ucast (blocklen (desc_bdev (sp_desc env)))))) = (pos, off)"
      by fastforce
    then have "rw_split_loop env pos off 0 st = Some st'"
      using assms(1) True by (auto simp: continue_split_def bdev_rw_split_def is_rw_def Let_def)
    moreover have "rw_go env pos 0 st"
      using rw_split_position(1) [OF assms(2) True assms(3,5) skip] assms(5) by (simp add: rw_go_def SPDK_BDEV_IO_NUM_CHILD_IOV_def)
    ultimately show ?thesis using rw_split_loop_inv assms(3,4) lt by blast
  next
    case False
    with assms(1,2) loops show ?thesis by (auto simp: splittable_def Let_def continue_split_def is_rw_def)
  qed
qed

lemma core_ch [simp]: "split_core env (st\<lparr>split_ch := ch\<rparr>) = split_core env st"
  "split_core env (st\<lparr>split_waiting := w\<rparr>) = split_core env st"
  by (simp_all add: split_core_def)

lemma split_start_core: "split_core env (split_start env ch)"
  by (auto simp: split_core_def split_start_def split_end_def)

lemma split_done_cases:
  assumes "split_inv env st" "0 < split_outstanding st" "bdev_io_split_done env ch child_accel success st = Some st'" "splittable env"
  obtains st1 where "split_core env st1" "split_idle st1" "split_children st1 = split_children st"
    "split_outstanding st1 \<noteq> 0 \<and> st' = st1 \<or>
     split_outstanding st1 = 0 \<and> split_remaining_num_blocks st1 = 0 \<and>
       (st' = parent_bdev_io_complete None st1 \<or> st' = st1\<lparr>split_waiting := Wait_Sequence\<rparr> \<or> st' = st1\<lparr>split_waiting := Wait_Push\<rparr>) \<or>
     split_outstanding st1 = 0 \<and> split_remaining_num_blocks st1 \<noteq> 0 \<and> continue_split env st1 = Some st'"
proof -
  define st1 where "st1 = (if success then st\<lparr>split_ch := ch, split_results := split_results st @ [success], split_outstanding := split_outstanding st - 1\<rparr>
    else st\<lparr>split_ch := ch, split_results := split_results st @ [success], split_status := SPDK_BDEV_IO_STATUS_FAILED,
       split_current_offset_blocks := split_current_offset_blocks st + split_remaining_num_blocks st,
       split_remaining_num_blocks := 0, split_outstanding := split_outstanding st - 1\<rparr>)"
  have run: "split_outstanding st1 \<noteq> 0 \<and> st' = st1 \<or>
     split_outstanding st1 = 0 \<and> split_remaining_num_blocks st1 = 0 \<and>
       (st' = parent_bdev_io_complete None st1 \<or> st' = st1\<lparr>split_waiting := Wait_Sequence\<rparr> \<or> st' = st1\<lparr>split_waiting := Wait_Push\<rparr>) \<or>
     split_outstanding st1 = 0 \<and> split_remaining_num_blocks st1 \<noteq> 0 \<and> continue_split env st1 = Some st'"
    using assms(3) by (auto simp: bdev_io_split_done_def Let_def st1_def split: if_splits)
  have "split_idle st" using assms(1,2) by (auto simp: split_inv_def split_ended_def split_alive_def split_idle_def)
  then have idle: "split_idle st1" by (simp add: st1_def split_idle_def)
  have core: "split_core env st" and sum: "unat (split_current_offset_blocks st) + unat (split_remaining_num_blocks st) = split_end env"
    and "split_end env < 2 ^ 64"
    using assms(1,4) by (auto simp: split_inv_def split_core_def splittable_def Let_def)
  then have "unat (split_current_offset_blocks st + split_remaining_num_blocks st) = split_end env"
    by (subst unat_plus_simple [THEN iffD1]) (simp_all add: no_olen_add_nat)
  with core sum assms(2) have core1: "split_core env st1"
    by (auto simp: split_core_def st1_def)
  show thesis by (rule that [OF core1 idle _ run]) (simp add: st1_def)
qed

lemma split_done_inv:
  assumes "split_inv env st" "0 < split_outstanding st" "bdev_io_split_done env ch child_accel success st = Some st'" "splittable env"
  shows "split_inv env st'"
proof -
  obtain st1 where core1: "split_core env st1" and idle: "split_idle st1" and
    run: "split_outstanding st1 \<noteq> 0 \<and> st' = st1 \<or>
     split_outstanding st1 = 0 \<and> split_remaining_num_blocks st1 = 0 \<and>
       (st' = parent_bdev_io_complete None st1 \<or> st' = st1\<lparr>split_waiting := Wait_Sequence\<rparr> \<or> st' = st1\<lparr>split_waiting := Wait_Push\<rparr>) \<or>
     split_outstanding st1 = 0 \<and> split_remaining_num_blocks st1 \<noteq> 0 \<and> continue_split env st1 = Some st'"
    by (rule split_done_cases [OF assms])
  have ends: "split_outstanding st1 = 0 \<Longrightarrow> split_remaining_num_blocks st1 = 0 \<Longrightarrow> split_inv env (parent_bdev_io_complete None st1)"
    using core1 idle by (auto simp: split_inv_def split_core_def split_ended_def split_idle_def parent_bdev_io_complete_def complete_parent_def)
  have waits: "split_outstanding st1 = 0 \<Longrightarrow> split_remaining_num_blocks st1 = 0 \<Longrightarrow> w = Wait_Sequence \<or> w = Wait_Push \<Longrightarrow>
      split_inv env (st1\<lparr>split_waiting := w\<rparr>)" for w
    using core1 idle by (auto simp: split_inv_def split_alive_def split_idle_def)
  have goes: "split_outstanding st1 \<noteq> 0 \<Longrightarrow> split_inv env st1"
    using core1 idle by (auto simp: split_inv_def split_alive_def split_idle_def)
  from run show ?thesis
    by (elim disjE conjE) (simp_all only: ends waits goes continue_split_inv [OF _ assms(4) core1 idle] simp_thms)
qed

lemma rw_is_continue: "is_rw (io_type (sp_parent env)) \<Longrightarrow> bdev_rw_split env st = continue_split env st"
  by (auto simp: is_rw_def continue_split_def)

lemma split_waiting_ready:
  assumes "split_inv env st" "split_waiting st = Wait_Descriptor \<or> split_waiting st = Wait_Buffer"
  shows "split_core env st" "split_idle (st\<lparr>split_ch := ch, split_waiting := Not_Waiting\<rparr>)" "split_remaining_num_blocks st \<noteq> 0"
    "split_outstanding st = 0"
  using assms by (auto simp: split_inv_def split_ended_def split_alive_def split_idle_def)

lemma split_step_inv:
  assumes "split_step env st st'" "split_inv env st" "splittable env"
  shows "split_inv env st'"
  using assms(1)
proof (cases rule: split_step.cases)
  case (child_done ch child_accel success)
  then show ?thesis using split_done_inv assms(2,3) by blast
next
  case (wait_over ch)
  then have "split_core env st" "split_idle (st\<lparr>split_ch := ch, split_waiting := Not_Waiting\<rparr>)" "split_remaining_num_blocks st \<noteq> 0"
    using split_waiting_ready [OF assms(2)] by simp_all
  then show ?thesis by (intro continue_split_inv [OF wait_over(2) assms(3)]) simp_all
next
  case (buffer success ch)
  then have st: "split_core env st" "split_idle (st\<lparr>split_ch := ch, split_waiting := Not_Waiting\<rparr>)" "split_remaining_num_blocks st \<noteq> 0"
    "split_outstanding st = 0"
    using split_waiting_ready [OF assms(2)] by simp_all
  show ?thesis
  proof (cases success)
    case True
    with buffer have go: "continue_split env (st\<lparr>split_ch := ch, split_waiting := Not_Waiting\<rparr>) = Some st'"
      by (simp add: bdev_rw_split_get_buf_cb_def Let_def rw_is_continue)
    from st show ?thesis by (intro continue_split_inv [OF go assms(3)]) simp_all
  next
    case False
    with buffer(3) have "st' = complete_parent SPDK_BDEV_IO_STATUS_FAILED (st\<lparr>split_ch := ch, split_waiting := Not_Waiting\<rparr>)"
      by (simp add: bdev_rw_split_get_buf_cb_def Let_def)
    with st show ?thesis by (auto simp: split_inv_def split_core_def split_ended_def split_idle_def complete_parent_def)
  qed
next
  case (finish rc ch)
  then have "split_core env st" "split_outstanding st = 0" "split_remaining_num_blocks st = 0" "split_completed st = []"
    using assms(2) by (auto simp: split_inv_def split_ended_def split_alive_def)
  then show ?thesis
    by (auto simp: finish(1) split_inv_def split_core_def split_ended_def parent_bdev_io_complete_def complete_parent_def)
next
  case (other_io ch)
  then show ?thesis using assms(2) by (simp add: split_inv_def split_ended_def split_alive_def split del: if_split cong: if_cong)
qed

lemma split_started_inv:
  assumes "bdev_io_split env ch = Some st" "splittable env"
  shows "split_inv env st"
proof (cases "is_rw (io_type (sp_parent env)) \<and> \<not> is_buf_allocated (iovs (sp_parent env))")
  case True
  then have "st = (split_start env ch)\<lparr>split_waiting := Wait_Buffer\<rparr>" using assms(1) by (simp add: bdev_io_split_def Let_def)
  moreover have "split_core env ((split_start env ch)\<lparr>split_waiting := Wait_Buffer\<rparr>)" by (simp add: split_start_core)
  moreover have "split_alive ((split_start env ch)\<lparr>split_waiting := Wait_Buffer\<rparr>)"
    using assms(2) by (simp add: split_alive_def split_start_def splittable_def Let_def)
  ultimately show ?thesis by (simp add: split_inv_def)
next
  case False
  then have "continue_split env (split_start env ch) = Some st" using assms(1) by (auto simp: bdev_io_split_def Let_def)
  then show ?thesis
    by (rule continue_split_inv [OF _ assms(2) split_start_core]) (use assms(2) in \<open>simp_all add: split_start_def split_idle_def splittable_def Let_def\<close>)
qed

lemma split_reachable_inv:
  assumes "splittable env" "bdev_io_split env ch = Some st" "(split_step env)\<^sup>*\<^sup>* st t"
  shows "split_inv env t"
  using assms(3)
proof (induction rule: rtranclp_induct)
  case base
  show ?case by (rule split_started_inv [OF assms(2,1)])
next
  case (step t t')
  then show ?case using split_step_inv assms(1) by blast
qed

end
