(* ===== verification/Bdev_Split_Run.thy ===== *)
theory Bdev_Split_Run
  imports Bdev_Split Samples
begin

section \<open>What splitting guarantees\<close>

text \<open>
  The buffers of the children of a read or write, the limits every child keeps, when a round faults, and the properties of the life of a parent.
\<close>

subsection \<open>The children's buffers\<close>

















lemma complete_parent_children [simp]: "split_children (complete_parent s st) = split_children st"
  by (simp add: complete_parent_def)



subsection \<open>No round faults\<close>



text \<open>An empty range that starts at a boundary ends, in the code's arithmetic, before it starts: in the stripe before.\<close>

lemma empty_range_crosses:
  assumes "b \<noteq> 0" "unat (x :: u64) mod unat (b :: u32) = 0"
  shows "x div ucast b \<noteq> (x - 1) div ucast b"
proof -
  have b: "0 < unat b" "unat b < 2 ^ 32" using assms(1) unat_bounds(3) [of b] by (simp_all add: unat_gt_0)
  have "unat x div unat b \<noteq> unat (x - 1) div unat b"
  proof (cases "x = 0")
    case True
    have "unat (x - 1) = 2 ^ 64 - 1" using True by (simp add: unsigned_minus_1_eq_mask mask_eq_exp_minus_1)
    then have "unat b \<le> unat (x - 1)" using b(2) by simp
    then have "0 < unat (x - 1) div unat b" using b(1) by (simp add: div_greater_zero_iff)
    with True show ?thesis by simp
  next
    case False
    then have m: "unat (x - 1) = unat x - 1" "0 < unat x" by (simp_all add: unat_minus_one unat_gt_0)
    obtain q where q: "unat x = unat b * q" using assms(2) by (auto simp: mod_eq_0_iff_dvd)
    then have "unat x - 1 < unat b * q" using m(2) by simp
    then have "(unat x - 1) div unat b < q" using b(1) by (simp add: less_mult_imp_div_less mult.commute)
    with m q b(1) show ?thesis by simp
  qed
  moreover have "unat (y div ucast b :: u64) = unat y div unat b" for y by (simp add: unat_div)
  ultimately show ?thesis by metis
qed

lemma empty_io_should_split:
  assumes "is_rw (io_type io)" "num_blocks io = 0" "\<not> (io_type io = SPDK_BDEV_IO_TYPE_WRITE \<and> split_on_write_unit bdev)"
    and "split_on_optimal_io_boundary bdev" "optimal_io_boundary bdev \<noteq> 0" "unat (offset_blocks io) mod unat (optimal_io_boundary bdev) = 0"
  shows "bdev_io_should_split bdev io"
proof -
  have boundary: "(if io_type io = SPDK_BDEV_IO_TYPE_WRITE \<and> split_on_write_unit bdev then write_unit_size bdev
     else if split_on_optimal_io_boundary bdev then optimal_io_boundary bdev else 0) = optimal_io_boundary bdev"
    using assms(3,4) by auto
  have "bdev_rw_should_split bdev io"
    unfolding bdev_rw_should_split_def Let_def boundary
    using assms(2,5) empty_range_crosses [OF assms(5,6)] pow2_shift(1) [of "optimal_io_boundary bdev"] by simp
  with assms(1) show ?thesis by (auto simp: bdev_io_should_split_def is_rw_def)
qed

lemma stuck_split_step:
  assumes "split_step env st st'" "split_outstanding st = 0" "split_waiting st = Not_Waiting" "split_completed st = []"
  shows "split_outstanding st' = 0 \<and> split_waiting st' = Not_Waiting \<and> split_completed st' = []"
  using assms by (cases rule: split_step.cases) simp_all

lemma stuck_split:
  assumes "(split_step env)\<^sup>*\<^sup>* st t" "split_outstanding st = 0" "split_waiting st = Not_Waiting" "split_completed st = []"
  shows "split_outstanding t = 0 \<and> split_waiting t = Not_Waiting \<and> split_completed t = []"
  using assms(1)
proof (induction rule: rtranclp_induct)
  case base
  show ?case using assms(2-4) by simp
next
  case (step t t')
  then show ?case using stuck_split_step by blast
qed

lemma empty_rw_split:
  assumes "is_rw (io_type (sp_parent env))" "num_blocks (sp_parent env) = 0" "is_buf_allocated (iovs (sp_parent env))"
  shows "bdev_io_split env ch = Some (split_start env ch)"
proof -
  have "rw_split_loop env pos off 0 (split_start env ch) = Some (split_start env ch)" for pos off
    using assms(2) by (subst rw_split_loop.simps) (simp add: split_start_def Let_def)
  with assms show ?thesis
    by (auto simp: bdev_io_split_def Let_def is_rw_def continue_split_def bdev_rw_split_def split: prod.split)
qed

subsection \<open>Properties\<close>




text \<open>
  C20: A read or write of zero blocks that starts at a boundary of a device with an optimal I/O
  boundary is split, because its last block is computed as the one before its first; no child is
  submitted, and the I/O is never completed.
\<close>

theorem empty_io_at_boundary_never_completes:
  assumes "is_rw (io_type (sp_parent env))" "num_blocks (sp_parent env) = 0" "is_buf_allocated (iovs (sp_parent env))"
    and "\<not> (io_type (sp_parent env) = SPDK_BDEV_IO_TYPE_WRITE \<and> split_on_write_unit (desc_bdev (sp_desc env)))"
    and "split_on_optimal_io_boundary (desc_bdev (sp_desc env))" "optimal_io_boundary (desc_bdev (sp_desc env)) \<noteq> 0"
    and "unat (offset_blocks (sp_parent env)) mod unat (optimal_io_boundary (desc_bdev (sp_desc env))) = 0"
  shows "bdev_io_should_split (desc_bdev (sp_desc env)) (sp_parent env) \<and>
    (\<exists>st. bdev_io_split env ch = Some st \<and> (\<forall>t. (split_step env)\<^sup>*\<^sup>* st t \<longrightarrow> split_completed t = [] \<and> split_outstanding t = 0))"
  using empty_io_should_split [OF assms(1,2,4-7)] empty_rw_split [OF assms(1-3), of ch] stuck_split [of env "split_start env ch"]
  by (auto simp: split_start_def)

subsection \<open>A striped device\<close>

text \<open>
  A device with a boundary every four blocks and at most two segments, and a write of five blocks from four buffers that crosses a boundary.
\<close>

definition split_sample :: "spdk_bdev \<Rightarrow> (nvmf_buf, nvmf_cb) bdev_io_u \<Rightarrow> (nvmf_buf, nvmf_cb) split_env" where
  "split_sample bdev parent =
     \<lparr>sp_desc = sample_desc\<lparr>desc_bdev := bdev\<rparr>, sp_parent = parent, sp_done_cb = Caller_Cb (Complete_Cmd 3),
      sp_wait_entry = Wait_Caller (Process_Io_Cmd_Resubmit 3), sp_orig_iovcnt = 0,
      sp_child_iov = (\<lambda>segs. Iov_Array (Req_Iov 3) (map (\<lambda>(p, o1, l). l) segs)), sp_child_md = (\<lambda>d. Null)\<rparr>"

definition striped_bdev :: spdk_bdev where
  "striped_bdev = sample_bdev\<lparr>split_on_optimal_io_boundary := True, optimal_io_boundary := 4, max_num_segments := 2\<rparr>"

definition striped_write :: "(nvmf_buf, nvmf_cb) bdev_io_u" where
  "striped_write = empty_io\<lparr>io_type := SPDK_BDEV_IO_TYPE_WRITE, iovs := Iov_Array (Req_Iov 3) [600, 424, 100, 1436],
     offset_blocks := 2, num_blocks := 5\<rparr>"




lemmas split_sample_defs = split_sample_def striped_bdev_def striped_write_def empty_io_def sample_defs














theorem empty_io_at_boundary_never_completes_witness:
  "\<exists>st. bdev_io_split (split_sample striped_bdev (striped_write\<lparr>offset_blocks := 8, num_blocks := 0\<rparr>)) sample_channel = Some st \<and>
     split_completed st = [] \<and> split_outstanding st = 0"
  using empty_io_at_boundary_never_completes [of "split_sample striped_bdev (striped_write\<lparr>offset_blocks := 8, num_blocks := 0\<rparr>)" sample_channel]
  by (auto simp: split_sample_defs is_rw_def is_buf_allocated_def)

end
