(* ===== verification/Ndp_Grep.thy ===== *)
theory Ndp_Grep
  imports Ctrlr_Bdev
begin

section \<open>The near-data grep command (opcode 0xd1)\<close>

text \<open>
  \<open>nvmf_bdev_ctrlr_custom_grep_cmd\<close> keeps the keyword the host sent, clears the data buffers and reads
  the blocks to search into them; its callback \<open>nvmf_bdev_ctrlr_complete_cmd_custom\<close> collects the lines
  that contain the keyword and puts them into the buffers. C strings are byte lists up to the
  first NUL. Allocations are parameters, \<open>alloc n\<close> being whether \<open>malloc(n)\<close> or a
  \<open>realloc\<close> to \<open>n\<close> succeeds. A store behind the end of an allocation and a read behind the end of the
  keyword buffer are faults of the model.
\<close>

subsection \<open>C strings\<close>

fun c_strlen :: "byte list \<Rightarrow> nat option" where
  "c_strlen [] = None"
| "c_strlen (b # bs) = (if b = 0 then Some 0 else map_option Suc (c_strlen bs))"

definition c_str :: "byte list \<Rightarrow> byte list" where
  "c_str bs = takeWhile (\<lambda>b. b \<noteq> 0) bs"

fun starts_with :: "byte list \<Rightarrow> byte list \<Rightarrow> bool" where
  "starts_with [] hay = True"
| "starts_with (k # ks) [] = False"
| "starts_with (k # ks) (b # bs) = (k = b \<and> starts_with ks bs)"

fun c_strstr :: "byte list \<Rightarrow> byte list \<Rightarrow> bool" where
  "c_strstr [] key = starts_with key []"
| "c_strstr (b # bs) key = (starts_with key (b # bs) \<or> c_strstr bs key)"

definition NL :: byte where "NL = 10"

subsection \<open>The search callback\<close>

datatype 'a grep_result = Grep_Fault | Grep_Nomem | Grep_Ok 'a

text \<open>The result buffer: the bytes stored so far, and the size of its allocation.\<close>

record grep_buf =
  result_data :: "byte list"
  result_capacity :: nat

definition grep_line :: "(nat \<Rightarrow> bool) \<Rightarrow> byte list \<Rightarrow> byte list \<Rightarrow> grep_buf \<Rightarrow> grep_buf grep_result" where
  "grep_line alloc key line st =
     (if c_strstr (c_str line) key then
        let result_size = length (result_data st);
            needed_size = result_size + length line + 1;
            grow = result_capacity st < needed_size;
            cap = (if grow then result_capacity st * 2 else result_capacity st)
        in if grow \<and> \<not> alloc cap then Grep_Nomem
           else if cap < needed_size then Grep_Fault
           else Grep_Ok \<lparr>result_data = result_data st @ line @ [NL], result_capacity = cap\<rparr>
      else Grep_Ok st)"

text \<open>The loop over the bytes of one iovec, at index \<open>j\<close> with the line begun at \<open>start\<close>.\<close>

function grep_scan ::
  "(nat \<Rightarrow> bool) \<Rightarrow> byte list \<Rightarrow> byte list \<Rightarrow> nat \<Rightarrow> nat \<Rightarrow> grep_buf \<Rightarrow> grep_buf grep_result" where
  "grep_scan alloc key data j start st =
     (if length data \<le> j then Grep_Ok st
      else if data ! j = NL \<or> j = length data - 1 then
        (case grep_line alloc key (get_at start (j - start + 1) data) st of
           Grep_Ok st' \<Rightarrow> grep_scan alloc key data (j + 1) (j + 1) st'
         | Grep_Nomem \<Rightarrow> Grep_Nomem
         | Grep_Fault \<Rightarrow> Grep_Fault)
      else grep_scan alloc key data (j + 1) start st)"
  by pat_completeness auto
termination by (relation "measure (\<lambda>(alloc, key, data, j, start, st). length data - j)") auto

declare grep_scan.simps [simp del]

fun grep_iovs :: "(nat \<Rightarrow> bool) \<Rightarrow> byte list \<Rightarrow> iovs \<Rightarrow> grep_buf \<Rightarrow> grep_buf grep_result" where
  "grep_iovs alloc key [] st = Grep_Ok st"
| "grep_iovs alloc key (data # rest) st =
     (case grep_scan alloc key data 0 0 st of
        Grep_Ok st' \<Rightarrow> grep_iovs alloc key rest st'
      | Grep_Nomem \<Rightarrow> Grep_Nomem
      | Grep_Fault \<Rightarrow> Grep_Fault)"

text \<open>\<open>strlen\<close> of the keyword and the removal of a final newline.\<close>

definition grep_keyword :: "byte list \<Rightarrow> byte list option" where
  "grep_keyword buf =
     (case c_strlen buf of
        None \<Rightarrow> None
      | Some n \<Rightarrow>
          Some (let key = take n buf in
                if 0 < n \<and> key ! (n - 1) = NL then take (n - 1) key else key))"

definition grep_finish :: "u8 \<Rightarrow> spdk_nvmf_request \<Rightarrow> spdk_nvmf_request \<times> nvmf_event list" where
  "grep_finish c req =
     (let req' = upd_rsp (set_result 0 0 c) req
      in (req', [Request_Complete (req_id req') (rsp req'), Bdev_Free_Io]))"

text \<open>
  The callback. The iovecs of the I/O are those of the request, with the data the read left in
  them; \<open>keyword\<close> is the buffer the handler kept.
\<close>

definition nvmf_bdev_ctrlr_complete_cmd_custom ::
  "(nat \<Rightarrow> bool) \<Rightarrow> byte list \<Rightarrow> spdk_nvmf_request
     \<Rightarrow> (spdk_nvmf_request \<times> nvmf_event list) option" where
  "nvmf_bdev_ctrlr_complete_cmd_custom alloc keyword req =
     (if iov req \<noteq> [] then
        if \<not> alloc 4096 then Some (grep_finish (generic_sc SPDK_NVME_SC_INTERNAL_DEVICE_ERROR) req)
        else case grep_keyword keyword of
          None \<Rightarrow> None
        | Some key \<Rightarrow>
            (case grep_iovs alloc key (iov req) \<lparr>result_data = [], result_capacity = 4096\<rparr> of
               Grep_Fault \<Rightarrow> None
             | Grep_Nomem \<Rightarrow> Some (grep_finish (generic_sc SPDK_NVME_SC_INTERNAL_DEVICE_ERROR) req)
             | Grep_Ok st \<Rightarrow>
                 if result_data st \<noteq> [] then
                   Some (grep_finish (generic_sc SPDK_NVME_SC_SUCCESS)
                     (req\<lparr>iov := spdk_copy_buf_to_iovs (spdk_iov_memset (iov req) 0)
                                   (butlast (result_data st) @ [0]),
                          xfer := SPDK_NVME_DATA_CONTROLLER_TO_HOST, req_length := 4096\<rparr>))
                 else
                   Some (grep_finish (generic_sc SPDK_NVME_SC_INTERNAL_DEVICE_ERROR)
                     (req\<lparr>req_length := 0\<rparr>)))
      else Some (grep_finish (generic_sc SPDK_NVME_SC_INTERNAL_DEVICE_ERROR) req))"

subsection \<open>The handler\<close>

text \<open>
  The result carries the keyword buffer when a callback context was handed to the block layer.
  \<open>ctx_ok\<close> is the allocation of that context.
\<close>

definition grep_total_len :: "iovs \<Rightarrow> u32" where
  "grep_total_len v = foldl (\<lambda>t seg. t + word_of_nat (length seg)) 0 v"

definition nvmf_bdev_ctrlr_custom_grep_cmd ::
  "(nat \<Rightarrow> bool) \<Rightarrow> bool \<Rightarrow> spdk_bdev_desc \<Rightarrow> nvmf_thread \<Rightarrow> spdk_nvmf_request
     \<Rightarrow> (spdk_nvmf_request_exec_status \<times> nvmf_thread \<times> spdk_nvmf_request \<times> byte list option) option" where
  "nvmf_bdev_ctrlr_custom_grep_cmd alloc ctx_ok desc th req =
     (let cmd = req_cmd req;
          data_len = cdw10 cmd AND 0xFFFF;
          start_lba = ucast (cdw11 cmd) :: u64;
          nlb = ucast (cdw12 cmd) :: u64;
          ret = (\<lambda>(st, th', req') ctx. Some (st, th', req', ctx))
      in
      if req_length req < data_len \<or> iov req = [] then
        ret (complete_with SPDK_NVME_SC_INVALID_FIELD th req) None
      else
        let total_len = unat (grep_total_len (iov req)) in
        if \<not> alloc total_len then
          ret (complete_with SPDK_NVME_SC_INTERNAL_DEVICE_ERROR th req) None
        else if total_len < length (concat (iov req)) then None
        else
          let new_buffer = concat (iov req);
              req1 = req\<lparr>iov := spdk_iov_memset (iov req) 0\<rparr>
          in if \<not> nvmf_bdev_ctrlr_lba_in_range (blockcnt (desc_bdev desc)) start_lba nlb then
               ret (complete_with SPDK_NVME_SC_LBA_OUT_OF_RANGE th req1) None
             else if \<not> ctx_ok then
               ret (complete_with SPDK_NVME_SC_INTERNAL_DEVICE_ERROR th req1) None
             else
               case spdk_bdev_readv_blocks_ext desc (bch th) (req_iovs req1) start_lba nlb
                      (Caller_Cb (Complete_Cmd_Custom (req_id req))) (Some (read_opts req1)) of
                 (r, ch) \<Rightarrow>
                   ret (after_submit (Process_Io_Cmd_Resubmit (req_id req)) internal_error th req1 (r, ch))
                     (if r = None then Some new_buffer else None))"

subsection \<open>Lines\<close>

text \<open>The lines of a buffer, each with its newline, the last one possibly without.\<close>

fun split_lines :: "byte list \<Rightarrow> byte list list" where
  "split_lines [] = []"
| "split_lines (b # bs) =
     (if b = NL \<or> bs = [] then [b] # split_lines bs
      else case split_lines bs of [] \<Rightarrow> [[b]] | l # ls \<Rightarrow> (b # l) # ls)"

definition matches :: "byte list \<Rightarrow> byte list \<Rightarrow> bool" where
  "matches key line \<longleftrightarrow> (\<exists>pre post. c_str line = pre @ key @ post)"

definition grep_spec :: "byte list \<Rightarrow> iovs \<Rightarrow> byte list list" where
  "grep_spec key v = filter (matches key) (concat (map split_lines v))"


lemma starts_with_iff: "starts_with key hay \<longleftrightarrow> (\<exists>post. hay = key @ post)"
  by (induction key hay rule: starts_with.induct) auto

lemma c_strstr_iff: "c_strstr hay key \<longleftrightarrow> (\<exists>pre post. hay = pre @ key @ post)"
proof (induction hay)
  case Nil
  then show ?case by (simp add: starts_with_iff)
next
  case (Cons b bs)
  have "(\<exists>pre post. b # bs = pre @ key @ post) \<longleftrightarrow>
    (\<exists>post. b # bs = key @ post) \<or> (\<exists>pre post. bs = pre @ key @ post)"
    by (metis append_Cons append_Nil list.inject neq_Nil_conv)
  then show ?case by (simp add: starts_with_iff Cons.IH)
qed

lemma matches_iff [simp]: "c_strstr (c_str line) key = matches key line"
  by (simp add: matches_def c_strstr_iff)

lemma matches_empty [simp]: "matches [] line"
  unfolding matches_def by (rule exI [of _ "[]"]) simp

lemma split_lines_first:
  "NL \<notin> set pre \<Longrightarrow> b = NL \<or> post = [] \<Longrightarrow>
   split_lines (pre @ b # post) = (pre @ [b]) # split_lines post"
  by (induction pre) auto

text \<open>No byte is lost or added by splitting.\<close>

lemma concat_split_lines: "concat (split_lines bs) = bs"
  by (induction bs rule: split_lines.induct) (auto split: list.splits)

fun grep_fold :: "(nat \<Rightarrow> bool) \<Rightarrow> byte list \<Rightarrow> byte list list \<Rightarrow> grep_buf \<Rightarrow> grep_buf grep_result" where
  "grep_fold alloc key [] st = Grep_Ok st"
| "grep_fold alloc key (l # ls) st =
     (case grep_line alloc key l st of
        Grep_Ok st' \<Rightarrow> grep_fold alloc key ls st'
      | Grep_Nomem \<Rightarrow> Grep_Nomem
      | Grep_Fault \<Rightarrow> Grep_Fault)"

lemma grep_fold_append:
  "grep_fold alloc key (xs @ ys) st =
     (case grep_fold alloc key xs st of
        Grep_Ok st' \<Rightarrow> grep_fold alloc key ys st' | Grep_Nomem \<Rightarrow> Grep_Nomem | Grep_Fault \<Rightarrow> Grep_Fault)"
  by (induction xs arbitrary: st) (auto split: grep_result.splits)

text \<open>The scanning loop goes through the lines from the one begun at \<open>start\<close> on.\<close>

lemma grep_scan_lines:
  assumes "start \<le> j" "NL \<notin> set (get_at start (j - start) data)"
    "j < length data \<or> start = j"
  shows "grep_scan alloc key data j start st = grep_fold alloc key (split_lines (drop start data)) st"
  using assms
proof (induction alloc key data j start st rule: grep_scan.induct)
  case (1 alloc key data j start st)
  show ?case
  proof (cases "j < length data")
    case False
    with 1 show ?thesis by (subst grep_scan.simps) auto
  next
    case j: True
    let ?pre = "get_at start (j - start) data"
    have d: "drop start data = ?pre @ data ! j # drop (Suc j) data"
      using j "1.prems"(1) by (simp add: get_at_def Cons_nth_drop_Suc flip: drop_drop)
         (metis Cons_nth_drop_Suc append_take_drop_id drop_drop le_add_diff_inverse2)
    have l: "get_at start (j - start + 1) data = ?pre @ [data ! j]"
      using j "1.prems"(1) by (simp add: get_at_def take_Suc_conv_app_nth)
    show ?thesis
    proof (cases "data ! j = NL \<or> j = length data - 1")
      case True
      then have "split_lines (drop start data) = (?pre @ [data ! j]) # split_lines (drop (Suc j) data)"
        unfolding d using j "1.prems"(2) by (intro split_lines_first) auto
      with True j l "1.IH"(1) show ?thesis
        by (subst grep_scan.simps) (auto split: grep_result.splits)
    next
      case False
      moreover have "NL \<notin> set (get_at start (j + 1 - start) data)"
        using l False "1.prems" by (auto simp: Suc_diff_le)
      ultimately show ?thesis
        using j "1.IH"(2) "1.prems" by (subst grep_scan.simps) auto
    qed
  qed
qed

lemma grep_iovs_lines:
  "grep_iovs alloc key v st = grep_fold alloc key (concat (map split_lines v)) st"
  by (induction v arbitrary: st)
     (auto simp: grep_fold_append grep_scan_lines split: grep_result.splits)


lemma grep_fold_skip:
  "\<forall>l\<in>set ls. \<not> matches key l \<Longrightarrow> grep_fold alloc key ls st = Grep_Ok st"
  by (induction ls) (auto simp: grep_line_def)

subsection \<open>The keyword\<close>

lemma c_strlen_str: "0 \<notin> set key \<Longrightarrow> c_strlen (key @ 0 # rest) = Some (length key)"
  by (induction key) auto

definition chomp :: "byte list \<Rightarrow> byte list" where
  "chomp key = (if key \<noteq> [] \<and> last key = NL then butlast key else key)"

lemma grep_keyword_str: "0 \<notin> set key \<Longrightarrow> grep_keyword (key @ 0 # rest) = Some (chomp key)"
  using c_strlen_str [of key rest]
  by (cases key rule: rev_cases) (auto simp: grep_keyword_def chomp_def Let_def nth_append)


subsection \<open>Properties\<close>




text \<open>Without a matching line the request ends with Internal Device Error and unchanged buffers.\<close>

theorem grep_no_match_is_internal_error:
  assumes "\<And>n. alloc n" "iov req \<noteq> []" "grep_keyword keyword = Some key" "grep_spec key (iov req) = []"
  shows "\<exists>req'. nvmf_bdev_ctrlr_complete_cmd_custom alloc keyword req =
      Some (req', [Request_Complete (req_id req) (rsp req'), Bdev_Free_Io]) \<and>
    sc (status (rsp req')) = generic_sc SPDK_NVME_SC_INTERNAL_DEVICE_ERROR \<and>
    req_length req' = 0 \<and> iov req' = iov req"
proof -
  have "\<forall>l\<in>set (concat (map split_lines (iov req))). \<not> matches key l"
    using assms(4) by (simp add: grep_spec_def filter_empty_conv)
  from grep_fold_skip [OF this] assms(1-3) show ?thesis
    by (simp add: nvmf_bdev_ctrlr_complete_cmd_custom_def grep_iovs_lines grep_finish_def upd_rsp_def Let_def)
qed

text \<open>
  C23: When the first line that contains the keyword has 8192 bytes or more, the callback stores
  behind the end of its result buffer, because the buffer is doubled only once.
\<close>

theorem grep_long_line_overflows:
  assumes "\<And>n. alloc n" "grep_keyword keyword = Some key"
    and "concat (map split_lines (iov req)) = before @ line # rest"
    and "\<forall>l\<in>set before. \<not> matches key l" "matches key line" "8192 \<le> length line"
  shows "nvmf_bdev_ctrlr_complete_cmd_custom alloc keyword req = None"
proof -
  have "iov req \<noteq> []" using assms(3) by auto
  moreover have "grep_line alloc key line \<lparr>result_data = [], result_capacity = 4096\<rparr> = Grep_Fault"
    using assms(1,5,6) by (simp add: grep_line_def Let_def)
  ultimately show ?thesis
    using assms(1,2) grep_fold_skip [OF assms(4)]
    by (simp add: nvmf_bdev_ctrlr_complete_cmd_custom_def grep_iovs_lines assms(3) grep_fold_append)
qed


subsection \<open>The handler's properties\<close>

lemma grep_cmd_cases:
  assumes "nvmf_bdev_ctrlr_custom_grep_cmd alloc ctx_ok desc th req = Some (es, th', req', ctx)"
    and "es = SPDK_NVMF_REQUEST_EXEC_STATUS_ASYNCHRONOUS"
  defines "req1 \<equiv> req\<lparr>iov := spdk_iov_memset (iov req) 0\<rparr>"
  shows "req' = req1 \<and> iov req \<noteq> [] \<and>
    (\<exists>r ch. spdk_bdev_readv_blocks_ext desc (bch th) (req_iovs req1) (ucast (cdw11 (req_cmd req)))
        (ucast (cdw12 (req_cmd req))) (Caller_Cb (Complete_Cmd_Custom (req_id req))) (Some (read_opts req1)) = (r, ch) \<and>
      (r = None \<and> bch th' = ch \<and> ctx = Some (concat (iov req)) \<or> r = Some ENOMEM \<and> ctx = None))"
  using assms
  by (auto simp: nvmf_bdev_ctrlr_custom_grep_cmd_def Let_def complete_with_def after_submit_def
      split: if_splits prod.splits option.splits)

text \<open>
  C22: A grep command that is handed to the block layer reads blocks within the device once,
  keeps the NUL-terminated keyword of the host's buffer (without a final newline) for the
  callback, and has cleared the buffers.
\<close>

theorem grep_cmd_reads_and_keeps_keyword:
  assumes "nvmf_bdev_ctrlr_custom_grep_cmd alloc ctx_ok desc th req =
      Some (SPDK_NVMF_REQUEST_EXEC_STATUS_ASYNCHRONOUS, th', req', Some keyword)"
    and "concat (iov req) = key @ 0 # rest" "0 \<notin> set key"
  shows "grep_keyword keyword = Some (chomp key) \<and>
    concat (iov req') = replicate (length (concat (iov req))) 0 \<and>
    unat (cdw11 (req_cmd req)) + unat (cdw12 (req_cmd req)) \<le> unat (blockcnt (desc_bdev desc)) \<and>
    (\<exists>place io. handed (bch th') = handed (bch th) @ [(place, io)] \<and>
       offset_blocks (u io) = ucast (cdw11 (req_cmd req)) \<and> num_blocks (u io) = ucast (cdw12 (req_cmd req)) \<and>
       cb io = Caller_Cb (Complete_Cmd_Custom (req_id req)))"
proof -
  from grep_cmd_cases [OF assms(1) refl] obtain ch where
    r: "spdk_bdev_readv_blocks_ext desc (bch th) (req_iovs (req\<lparr>iov := spdk_iov_memset (iov req) 0\<rparr>))
          (ucast (cdw11 (req_cmd req))) (ucast (cdw12 (req_cmd req)))
          (Caller_Cb (Complete_Cmd_Custom (req_id req)))
          (Some (read_opts (req\<lparr>iov := spdk_iov_memset (iov req) 0\<rparr>))) = (None, bch th')"
    and eqs: "keyword = concat (iov req)" "req' = req\<lparr>iov := spdk_iov_memset (iov req) 0\<rparr>"
    by auto
  from rdv.in_device [OF r] rdv.hands_one [OF r] show ?thesis
    by (simp add: eqs assms(2) grep_keyword_str [OF assms(3)] iov.flat_fill)
qed

text \<open>
  C24: A grep command that waits for a descriptor is resubmitted with cleared buffers, so the
  keyword of the second attempt is empty and every line matches it.
\<close>

theorem grep_resubmission_loses_keyword:
  assumes "nvmf_bdev_ctrlr_custom_grep_cmd alloc ctx_ok desc th req =
      Some (SPDK_NVMF_REQUEST_EXEC_STATUS_ASYNCHRONOUS, th1, req1, None)"
    and "nvmf_bdev_ctrlr_custom_grep_cmd alloc' ctx_ok' desc th2 req1 =
      Some (SPDK_NVMF_REQUEST_EXEC_STATUS_ASYNCHRONOUS, th3, req2, Some keyword)"
    and "concat (iov req) \<noteq> []"
  shows "grep_keyword keyword = Some [] \<and> grep_spec [] v = concat (map split_lines v)"
proof -
  have "iov req1 = spdk_iov_memset (iov req) 0" using grep_cmd_cases [OF assms(1) refl] by simp
  moreover have "keyword = concat (iov req1)" using grep_cmd_cases [OF assms(2) refl] by auto
  moreover obtain n where "length (concat (iov req)) = Suc n" using assms(3) by (cases "concat (iov req)") auto
  ultimately have "keyword = [] @ 0 # replicate n 0" by (simp add: iov.flat_fill del: length_concat)
  then have "grep_keyword keyword = Some (chomp [])" by (simp only: grep_keyword_str list.set empty_iff not_False_eq_True)
  then show ?thesis by (simp add: chomp_def grep_spec_def)
qed

subsection \<open>Witnesses\<close>

text \<open>The search for \<open>b\<close> in the lines \<open>ab\<close>, \<open>c\<close> and \<open>b\<close>, spread over two segments.\<close>

definition grep_req :: spdk_nvmf_request where
  "grep_req = sample_req\<lparr>req_cmd := sample_cmd\<lparr>opc := 0xd1, cdw10 := 2, cdw11 := 8, cdw12 := 1\<rparr>,
     req_length := 4, iov := [[98, 10], [0, 0]]\<rparr>"

definition grep_data :: "byte list list" where
  "grep_data = [[97, 98, 10, 99, 10], [98, 10, 0, 0]]"

lemma grep_data_lines:
  "concat (map split_lines grep_data) = [[97, 98, 10], [99, 10], [98, 10], [0, 0]]"
  by (simp add: grep_data_def NL_def)



theorem grep_no_match_is_internal_error_witness:
  "\<exists>req'. nvmf_bdev_ctrlr_complete_cmd_custom (\<lambda>n. True) [100, 0] (grep_req\<lparr>iov := grep_data\<rparr>) =
     Some (req', [Request_Complete 3 (rsp req'), Bdev_Free_Io]) \<and> sc (status (rsp req')) = 6"
proof -
  let ?r = "grep_req\<lparr>iov := grep_data\<rparr>"
  have k: "grep_keyword [100, 0] = Some [100]" by (simp add: grep_keyword_def NL_def)
  have "iov ?r \<noteq> []" "grep_spec [100] (iov ?r) = []" "req_id ?r = 3"
    by (simp_all add: grep_spec_def grep_data_lines c_str_def grep_req_def sample_req_def flip: matches_iff)
       (simp add: grep_data_def)
  with grep_no_match_is_internal_error [of "\<lambda>n. True" ?r, OF _ _ k] show ?thesis by auto
qed

theorem grep_long_line_overflows_witness:
  "nvmf_bdev_ctrlr_complete_cmd_custom (\<lambda>n. True) [65, 0]
     (grep_req\<lparr>iov := [[66, 10], replicate 8191 65 @ [10]]\<rparr>) = None"
proof (rule grep_long_line_overflows [where key = "[65]" and before = "[[66, 10]]" and rest = "[]"])
  have "split_lines (replicate 8191 65 @ [10]) = [replicate 8191 65 @ [10]]"
    using split_lines_first [of "replicate 8191 65" 10 "[]"] by (simp add: NL_def)
  then show "concat (map split_lines (iov (grep_req\<lparr>iov := [[66, 10], replicate 8191 65 @ [10]]\<rparr>))) =
      [[66, 10]] @ (replicate 8191 65 @ [10]) # []"
    by (simp add: NL_def)
  show "\<forall>l\<in>set [[66, 10]]. \<not> matches [65] l" by (simp add: c_str_def flip: matches_iff)
  have "c_str (replicate (Suc 8190) 65 @ [10]) = replicate (Suc 8190) 65 @ [10]"
    by (simp only: c_str_def takeWhile_eq_all_conv set_append set_replicate) simp
  then have "c_str (replicate (Suc 8190) 65 @ [10]) = [] @ [65] @ replicate 8190 65 @ [10]"
    by (simp only: replicate_Suc append.simps)
  moreover have "(8191 :: nat) = Suc 8190" by simp
  ultimately have "c_str (replicate 8191 65 @ [10]) = [] @ [65] @ replicate 8190 65 @ [10]" by (simp only:)
  then show "matches [65] (replicate 8191 65 @ [10])" unfolding matches_def by blast
qed (simp_all add: grep_keyword_def NL_def)

lemmas grep_cmd_eval = nvmf_bdev_ctrlr_custom_grep_cmd_def spdk_bdev_readv_blocks_ext_def
  bdev_readv_blocks_with_md_def grep_req_def grep_total_len_def rw_sample_defs

theorem grep_cmd_reads_and_keeps_keyword_witness:
  "\<exists>th' req' keyword. nvmf_bdev_ctrlr_custom_grep_cmd (\<lambda>n. True) True sample_desc sample_thread grep_req =
     Some (SPDK_NVMF_REQUEST_EXEC_STATUS_ASYNCHRONOUS, th', req', Some keyword) \<and>
     grep_keyword keyword = Some [98] \<and> concat (iov req') = [0, 0, 0, 0]"
proof -
  have "\<exists>th' req' keyword. nvmf_bdev_ctrlr_custom_grep_cmd (\<lambda>n. True) True sample_desc sample_thread grep_req =
     Some (SPDK_NVMF_REQUEST_EXEC_STATUS_ASYNCHRONOUS, th', req', Some keyword)"
    by (simp add: grep_cmd_eval)
  then obtain th' req' keyword where
    r: "nvmf_bdev_ctrlr_custom_grep_cmd (\<lambda>n. True) True sample_desc sample_thread grep_req =
     Some (SPDK_NVMF_REQUEST_EXEC_STATUS_ASYNCHRONOUS, th', req', Some keyword)" by blast
  have "concat (iov grep_req) = [98, 10] @ 0 # [0]" by (simp add: grep_req_def)
  from grep_cmd_reads_and_keeps_keyword [OF r this] r show ?thesis
    by (simp add: chomp_def NL_def grep_req_def)
qed

theorem grep_resubmission_loses_keyword_witness:
  "\<exists>th1 req1 th3 req2 keyword.
     nvmf_bdev_ctrlr_custom_grep_cmd (\<lambda>n. True) True sample_desc busy_thread grep_req =
       Some (SPDK_NVMF_REQUEST_EXEC_STATUS_ASYNCHRONOUS, th1, req1, None) \<and>
     nvmf_bdev_ctrlr_custom_grep_cmd (\<lambda>n. True) True sample_desc sample_thread req1 =
       Some (SPDK_NVMF_REQUEST_EXEC_STATUS_ASYNCHRONOUS, th3, req2, Some keyword) \<and>
     grep_keyword keyword = Some []"
proof -
  have "\<exists>th1 req1 th3 req2 keyword.
     nvmf_bdev_ctrlr_custom_grep_cmd (\<lambda>n. True) True sample_desc busy_thread grep_req =
       Some (SPDK_NVMF_REQUEST_EXEC_STATUS_ASYNCHRONOUS, th1, req1, None) \<and>
     nvmf_bdev_ctrlr_custom_grep_cmd (\<lambda>n. True) True sample_desc sample_thread req1 =
       Some (SPDK_NVMF_REQUEST_EXEC_STATUS_ASYNCHRONOUS, th3, req2, Some keyword)"
    by (simp add: grep_cmd_eval)
  then obtain th1 req1 th3 req2 keyword where
    r1: "nvmf_bdev_ctrlr_custom_grep_cmd (\<lambda>n. True) True sample_desc busy_thread grep_req =
       Some (SPDK_NVMF_REQUEST_EXEC_STATUS_ASYNCHRONOUS, th1, req1, None)" and
    r2: "nvmf_bdev_ctrlr_custom_grep_cmd (\<lambda>n. True) True sample_desc sample_thread req1 =
       Some (SPDK_NVMF_REQUEST_EXEC_STATUS_ASYNCHRONOUS, th3, req2, Some keyword)" by blast
  have "concat (iov grep_req) \<noteq> []" by (simp add: grep_req_def)
  from grep_resubmission_loses_keyword [OF r1 r2 this] r1 r2 show ?thesis by blast
qed

end
