(* ===== verification/Ndp_Echo.thy ===== *)
theory Ndp_Echo
  imports Ctrlr_Bdev
begin

section \<open>The near-data echo command (opcode 0xd0)\<close>

text \<open>
  \<open>nvmf_bdev_ctrlr_custom_echo_cmd\<close> reads the blocks of a metadata file; its callback keeps them and reads
  the blocks of a target file into the same buffers; the second callback joins both and writes
  the beginning of the result back. \<open>alloc n\<close> is whether an allocation of \<open>n\<close> bytes succeeds. The contents
  the two reads leave in the buffers are what \<open>iov\<close> holds when the callback runs. \<open>print_data_content\<close>
  and the other output is left out.
\<close>

record custom_ctx =
  first_result :: "byte list option"
  first_result_len :: u32

definition SIZEOF_CUSTOM_CTX :: nat where "SIZEOF_CUSTOM_CTX = 40"
definition SIZEOF_NDP_RESULT :: nat where "SIZEOF_NDP_RESULT = 16"

text \<open>
  The outer option is a fault (the sum of the lengths wraps, and the copies do not fit), the inner
  one the NULL the function returns when an allocation fails.
\<close>

definition ndp_calculate :: "(nat \<Rightarrow> bool) \<Rightarrow> byte list \<Rightarrow> byte list \<Rightarrow> byte list option option" where
  "ndp_calculate alloc ndp_meta_data ndp_target_data =
     (if \<not> alloc SIZEOF_NDP_RESULT then Some None
      else
        let total_length = word_of_nat (length ndp_meta_data) + word_of_nat (length ndp_target_data) :: u32 in
        if \<not> alloc (unat total_length) then Some None
        else if unat total_length < length ndp_meta_data + length ndp_target_data then None
        else Some (Some (put_at (length ndp_meta_data) ndp_target_data
                     (put_at 0 ndp_meta_data (replicate (unat total_length) 0)))))"

text \<open>The copy loop of both callbacks, with \<open>len\<close> the request's length.\<close>

fun echo_copy :: "nat \<Rightarrow> iovs \<Rightarrow> byte list \<Rightarrow> nat \<Rightarrow> byte list \<times> nat" where
  "echo_copy len [] buf total_copied = (buf, total_copied)"
| "echo_copy len (seg # rest) buf total_copied =
     (if total_copied < len then
        let to_copy = min (len - total_copied) (length seg) in
        echo_copy len rest (put_at total_copied (take to_copy seg) buf) (total_copied + to_copy)
      else (buf, total_copied))"

definition echo_error :: "spdk_nvmf_request \<Rightarrow> spdk_nvmf_request" where
  "echo_error req = upd_rsp (set_generic SPDK_NVME_SC_INTERNAL_DEVICE_ERROR) req"

text \<open>\<open>req->iov[0]\<close> after the copy of the result's beginning.\<close>

definition store_first :: "byte list \<Rightarrow> iovs \<Rightarrow> iovs" where
  "store_first data v =
     (case v of [] \<Rightarrow> [] | seg # rest \<Rightarrow> put_at 0 (take (min (length data) (length seg)) data) seg # rest)"

definition nvmf_bdev_ctrlr_second_read_complete ::
  "(nat \<Rightarrow> bool) \<Rightarrow> custom_ctx \<Rightarrow> spdk_nvmf_request \<Rightarrow> bool
     \<Rightarrow> (spdk_nvmf_request \<times> nvmf_event list) option" where
  "nvmf_bdev_ctrlr_second_read_complete alloc ctx req success =
     (let len = unat (req_length req);
          finish = (\<lambda>r. Some (r, [Bdev_Free_Io, Request_Complete (req_id r) (rsp r)]))
      in
      if success then
        if \<not> alloc len then finish (echo_error req)
        else
          case echo_copy len (iov req) (replicate len 0) 0 of (second_result, total_copied) \<Rightarrow>
          (case first_result ctx of
             None \<Rightarrow> None
           | Some meta \<Rightarrow>
               (case ndp_calculate alloc (take (unat (first_result_len ctx)) meta) (take total_copied second_result) of
                  None \<Rightarrow> None
                | Some None \<Rightarrow> finish (echo_error req)
                | Some (Some calc_result) \<Rightarrow>
                    finish (upd_rsp (set_generic SPDK_NVME_SC_SUCCESS)
                      (req\<lparr>iov := store_first calc_result (spdk_iov_memset (iov req) 0)\<rparr>))))
      else finish (echo_error req))"

text \<open>
  The first callback: the context that is left (none once it is freed), the thread, the request
  and the events.
\<close>

definition nvmf_bdev_ctrlr_first_read_complete ::
  "(nat \<Rightarrow> bool) \<Rightarrow> spdk_bdev_desc \<Rightarrow> custom_ctx \<Rightarrow> nvmf_thread \<Rightarrow> spdk_nvmf_request \<Rightarrow> bool
     \<Rightarrow> custom_ctx option \<times> nvmf_thread \<times> spdk_nvmf_request \<times> nvmf_event list" where
  "nvmf_bdev_ctrlr_first_read_complete alloc desc ctx th req success =
     (let target_start_lba = cdw12 (req_cmd req);
          target_block_count = cdw13 (req_cmd req);
          len = unat (req_length req);
          failed = (None, th, echo_error req, [Bdev_Free_Io, Request_Complete (req_id req) (rsp (echo_error req))])
      in
      if \<not> success then failed
      else if \<not> alloc len then failed
      else
        let meta = fst (echo_copy len (iov req) (replicate len 0) 0);
            ctx' = ctx\<lparr>first_result_len := req_length req, first_result := Some meta\<rparr>
        in case spdk_bdev_readv_blocks_ext desc (bch th) (req_iovs req) (ucast target_start_lba)
                  (ucast target_block_count) (Caller_Cb (Second_Read_Complete (req_id req)))
                  (Some (read_opts req)) of
             (r, ch) \<Rightarrow>
               let th' = th\<lparr>bch := ch\<rparr> in
               if r \<noteq> None then (None, th', echo_error req, [Bdev_Free_Io])
               else (Some ctx', th', req, [Bdev_Free_Io]))"

definition nvmf_bdev_ctrlr_custom_echo_cmd ::
  "(nat \<Rightarrow> bool) \<Rightarrow> spdk_bdev_desc \<Rightarrow> nvmf_thread \<Rightarrow> spdk_nvmf_request
     \<Rightarrow> spdk_nvmf_request_exec_status \<times> nvmf_thread \<times> spdk_nvmf_request \<times> custom_ctx option" where
  "nvmf_bdev_ctrlr_custom_echo_cmd alloc desc th req =
     (let meta_start_lba = cdw10 (req_cmd req);
          meta_block_count = cdw11 (req_cmd req)
      in
      if \<not> alloc SIZEOF_CUSTOM_CTX then
        (SPDK_NVMF_REQUEST_EXEC_STATUS_COMPLETE, th, echo_error req, None)
      else
        case spdk_bdev_readv_blocks_ext desc (bch th) (req_iovs req) (ucast meta_start_lba)
               (ucast meta_block_count) (Caller_Cb (First_Read_Complete (req_id req)))
               (Some (read_opts req)) of
          (r, ch) \<Rightarrow>
            let th' = th\<lparr>bch := ch\<rparr> in
            if r \<noteq> None then (SPDK_NVMF_REQUEST_EXEC_STATUS_COMPLETE, th', echo_error req, None)
            else (SPDK_NVMF_REQUEST_EXEC_STATUS_ASYNCHRONOUS, th',
                  upd_rsp (set_generic SPDK_NVME_SC_SUCCESS) req,
                  Some \<lparr>first_result = None, first_result_len = 0\<rparr>))"

subsection \<open>The copy loop and the join\<close>

lemma echo_copy_flat:
  assumes "length buf = len" "c \<le> len"
  shows "echo_copy len v buf c =
    (put_at c (take (len - c) (concat v)) buf, min len (c + length (concat v)))"
  using assms
proof (induction v arbitrary: buf c)
  case Nil
  then show ?case by simp
next
  case (Cons seg rest)
  show ?case
  proof (cases "c < len")
    case False
    with Cons.prems show ?thesis by simp
  next
    case True
    let ?k = "min (len - c) (length seg)"
    have "echo_copy len (seg # rest) buf c = echo_copy len rest (put_at c (take ?k seg) buf) (c + ?k)"
      using True by (simp add: Let_def)
    also have "\<dots> = (put_at (c + ?k) (take (len - (c + ?k)) (concat rest)) (put_at c (take ?k seg) buf),
        min len (c + ?k + length (concat rest)))"
      using True Cons.prems by (intro Cons.IH) auto
    also have "put_at (c + ?k) (take (len - (c + ?k)) (concat rest)) (put_at c (take ?k seg) buf) =
        put_at c (take ?k seg @ take (len - (c + ?k)) (concat rest)) buf"
      using put_at_twice_adjacent [of c buf "take ?k seg"] Cons.prems by simp
    also have "take ?k seg @ take (len - (c + ?k)) (concat rest) = take (len - c) (concat (seg # rest))"
      by (cases "length seg \<le> len - c") auto
    also have "min len (c + ?k + length (concat rest)) = min len (c + length (concat (seg # rest)))"
      by auto
    finally show ?thesis .
  qed
qed

lemma echo_copy_exact:
  "length (concat v) = len \<Longrightarrow> echo_copy len v (replicate len 0) 0 = (concat v, len)"
  by (simp add: echo_copy_flat put_at_0_full)

lemma ndp_calculate_joins:
  assumes "\<And>n. alloc n" "length a + length b < 2 ^ 32"
  shows "ndp_calculate alloc a b = Some (Some (a @ b))"
proof -
  have "unat (word_of_nat (length a) + word_of_nat (length b) :: u32) = length a + length b"
    using assms(2) by (simp add: unat_of_nat flip: of_nat_add)
  then show ?thesis using assms(1) by (simp add: ndp_calculate_def put_at_def Let_def)
qed

lemma store_first_prefix:
  "length seg \<le> length data \<Longrightarrow>
   store_first data (spdk_iov_memset (seg # rest) 0) = take (length seg) data # spdk_iov_memset rest 0"
  by (simp add: store_first_def put_at_def)

subsection \<open>Properties\<close>

lemma first_read_accepted:
  assumes "nvmf_bdev_ctrlr_first_read_complete alloc desc ctx th req True = (Some ctx', th', req', ev)"
    and "length (concat (iov req)) = unat (req_length req)"
  shows "first_result ctx' = Some (concat (iov req))" "first_result_len ctx' = req_length req"
    "req' = req" "ev = [Bdev_Free_Io]"
  using assms
  by (auto simp: nvmf_bdev_ctrlr_first_read_complete_def Let_def echo_copy_exact split: if_splits prod.splits)

text \<open>
  C7: When both reads of an echo command succeed, the reply is the first segment of the metadata
  file's data followed by zeros, whatever the target file's data is: of the joined result only
  the first segment's length is written back.
\<close>

theorem echo_replies_metadata_only:
  assumes "\<And>n. alloc n" "unat (req_length req) < 2 ^ 31"
    and "length (concat meta) = unat (req_length req)" "map length target = map length meta" "meta \<noteq> []"
    and first: "nvmf_bdev_ctrlr_first_read_complete alloc desc ctx th (req\<lparr>iov := meta\<rparr>) True =
      (Some ctx', th', req', ev)"
  shows "\<exists>req''. nvmf_bdev_ctrlr_second_read_complete alloc ctx' (req'\<lparr>iov := target\<rparr>) True =
      Some (req'', [Bdev_Free_Io, Request_Complete (req_id req) (rsp req'')]) \<and>
    \<not> spdk_nvme_cpl_is_error (rsp req'') \<and> iov req'' = hd meta # spdk_iov_memset (tl target) 0"
proof -
  have f: "first_result ctx' = Some (concat meta)" "first_result_len ctx' = req_length req"
    "req' = req\<lparr>iov := meta\<rparr>"
    using first_read_accepted [OF first] assms(3) by simp_all
  have lt: "length (concat target) = unat (req_length req)"
    using same_shape_length_concat [OF assms(4)] assms(3) by simp
  obtain seg rest where t: "target = seg # rest" using assms(4,5) by (cases target) auto
  then have h: "length seg = length (hd meta)" "take (length (hd meta)) (concat meta @ zs) = hd meta" for zs
    using assms(4,5) by (cases meta; simp)+
  have "length seg \<le> length (concat meta @ concat target)" using t by simp
  from store_first_prefix [OF this, of rest] h t
  have "store_first (concat meta @ concat target) (spdk_iov_memset target 0) = hd meta # spdk_iov_memset (tl target) 0"
    by simp
  moreover have "ndp_calculate alloc (concat meta) (concat target) = Some (Some (concat meta @ concat target))"
    using assms(2,3) lt by (intro ndp_calculate_joins [OF assms(1)]) simp
  ultimately show ?thesis
    using assms(1) lt
    by (simp add: nvmf_bdev_ctrlr_second_read_complete_def f echo_copy_exact [OF lt] assms(3)
        spdk_nvme_cpl_is_error_def Let_def del: length_concat)
qed

text \<open>
  C25: When the blocks of the target file lie outside the device, the first read's callback
  frees its context and the descriptor, submits nothing and does not complete the request.
\<close>

theorem echo_refused_target_never_completes:
  assumes "alloc (unat (req_length req))"
    and "unat (blockcnt (desc_bdev desc)) < unat (cdw12 (req_cmd req)) + unat (cdw13 (req_cmd req))"
  shows "nvmf_bdev_ctrlr_first_read_complete alloc desc ctx th req True =
    (None, th, echo_error req, [Bdev_Free_Io])"
proof -
  obtain r ch where eq: "spdk_bdev_readv_blocks_ext desc (bch th) (req_iovs req) (ucast (cdw12 (req_cmd req)))
      (ucast (cdw13 (req_cmd req))) (Caller_Cb (Second_Read_Complete (req_id req))) (Some (read_opts req)) = (r, ch)"
    by fastforce
  have "r \<noteq> None" using eq rdv.in_device assms(2) by fastforce
  then have "ch = bch th" using eq rdv.refused by blast
  with \<open>r \<noteq> None\<close> show ?thesis
    using assms(1) eq by (simp add: nvmf_bdev_ctrlr_first_read_complete_def Let_def)
qed

subsection \<open>Witnesses\<close>

definition echo_req :: spdk_nvmf_request where
  "echo_req = sample_req\<lparr>req_cmd := sample_cmd\<lparr>opc := 0xd0, cdw10 := 8, cdw11 := 1, cdw12 := 16, cdw13 := 1\<rparr>,
     req_length := 4, iov := [[0, 0, 0], [0]]\<rparr>"

theorem echo_replies_metadata_only_witness:
  "\<exists>ctx' th' req' ev req''.
     nvmf_bdev_ctrlr_first_read_complete (\<lambda>n. True) sample_desc \<lparr>first_result = None, first_result_len = 0\<rparr>
       sample_thread (echo_req\<lparr>iov := [[1, 2, 3], [4]]\<rparr>) True = (Some ctx', th', req', ev) \<and>
     nvmf_bdev_ctrlr_second_read_complete (\<lambda>n. True) ctx' (req'\<lparr>iov := [[5, 6, 7], [8]]\<rparr>) True =
       Some (req'', [Bdev_Free_Io, Request_Complete 3 (rsp req'')]) \<and>
     iov req'' = [[1, 2, 3], [0]]"
proof -
  have "\<exists>ctx' th' req' ev.
     nvmf_bdev_ctrlr_first_read_complete (\<lambda>n. True) sample_desc \<lparr>first_result = None, first_result_len = 0\<rparr>
       sample_thread (echo_req\<lparr>iov := [[1, 2, 3], [4]]\<rparr>) True = (Some ctx', th', req', ev)"
    by (simp add: nvmf_bdev_ctrlr_first_read_complete_def spdk_bdev_readv_blocks_ext_def
        bdev_readv_blocks_with_md_def echo_req_def rw_sample_defs)
  then obtain ctx' th' req' ev where
    r: "nvmf_bdev_ctrlr_first_read_complete (\<lambda>n. True) sample_desc \<lparr>first_result = None, first_result_len = 0\<rparr>
       sample_thread (echo_req\<lparr>iov := [[1, 2, 3], [4]]\<rparr>) True = (Some ctx', th', req', ev)" by blast
  have "unat (req_length echo_req) < 2 ^ 31" "length (concat [[1, 2, 3], [4 :: byte]]) = unat (req_length echo_req)"
    "map length [[5, 6, 7], [8 :: byte]] = map length [[1, 2, 3], [4 :: byte]]" "[[1, 2, 3], [4 :: byte]] \<noteq> []"
    "req_id echo_req = 3"
    by (simp_all add: echo_req_def sample_req_def)
  with echo_replies_metadata_only [OF _ this(1-4) r] r show ?thesis by auto
qed

theorem echo_refused_target_never_completes_witness:
  "nvmf_bdev_ctrlr_first_read_complete (\<lambda>n. True) sample_desc \<lparr>first_result = None, first_result_len = 0\<rparr>
     sample_thread (echo_req\<lparr>req_cmd := sample_cmd\<lparr>cdw12 := 1000, cdw13 := 1\<rparr>\<rparr>) True =
   (None, sample_thread, echo_error (echo_req\<lparr>req_cmd := sample_cmd\<lparr>cdw12 := 1000, cdw13 := 1\<rparr>\<rparr>), [Bdev_Free_Io])"
  by (rule echo_refused_target_never_completes) (simp_all add: sample_desc_def sample_bdev_def)

end
