(* ===== verification/Ndp_Heaan.thy ===== *)
theory Ndp_Heaan
  imports Ctrlr_Bdev
begin

section \<open>The near-data ciphertext addition (opcode 0xe0)\<close>

text \<open>
  \<open>nvmf_bdev_ctrlr_custom_heaan_cipadd_cmd\<close> takes from the host the extents, in bytes on the block device, of two
  ciphertext files and of a target file. It reads both inputs into buffers; the
  last of these reads adds the ciphertexts and writes the sum to the target's extents; the last of
  the writes completes the request.

  The HEaaN library is not part of the sources: \<open>heaan_lib\<close> holds the functions the code
  calls. \<open>ct_read buf size off\<close> is \<open>readCiphertextFromMem\<close>, \<open>ct_add a b\<close> is \<open>ciphertextAdd\<close> into a
  fresh ciphertext (no result when it returns an error), and \<open>ct_write c buf off\<close> is \<open>writeCiphertextToMem\<close>,
  the buffer afterwards or nothing when it would leave the buffer. \<open>alloc n\<close> is whether
  an allocation of \<open>n\<close> bytes succeeds.

  Faults of the model (\<open>None\<close> of the outer option) are a use of the freed context or buffer, a
  NULL buffer handed on, and a load behind the end of the host's buffer.
\<close>

record 'ct heaan_lib =
  ct_read :: "byte list \<Rightarrow> u64 \<Rightarrow> u64 \<Rightarrow> 'ct"
  ct_add :: "'ct \<Rightarrow> 'ct \<Rightarrow> 'ct option"
  ct_write :: "'ct \<Rightarrow> byte list \<Rightarrow> u64 \<Rightarrow> byte list option"

type_synonym extent = "u64 \<times> u64"

record heaan_ctx =
  input_0_buffer :: "byte list option"
  input_1_buffer :: "byte list option"
  target_buffer :: "byte list option"
  pending_fills :: int
  input_0_total_size :: u64
  input_1_total_size :: u64
  input_0_start_offset :: u64
  input_1_start_offset :: u64
  target_extents_count :: u32
  target_ext :: "extent list"

definition SIZEOF_HEAAN_CTX :: nat where "SIZEOF_HEAAN_CTX = 104"

definition NVMF_REQ_MAX_BUFFERS :: nat where "NVMF_REQ_MAX_BUFFERS = 33"

subsection \<open>Completion of a write\<close>

text \<open>The result of a callback: context, thread, request, events.\<close>

type_synonym heaan_result = "(heaan_ctx option \<times> nvmf_thread \<times> spdk_nvmf_request \<times> nvmf_event list) option"

definition heaan_finish :: "spdk_nvme_generic_command_status_code \<Rightarrow> nvmf_thread \<Rightarrow> spdk_nvmf_request \<Rightarrow> heaan_result" where
  "heaan_finish c th req =
     (let req' = upd_rsp (set_generic c) req
      in Some (None, th, req', [Bdev_Free_Io, Request_Complete (req_id req') (rsp req')]))"

definition nvmf_heaan_cip_write_complete ::
  "heaan_ctx option \<Rightarrow> nvmf_thread \<Rightarrow> spdk_nvmf_request \<Rightarrow> bool \<Rightarrow> heaan_result" where
  "nvmf_heaan_cip_write_complete c th req success =
     (case c of
        None \<Rightarrow> None
      | Some ctx \<Rightarrow>
          let pending = (if \<not> success then -1 else pending_fills ctx - 1);
              req1 = (if \<not> success
                      then upd_rsp (set_sc (generic_sc SPDK_NVME_SC_INTERNAL_DEVICE_ERROR)) req else req)
          in if pending < 0 then heaan_finish SPDK_NVME_SC_INTERNAL_DEVICE_ERROR th req1
             else if pending = 0 then heaan_finish SPDK_NVME_SC_SUCCESS th req1
             else Some (Some (ctx\<lparr>pending_fills := pending\<rparr>), th, req1, []))"

subsection \<open>Completion of a read\<close>

fun submit_writes ::
  "spdk_bdev_desc \<Rightarrow> nat \<Rightarrow> nvmf_channel \<Rightarrow> nat \<Rightarrow> extent list \<Rightarrow> nvmf_channel" where
  "submit_writes desc rid ch pos [] = ch"
| "submit_writes desc rid ch pos ((off, len) # exts) =
     submit_writes desc rid
       (snd (spdk_bdev_write desc ch (Caller_Buf (Cip_Buf 2 pos)) off len
               (Caller_Cb (Heaan_Cip_Write_Complete rid))))
       (pos + unat len) exts"

definition nvmf_heaan_buffer_fill_complete ::
  "'ct heaan_lib \<Rightarrow> spdk_bdev_desc \<Rightarrow> heaan_ctx option \<Rightarrow> nvmf_thread \<Rightarrow> spdk_nvmf_request \<Rightarrow> bool
     \<Rightarrow> heaan_result" where
  "nvmf_heaan_buffer_fill_complete lib desc c th req success =
     (case c of
        None \<Rightarrow> None
      | Some ctx \<Rightarrow>
          let pending = (if \<not> success then -1 else pending_fills ctx - 1);
              req1 = (if \<not> success
                      then upd_rsp (set_sc (generic_sc SPDK_NVME_SC_INTERNAL_DEVICE_ERROR)) req else req)
          in if pending < 0 then
               Some (None, th, upd_rsp (set_generic SPDK_NVME_SC_INTERNAL_DEVICE_ERROR) req1,
                     [Bdev_Free_Io, Request_Complete (req_id req1) (rsp req1)])
             else if pending = 0 then
               (case (input_0_buffer ctx, input_1_buffer ctx, target_buffer ctx) of
                  (Some buf0, Some buf1, target) \<Rightarrow>
                    (case ct_add lib (ct_read lib buf0 (input_0_total_size ctx) (input_0_start_offset ctx))
                            (ct_read lib buf1 (input_1_total_size ctx) (input_1_start_offset ctx)) of
                       None \<Rightarrow> heaan_finish SPDK_NVME_SC_INTERNAL_DEVICE_ERROR th req1
                     | Some cip \<Rightarrow>
                         (case Option.bind target (\<lambda>buf. ct_write lib cip buf 0) of
                            None \<Rightarrow> None
                          | Some written \<Rightarrow>
                              Some (Some (ctx\<lparr>input_0_buffer := None, input_1_buffer := None,
                                            target_buffer := Some written,
                                            pending_fills := sint (target_extents_count ctx)\<rparr>),
                                    th\<lparr>bch := submit_writes desc (req_id req1) (bch th) 0 (target_ext ctx)\<rparr>,
                                    req1, [])))
                | _ \<Rightarrow> None)
             else Some (Some (ctx\<lparr>pending_fills := pending\<rparr>), th, req1, []))"

subsection \<open>The handler\<close>

text \<open>\<open>u64data[k]\<close> of the host's buffer.\<close>

definition u64_at :: "byte list \<Rightarrow> nat \<Rightarrow> u64 option" where
  "u64_at data k = (if 8 * k + 8 \<le> length data then Some (le64_word (get_at (8 * k) 8 data)) else None)"

datatype 'a parse = Out_Of_Buffer | Out_Of_Range | Parsed 'a

text \<open>A loop over \<open>count\<close> extents from \<open>bufnum\<close> on, with the range check of each.\<close>

fun read_extents :: "spdk_bdev \<Rightarrow> byte list \<Rightarrow> nat \<Rightarrow> nat \<Rightarrow> (extent list \<times> nat) parse" where
  "read_extents bdev data 0 bufnum = Parsed ([], bufnum)"
| "read_extents bdev data (Suc count) bufnum =
     (case (u64_at data bufnum, u64_at data (bufnum + 1)) of
        (Some off, Some len) \<Rightarrow>
          if \<not> nvmf_bdev_ctrlr_lba_in_range (blockcnt bdev) (off div ucast (blocklen bdev)) (len div ucast (blocklen bdev))
          then Out_Of_Range
          else (case read_extents bdev data count (bufnum + 2) of
                  Parsed (exts, next) \<Rightarrow> Parsed ((off, len) # exts, next)
                | Out_Of_Range \<Rightarrow> Out_Of_Range
                | Out_Of_Buffer \<Rightarrow> Out_Of_Buffer)
      | _ \<Rightarrow> Out_Of_Buffer)"

text \<open>A start offset followed by its extents.\<close>

definition read_file :: "spdk_bdev \<Rightarrow> byte list \<Rightarrow> nat \<Rightarrow> nat \<Rightarrow> (u64 \<times> extent list \<times> nat) parse" where
  "read_file bdev data count bufnum =
     (case u64_at data bufnum of
        None \<Rightarrow> Out_Of_Buffer
      | Some start \<Rightarrow>
          (case read_extents bdev data count (bufnum + 1) of
             Parsed (exts, next) \<Rightarrow> Parsed (start, exts, next)
           | Out_Of_Range \<Rightarrow> Out_Of_Range
           | Out_Of_Buffer \<Rightarrow> Out_Of_Buffer))"

definition parse_bind :: "'a parse \<Rightarrow> ('a \<Rightarrow> 'b parse) \<Rightarrow> 'b parse" where
  "parse_bind p f =
     (case p of Parsed a \<Rightarrow> f a | Out_Of_Range \<Rightarrow> Out_Of_Range | Out_Of_Buffer \<Rightarrow> Out_Of_Buffer)"

text \<open>
  The three files. \<open>target_ok\<close> is the allocation of \<open>ctx->target_ext\<close>, which the first target extent
  is stored to unchecked.
\<close>

definition read_files ::
  "spdk_bdev \<Rightarrow> byte list \<Rightarrow> bool \<Rightarrow> nat \<Rightarrow> nat \<Rightarrow> nat \<Rightarrow> (extent list \<times> extent list \<times> extent list) parse" where
  "read_files bdev data target_ok n0 n1 nt =
     parse_bind (read_file bdev data n0 0) (\<lambda>(_, ext0, b1).
     parse_bind (read_file bdev data n1 b1) (\<lambda>(_, ext1, b2).
     if 0 < nt \<and> \<not> target_ok
     then parse_bind (read_file bdev data 1 b2) (\<lambda>_. Out_Of_Buffer)
     else parse_bind (read_file bdev data nt b2) (\<lambda>(_, extt, _). Parsed (ext0, ext1, extt))))"

definition ext_size :: "extent list \<Rightarrow> u64" where
  "ext_size exts = foldl (\<lambda>size (off, len). size + len) 0 exts"

fun submit_reads ::
  "spdk_bdev_desc \<Rightarrow> nat \<Rightarrow> nat \<Rightarrow> nvmf_channel \<Rightarrow> nat \<Rightarrow> extent list \<Rightarrow> rc \<times> nvmf_channel" where
  "submit_reads desc rid k ch pos [] = (None, ch)"
| "submit_reads desc rid k ch pos ((off, len) # exts) =
     (case spdk_bdev_read desc ch (Caller_Buf (Cip_Buf k pos)) off len
             (Caller_Cb (Heaan_Buffer_Fill_Complete rid)) of
        (Some e, ch') \<Rightarrow> (Some e, ch')
      | (None, ch') \<Rightarrow> submit_reads desc rid k ch' (pos + unat len) exts)"

text \<open>The reads of both inputs, a refused one ending the loops.\<close>

definition submit_inputs ::
  "spdk_bdev_desc \<Rightarrow> nat \<Rightarrow> nvmf_channel \<Rightarrow> extent list \<Rightarrow> extent list \<Rightarrow> rc \<times> nvmf_channel" where
  "submit_inputs desc rid ch ext0 ext1 =
     (case submit_reads desc rid 0 ch 0 ext0 of
        (Some e, ch') \<Rightarrow> (Some e, ch')
      | (None, ch') \<Rightarrow> submit_reads desc rid 1 ch' 0 ext1)"

definition zbuf :: "(nat \<Rightarrow> bool) \<Rightarrow> u64 \<Rightarrow> byte list option" where
  "zbuf alloc sz = (if alloc (unat sz) then Some (replicate (unat sz) 0) else None)"

definition nvmf_bdev_ctrlr_custom_heaan_cipadd_cmd ::
  "(nat \<Rightarrow> bool) \<Rightarrow> spdk_bdev_desc \<Rightarrow> nvmf_thread \<Rightarrow> spdk_nvmf_request
     \<Rightarrow> (spdk_nvmf_request_exec_status \<times> nvmf_thread \<times> spdk_nvmf_request \<times> heaan_ctx option) option" where
  "nvmf_bdev_ctrlr_custom_heaan_cipadd_cmd alloc desc th req =
     (let cmd = req_cmd req;
          n0 = cdw11 cmd; n1 = cdw12 cmd; nt = cdw13 cmd;
          fail = (\<lambda>c th'. Some (SPDK_NVMF_REQUEST_EXEC_STATUS_COMPLETE, th', upd_rsp (set_generic c) req, None))
      in
      if \<not> alloc SIZEOF_HEAAN_CTX then None
      else
        case iov req of
          [] \<Rightarrow> fail SPDK_NVME_SC_INTERNAL_DEVICE_ERROR th
        | data # rest \<Rightarrow>
            if (word_of_nat (length data * NVMF_REQ_MAX_BUFFERS) :: u32) = 0 then
              fail SPDK_NVME_SC_INTERNAL_DEVICE_ERROR th
            else
              case read_files (desc_bdev desc) data (alloc (16 * unat nt)) (unat n0) (unat n1) (unat nt) of
                Out_Of_Buffer \<Rightarrow> None
              | Out_Of_Range \<Rightarrow> fail SPDK_NVME_SC_LBA_OUT_OF_RANGE th
              | Parsed (ext0, ext1, extt) \<Rightarrow>
                  let ctx = \<lparr>input_0_buffer = zbuf alloc (ext_size ext0), input_1_buffer = zbuf alloc (ext_size ext1),
                             target_buffer = zbuf alloc (ext_size extt), pending_fills = sint (n0 + n1),
                             input_0_total_size = ext_size ext0, input_1_total_size = ext_size ext1,
                             input_0_start_offset = 0, input_1_start_offset = 0,
                             target_extents_count = nt, target_ext = extt\<rparr>
                  in if ext0 \<noteq> [] \<and> input_0_buffer ctx = None \<or> ext1 \<noteq> [] \<and> input_1_buffer ctx = None then None
                     else case submit_inputs desc (req_id req) (bch th) ext0 ext1 of
                       (Some e, ch) \<Rightarrow> fail SPDK_NVME_SC_INTERNAL_DEVICE_ERROR (th\<lparr>bch := ch\<rparr>)
                     | (None, ch) \<Rightarrow>
                         Some (SPDK_NVMF_REQUEST_EXEC_STATUS_ASYNCHRONOUS, th\<lparr>bch := ch\<rparr>, req, Some ctx))"


subsection \<open>The host's table of extents\<close>

text \<open>The words the host puts into the buffer for one file, and the bytes of words.\<close>

definition file_words :: "u64 \<Rightarrow> extent list \<Rightarrow> u64 list" where
  "file_words start exts = start # concat (map (\<lambda>(off, len). [off, len]) exts)"

definition encode_words :: "u64 list \<Rightarrow> byte list" where
  "encode_words ws = concat (map le64_bytes ws)"

definition ext_in_range :: "spdk_bdev \<Rightarrow> extent \<Rightarrow> bool" where
  "ext_in_range bdev e \<longleftrightarrow>
     unat (fst e) div unat (blocklen bdev) + unat (snd e) div unat (blocklen bdev) \<le> unat (blockcnt bdev)"

lemma ext_in_range_iff:
  "nvmf_bdev_ctrlr_lba_in_range (blockcnt bdev) (off div ucast (blocklen bdev)) (len div ucast (blocklen bdev)) =
     ext_in_range bdev (off, len)"
  by (simp add: lba_in_range_valid valid_blocks_nat ext_in_range_def unat_div)

lemma length_encode_words [simp]: "length (encode_words ws) = 8 * length ws"
  by (induction ws) (simp_all add: encode_words_def)

lemma get_encoded_word:
  "k < length ws \<Longrightarrow> get_at (8 * k) 8 (encode_words ws @ rest) = le64_bytes (ws ! k)"
proof (induction ws arbitrary: k)
  case Nil
  then show ?case by simp
next
  case (Cons w ws)
  have e: "encode_words (w # ws) @ rest = le64_bytes w @ (encode_words ws @ rest)"
    by (simp add: encode_words_def)
  show ?case
  proof (cases k)
    case 0
    then show ?thesis unfolding e by (simp add: get_at_def)
  next
    case (Suc m)
    have "get_at (8 * k) 8 (le64_bytes w @ (encode_words ws @ rest)) = get_at (8 * m) 8 (encode_words ws @ rest)"
      using get_at_append_right [of "le64_bytes w" "8 * m" 8] Suc by simp
    with Cons Suc show ?thesis unfolding e by simp
  qed
qed

lemma u64_at_encoded: "k < length ws \<Longrightarrow> u64_at (encode_words ws @ rest) k = Some (ws ! k)"
  by (simp add: u64_at_def get_encoded_word)

lemma nth_at_length: "(xs @ y # ys) ! length xs = y" "(xs @ y # z # ys) ! Suc (length xs) = z"
  by (simp_all add: nth_append)

lemma read_extents_encoded:
  "read_extents bdev (encode_words (ws @ concat (map (\<lambda>(off, len). [off, len]) exts) @ tl_ws) @ rest)
     (length exts) (length ws) =
   (if list_all (ext_in_range bdev) exts then Parsed (exts, length ws + 2 * length exts) else Out_Of_Range)"
proof (induction exts arbitrary: ws)
  case Nil
  then show ?case by simp
next
  case (Cons e exts)
  obtain off len where e: "e = (off, len)" by fastforce
  let ?t = "concat (map (\<lambda>(off, len). [off, len]) exts) @ tl_ws"
  have w: "ws @ concat (map (\<lambda>(off, len). [off, len]) (e # exts)) @ tl_ws = ws @ off # len # ?t"
    by (simp add: e)
  have "u64_at (encode_words (ws @ off # len # ?t) @ rest) (length ws) = Some off"
    "u64_at (encode_words (ws @ off # len # ?t) @ rest) (Suc (length ws)) = Some len"
    by (subst u64_at_encoded; simp add: nth_at_length)+
  moreover have "read_extents bdev (encode_words (ws @ off # len # ?t) @ rest) (length exts) (length ws + 2) =
    (if list_all (ext_in_range bdev) exts then Parsed (exts, length ws + 2 + 2 * length exts) else Out_Of_Range)"
    using Cons.IH [of "ws @ [off, len]"] by simp
  ultimately show ?case unfolding w by (simp add: e ext_in_range_iff)
qed

lemma read_file_encoded:
  "read_file bdev (encode_words (ws @ file_words start exts @ tl_ws) @ rest) (length exts) (length ws) =
   (if list_all (ext_in_range bdev) exts
    then Parsed (start, exts, length (ws @ file_words start exts)) else Out_Of_Range)"
proof -
  have "length (concat (map (\<lambda>(off, len). [off, len]) exts)) = 2 * length (exts :: extent list)"
    by (induction exts) auto
  moreover have "u64_at (encode_words (ws @ file_words start exts @ tl_ws) @ rest) (length ws) = Some start"
    by (subst u64_at_encoded) (simp_all add: file_words_def nth_at_length)
  moreover note read_extents_encoded [of bdev "ws @ [start]" exts tl_ws rest]
  ultimately show ?thesis by (simp add: read_file_def file_words_def)
qed

definition cipadd_words :: "u64 \<Rightarrow> extent list \<Rightarrow> u64 \<Rightarrow> extent list \<Rightarrow> u64 \<Rightarrow> extent list \<Rightarrow> u64 list" where
  "cipadd_words s0 ext0 s1 ext1 st extt = file_words s0 ext0 @ file_words s1 ext1 @ file_words st extt"

lemma read_files_encoded:
  "read_files bdev (encode_words (cipadd_words s0 ext0 s1 ext1 st extt) @ rest) True
     (length ext0) (length ext1) (length extt) =
   (if list_all (ext_in_range bdev) (ext0 @ ext1 @ extt) then Parsed (ext0, ext1, extt) else Out_Of_Range)"
  using read_file_encoded [of bdev "[]" s0 ext0 "file_words s1 ext1 @ file_words st extt" rest]
    read_file_encoded [of bdev "file_words s0 ext0" s1 ext1 "file_words st extt" rest]
    read_file_encoded [of bdev "file_words s0 ext0 @ file_words s1 ext1" st extt "[]" rest]
  by (simp add: read_files_def cipadd_words_def parse_bind_def)

subsection \<open>Byte extents on the block device\<close>

text \<open>An extent the block layer takes: block aligned, and within the device.\<close>

definition ext_ok :: "spdk_bdev \<Rightarrow> extent \<Rightarrow> bool" where
  "ext_ok bdev e \<longleftrightarrow> blocklen bdev \<noteq> 0 \<and>
     unat (fst e) mod unat (blocklen bdev) = 0 \<and> unat (snd e) mod unat (blocklen bdev) = 0 \<and>
     unat (fst e) + unat (snd e) \<le> unat (blockcnt bdev) * unat (blocklen bdev)"

text \<open>Where a byte-addressed I/O is in the device and in memory: buffer, position, device offset, length.\<close>

type_synonym job = "nat \<times> nat \<times> nat \<times> nat"

definition io_job :: "spdk_bdev \<Rightarrow> nvmf_bdev_io \<Rightarrow> job option" where
  "io_job bdev io =
     (case iovs (u io) of
        One_Iov (Caller_Buf (Cip_Buf k pos)) len \<Rightarrow>
          Some (k, pos, unat (offset_blocks (u io)) * unat (blocklen bdev), unat (num_blocks (u io)) * unat (blocklen bdev))
      | _ \<Rightarrow> None)"

definition job_io :: "spdk_bdev \<Rightarrow> nvmf_cb \<Rightarrow> job \<Rightarrow> nvmf_bdev_io \<Rightarrow> bool" where
  "job_io bdev c j io \<longleftrightarrow> io_job bdev io = Some j \<and> cb io = Caller_Cb c"

fun jobs_of :: "nat \<Rightarrow> nat \<Rightarrow> extent list \<Rightarrow> job list" where
  "jobs_of k pos [] = []"
| "jobs_of k pos ((off, len) # exts) = (k, pos, unat off, unat len) # jobs_of k (pos + unat len) exts"

lemma length_jobs_of [simp]: "length (jobs_of k pos exts) = length exts"
  by (induction k pos exts rule: jobs_of.induct) simp_all

text \<open>A channel from which \<open>n\<close> descriptors can be taken.\<close>

definition descs_for :: "nat \<Rightarrow> nvmf_channel \<Rightarrow> bool" where
  "descs_for n ch \<longleftrightarrow> io_wait_queue ch = [] \<and> n \<le> free_descs ch"

lemma descs_for_get:
  "descs_for (Suc n) ch \<Longrightarrow>
   \<exists>ch'. bdev_channel_get_io ch = Some ch' \<and> descs_for n ch' \<and> handed ch' = handed ch"
  by (auto simp: descs_for_def bdev_channel_get_io_def free_descs_def)

lemma descs_for_hand [simp]: "descs_for n (hand p io ch) = descs_for n ch" "handed (hand p io ch) = handed ch @ [(p, io)]"
  by (simp_all add: descs_for_def hand_def free_descs_def)

lemma ext_ok_blocks:
  assumes "ext_ok bdev (off, len)"
  shows "\<exists>o' n'. bdev_bytes_to_blocks bdev off len = (o', n', 0) \<and> bdev_io_valid_blocks bdev o' n' \<and>
    unat o' * unat (blocklen bdev) = unat off \<and> unat n' * unat (blocklen bdev) = unat len"
proof -
  let ?b = "unat (blocklen bdev)"
  have b: "0 < ?b" using assms by (simp add: ext_ok_def unat_gt_0)
  have m: "unat off div ?b * ?b = unat off" "unat len div ?b * ?b = unat len"
    using assms by (auto simp: ext_ok_def)
  have "(unat off div ?b + unat len div ?b) * ?b \<le> unat (blockcnt bdev) * ?b"
    using assms m by (simp add: ext_ok_def distrib_right)
  then have "unat off div ?b + unat len div ?b \<le> unat (blockcnt bdev)" using b by simp
  moreover have "(off mod ucast (blocklen bdev)) OR (len mod ucast (blocklen bdev)) = 0"
    using bytes_to_blocks_aligned [of bdev off len] assms by (simp add: bytes_to_blocks_div ext_ok_def)
  ultimately show ?thesis using m by (simp add: bytes_to_blocks_div valid_blocks_nat unat_div)
qed

lemma bdev_read_job:
  assumes "ext_ok (desc_bdev desc) (off, len)" "descs_for (Suc n) ch"
  shows "\<exists>ch' place io. spdk_bdev_read desc ch (Caller_Buf (Cip_Buf k pos)) off len (Caller_Cb c) = (None, ch') \<and>
    handed ch' = handed ch @ [(place, io)] \<and> descs_for n ch' \<and>
    job_io (desc_bdev desc) c (k, pos, unat off, unat len) io"
  using ext_ok_blocks [OF assms(1)] descs_for_get [OF assms(2)]
  by (auto simp: spdk_bdev_read_def spdk_bdev_read_blocks_def bdev_read_blocks_with_md_def Let_def
      bdev_io_submit_def one_iov_def job_io_def io_job_def)

lemma bdev_write_job:
  assumes "ext_ok (desc_bdev desc) (off, len)" "descs_for (Suc n) ch" "desc_write desc"
  shows "\<exists>ch' place io. spdk_bdev_write desc ch (Caller_Buf (Cip_Buf k pos)) off len (Caller_Cb c) = (None, ch') \<and>
    handed ch' = handed ch @ [(place, io)] \<and> descs_for n ch' \<and>
    job_io (desc_bdev desc) c (k, pos, unat off, unat len) io"
  using ext_ok_blocks [OF assms(1)] descs_for_get [OF assms(2)] assms(3)
  by (auto simp: spdk_bdev_write_def spdk_bdev_write_blocks_def bdev_write_blocks_with_md_def Let_def
      bdev_io_submit_def one_iov_def job_io_def io_job_def)

definition jobs_ios :: "spdk_bdev \<Rightarrow> nvmf_cb \<Rightarrow> job list \<Rightarrow> nvmf_bdev_io list \<Rightarrow> bool" where
  "jobs_ios bdev c jobs ios \<longleftrightarrow> list_all2 (job_io bdev c) jobs ios"

lemma submit_reads_jobs:
  assumes "list_all (ext_ok (desc_bdev desc)) exts" "descs_for (length exts + n) ch"
  shows "\<exists>ch' new. submit_reads desc rid k ch pos exts = (None, ch') \<and> handed ch' = handed ch @ new \<and>
    descs_for n ch' \<and>
    jobs_ios (desc_bdev desc) (Heaan_Buffer_Fill_Complete rid) (jobs_of k pos exts) (map snd new)"
  using assms
proof (induction exts arbitrary: ch pos)
  case Nil
  then show ?case by (simp add: jobs_ios_def)
next
  case (Cons e exts)
  obtain off len where e: "e = (off, len)" by fastforce
  have "ext_ok (desc_bdev desc) (off, len)" "descs_for (Suc (length exts + n)) ch"
    using Cons.prems by (simp_all add: e)
  from bdev_read_job [OF this, of k pos "Heaan_Buffer_Fill_Complete rid"] obtain ch1 place io where
    r: "spdk_bdev_read desc ch (Caller_Buf (Cip_Buf k pos)) off len (Caller_Cb (Heaan_Buffer_Fill_Complete rid)) = (None, ch1)"
    "handed ch1 = handed ch @ [(place, io)]" "descs_for (length exts + n) ch1"
    "job_io (desc_bdev desc) (Heaan_Buffer_Fill_Complete rid) (k, pos, unat off, unat len) io" by blast
  from Cons.IH [OF _ r(3), of "pos + unat len"] Cons.prems obtain ch' new where
    "submit_reads desc rid k ch1 (pos + unat len) exts = (None, ch')" "handed ch' = handed ch1 @ new"
    "descs_for n ch'"
    "jobs_ios (desc_bdev desc) (Heaan_Buffer_Fill_Complete rid) (jobs_of k (pos + unat len) exts) (map snd new)"
    by auto
  with r show ?case
    by (intro exI [of _ ch'] exI [of _ "(place, io) # new"]) (simp add: e jobs_ios_def)
qed

lemma submit_writes_jobs:
  assumes "list_all (ext_ok (desc_bdev desc)) exts" "descs_for (length exts + n) ch" "desc_write desc"
  shows "\<exists>new. handed (submit_writes desc rid ch pos exts) = handed ch @ new \<and>
    descs_for n (submit_writes desc rid ch pos exts) \<and>
    jobs_ios (desc_bdev desc) (Heaan_Cip_Write_Complete rid) (jobs_of 2 pos exts) (map snd new)"
  using assms
proof (induction exts arbitrary: ch pos)
  case Nil
  then show ?case by (simp add: jobs_ios_def)
next
  case (Cons e exts)
  obtain off len where e: "e = (off, len)" by fastforce
  have "ext_ok (desc_bdev desc) (off, len)" "descs_for (Suc (length exts + n)) ch"
    using Cons.prems by (simp_all add: e)
  from bdev_write_job [OF this Cons.prems(3), of 2 pos "Heaan_Cip_Write_Complete rid"] obtain ch1 place io where
    r: "spdk_bdev_write desc ch (Caller_Buf (Cip_Buf 2 pos)) off len (Caller_Cb (Heaan_Cip_Write_Complete rid)) = (None, ch1)"
    "handed ch1 = handed ch @ [(place, io)]" "descs_for (length exts + n) ch1"
    "job_io (desc_bdev desc) (Heaan_Cip_Write_Complete rid) (2, pos, unat off, unat len) io" by blast
  from Cons.IH [OF _ r(3) Cons.prems(3), of "pos + unat len"] Cons.prems(1) obtain new where
    "handed (submit_writes desc rid ch1 (pos + unat len) exts) = handed ch1 @ new"
    "descs_for n (submit_writes desc rid ch1 (pos + unat len) exts)"
    "jobs_ios (desc_bdev desc) (Heaan_Cip_Write_Complete rid) (jobs_of 2 (pos + unat len) exts) (map snd new)"
    by auto
  with r show ?case
    by (intro exI [of _ "(place, io) # new"]) (simp add: e jobs_ios_def)
qed

end
