(* ===== verification/Ctrlr.thy ===== *)
theory Ctrlr
  imports Ndp_Grep Ndp_Echo Ndp_Heaan
begin

section \<open>Command dispatch (\<open>lib/nvmf/ctrlr.c\<close>)\<close>

text \<open>
  The I/O command path of a controller: the reservation check, the pairing of fused commands, the
  dispatch of an opcode to its handler, and the resubmission of a command that waited for a descriptor.
  The controller and the namespaces are read-only here; the state is that of the queue pair and its requests.
\<close>

subsection \<open>Reservations\<close>

type_synonym uuid = "byte list"

datatype spdk_nvme_reservation_type =
    SPDK_NVME_RESERVE_NONE
  | SPDK_NVME_RESERVE_WRITE_EXCLUSIVE
  | SPDK_NVME_RESERVE_EXCLUSIVE_ACCESS
  | SPDK_NVME_RESERVE_WRITE_EXCLUSIVE_REG_ONLY
  | SPDK_NVME_RESERVE_EXCLUSIVE_ACCESS_REG_ONLY
  | SPDK_NVME_RESERVE_WRITE_EXCLUSIVE_ALL_REGS
  | SPDK_NVME_RESERVE_EXCLUSIVE_ACCESS_ALL_REGS

datatype spdk_nvmf_subsystem_state =
    SPDK_NVMF_SUBSYSTEM_INACTIVE
  | SPDK_NVMF_SUBSYSTEM_ACTIVATING
  | SPDK_NVMF_SUBSYSTEM_ACTIVE
  | SPDK_NVMF_SUBSYSTEM_PAUSING
  | SPDK_NVMF_SUBSYSTEM_PAUSED
  | SPDK_NVMF_SUBSYSTEM_RESUMING
  | SPDK_NVMF_SUBSYSTEM_DEACTIVATING

record spdk_nvmf_subsystem_pg_ns_info =
  ni_channel :: bool
  rtype :: spdk_nvme_reservation_type
  holder_id :: uuid
  reg_hostid :: "uuid list"
  io_outstanding :: u64
  ni_state :: spdk_nvmf_subsystem_state

definition nvmf_ns_info_ctrlr_is_registrant :: "spdk_nvmf_subsystem_pg_ns_info \<Rightarrow> uuid \<Rightarrow> bool" where
  "nvmf_ns_info_ctrlr_is_registrant ns_info hostid = list_ex (\<lambda>h. h = hostid) (reg_hostid ns_info)"

text \<open>\<open>cdw10_bits.resv_acquire.racqa\<close>.\<close>

definition resv_acquire_racqa :: "spdk_nvme_cmd \<Rightarrow> u32" where
  "resv_acquire_racqa cmd = cdw10 cmd AND 7"

definition reservation_status :: "spdk_nvme_reservation_type \<Rightarrow> bool \<Rightarrow> spdk_nvme_cmd \<Rightarrow> spdk_nvme_generic_command_status_code" where
  "reservation_status rt is_registrant cmd =
     (let conflict = (\<lambda>b. if b then SPDK_NVME_SC_RESERVATION_CONFLICT else SPDK_NVME_SC_SUCCESS);
          opcode = opc cmd
      in
      if opcode = nvm_opc SPDK_NVME_OPC_READ \<or> opcode = nvm_opc SPDK_NVME_OPC_COMPARE then
        conflict (rt = SPDK_NVME_RESERVE_EXCLUSIVE_ACCESS \<or>
          (rt = SPDK_NVME_RESERVE_EXCLUSIVE_ACCESS_REG_ONLY \<or> rt = SPDK_NVME_RESERVE_EXCLUSIVE_ACCESS_ALL_REGS) \<and> \<not> is_registrant)
      else if opcode = nvm_opc SPDK_NVME_OPC_FLUSH \<or> opcode = nvm_opc SPDK_NVME_OPC_WRITE \<or>
              opcode = nvm_opc SPDK_NVME_OPC_WRITE_UNCORRECTABLE \<or> opcode = nvm_opc SPDK_NVME_OPC_WRITE_ZEROES \<or>
              opcode = nvm_opc SPDK_NVME_OPC_DATASET_MANAGEMENT then
        conflict (rt = SPDK_NVME_RESERVE_WRITE_EXCLUSIVE \<or> rt = SPDK_NVME_RESERVE_EXCLUSIVE_ACCESS \<or> \<not> is_registrant)
      else if opcode = nvm_opc SPDK_NVME_OPC_RESERVATION_ACQUIRE then
        conflict (resv_acquire_racqa cmd = 0 \<or> \<not> is_registrant)
      else if opcode = nvm_opc SPDK_NVME_OPC_RESERVATION_RELEASE then conflict (\<not> is_registrant)
      else SPDK_NVME_SC_SUCCESS)"

definition nvmf_ns_reservation_request_check ::
  "spdk_nvmf_subsystem_pg_ns_info \<Rightarrow> uuid \<Rightarrow> spdk_nvmf_request \<Rightarrow> rc \<times> spdk_nvmf_request" where
  "nvmf_ns_reservation_request_check ns_info hostid req =
     (let rt = rtype ns_info; is_registrant = nvmf_ns_info_ctrlr_is_registrant ns_info hostid in
      if rt = SPDK_NVME_RESERVE_NONE then (None, req)
      else if (rt = SPDK_NVME_RESERVE_WRITE_EXCLUSIVE_ALL_REGS \<or> rt = SPDK_NVME_RESERVE_EXCLUSIVE_ACCESS_ALL_REGS) \<and> is_registrant
      then (None, req)
      else if holder_id ns_info = hostid then (None, req)
      else
        let status = reservation_status rt is_registrant (req_cmd req);
            req' = upd_rsp (set_generic status) req
        in (if status = SPDK_NVME_SC_RESERVATION_CONFLICT then Some EPERM else None, req'))"

subsection \<open>Namespaces and paths\<close>

datatype spdk_nvme_ana_state =
    SPDK_NVME_ANA_OPTIMIZED_STATE
  | SPDK_NVME_ANA_NON_OPTIMIZED_STATE
  | SPDK_NVME_ANA_INACCESSIBLE_STATE
  | SPDK_NVME_ANA_PERSISTENT_LOSS_STATE
  | SPDK_NVME_ANA_CHANGE_STATE

record spdk_nvmf_ns =
  ns_anagrpid :: u32
  ns_desc :: "spdk_bdev_desc option"
  ns_zcopy :: bool

record spdk_nvme_oncs =
  oncs_compare :: bool
  oncs_write_zeroes :: bool
  oncs_dsm :: bool
  oncs_reservations :: bool
  oncs_copy :: bool

record spdk_nvmf_ctrlr =
  cc_en :: bool
  ctrlr_hostid :: uuid
  subsys_ns :: "spdk_nvmf_ns option list"
  visible_ns :: "nat \<Rightarrow> bool"
  ana_reporting :: bool
  listener_ana_state :: "(nat \<Rightarrow> spdk_nvme_ana_state) option"
  cdata_oncs :: spdk_nvme_oncs
  limits :: spdk_nvmf_subsystem_limits
  disable_command_passthru :: bool

text \<open>\<open>nsid - 1\<close> wraps for \<open>nsid\<close> 0 and is then no valid index.\<close>

definition nvmf_subsystem_get_ns :: "spdk_nvmf_ctrlr \<Rightarrow> u32 \<Rightarrow> spdk_nvmf_ns option" where
  "nvmf_subsystem_get_ns ctrlr nid =
     (if length (subsys_ns ctrlr) \<le> unat (nid - 1) then None else subsys_ns ctrlr ! unat (nid - 1))"

definition nvmf_ctrlr_get_ns :: "spdk_nvmf_ctrlr \<Rightarrow> u32 \<Rightarrow> spdk_nvmf_ns option" where
  "nvmf_ctrlr_get_ns ctrlr nid =
     (case nvmf_subsystem_get_ns ctrlr nid of
        None \<Rightarrow> None
      | Some ns \<Rightarrow> if visible_ns ctrlr (unat (nid - 1)) then Some ns else None)"

definition nvmf_ctrlr_get_ana_state :: "spdk_nvmf_ctrlr \<Rightarrow> u32 \<Rightarrow> spdk_nvme_ana_state" where
  "nvmf_ctrlr_get_ana_state ctrlr anagrpid =
     (if \<not> ana_reporting ctrlr then SPDK_NVME_ANA_OPTIMIZED_STATE
      else case listener_ana_state ctrlr of
        None \<Rightarrow> SPDK_NVME_ANA_INACCESSIBLE_STATE
      | Some ana_state \<Rightarrow> ana_state (unat (anagrpid - 1)))"

primrec nvme_ana_state_to_path_status :: "spdk_nvme_ana_state \<Rightarrow> spdk_nvme_path_status_code" where
  "nvme_ana_state_to_path_status SPDK_NVME_ANA_INACCESSIBLE_STATE = SPDK_NVME_SC_ASYMMETRIC_ACCESS_INACCESSIBLE"
| "nvme_ana_state_to_path_status SPDK_NVME_ANA_PERSISTENT_LOSS_STATE = SPDK_NVME_SC_ASYMMETRIC_ACCESS_PERSISTENT_LOSS"
| "nvme_ana_state_to_path_status SPDK_NVME_ANA_CHANGE_STATE = SPDK_NVME_SC_ASYMMETRIC_ACCESS_TRANSITION"
| "nvme_ana_state_to_path_status SPDK_NVME_ANA_OPTIMIZED_STATE = SPDK_NVME_SC_INTERNAL_PATH_ERROR"
| "nvme_ana_state_to_path_status SPDK_NVME_ANA_NON_OPTIMIZED_STATE = SPDK_NVME_SC_INTERNAL_PATH_ERROR"

subsection \<open>The state of a queue pair's requests\<close>

text \<open>
  The contexts the handlers pass to their callbacks, by request. \<open>io_events\<close> are the requests completed by
  the dispatcher itself, \<open>io_msgs\<close> the reservation commands sent to the subsystem's thread.
\<close>

datatype req_ctx =
    Grep_Ctx "byte list"
  | Echo_Ctx custom_ctx
  | Heaan_Ctx heaan_ctx
  | Unmap_Ctx nvmf_bdev_ctrlr_unmap_ctx

record io_state =
  io_th :: nvmf_thread
  io_reqs :: "nat \<Rightarrow> spdk_nvmf_request"
  qpair_first_fused_req :: "nat option"
  io_ctxs :: "nat \<Rightarrow> req_ctx option"
  io_events :: "nvmf_event list"
  io_msgs :: "nat list"

text \<open>The allocations: \<open>heap\<close> by size, the grep context, the contexts of unmap and of the range lock.\<close>

record io_alloc =
  heap :: "nat \<Rightarrow> bool"
  grep_ctx_ok :: bool
  calloc_ok :: bool

definition put_req :: "nat \<Rightarrow> spdk_nvmf_request \<Rightarrow> io_state \<Rightarrow> io_state" where
  "put_req rid req s = s\<lparr>io_reqs := (io_reqs s)(rid := req)\<rparr>"

definition set_ctx :: "nat \<Rightarrow> req_ctx option \<Rightarrow> io_state \<Rightarrow> io_state" where
  "set_ctx rid c s = s\<lparr>io_ctxs := (io_ctxs s)(rid := c)\<rparr>"

type_synonym exec_result = "(spdk_nvmf_request_exec_status \<times> io_state) option"

definition lift_handler ::
  "nat \<Rightarrow> io_state \<Rightarrow> spdk_nvmf_request_exec_status \<times> nvmf_thread \<times> spdk_nvmf_request
     \<Rightarrow> spdk_nvmf_request_exec_status \<times> io_state" where
  "lift_handler rid s r = (case r of (st, th, req) \<Rightarrow> (st, (put_req rid req s)\<lparr>io_th := th\<rparr>))"

definition fail_req :: "nat \<Rightarrow> (spdk_nvme_cpl \<Rightarrow> spdk_nvme_cpl) \<Rightarrow> io_state \<Rightarrow> spdk_nvmf_request_exec_status \<times> io_state" where
  "fail_req rid f s = (SPDK_NVMF_REQUEST_EXEC_STATUS_COMPLETE, put_req rid (upd_rsp f (io_reqs s rid)) s)"

text \<open>The call of \<open>_nvmf_request_complete\<close> on the first of two fused commands, with its status.\<close>

definition abort_first :: "nat \<Rightarrow> io_state \<Rightarrow> io_state" where
  "abort_first f s =
     (let r = upd_rsp (set_generic SPDK_NVME_SC_ABORTED_MISSING_FUSED) (io_reqs s f) in
      (put_req f r s)\<lparr>io_events := io_events s @ [Request_Complete f (rsp r)]\<rparr>)"

subsection \<open>Fused commands\<close>

definition nvmf_ctrlr_process_io_fused_cmd ::
  "io_alloc \<Rightarrow> spdk_bdev_desc \<Rightarrow> nat \<Rightarrow> io_state \<Rightarrow> spdk_nvmf_request_exec_status \<times> io_state" where
  "nvmf_ctrlr_process_io_fused_cmd al desc rid s =
     (let cmd = req_cmd (io_reqs s rid) in
      if fuse cmd = fuse_code SPDK_NVME_CMD_FUSE_FIRST then
        (case qpair_first_fused_req s of
           Some f \<Rightarrow>
             (SPDK_NVMF_REQUEST_EXEC_STATUS_ASYNCHRONOUS, (abort_first f s)\<lparr>qpair_first_fused_req := Some rid\<rparr>)
         | None \<Rightarrow>
             if opc cmd \<noteq> nvm_opc SPDK_NVME_OPC_COMPARE
             then fail_req rid (set_generic SPDK_NVME_SC_INVALID_OPCODE) s
             else (SPDK_NVMF_REQUEST_EXEC_STATUS_ASYNCHRONOUS, s\<lparr>qpair_first_fused_req := Some rid\<rparr>))
      else if fuse cmd = fuse_code SPDK_NVME_CMD_FUSE_SECOND then
        (case qpair_first_fused_req s of
           None \<Rightarrow> fail_req rid (set_generic SPDK_NVME_SC_ABORTED_MISSING_FUSED) s
         | Some f \<Rightarrow>
             if opc cmd \<noteq> nvm_opc SPDK_NVME_OPC_WRITE then
               fail_req rid (set_generic SPDK_NVME_SC_INVALID_OPCODE)
                 ((abort_first f s)\<lparr>qpair_first_fused_req := None\<rparr>)
             else
               let req1 = (io_reqs s rid)\<lparr>first_fused_req := Some f, first_fused := True\<rparr>;
                   s1 = (put_req rid req1 s)\<lparr>qpair_first_fused_req := None\<rparr>
               in case lift_handler rid s1
                         (nvmf_bdev_ctrlr_compare_and_write_cmd (calloc_ok al) desc (io_th s1) (io_reqs s1 f) req1) of
                 (st, s2) \<Rightarrow>
                   let req2 = io_reqs s2 rid in
                   if st = SPDK_NVMF_REQUEST_EXEC_STATUS_COMPLETE \<and> spdk_nvme_cpl_is_error (rsp req2) then
                     let first = upd_rsp (\<lambda>c. c\<lparr>status := status (rsp req2)\<rparr>) (io_reqs s2 f);
                         req3 = (upd_rsp (set_generic SPDK_NVME_SC_ABORTED_FAILED_FUSED) req2)
                                  \<lparr>first_fused_req := None, first_fused := False\<rparr>
                     in (st, (put_req rid req3 (put_req f first s2))
                               \<lparr>io_events := io_events s2 @ [Request_Complete f (rsp first)]\<rparr>)
                   else (st, s2))
      else fail_req rid (set_generic SPDK_NVME_SC_INVALID_FIELD) s)"

subsection \<open>Dispatch\<close>

definition invalid_opcode :: "nat \<Rightarrow> io_state \<Rightarrow> spdk_nvmf_request_exec_status \<times> io_state" where
  "invalid_opcode rid s = fail_req rid (set_dnr \<circ> set_generic SPDK_NVME_SC_INVALID_OPCODE) s"

definition spdk_nvmf_request_using_zcopy :: "spdk_nvmf_request \<Rightarrow> bool" where
  "spdk_nvmf_request_using_zcopy req \<longleftrightarrow> zcopy_phase req \<noteq> NVMF_ZCOPY_PHASE_NONE"

definition lift_ndp ::
  "nat \<Rightarrow> ('c \<Rightarrow> req_ctx) \<Rightarrow> io_state
     \<Rightarrow> spdk_nvmf_request_exec_status \<times> nvmf_thread \<times> spdk_nvmf_request \<times> 'c option
     \<Rightarrow> spdk_nvmf_request_exec_status \<times> io_state" where
  "lift_ndp rid mk s r =
     (case r of (st, th, req, c) \<Rightarrow> (st, set_ctx rid (map_option mk c) ((put_req rid req s)\<lparr>io_th := th\<rparr>)))"

definition dispatch_opcode ::
  "io_alloc \<Rightarrow> spdk_nvmf_ctrlr \<Rightarrow> spdk_bdev_desc \<Rightarrow> nat \<Rightarrow> io_state \<Rightarrow> exec_result" where
  "dispatch_opcode al ctrlr desc rid s =
     (let req = io_reqs s rid; th = io_th s; opcode = opc (req_cmd req); oncs = cdata_oncs ctrlr;
          std = (\<lambda>r. Some (lift_handler rid s r));
          guarded = (\<lambda>ok r. Some (if ok then r else invalid_opcode rid s))
      in
      if opcode = nvm_opc SPDK_NVME_OPC_READ then std (nvmf_bdev_ctrlr_read_cmd desc th req)
      else if opcode = nvm_opc SPDK_NVME_OPC_WRITE then std (nvmf_bdev_ctrlr_write_cmd desc th req)
      else if opcode = nvm_opc SPDK_NVME_OPC_FLUSH then std (nvmf_bdev_ctrlr_flush_cmd desc th req)
      else if opcode = nvm_opc SPDK_NVME_OPC_CUSTOM_ECHO then
        Some (lift_ndp rid Echo_Ctx s (nvmf_bdev_ctrlr_custom_echo_cmd (heap al) desc th req))
      else if opcode = nvm_opc SPDK_NVME_OPC_CUSTOM_GREP then
        map_option (lift_ndp rid Grep_Ctx s) (nvmf_bdev_ctrlr_custom_grep_cmd (heap al) (grep_ctx_ok al) desc th req)
      else if opcode = nvm_opc SPDK_NVME_OPC_CUSTOM_HEAAN_ADD then
        map_option (lift_ndp rid Heaan_Ctx s) (nvmf_bdev_ctrlr_custom_heaan_cipadd_cmd (heap al) desc th req)
      else if opcode = nvm_opc SPDK_NVME_OPC_COMPARE then
        guarded (oncs_compare oncs) (lift_handler rid s (nvmf_bdev_ctrlr_compare_cmd desc th req))
      else if opcode = nvm_opc SPDK_NVME_OPC_WRITE_ZEROES then
        guarded (oncs_write_zeroes oncs) (lift_handler rid s (nvmf_bdev_ctrlr_write_zeroes_cmd (limits ctrlr) desc th req))
      else if opcode = nvm_opc SPDK_NVME_OPC_DATASET_MANAGEMENT then
        guarded (oncs_dsm oncs)
          (case nvmf_bdev_ctrlr_dsm_cmd (calloc_ok al) (limits ctrlr) desc th req of
             (st, c, th', req') \<Rightarrow> lift_ndp rid Unmap_Ctx s (st, th', req', c))
      else if opcode = nvm_opc SPDK_NVME_OPC_RESERVATION_REGISTER \<or> opcode = nvm_opc SPDK_NVME_OPC_RESERVATION_ACQUIRE \<or>
              opcode = nvm_opc SPDK_NVME_OPC_RESERVATION_RELEASE \<or> opcode = nvm_opc SPDK_NVME_OPC_RESERVATION_REPORT then
        guarded (oncs_reservations oncs)
          (SPDK_NVMF_REQUEST_EXEC_STATUS_ASYNCHRONOUS, s\<lparr>io_msgs := io_msgs s @ [rid]\<rparr>)
      else if opcode = nvm_opc SPDK_NVME_OPC_COPY then
        guarded (oncs_copy oncs) (lift_handler rid s (nvmf_bdev_ctrlr_copy_cmd desc th req))
      else
        guarded (\<not> disable_command_passthru ctrlr) (lift_handler rid s (nvmf_bdev_ctrlr_nvme_passthru_io desc th req)))"

definition nvmf_ctrlr_process_io_cmd ::
  "io_alloc \<Rightarrow> spdk_nvmf_ctrlr \<Rightarrow> (nat \<Rightarrow> spdk_nvmf_subsystem_pg_ns_info) \<Rightarrow> nat \<Rightarrow> io_state \<Rightarrow> exec_result" where
  "nvmf_ctrlr_process_io_cmd al ctrlr ns_infos rid s0 =
     (let s = put_req rid (upd_rsp (set_sc (generic_sc SPDK_NVME_SC_SUCCESS)) (io_reqs s0 rid)) s0;
          cmd = req_cmd (io_reqs s rid)
      in
      if \<not> cc_en ctrlr then Some (fail_req rid (set_generic SPDK_NVME_SC_COMMAND_SEQUENCE_ERROR) s)
      else
        let no_ns = Some (fail_req rid (set_dnr \<circ> set_sc (generic_sc SPDK_NVME_SC_INVALID_NAMESPACE_OR_FORMAT)) s) in
        case nvmf_ctrlr_get_ns ctrlr (nsid cmd) of
          None \<Rightarrow> no_ns
        | Some ns \<Rightarrow>
            (case ns_desc ns of
               None \<Rightarrow> no_ns
             | Some desc \<Rightarrow>
                 let ana_state = nvmf_ctrlr_get_ana_state ctrlr (ns_anagrpid ns) in
                 if ana_state \<noteq> SPDK_NVME_ANA_OPTIMIZED_STATE \<and> ana_state \<noteq> SPDK_NVME_ANA_NON_OPTIMIZED_STATE
                 then Some (fail_req rid (set_status (sct_code SPDK_NVME_SCT_PATH)
                                            (path_sc (nvme_ana_state_to_path_status ana_state))) s)
                 else
                   case nvmf_ns_reservation_request_check (ns_infos (unat (nsid cmd - 1))) (ctrlr_hostid ctrlr) (io_reqs s rid) of
                     (Some e, req1) \<Rightarrow> Some (SPDK_NVMF_REQUEST_EXEC_STATUS_COMPLETE, put_req rid req1 s)
                   | (None, req1) \<Rightarrow>
                       let s1 = put_req rid req1 s in
                       if fuse cmd \<noteq> 0 then Some (nvmf_ctrlr_process_io_fused_cmd al desc rid s1)
                       else
                         let s2 = (case qpair_first_fused_req s1 of
                                     None \<Rightarrow> s1
                                   | Some f \<Rightarrow> (abort_first f s1)\<lparr>qpair_first_fused_req := None\<rparr>)
                         in if spdk_nvmf_request_using_zcopy (io_reqs s2 rid)
                            then Some (lift_handler rid s2 (nvmf_bdev_ctrlr_zcopy_start desc (io_th s2) (io_reqs s2 rid)))
                            else dispatch_opcode al ctrlr desc rid s2))"

definition nvmf_ctrlr_process_io_cmd_resubmit ::
  "io_alloc \<Rightarrow> spdk_nvmf_ctrlr \<Rightarrow> (nat \<Rightarrow> spdk_nvmf_subsystem_pg_ns_info) \<Rightarrow> nat \<Rightarrow> io_state \<Rightarrow> io_state option" where
  "nvmf_ctrlr_process_io_cmd_resubmit al ctrlr ns_infos rid s =
     map_option (\<lambda>(st, s').
       if st = SPDK_NVMF_REQUEST_EXEC_STATUS_COMPLETE
       then s'\<lparr>io_events := io_events s' @ [Request_Complete rid (rsp (io_reqs s' rid))]\<rparr> else s')
       (nvmf_ctrlr_process_io_cmd al ctrlr ns_infos rid s)"


subsection \<open>No handler lets the wait queue grow while descriptors are cached\<close>

definition calm :: "('p, 'c) bdev_channel \<Rightarrow> ('p, 'c) bdev_channel \<Rightarrow> bool" where
  "calm ch ch' \<longleftrightarrow> per_thread_cache_count ch' \<le> per_thread_cache_count ch \<and>
     (0 < per_thread_cache_count ch' \<longrightarrow> io_wait_queue ch' = io_wait_queue ch)"

named_theorems calm_intros \<open>submit functions and handlers that keep the channel calm\<close>

lemma calm_refl [simp, calm_intros]: "calm ch ch"
  by (simp add: calm_def)

lemma calm_trans: "calm a b \<Longrightarrow> calm b c \<Longrightarrow> calm a c"
  by (auto simp: calm_def)

lemma calm_get_io: "bdev_channel_get_io ch = Some ch' \<Longrightarrow> calm ch ch'"
  by (auto simp: bdev_channel_get_io_def calm_def split: if_splits)

lemma calm_hand [simp]: "calm ch (hand place io ch') = calm ch ch'"
  by (simp add: calm_def hand_def)

lemma calm_submit [simp]: "calm ch (bdev_io_submit ch' io) = calm ch ch'"
  by (simp add: bdev_io_submit_def)

lemma calm_submit_ext [simp]: "calm ch (bdev_io_submit_ext desc ch' io) = calm ch ch'"
  by (simp add: bdev_io_submit_ext_def Let_def)

lemma calm_queue: "calm ch (snd (spdk_bdev_queue_io_wait ch w))"
  by (simp add: spdk_bdev_queue_io_wait_def calm_def)

context bdev_submit
begin

lemma op_calm: "calm ch (snd (op d ch off n c))"
proof (cases "op d ch off n c")
  case (Pair r ch')
  then show ?thesis
  proof (cases r)
    case None
    from accepted [OF Pair [unfolded None]] show ?thesis
      by (auto simp: Pair handed_as_def intro: calm_get_io)
  next
    case (Some e)
    from refused [OF Pair [unfolded Some]] show ?thesis by (simp add: Pair)
  qed
qed

end

lemma compare_do_read_calm: "calm ch (bdev_compare_do_read desc io ch)"
proof -
  obtain r ch' where eq: "spdk_bdev_read_blocks desc ch Null (offset_blocks (u io)) (num_blocks (u io))
      (Bdev_Compare_Do_Read_Done io) = (r, ch')" by fastforce
  have c: "calm ch ch'" using rd.op_calm [of ch desc Null "offset_blocks (u io)" "num_blocks (u io)"] eq by (metis snd_conv)
  show ?thesis
    using calm_trans [OF c calm_queue [of ch' "Wait_Compare_Do_Read io"]] c
    by (auto simp: bdev_compare_do_read_def eq split: option.splits errno.splits prod.splits)
qed

lemma comparev_calm: "calm ch (snd (spdk_bdev_comparev_blocks desc ch v off n c))"
  by (auto simp: spdk_bdev_comparev_blocks_def bdev_comparev_blocks_with_md_def Let_def
      intro: calm_get_io calm_trans compare_do_read_calm split: option.splits)

lemma compare_and_write_calm: "calm ch (snd (spdk_bdev_comparev_and_writev_blocks ok desc ch v w off n c))"
  by (auto simp: spdk_bdev_comparev_and_writev_blocks_def bdev_lock_lba_range_def Let_def
      intro: calm_get_io split: option.splits)

lemma write_zeroes_calm: "calm ch (snd (spdk_bdev_write_zeroes_blocks desc ch off n c))"
  by (auto simp: spdk_bdev_write_zeroes_blocks_def bdev_write_zero_buffer_def bdev_write_blocks_with_md_def Let_def
      intro: calm_get_io calm_trans split: option.splits)

lemma passthru_calm: "calm ch (snd (spdk_bdev_nvme_iov_passthru_md desc ch cmd v nb md c))"
  by (auto simp: spdk_bdev_nvme_iov_passthru_md_def Let_def intro: calm_get_io split: option.splits)

lemma bdev_read_calm: "calm ch (snd (spdk_bdev_read desc ch b off n c))"
  by (auto simp: spdk_bdev_read_def rd.op_calm split: prod.splits)

lemmas submit_calm = rd.op_calm wr.op_calm rdv.op_calm wrv.op_calm unm.op_calm fl.op_calm zc.op_calm cpy.op_calm
  comparev_calm compare_and_write_calm write_zeroes_calm passthru_calm bdev_read_calm

subsection \<open>Calm handlers\<close>

lemma queue_io_calm: "calm ch (bch th) \<Longrightarrow> calm ch (bch (nvmf_bdev_ctrl_queue_io th w))"
  using calm_trans calm_queue by (fastforce simp: nvmf_bdev_ctrl_queue_io_def)

lemma after_submit_calm:
  "calm (bch th) (snd res) \<Longrightarrow> calm (bch th) (bch (fst (snd (after_submit w err th req res))))"
  by (auto simp: after_submit_def Let_def intro!: queue_io_calm split: prod.splits option.splits)

lemma complete_with_calm: "calm (bch th) (bch (fst (snd (complete_with c th req))))"
  by (simp add: complete_with_def)

lemma rw_handlers_calm:
  "calm (bch th) (bch (fst (snd (nvmf_bdev_ctrlr_read_cmd desc th req))))"
  "calm (bch th) (bch (fst (snd (nvmf_bdev_ctrlr_write_cmd desc th req))))"
  "calm (bch th) (bch (fst (snd (nvmf_bdev_ctrlr_compare_cmd desc th req))))"
  "calm (bch th) (bch (fst (snd (nvmf_bdev_ctrlr_write_zeroes_cmd subsys desc th req))))"
  "calm (bch th) (bch (fst (snd (nvmf_bdev_ctrlr_flush_cmd desc th req))))"
  "calm (bch th) (bch (fst (snd (nvmf_bdev_ctrlr_copy_cmd desc th req))))"
  "calm (bch th) (bch (fst (snd (nvmf_bdev_ctrlr_nvme_passthru_io desc th req))))"
  "calm (bch th) (bch (fst (snd (nvmf_bdev_ctrlr_zcopy_start desc th req))))"
  by (simp_all add: nvmf_bdev_ctrlr_read_cmd_def nvmf_bdev_ctrlr_write_cmd_def nvmf_bdev_ctrlr_compare_cmd_def
      nvmf_bdev_ctrlr_write_zeroes_cmd_def nvmf_bdev_ctrlr_flush_cmd_def nvmf_bdev_ctrlr_copy_cmd_def
      nvmf_bdev_ctrlr_nvme_passthru_io_def nvmf_bdev_ctrlr_zcopy_start_def Let_def split_beta
      complete_with_calm after_submit_calm submit_calm)

lemma unmap_loop_calm:
  "calm (bch th) (bch (fst (snd (snd (unmap_loop k md desc ix ctx th req)))))"
proof (induction k arbitrary: ix ctx th)
  case 0
  then show ?case by (simp add: unmap_done_def)
next
  case (Suc k)
  obtain ix' r copied where x: "spdk_iov_xfer_to_buf ix (replicate 16 0) = (ix', r, copied)" using prod_cases3 by blast
  obtain e ch where s: "spdk_bdev_unmap_blocks desc (bch th) (dsm_range_starting_lba r) (ucast (dsm_range_length r))
      (Caller_Cb (Unmap_Cpl (req_id req))) = (e, ch)" by fastforce
  have c: "calm (bch th) ch"
    using unm.op_calm [of "bch th" desc "dsm_range_starting_lba r" "ucast (dsm_range_length r)"] s by (metis snd_conv)
  show ?case
  proof (cases "0 < md \<and> push_bit 10 md div ucast (blocklen (desc_bdev desc)) < ucast (dsm_range_length r)")
    case True
    then show ?thesis by (simp add: x)
  next
    case False
    show ?thesis
    proof (cases e)
      case None
      with calm_trans [OF c] Suc.IH [where th = "th\<lparr>bch := ch\<rparr>"] False x s show ?thesis by (auto simp: Let_def)
    next
      case (Some err)
      with False x s c queue_io_calm [of "bch th" "th\<lparr>bch := ch\<rparr>"] show ?thesis
        by (auto simp: Let_def unmap_done_def)
    qed
  qed
qed


lemma dsm_calm: "calm (bch th) (bch (fst (snd (snd (nvmf_bdev_ctrlr_dsm_cmd ok subsys desc th req)))))"
  by (auto simp: nvmf_bdev_ctrlr_dsm_cmd_def nvmf_bdev_ctrlr_unmap_def Let_def complete_with_def unmap_loop_calm
      simp del: unmap_loop.simps split: option.splits)

lemma unmap_resubmit_calm:
  "calm (bch th) (bch (fst (snd (nvmf_bdev_ctrlr_unmap_resubmit ok subsys desc th req ctx))))"
  by (auto simp: nvmf_bdev_ctrlr_unmap_resubmit_def nvmf_bdev_ctrlr_unmap_def Let_def unmap_loop_calm
      simp del: unmap_loop.simps)

lemma echo_calm: "calm (bch th) (bch (fst (snd (nvmf_bdev_ctrlr_custom_echo_cmd alloc desc th req))))"
  by (auto simp: nvmf_bdev_ctrlr_custom_echo_cmd_def Let_def split: prod.splits)
     (metis rdv.op_calm snd_conv)+

lemma grep_calm:
  "nvmf_bdev_ctrlr_custom_grep_cmd alloc ctx_ok desc th req = Some (st, th', req', c) \<Longrightarrow> calm (bch th) (bch th')"
proof -
  assume g: "nvmf_bdev_ctrlr_custom_grep_cmd alloc ctx_ok desc th req = Some (st, th', req', c)"
  let ?req1 = "req\<lparr>iov := spdk_iov_memset (iov req) 0\<rparr>"
  obtain r ch where r: "spdk_bdev_readv_blocks_ext desc (bch th) (req_iovs ?req1) (ucast (cdw11 (req_cmd req)))
      (ucast (cdw12 (req_cmd req))) (Caller_Cb (Complete_Cmd_Custom (req_id req))) (Some (read_opts ?req1)) = (r, ch)"
    by fastforce
  have "calm (bch th) ch" using rdv.op_calm r by (metis snd_conv)
  then have "calm (bch th) (bch (fst (snd (after_submit (Process_Io_Cmd_Resubmit (req_id req)) internal_error th ?req1 (r, ch)))))"
    by (intro after_submit_calm) simp
  with g r show ?thesis
    by (auto simp: nvmf_bdev_ctrlr_custom_grep_cmd_def Let_def complete_with_def split: if_splits prod.splits)
qed

lemma submit_reads_calm: "calm ch (snd (submit_reads desc rid k ch pos exts))"
proof (induction desc rid k ch pos exts rule: submit_reads.induct)
  case (2 desc rid k ch pos off len exts)
  obtain r ch' where r: "spdk_bdev_read desc ch (Caller_Buf (Cip_Buf k pos)) off len
      (Caller_Cb (Heaan_Buffer_Fill_Complete rid)) = (r, ch')" by fastforce
  have "calm ch ch'" using bdev_read_calm r by (metis snd_conv)
  with 2 r show ?case by (auto intro: calm_trans split: option.splits)
qed simp

lemma submit_inputs_calm: "calm ch (snd (submit_inputs desc rid ch ext0 ext1))"
proof -
  obtain r ch' where r: "submit_reads desc rid 0 ch 0 ext0 = (r, ch')" by fastforce
  have "calm ch ch'" using submit_reads_calm r by (metis snd_conv)
  moreover have "calm ch (snd (submit_reads desc rid 1 ch' 0 ext1))" if "calm ch ch'"
    by (rule calm_trans [OF that submit_reads_calm])
  ultimately show ?thesis by (simp add: submit_inputs_def r split: option.splits)
qed

lemma cipadd_calm:
  "nvmf_bdev_ctrlr_custom_heaan_cipadd_cmd alloc desc th req = Some (st, th', req', c) \<Longrightarrow> calm (bch th) (bch th')"
  using submit_inputs_calm [of "bch th" desc "req_id req"]
  by (auto simp: nvmf_bdev_ctrlr_custom_heaan_cipadd_cmd_def Let_def
      split: if_splits list.splits parse.splits prod.splits option.splits) (metis snd_conv)+

lemma fused_handler_calm:
  "calm (bch th) (bch (fst (snd (nvmf_bdev_ctrlr_compare_and_write_cmd ok desc th a b))))"
  using compare_and_write_calm [of "bch th" ok desc "req_iovs a" "req_iovs b"]
  by (auto simp: nvmf_bdev_ctrlr_compare_and_write_cmd_def complete_with_def Let_def
      intro!: queue_io_calm split: prod.splits option.splits) (metis snd_conv)+

subsection \<open>A calm dispatcher\<close>

lemma io_th_simps [simp]:
  "io_th (put_req rid req s) = io_th s" "io_th (set_ctx rid c s) = io_th s" "io_th (abort_first f s) = io_th s"
  "io_th (snd (fail_req rid g s)) = io_th s" "io_th (snd (invalid_opcode rid s)) = io_th s"
  "io_th (snd (lift_handler rid s r)) = fst (snd r)" "io_th (snd (lift_ndp rid mk s r4)) = fst (snd r4)"
  by (simp_all add: put_req_def set_ctx_def abort_first_def fail_req_def invalid_opcode_def lift_handler_def
      lift_ndp_def Let_def split_beta)

lemma fused_cmd_calm: "calm (bch (io_th s)) (bch (io_th (snd (nvmf_ctrlr_process_io_fused_cmd al desc rid s))))"
proof -
  have "lift_handler rid s' r = (st, s'') \<Longrightarrow> io_th s'' = fst (snd r)" for s' r st s''
    using io_th_simps(6) [of rid s' r] by simp
  then show ?thesis
    by (auto simp: nvmf_ctrlr_process_io_fused_cmd_def Let_def fused_handler_calm split: option.splits prod.splits)
qed


definition calm_res :: "nvmf_channel \<Rightarrow> exec_result \<Rightarrow> bool" where
  "calm_res ch res \<longleftrightarrow> (case res of None \<Rightarrow> True | Some r \<Rightarrow> calm ch (bch (io_th (snd r))))"

lemma calm_res_simps [simp]:
  "calm_res ch (Some r) = calm ch (bch (io_th (snd r)))"
  "calm_res ch (map_option (lift_ndp rid mk s) x) = (case x of None \<Rightarrow> True | Some r4 \<Rightarrow> calm ch (bch (fst (snd r4))))"
  by (simp_all add: calm_res_def split: option.splits)

lemma dispatch_calm: "calm_res (bch (io_th s)) (dispatch_opcode al ctrlr desc rid s)"
proof -
  let ?ch = "bch (io_th s)" and ?req = "io_reqs s rid"
  have "case nvmf_bdev_ctrlr_custom_grep_cmd (heap al) (grep_ctx_ok al) desc (io_th s) ?req of
      None \<Rightarrow> True | Some r4 \<Rightarrow> calm ?ch (bch (fst (snd r4)))"
    using grep_calm by (fastforce split: option.splits)
  moreover have "case nvmf_bdev_ctrlr_custom_heaan_cipadd_cmd (heap al) desc (io_th s) ?req of
      None \<Rightarrow> True | Some r4 \<Rightarrow> calm ?ch (bch (fst (snd r4)))"
    using cipadd_calm by (fastforce split: option.splits)
  ultimately show ?thesis
    by (simp add: dispatch_opcode_def Let_def rw_handlers_calm echo_calm dsm_calm split_beta)
qed

lemma process_io_cmd_calm: "calm_res (bch (io_th s)) (nvmf_ctrlr_process_io_cmd al ctrlr ns_infos rid s)"
proof -
  have fused: "calm (bch (io_th s)) (bch (io_th (snd (nvmf_ctrlr_process_io_fused_cmd al desc rid s1))))"
    if "io_th s1 = io_th s" for desc s1
    using fused_cmd_calm [of s1 al desc rid] that by simp
  have disp: "calm_res (bch (io_th s)) (dispatch_opcode al ctrlr desc rid s1)" if "io_th s1 = io_th s" for desc s1
    using dispatch_calm [of s1 al ctrlr desc rid] that by simp
  have zc: "calm (bch (io_th s)) (bch (fst (snd (nvmf_bdev_ctrlr_zcopy_start desc (io_th s) r))))" for desc r
    by (rule rw_handlers_calm)
  show ?thesis
    by (auto simp: nvmf_ctrlr_process_io_cmd_def Let_def fused disp zc split: option.split prod.split)
qed

subsection \<open>Waking waiters\<close>

text \<open>
  What a waiter does to the channel. The requests may have changed since it was queued: \<open>now\<close> is any
  state of the queue pair at the time it runs.
\<close>

definition run_waiter ::
  "io_alloc \<Rightarrow> spdk_nvmf_ctrlr \<Rightarrow> (nat \<Rightarrow> spdk_nvmf_subsystem_pg_ns_info) \<Rightarrow> spdk_bdev_desc
     \<Rightarrow> ((nvmf_buf, nvmf_cb) bdev_waiter \<Rightarrow> nvmf_channel \<Rightarrow> io_state)
     \<Rightarrow> (nvmf_buf, nvmf_cb) bdev_waiter \<Rightarrow> nvmf_channel \<Rightarrow> nvmf_channel" where
  "run_waiter al ctrlr ns_infos desc now w ch =
     (let s0 = now w ch; s = s0\<lparr>io_th := (io_th s0)\<lparr>bch := ch\<rparr>\<rparr> in
      case w of
        Wait_Compare_Do_Read io \<Rightarrow> bdev_compare_do_read desc io ch
      | Wait_Caller c \<Rightarrow>
          (case c of
             Process_Io_Cmd_Resubmit rid \<Rightarrow>
               (case nvmf_ctrlr_process_io_cmd_resubmit al ctrlr ns_infos rid s of
                  None \<Rightarrow> ch | Some s' \<Rightarrow> bch (io_th s'))
           | Unmap_Resubmit rid \<Rightarrow>
               (case io_ctxs s rid of
                  Some (Unmap_Ctx ctx) \<Rightarrow>
                    bch (fst (snd (nvmf_bdev_ctrlr_unmap_resubmit (calloc_ok al) (limits ctrlr) desc (io_th s) (io_reqs s rid) ctx)))
                | _ \<Rightarrow> ch)
           | _ \<Rightarrow> ch))"

lemma resubmit_calm:
  "nvmf_ctrlr_process_io_cmd_resubmit al ctrlr ns_infos rid s = Some s' \<Longrightarrow> calm (bch (io_th s)) (bch (io_th s'))"
  using process_io_cmd_calm [of s al ctrlr ns_infos rid]
  by (auto simp: nvmf_ctrlr_process_io_cmd_resubmit_def split: if_splits)

lemma run_waiter_calm: "calm ch (run_waiter al ctrlr ns_infos desc now w ch)"
proof -
  let ?s = "(now w ch)\<lparr>io_th := (io_th (now w ch))\<lparr>bch := ch\<rparr>\<rparr>"
  have "calm ch (bch (io_th s'))"
    if "nvmf_ctrlr_process_io_cmd_resubmit al ctrlr ns_infos rid ?s = Some s'" for rid s'
    using resubmit_calm [OF that] by simp
  moreover have "calm ch (bch (fst (snd (nvmf_bdev_ctrlr_unmap_resubmit ok subsys desc (io_th ?s) r ctx))))" for ok subsys r ctx
    using unmap_resubmit_calm [of "io_th ?s"] by simp
  ultimately show ?thesis
    by (auto simp: run_waiter_def Let_def compare_do_read_calm
        split: bdev_waiter.splits nvmf_cb.splits option.splits req_ctx.splits)
qed

interpretation wake: bdev_waiters "run_waiter al ctrlr ns_infos desc now" for al ctrlr ns_infos desc now
  using run_waiter_calm [unfolded calm_def] by unfold_locales simp


subsection \<open>The way to a handler\<close>

text \<open>Nothing stands between the command and its handler.\<close>

definition path_open ::
  "spdk_nvmf_ctrlr \<Rightarrow> (nat \<Rightarrow> spdk_nvmf_subsystem_pg_ns_info) \<Rightarrow> spdk_bdev_desc \<Rightarrow> nat \<Rightarrow> io_state \<Rightarrow> bool" where
  "path_open ctrlr ns_infos desc rid s \<longleftrightarrow>
     (let cmd = req_cmd (io_reqs s rid) in
      cc_en ctrlr \<and>
      (case nvmf_ctrlr_get_ns ctrlr (nsid cmd) of
         None \<Rightarrow> False
       | Some ns \<Rightarrow> ns_desc ns = Some desc \<and>
           nvmf_ctrlr_get_ana_state ctrlr (ns_anagrpid ns) \<in> {SPDK_NVME_ANA_OPTIMIZED_STATE, SPDK_NVME_ANA_NON_OPTIMIZED_STATE}) \<and>
      rtype (ns_infos (unat (nsid cmd - 1))) = SPDK_NVME_RESERVE_NONE \<and>
      fuse cmd = 0 \<and> qpair_first_fused_req s = None \<and> \<not> spdk_nvmf_request_using_zcopy (io_reqs s rid))"

definition preset :: "nat \<Rightarrow> io_state \<Rightarrow> io_state" where
  "preset rid s = put_req rid (upd_rsp (set_sc (generic_sc SPDK_NVME_SC_SUCCESS)) (io_reqs s rid)) s"

lemma put_req_simps [simp]:
  "io_reqs (put_req rid req s) = (io_reqs s)(rid := req)"
  "qpair_first_fused_req (put_req rid req s) = qpair_first_fused_req s"
  "io_events (put_req rid req s) = io_events s" "io_ctxs (put_req rid req s) = io_ctxs s"
  "put_req rid req' (put_req rid req s) = put_req rid req' s"
  by (simp_all add: put_req_def)

lemma process_io_cmd_dispatch:
  assumes "path_open ctrlr ns_infos desc rid s"
  shows "nvmf_ctrlr_process_io_cmd al ctrlr ns_infos rid s = dispatch_opcode al ctrlr desc rid (preset rid s)"
  using assms
  by (auto simp: path_open_def nvmf_ctrlr_process_io_cmd_def preset_def Let_def nvmf_ns_reservation_request_check_def
      spdk_nvmf_request_using_zcopy_def split: option.splits)

subsection \<open>Properties\<close>

text \<open>
  C9: Returning a descriptor, with the target's resubmit functions run for the requests that
  wait for one, ends, and leaves either no cached descriptor or no waiting request, unless the
  cache was full.
\<close>

theorem freeing_wakes_until_blocked:
  "\<exists>ch'. spdk_bdev_free_io (run_waiter al ctrlr ns_infos desc now) ch = Some ch' \<and>
     (bdev_io_cache_size ch \<le> per_thread_cache_count ch \<or> per_thread_cache_count ch' = 0 \<or> io_wait_queue ch' = [])"
  using wake.free_io_returns [of al ctrlr ns_infos desc now ch] by fastforce

text \<open>While a reservation is held, a Write of an unregistered host is refused.\<close>

theorem reservation_refuses_foreign_write:
  assumes "opc (req_cmd req) = nvm_opc SPDK_NVME_OPC_WRITE" "rtype ns_info \<noteq> SPDK_NVME_RESERVE_NONE"
    and "holder_id ns_info \<noteq> hostid" "hostid \<notin> set (reg_hostid ns_info)"
  shows "\<exists>req'. nvmf_ns_reservation_request_check ns_info hostid req = (Some EPERM, req') \<and>
    sc (status (rsp req')) = generic_sc SPDK_NVME_SC_RESERVATION_CONFLICT \<and>
    sct (status (rsp req')) = sct_code SPDK_NVME_SCT_GENERIC"
  using assms
  by (auto simp: nvmf_ns_reservation_request_check_def reservation_status_def nvmf_ns_info_ctrlr_is_registrant_def
      list_ex_iff Let_def)


text \<open>
  C39: When the compare-and-write of a fused pair fails at submission, the first command is
  completed with its status, the second one is given Aborted Failed Fused, and the queue pair
  holds no first command any more.
\<close>

theorem fused_write_failure_fails_both:
  assumes "fuse (req_cmd (io_reqs s rid)) = fuse_code SPDK_NVME_CMD_FUSE_SECOND"
    and "opc (req_cmd (io_reqs s rid)) = nvm_opc SPDK_NVME_OPC_WRITE"
    and "qpair_first_fused_req s = Some f" "f \<noteq> rid"
    and "nvmf_bdev_ctrlr_compare_and_write_cmd (calloc_ok al) desc (io_th s) (io_reqs s f)
           ((io_reqs s rid)\<lparr>first_fused_req := Some f, first_fused := True\<rparr>) =
         (SPDK_NVMF_REQUEST_EXEC_STATUS_COMPLETE, th', req')"
    and "spdk_nvme_cpl_is_error (rsp req')"
  shows "\<exists>s'. nvmf_ctrlr_process_io_fused_cmd al desc rid s = (SPDK_NVMF_REQUEST_EXEC_STATUS_COMPLETE, s') \<and>
    io_events s' = io_events s @ [Request_Complete f (rsp (io_reqs s' f))] \<and>
    status (rsp (io_reqs s' f)) = status (rsp req') \<and>
    sc (status (rsp (io_reqs s' rid))) = generic_sc SPDK_NVME_SC_ABORTED_FAILED_FUSED \<and>
    qpair_first_fused_req s' = None \<and> first_fused_req (io_reqs s' rid) = None \<and> io_th s' = th'"
  using assms
  by (simp add: nvmf_ctrlr_process_io_fused_cmd_def lift_handler_def Let_def put_req_def upd_rsp_def)

lemma rejected_io_leaves_queues:
  assumes "\<not> cc_en ctrlr \<or> nvmf_ctrlr_get_ns ctrlr (nsid (req_cmd (io_reqs s rid))) = None"
  shows "\<exists>s'. nvmf_ctrlr_process_io_cmd al ctrlr ns_infos rid s = Some (SPDK_NVMF_REQUEST_EXEC_STATUS_COMPLETE, s') \<and>
    spdk_nvme_cpl_is_error (rsp (io_reqs s' rid)) \<and> io_th s' = io_th s \<and> io_ctxs s' = io_ctxs s \<and>
    qpair_first_fused_req s' = qpair_first_fused_req s \<and> io_events s' = io_events s \<and>
    (\<forall>r. r = rid \<or> io_reqs s' r = io_reqs s r)"
  using assms
  by (auto simp: nvmf_ctrlr_process_io_cmd_def fail_req_def Let_def set_dnr_def set_sc_def
      spdk_nvme_cpl_is_error_def split: option.split)

subsection \<open>Witnesses\<close>

definition sample_ns_info :: spdk_nvmf_subsystem_pg_ns_info where
  "sample_ns_info = \<lparr>ni_channel = True, rtype = SPDK_NVME_RESERVE_WRITE_EXCLUSIVE, holder_id = [1],
     reg_hostid = [[1], [2]], io_outstanding = 0, ni_state = SPDK_NVMF_SUBSYSTEM_ACTIVE\<rparr>"

definition sample_ctrlr :: spdk_nvmf_ctrlr where
  "sample_ctrlr = \<lparr>cc_en = True, ctrlr_hostid = [3],
     subsys_ns = [Some \<lparr>ns_anagrpid = 1, ns_desc = Some sample_desc, ns_zcopy = False\<rparr>], visible_ns = (\<lambda>n. True),
     ana_reporting = False, listener_ana_state = None,
     cdata_oncs = \<lparr>oncs_compare = True, oncs_write_zeroes = True, oncs_dsm = True, oncs_reservations = True, oncs_copy = True\<rparr>,
     limits = \<lparr>max_discard_size_kib = 0, max_write_zeroes_size_kib = 0\<rparr>, disable_command_passthru = False\<rparr>"

definition sample_io_state :: io_state where
  "sample_io_state = \<lparr>io_th = sample_thread,
     io_reqs = (\<lambda>_. sample_req)(4 := rw_req\<lparr>req_id := 4, req_cmd := (req_cmd rw_req)\<lparr>opc := 1, fuse := 2\<rparr>\<rparr>),
     qpair_first_fused_req = Some 3, io_ctxs = (\<lambda>_. None), io_events = [], io_msgs = []\<rparr>"

theorem reservation_refuses_foreign_write_witness:
  "\<exists>req'. nvmf_ns_reservation_request_check sample_ns_info [3] (sample_req\<lparr>req_cmd := sample_cmd\<lparr>opc := 1\<rparr>\<rparr>) =
     (Some EPERM, req') \<and> sc (status (rsp req')) = 0x83"
  using reservation_refuses_foreign_write [of "sample_req\<lparr>req_cmd := sample_cmd\<lparr>opc := 1\<rparr>\<rparr>" sample_ns_info "[3]"]
  by (simp add: sample_ns_info_def) blast


theorem fused_write_failure_fails_both_witness:
  "\<exists>s'. nvmf_ctrlr_process_io_fused_cmd \<lparr>heap = \<lambda>n. True, grep_ctx_ok = True, calloc_ok = True\<rparr> sample_desc 4 sample_io_state =
      (SPDK_NVMF_REQUEST_EXEC_STATUS_COMPLETE, s') \<and>
    sc (status (rsp (io_reqs s' 3))) = generic_sc SPDK_NVME_SC_INVALID_FIELD \<and>
    sc (status (rsp (io_reqs s' 4))) = generic_sc SPDK_NVME_SC_ABORTED_FAILED_FUSED"
proof -
  let ?al = "\<lparr>heap = \<lambda>n. True, grep_ctx_ok = True, calloc_ok = True\<rparr>" and ?s = sample_io_state
  let ?req = "(io_reqs ?s 4)\<lparr>first_fused_req := Some 3, first_fused := True\<rparr>"
  have "nvmf_bdev_ctrlr_compare_and_write_cmd (calloc_ok ?al) sample_desc (io_th ?s) (io_reqs ?s 3) ?req =
      (SPDK_NVMF_REQUEST_EXEC_STATUS_COMPLETE, io_th ?s, upd_rsp (set_generic SPDK_NVME_SC_INVALID_FIELD) ?req)"
    by (simp add: nvmf_bdev_ctrlr_compare_and_write_cmd_def complete_with_def nvmf_bdev_ctrlr_get_rw_params_def
        from_le64_cdw10_def sample_io_state_def rw_req_def sample_defs Let_def)
  moreover have "fuse (req_cmd (io_reqs ?s 4)) = fuse_code SPDK_NVME_CMD_FUSE_SECOND"
    "opc (req_cmd (io_reqs ?s 4)) = nvm_opc SPDK_NVME_OPC_WRITE" "qpair_first_fused_req ?s = Some 3" "(3 :: nat) \<noteq> 4"
    by (simp_all add: sample_io_state_def)
  moreover have "spdk_nvme_cpl_is_error (rsp (upd_rsp (set_generic SPDK_NVME_SC_INVALID_FIELD) ?req))"
    by (simp add: spdk_nvme_cpl_is_error_def)
  ultimately show ?thesis using fused_write_failure_fails_both [of ?s 4 3 ?al sample_desc] by fastforce
qed

end
