(* ===== verification/Nvmf_Exec.thy ===== *)
theory Nvmf_Exec
  imports Ctrlr
begin

section \<open>Request execution, completion and pausing (\<open>lib/nvmf/ctrlr.c\<close>, \<open>lib/nvmf/nvmf.c\<close>)\<close>

text \<open>
  What surrounds the dispatcher: a request is admitted, queued or failed, put on the list of outstanding
  requests of its queue pair and counted against its namespace; its completion takes it off again and, when
  the last one a pausing subsystem waited for is done, reports the pause. One queue pair and the subsystem poll
  group it belongs to. The processing of fabrics and admin commands is a parameter, as is the update of the
  poll group from the subsystem when it resumes. Removing a request from a list that does not hold it,
  calling a null callback and a dispatch without controller are faults (\<open>None\<close>).
\<close>

datatype spdk_nvmf_qpair_state =
    SPDK_NVMF_QPAIR_UNINITIALIZED
  | SPDK_NVMF_QPAIR_CONNECTING
  | SPDK_NVMF_QPAIR_AUTHENTICATING
  | SPDK_NVMF_QPAIR_ENABLED
  | SPDK_NVMF_QPAIR_DEACTIVATING
  | SPDK_NVMF_QPAIR_ERROR

record spdk_nvmf_qpair =
  qp_state :: spdk_nvmf_qpair_state
  qid :: u16
  qp_ctrlr :: "spdk_nvmf_ctrlr option"
  acre_enabled :: bool
  outstanding :: "nat list"

text \<open>\<open>ns_info\<close> has \<open>num_ns\<close> elements. \<open>cb_fn\<close> with its argument is a number.\<close>

record spdk_nvmf_subsystem_poll_group =
  ns_info :: "spdk_nvmf_subsystem_pg_ns_info list"
  sg_state :: spdk_nvmf_subsystem_state
  mgmt_io_outstanding :: u64
  cb_fn :: "nat option"
  queued :: "nat list"

text \<open>What is reported to the outside, in order.\<close>

datatype exec_event =
    Transport_Req_Complete nat spdk_nvme_cpl
  | Mod_Done nat int
  | Qpair_State_Cb

record nvmf_sys =
  sys_io :: io_state
  qpair :: spdk_nvmf_qpair
  sgroup :: spdk_nvmf_subsystem_poll_group
  completed_nvme_io :: u64
  exec_events :: "exec_event list"

text \<open>The parameters: the poll group a connect command names, the two command sets, the update on resume.\<close>

record exec_env =
  connect_sgroup :: "spdk_nvmf_request \<Rightarrow> bool"
  process_fabrics_cmd :: "nat \<Rightarrow> nvmf_sys \<Rightarrow> (spdk_nvmf_request_exec_status \<times> nvmf_sys) option"
  process_admin_cmd :: "nat \<Rightarrow> nvmf_sys \<Rightarrow> (spdk_nvmf_request_exec_status \<times> nvmf_sys) option"
  poll_group_update_subsystem :: "spdk_nvmf_subsystem_poll_group \<Rightarrow> int \<times> spdk_nvmf_subsystem_poll_group"
  env_alloc :: io_alloc

abbreviation sys_req :: "nvmf_sys \<Rightarrow> nat \<Rightarrow> spdk_nvmf_request" where
  "sys_req s rid \<equiv> io_reqs (sys_io s) rid"

definition set_req :: "nat \<Rightarrow> spdk_nvmf_request \<Rightarrow> nvmf_sys \<Rightarrow> nvmf_sys" where
  "set_req rid req s = s\<lparr>sys_io := put_req rid req (sys_io s)\<rparr>"

definition set_outstanding :: "nat list \<Rightarrow> nvmf_sys \<Rightarrow> nvmf_sys" where
  "set_outstanding xs s = s\<lparr>qpair := (qpair s)\<lparr>outstanding := xs\<rparr>\<rparr>"

definition emit :: "exec_event \<Rightarrow> nvmf_sys \<Rightarrow> nvmf_sys" where
  "emit e s = s\<lparr>exec_events := exec_events s @ [e]\<rparr>"

definition tailq_remove :: "nat \<Rightarrow> nat list \<Rightarrow> nat list option" where
  "tailq_remove x xs = (if x \<in> set xs then Some (remove1 x xs) else None)"

definition nvmf_qpair_is_admin_queue :: "spdk_nvmf_qpair \<Rightarrow> bool" where
  "nvmf_qpair_is_admin_queue qp \<longleftrightarrow> qid qp = 0"

definition nvmf_request_is_fabric_connect :: "spdk_nvmf_request \<Rightarrow> bool" where
  "nvmf_request_is_fabric_connect req \<longleftrightarrow> opc (req_cmd req) = SPDK_NVME_OPC_FABRIC \<and> fctype req = 0x01"

definition has_sgroup :: "exec_env \<Rightarrow> nvmf_sys \<Rightarrow> nat \<Rightarrow> bool" where
  "has_sgroup env s rid \<longleftrightarrow>
     qp_ctrlr (qpair s) \<noteq> None \<or>
     nvmf_request_is_fabric_connect (sys_req s rid) \<and> connect_sgroup env (sys_req s rid)"

definition upd_ns :: "nat \<Rightarrow> (spdk_nvmf_subsystem_pg_ns_info \<Rightarrow> spdk_nvmf_subsystem_pg_ns_info)
    \<Rightarrow> spdk_nvmf_subsystem_poll_group \<Rightarrow> spdk_nvmf_subsystem_poll_group" where
  "upd_ns i f sg = (if i < length (ns_info sg) then sg\<lparr>ns_info := (ns_info sg)[i := f (ns_info sg ! i)]\<rparr> else sg)"

subsection \<open>Completion\<close>

definition nvmf_qpair_request_cleanup :: "nvmf_sys \<Rightarrow> nvmf_sys" where
  "nvmf_qpair_request_cleanup s =
     (if qp_state (qpair s) = SPDK_NVMF_QPAIR_DEACTIVATING \<and> outstanding (qpair s) = []
      then emit Qpair_State_Cb s else s)"

definition spdk_nvmf_request_free :: "nat \<Rightarrow> nvmf_sys \<Rightarrow> nvmf_sys option" where
  "spdk_nvmf_request_free rid s =
     map_option (\<lambda>out. nvmf_qpair_request_cleanup (set_outstanding out s)) (tailq_remove rid (outstanding (qpair s)))"

text \<open>The next phase, and whether the request leaves the list of outstanding ones.\<close>

primrec zcopy_next :: "spdk_nvmf_zcopy_phase \<Rightarrow> bool \<Rightarrow> spdk_nvmf_zcopy_phase \<times> bool" where
  "zcopy_next NVMF_ZCOPY_PHASE_NONE err = (NVMF_ZCOPY_PHASE_NONE, True)"
| "zcopy_next NVMF_ZCOPY_PHASE_INIT err =
     (if err then (NVMF_ZCOPY_PHASE_INIT_FAILED, True) else (NVMF_ZCOPY_PHASE_EXECUTE, False))"
| "zcopy_next NVMF_ZCOPY_PHASE_EXECUTE err = (NVMF_ZCOPY_PHASE_EXECUTE, False)"
| "zcopy_next NVMF_ZCOPY_PHASE_END_PENDING err = (NVMF_ZCOPY_PHASE_COMPLETE, True)"
| "zcopy_next NVMF_ZCOPY_PHASE_COMPLETE err = (NVMF_ZCOPY_PHASE_COMPLETE, False)"
| "zcopy_next NVMF_ZCOPY_PHASE_INIT_FAILED err = (NVMF_ZCOPY_PHASE_INIT_FAILED, False)"

definition request_ended :: "spdk_nvmf_request \<Rightarrow> bool" where
  "request_ended req \<longleftrightarrow>
     zcopy_phase req \<in> {NVMF_ZCOPY_PHASE_NONE, NVMF_ZCOPY_PHASE_COMPLETE, NVMF_ZCOPY_PHASE_INIT_FAILED}"

definition uncount :: "bool \<Rightarrow> spdk_nvmf_request \<Rightarrow> spdk_nvmf_subsystem_poll_group \<Rightarrow> spdk_nvmf_subsystem_poll_group" where
  "uncount admin req sg =
     (if opc (req_cmd req) = SPDK_NVME_OPC_FABRIC \<or> admin
      then sg\<lparr>mgmt_io_outstanding := mgmt_io_outstanding sg - 1\<rparr>
      else if request_ended req
      then upd_ns (unat (nsid (req_cmd req) - 1)) (\<lambda>n. n\<lparr>io_outstanding := io_outstanding n - 1\<rparr>) sg
      else sg)"

definition pause_reached :: "spdk_nvmf_subsystem_poll_group \<Rightarrow> bool" where
  "pause_reached sg \<longleftrightarrow>
     sg_state sg = SPDK_NVMF_SUBSYSTEM_PAUSING \<and> mgmt_io_outstanding sg = 0 \<and>
     \<not> list_ex (\<lambda>n. ni_state n = SPDK_NVMF_SUBSYSTEM_PAUSING \<and> 0 < io_outstanding n) (ns_info sg)"

definition report_pause :: "nvmf_sys \<Rightarrow> nvmf_sys option" where
  "report_pause s =
     (if pause_reached (sgroup s) then
        case cb_fn (sgroup s) of
          None \<Rightarrow> None
        | Some fn \<Rightarrow>
            Some (emit (Mod_Done fn 0)
                   (s\<lparr>sgroup := (sgroup s)\<lparr>sg_state := SPDK_NVMF_SUBSYSTEM_PAUSED, cb_fn := None\<rparr>\<rparr>))
      else Some s)"

definition SPDK_NVME_OPC_ASYNC_EVENT_REQUEST :: u8 where
  "SPDK_NVME_OPC_ASYNC_EVENT_REQUEST = 0x0c"

definition completion_rsp :: "spdk_nvmf_qpair \<Rightarrow> spdk_nvmf_request \<Rightarrow> spdk_nvme_cpl" where
  "completion_rsp qp req =
     (let cpl = (rsp req)\<lparr>sqid := 0, cpl_cid := cid (req_cmd req)\<rparr> in
      if qp_ctrlr qp \<noteq> None \<and> spdk_nvme_cpl_is_error cpl \<and> \<not> dnr (status cpl) \<and> acre_enabled qp
      then cpl\<lparr>status := (status cpl)\<lparr>crd := 1\<rparr>\<rparr> else cpl)"

definition nvmf_request_complete :: "exec_env \<Rightarrow> nat \<Rightarrow> nvmf_sys \<Rightarrow> nvmf_sys option" where
  "nvmf_request_complete env rid s =
     (let req0 = sys_req s rid; qp = qpair s;
          is_aer = (qp_ctrlr qp \<noteq> None \<and> opc (req_cmd req0) = SPDK_NVME_OPC_ASYNC_EVENT_REQUEST);
          cpl = completion_rsp qp req0;
          (phase, unlink) = zcopy_next (zcopy_phase req0) (spdk_nvme_cpl_is_error cpl);
          req = req0\<lparr>rsp := cpl, zcopy_phase := phase\<rparr>
      in case (if unlink then tailq_remove rid (outstanding qp) else Some (outstanding qp)) of
           None \<Rightarrow> None
         | Some out \<Rightarrow>
             let s1 = set_outstanding out (set_req rid req s);
                 s2 = (if qp_ctrlr qp \<noteq> None \<and> qid qp \<noteq> 0
                       then s1\<lparr>completed_nvme_io := completed_nvme_io s1 + 1\<rparr> else s1);
                 s3 = emit (Transport_Req_Complete rid cpl) s2
             in map_option nvmf_qpair_request_cleanup
                  (if has_sgroup env s rid \<and> \<not> is_aer
                   then report_pause (s3\<lparr>sgroup := uncount (nvmf_qpair_is_admin_queue qp) req (sgroup s3)\<rparr>)
                   else Some s3))"

subsection \<open>Admission\<close>

definition admit :: "nat \<Rightarrow> nvmf_sys \<Rightarrow> nvmf_sys" where
  "admit rid s = set_outstanding (outstanding (qpair s) @ [rid]) s"

definition count_io :: "nat \<Rightarrow> nvmf_sys \<Rightarrow> nvmf_sys" where
  "count_io i s = s\<lparr>sgroup := upd_ns i (\<lambda>n. n\<lparr>io_outstanding := io_outstanding n + 1\<rparr>) (sgroup s)\<rparr>"

definition enqueue :: "nat \<Rightarrow> nvmf_sys \<Rightarrow> nvmf_sys" where
  "enqueue rid s = s\<lparr>sgroup := (sgroup s)\<lparr>queued := queued (sgroup s) @ [rid]\<rparr>\<rparr>"

definition invalid_ns :: "spdk_nvme_cpl \<Rightarrow> spdk_nvme_cpl" where
  "invalid_ns = set_dnr \<circ> set_generic SPDK_NVME_SC_INVALID_NAMESPACE_OR_FORMAT"

definition fail_now :: "exec_env \<Rightarrow> (spdk_nvme_cpl \<Rightarrow> spdk_nvme_cpl) \<Rightarrow> nat \<Rightarrow> nvmf_sys \<Rightarrow> nvmf_sys option" where
  "fail_now env f rid s = nvmf_request_complete env rid (admit rid (set_req rid (upd_rsp f (sys_req s rid)) s))"

text \<open>The outcome of a check: the request goes on, or it has been dealt with.\<close>

datatype admission = Go_On nvmf_sys | Dealt_With nvmf_sys

definition nvmf_check_subsystem_active :: "exec_env \<Rightarrow> nat \<Rightarrow> nvmf_sys \<Rightarrow> admission option" where
  "nvmf_check_subsystem_active env rid s =
     (let cmd = req_cmd (sys_req s rid); sg = sgroup s; i = unat (nsid cmd - 1) in
      if \<not> has_sgroup env s rid then Some (Go_On s)
      else if opc cmd = SPDK_NVME_OPC_FABRIC \<or> nvmf_qpair_is_admin_queue (qpair s) then
        if sg_state sg \<noteq> SPDK_NVMF_SUBSYSTEM_ACTIVE then Some (Dealt_With (enqueue rid s))
        else Some (Go_On (s\<lparr>sgroup := sg\<lparr>mgmt_io_outstanding := mgmt_io_outstanding sg + 1\<rparr>\<rparr>))
      else if length (ns_info sg) \<le> i then map_option Dealt_With (fail_now env invalid_ns rid s)
      else if \<not> ni_channel (ns_info sg ! i) then map_option Dealt_With (fail_now env invalid_ns rid (count_io i s))
      else if ni_state (ns_info sg ! i) \<noteq> SPDK_NVMF_SUBSYSTEM_ACTIVE then Some (Dealt_With (enqueue rid s))
      else Some (Go_On (count_io i s)))"

definition nvmf_check_qpair_active :: "exec_env \<Rightarrow> nat \<Rightarrow> nvmf_sys \<Rightarrow> admission option" where
  "nvmf_check_qpair_active env rid s =
     (let req = sys_req s rid; fabric = (opc (req_cmd req) = SPDK_NVME_OPC_FABRIC);
          refuse = (\<lambda>f. map_option Dealt_With (fail_now env f rid s))
      in case qp_state (qpair s) of
           SPDK_NVMF_QPAIR_ENABLED \<Rightarrow> Some (Go_On s)
         | SPDK_NVMF_QPAIR_CONNECTING \<Rightarrow>
             if fabric \<and> fctype req = 0x01 then Some (Go_On s)
             else refuse (set_generic SPDK_NVME_SC_COMMAND_SEQUENCE_ERROR)
         | SPDK_NVMF_QPAIR_AUTHENTICATING \<Rightarrow>
             if fabric \<and> (fctype req = 0x05 \<or> fctype req = 0x06) then Some (Go_On s)
             else refuse (set_status (sct_code SPDK_NVME_SCT_COMMAND_SPECIFIC) 0x91)
         | _ \<Rightarrow> refuse (set_generic SPDK_NVME_SC_COMMAND_SEQUENCE_ERROR))"

subsection \<open>Execution\<close>

text \<open>
  The completions the dispatcher made on the way: of the first of two fused commands. They touch nothing
  the handler of the other command reads, and are replayed after it.
\<close>

fun replay :: "exec_env \<Rightarrow> nvmf_event list \<Rightarrow> nvmf_sys \<Rightarrow> nvmf_sys option" where
  "replay env [] s = Some s"
| "replay env (Request_Complete f cpl # es) s = Option.bind (nvmf_request_complete env f s) (replay env es)"
| "replay env (Bdev_Free_Io # es) s = replay env es s"

definition exec_io_cmd :: "exec_env \<Rightarrow> nat \<Rightarrow> nvmf_sys \<Rightarrow> (spdk_nvmf_request_exec_status \<times> nvmf_sys) option" where
  "exec_io_cmd env rid s =
     (case qp_ctrlr (qpair s) of
        None \<Rightarrow> None
      | Some ctrlr \<Rightarrow>
          Option.bind (nvmf_ctrlr_process_io_cmd (env_alloc env) ctrlr (\<lambda>i. ns_info (sgroup s) ! i) rid ((sys_io s)\<lparr>io_events := []\<rparr>))
            (\<lambda>(st, io'). map_option (Pair st) (replay env (io_events io') (s\<lparr>sys_io := io'\<lparr>io_events := []\<rparr>\<rparr>))))"

definition go_on :: "admission option \<Rightarrow> (nvmf_sys \<Rightarrow> nvmf_sys option) \<Rightarrow> nvmf_sys option" where
  "go_on a k = Option.bind a (\<lambda>x. case x of Go_On s \<Rightarrow> k s | Dealt_With s \<Rightarrow> Some s)"

definition spdk_nvmf_request_exec :: "exec_env \<Rightarrow> nat \<Rightarrow> nvmf_sys \<Rightarrow> nvmf_sys option" where
  "spdk_nvmf_request_exec env rid s0 =
     go_on (nvmf_check_subsystem_active env rid s0) (\<lambda>s1.
     go_on (nvmf_check_qpair_active env rid s1) (\<lambda>s2.
       let s3 = admit rid s2;
           run = (if opc (req_cmd (sys_req s3 rid)) = SPDK_NVME_OPC_FABRIC then process_fabrics_cmd env
                  else if nvmf_qpair_is_admin_queue (qpair s3) then process_admin_cmd env
                  else exec_io_cmd env)
       in Option.bind (run rid s3) (\<lambda>(st, s4).
            if st = SPDK_NVMF_REQUEST_EXEC_STATUS_COMPLETE then nvmf_request_complete env rid s4 else Some s4)))"

subsection \<open>Zero copy\<close>

definition nvmf_ctrlr_use_zcopy :: "bool \<Rightarrow> spdk_nvmf_qpair \<Rightarrow> spdk_nvmf_request \<Rightarrow> bool \<times> spdk_nvmf_request" where
  "nvmf_ctrlr_use_zcopy opts_zcopy qp req =
     (let cmd = req_cmd req in
      if \<not> opts_zcopy \<or> nvmf_qpair_is_admin_queue qp \<or>
         (opc cmd \<noteq> nvm_opc SPDK_NVME_OPC_WRITE \<and> opc cmd \<noteq> nvm_opc SPDK_NVME_OPC_READ) \<or>
         fuse cmd \<noteq> fuse_code SPDK_NVME_CMD_FUSE_NONE
      then (False, req)
      else case Option.bind (qp_ctrlr qp) (\<lambda>c. nvmf_ctrlr_get_ns c (nsid cmd)) of
             None \<Rightarrow> (False, req)
           | Some ns \<Rightarrow>
               if ns_desc ns = None \<or> \<not> ns_zcopy ns then (False, req)
               else (True, req\<lparr>zcopy_phase := NVMF_ZCOPY_PHASE_INIT\<rparr>))"

text \<open>The iovec array is given to the block device whole; its elements beyond the old count are unset.\<close>

definition spdk_nvmf_request_zcopy_start :: "exec_env \<Rightarrow> nat \<Rightarrow> nvmf_sys \<Rightarrow> nvmf_sys option" where
  "spdk_nvmf_request_zcopy_start env rid s =
     (let req = sys_req s rid in
      spdk_nvmf_request_exec env rid
        (set_req rid (req\<lparr>iov := take NVMF_REQ_MAX_BUFFERS (iov req @ replicate NVMF_REQ_MAX_BUFFERS [])\<rparr>) s))"

definition spdk_nvmf_request_zcopy_end :: "nat \<Rightarrow> bool \<Rightarrow> nvmf_sys \<Rightarrow> nvmf_sys option" where
  "spdk_nvmf_request_zcopy_end rid commit s =
     (let req = (sys_req s rid)\<lparr>zcopy_phase := NVMF_ZCOPY_PHASE_END_PENDING\<rparr>; io = put_req rid req (sys_io s) in
      case zcopy_bdev_io req of
        None \<Rightarrow> None
      | Some bio \<Rightarrow> Some (s\<lparr>sys_io := io\<lparr>io_th := nvmf_bdev_ctrlr_zcopy_end (io_th io) req bio commit\<rparr>\<rparr>))"

subsection \<open>Pausing and resuming\<close>

definition SPDK_NVME_GLOBAL_NS_TAG :: u32 where
  "SPDK_NVME_GLOBAL_NS_TAG = 0xffffffff"

definition pausing_ns :: "u32 \<Rightarrow> spdk_nvmf_subsystem_poll_group \<Rightarrow> spdk_nvmf_subsystem_poll_group" where
  "pausing_ns nid sg =
     (if nid = SPDK_NVME_GLOBAL_NS_TAG
      then sg\<lparr>ns_info := map (\<lambda>n. n\<lparr>ni_state := SPDK_NVMF_SUBSYSTEM_PAUSING\<rparr>) (ns_info sg)\<rparr>
      else upd_ns (unat (nid - 1)) (\<lambda>n. n\<lparr>ni_state := SPDK_NVMF_SUBSYSTEM_PAUSING\<rparr>) sg)"

definition pause_waits :: "u32 \<Rightarrow> spdk_nvmf_subsystem_poll_group \<Rightarrow> bool" where
  "pause_waits nid sg \<longleftrightarrow>
     0 < mgmt_io_outstanding sg \<or>
     (if nid = SPDK_NVME_GLOBAL_NS_TAG then list_ex (\<lambda>n. 0 < io_outstanding n) (ns_info sg)
      else unat (nid - 1) < length (ns_info sg) \<and> 0 < io_outstanding (ns_info sg ! unat (nid - 1)))"

definition mod_done :: "nat option \<Rightarrow> int \<Rightarrow> nvmf_sys \<Rightarrow> nvmf_sys" where
  "mod_done fn rc s = (case fn of None \<Rightarrow> s | Some c \<Rightarrow> emit (Mod_Done c rc) s)"

definition nvmf_poll_group_pause_subsystem :: "u32 \<Rightarrow> nat option \<Rightarrow> nvmf_sys \<Rightarrow> nvmf_sys" where
  "nvmf_poll_group_pause_subsystem nid fn s =
     (if sg_state (sgroup s) = SPDK_NVMF_SUBSYSTEM_PAUSED then mod_done fn 0 s
      else
        let sg = pausing_ns nid ((sgroup s)\<lparr>sg_state := SPDK_NVMF_SUBSYSTEM_PAUSING\<rparr>) in
        if pause_waits nid sg then s\<lparr>sgroup := sg\<lparr>cb_fn := fn\<rparr>\<rparr>
        else mod_done fn 0 (s\<lparr>sgroup := sg\<lparr>sg_state := SPDK_NVMF_SUBSYSTEM_PAUSED\<rparr>\<rparr>))"

fun release_queued :: "exec_env \<Rightarrow> nat list \<Rightarrow> nvmf_sys \<Rightarrow> nvmf_sys option" where
  "release_queued env [] s = Some s"
| "release_queued env (rid # rids) s =
     (let s1 = s\<lparr>sgroup := (sgroup s)\<lparr>queued := remove1 rid (queued (sgroup s))\<rparr>\<rparr> in
      Option.bind
        (if spdk_nvmf_request_using_zcopy (sys_req s1 rid) then spdk_nvmf_request_zcopy_start env rid s1
         else spdk_nvmf_request_exec env rid s1)
        (release_queued env rids))"

definition nvmf_poll_group_resume_subsystem :: "exec_env \<Rightarrow> nat option \<Rightarrow> nvmf_sys \<Rightarrow> nvmf_sys option" where
  "nvmf_poll_group_resume_subsystem env fn s =
     (if sg_state (sgroup s) = SPDK_NVMF_SUBSYSTEM_ACTIVE then Some (mod_done fn 0 s)
      else case poll_group_update_subsystem env (sgroup s) of
        (rc, sg) \<Rightarrow>
          if rc \<noteq> 0 then Some (mod_done fn rc (s\<lparr>sgroup := sg\<rparr>))
          else
            let sg' = sg\<lparr>ns_info := map (\<lambda>n. n\<lparr>ni_state := SPDK_NVMF_SUBSYSTEM_ACTIVE\<rparr>) (ns_info sg),
                         sg_state := SPDK_NVMF_SUBSYSTEM_ACTIVE\<rparr>
            in map_option (mod_done fn 0) (release_queued env (queued sg') (s\<lparr>sgroup := sg'\<rparr>)))"

end
