(* ===== verification/Nvmf_Acct.thy ===== *)
theory Nvmf_Acct
  imports Nvmf_Exec
begin

section \<open>Accounting of outstanding requests\<close>

text \<open>
  The invariant of an I/O queue pair and its poll group, kept by every operation of \<open>Nvmf_Exec\<close>: the
  counter of each namespace is the number of outstanding requests that address it, and a subsystem that has
  reported its pause has no outstanding request on a paused namespace. The machine of arrivals, completions, pauses
  and resumes, and what holds in every state it reaches.
\<close>

subsection \<open>The dispatcher keeps the commands\<close>

definition same_cmd :: "spdk_nvmf_request \<Rightarrow> spdk_nvmf_request \<Rightarrow> bool" where
  "same_cmd a b \<longleftrightarrow> req_cmd b = req_cmd a \<and> zcopy_phase b = zcopy_phase a"

lemma same_cmd_refl [simp]: "same_cmd a a"
  by (simp add: same_cmd_def)

lemma same_cmd_trans: "same_cmd a b \<Longrightarrow> same_cmd b c \<Longrightarrow> same_cmd a c"
  by (simp add: same_cmd_def)

lemma same_cmd_upd [simp]:
  "same_cmd a (upd_rsp f b) = same_cmd a b" "same_cmd a (b\<lparr>iov := v\<rparr>) = same_cmd a b"
  "same_cmd (b\<lparr>first_fused_req := x, first_fused := y\<rparr>) a = same_cmd b a"
  "same_cmd a (b\<lparr>first_fused_req := x, first_fused := y\<rparr>) = same_cmd a b"
  by (auto simp: same_cmd_def)

lemma complete_with_same: "same_cmd req (snd (snd (complete_with c th req)))"
  by (simp add: complete_with_def)

lemma after_submit_same: "same_cmd req0 req \<Longrightarrow> same_cmd req0 (snd (snd (after_submit w err th req res)))"
  by (auto simp: after_submit_def Let_def split: prod.splits option.splits)

lemma rw_handlers_same:
  "same_cmd req (snd (snd (nvmf_bdev_ctrlr_read_cmd desc th req)))"
  "same_cmd req (snd (snd (nvmf_bdev_ctrlr_write_cmd desc th req)))"
  "same_cmd req (snd (snd (nvmf_bdev_ctrlr_compare_cmd desc th req)))"
  "same_cmd req (snd (snd (nvmf_bdev_ctrlr_write_zeroes_cmd subsys desc th req)))"
  "same_cmd req (snd (snd (nvmf_bdev_ctrlr_flush_cmd desc th req)))"
  "same_cmd req (snd (snd (nvmf_bdev_ctrlr_copy_cmd desc th req)))"
  "same_cmd req (snd (snd (nvmf_bdev_ctrlr_nvme_passthru_io desc th req)))"
  "same_cmd req (snd (snd (nvmf_bdev_ctrlr_zcopy_start desc th req)))"
  by (simp_all add: nvmf_bdev_ctrlr_read_cmd_def nvmf_bdev_ctrlr_write_cmd_def nvmf_bdev_ctrlr_compare_cmd_def
      nvmf_bdev_ctrlr_write_zeroes_cmd_def nvmf_bdev_ctrlr_flush_cmd_def nvmf_bdev_ctrlr_copy_cmd_def
      nvmf_bdev_ctrlr_nvme_passthru_io_def nvmf_bdev_ctrlr_zcopy_start_def Let_def split_beta
      complete_with_same after_submit_same)

lemma fused_handler_same: "same_cmd b (snd (snd (nvmf_bdev_ctrlr_compare_and_write_cmd ok desc th a b)))"
  by (auto simp: nvmf_bdev_ctrlr_compare_and_write_cmd_def complete_with_def Let_def split: prod.splits option.splits)

lemma unmap_loop_same:
  "same_cmd req0 req \<Longrightarrow> same_cmd req0 (snd (snd (snd (unmap_loop k md desc ix ctx th req))))"
proof (induction k arbitrary: ix ctx th)
  case (Suc k)
  obtain ix' r copied where x: "spdk_iov_xfer_to_buf ix (replicate 16 0) = (ix', r, copied)" using prod_cases3 by blast
  obtain e ch where s: "spdk_bdev_unmap_blocks desc (bch th) (dsm_range_starting_lba r) (ucast (dsm_range_length r))
      (Caller_Cb (Unmap_Cpl (req_id req))) = (e, ch)" by fastforce
  show ?case
    using Suc by (auto simp: x s Let_def unmap_done_def split: option.splits)
qed (simp add: unmap_done_def)

lemma dsm_same: "same_cmd req (snd (snd (snd (nvmf_bdev_ctrlr_dsm_cmd ok subsys desc th req))))"
  by (auto simp: nvmf_bdev_ctrlr_dsm_cmd_def nvmf_bdev_ctrlr_unmap_def Let_def complete_with_def unmap_loop_same
      simp del: unmap_loop.simps split: option.splits)

lemma echo_same: "same_cmd req (fst (snd (snd (nvmf_bdev_ctrlr_custom_echo_cmd alloc desc th req))))"
  by (auto simp: nvmf_bdev_ctrlr_custom_echo_cmd_def echo_error_def Let_def split: prod.splits)

lemma grep_same:
  "nvmf_bdev_ctrlr_custom_grep_cmd alloc ctx_ok desc th req = Some (st, th', req', c) \<Longrightarrow> same_cmd req req'"
proof -
  assume g: "nvmf_bdev_ctrlr_custom_grep_cmd alloc ctx_ok desc th req = Some (st, th', req', c)"
  let ?req1 = "req\<lparr>iov := spdk_iov_memset (iov req) 0\<rparr>"
  have "same_cmd req (snd (snd (after_submit w internal_error th ?req1 res)))" for w res
    by (rule after_submit_same) simp
  with g show ?thesis
    by (auto simp: nvmf_bdev_ctrlr_custom_grep_cmd_def Let_def complete_with_def split: if_splits prod.splits)
       (metis snd_conv)+
qed

lemma cipadd_same:
  "nvmf_bdev_ctrlr_custom_heaan_cipadd_cmd alloc desc th req = Some (st, th', req', c) \<Longrightarrow> same_cmd req req'"
  by (auto simp: nvmf_bdev_ctrlr_custom_heaan_cipadd_cmd_def Let_def
      split: if_splits list.splits parse.splits prod.splits option.splits)

text \<open>A handler completes no other request.\<close>

definition quiet :: "io_state \<Rightarrow> exec_result \<Rightarrow> bool" where
  "quiet s res \<longleftrightarrow> (case res of None \<Rightarrow> True | Some (st, s') \<Rightarrow>
     (\<forall>r. same_cmd (io_reqs s r) (io_reqs s' r)) \<and> io_events s' = io_events s \<and>
     qpair_first_fused_req s' = qpair_first_fused_req s)"

lemma quiet_simps [simp]:
  "quiet s None" "quiet s (Some (fail_req rid g s))" "quiet s (Some (invalid_opcode rid s))"
  "same_cmd (io_reqs s rid) (snd (snd r)) \<Longrightarrow> quiet s (Some (lift_handler rid s r))"
  "same_cmd (io_reqs s rid) (fst (snd (snd r4))) \<Longrightarrow> quiet s (Some (lift_ndp rid mk s r4))"
  by (auto simp: quiet_def fail_req_def invalid_opcode_def lift_handler_def lift_ndp_def set_ctx_def split: prod.splits)

lemma dispatch_quiet: "quiet s (dispatch_opcode al ctrlr desc rid s)"
proof -
  let ?req = "io_reqs s rid"
  have "quiet s (map_option (lift_ndp rid Grep_Ctx s) (nvmf_bdev_ctrlr_custom_grep_cmd (heap al) (grep_ctx_ok al) desc (io_th s) ?req))"
    by (cases "nvmf_bdev_ctrlr_custom_grep_cmd (heap al) (grep_ctx_ok al) desc (io_th s) ?req") (auto dest: grep_same)
  moreover have "quiet s (map_option (lift_ndp rid Heaan_Ctx s) (nvmf_bdev_ctrlr_custom_heaan_cipadd_cmd (heap al) desc (io_th s) ?req))"
    by (cases "nvmf_bdev_ctrlr_custom_heaan_cipadd_cmd (heap al) desc (io_th s) ?req") (auto dest: cipadd_same)
  moreover have "quiet s (Some (st, s\<lparr>io_msgs := m\<rparr>))" for st m by (simp add: quiet_def)
  ultimately show ?thesis
    by (simp add: dispatch_opcode_def Let_def rw_handlers_same echo_same dsm_same split_beta)
qed

text \<open>What the dispatcher may do to the pending first command of a fused pair.\<close>

definition fused_next ::
  "nat option \<Rightarrow> nat \<Rightarrow> spdk_nvmf_request_exec_status \<Rightarrow> nvmf_event list \<Rightarrow> nat option \<Rightarrow> bool" where
  "fused_next first rid st es first' \<longleftrightarrow>
     (es = [] \<or> (\<exists>f c. first = Some f \<and> es = [Request_Complete f c])) \<and>
     (first' = None \<or> first' = first \<and> es = [] \<or> first' = Some rid \<and> st = SPDK_NVMF_REQUEST_EXEC_STATUS_ASYNCHRONOUS)"

definition traced :: "nat \<Rightarrow> io_state \<Rightarrow> exec_result \<Rightarrow> bool" where
  "traced rid s res \<longleftrightarrow> (case res of None \<Rightarrow> True | Some (st, s') \<Rightarrow>
     (\<forall>r. same_cmd (io_reqs s r) (io_reqs s' r)) \<and>
     (\<exists>es. io_events s' = io_events s @ es \<and>
       fused_next (qpair_first_fused_req s) rid st es (qpair_first_fused_req s')))"

lemma quiet_traced: "quiet s res \<Longrightarrow> traced rid s res"
  by (auto simp: quiet_def traced_def fused_next_def split: option.splits)

lemma abort_first_simps [simp]:
  "io_events (abort_first f s) = io_events s @ [Request_Complete f (set_generic SPDK_NVME_SC_ABORTED_MISSING_FUSED (rsp (io_reqs s f)))]"
  "same_cmd a (io_reqs (abort_first f s) r) = same_cmd a (io_reqs s r)"
  by (auto simp: abort_first_def Let_def)

lemma aborted_traced:
  assumes "qpair_first_fused_req s = Some f" "quiet ((abort_first f s)\<lparr>qpair_first_fused_req := None\<rparr>) res"
  shows "traced rid s res"
proof (cases res)
  case (Some p)
  then obtain st s' where res: "res = Some (st, s')" by (cases p) simp
  with assms(2) have q: "same_cmd (io_reqs (abort_first f s) r) (io_reqs s' r)"
    "io_events s' = io_events (abort_first f s)" "qpair_first_fused_req s' = None" for r
    by (simp_all add: quiet_def)
  have "same_cmd (io_reqs s r) (io_reqs (abort_first f s) r)" for r by simp
  from same_cmd_trans [OF this q(1)] show ?thesis
    unfolding traced_def res fused_next_def by (simp add: q assms(1))
qed (simp add: traced_def)

lemma traced_cong:
  assumes "\<And>r. same_cmd (io_reqs s r) (io_reqs s1 r)" "io_events s1 = io_events s"
    and "qpair_first_fused_req s1 = qpair_first_fused_req s" "traced rid s1 res"
  shows "traced rid s res"
proof (cases res)
  case (Some r)
  then show ?thesis
    using assms same_cmd_trans [OF assms(1)] by (cases r) (simp add: traced_def)
qed (simp add: traced_def)

lemma fused_cmd_traced: "traced rid s (Some (nvmf_ctrlr_process_io_fused_cmd al desc rid s))"
proof -
  let ?cmd = "req_cmd (io_reqs s rid)" and ?res = "nvmf_ctrlr_process_io_fused_cmd al desc rid s"
  consider (first) "fuse ?cmd = fuse_code SPDK_NVME_CMD_FUSE_FIRST"
    | (second) "fuse ?cmd = fuse_code SPDK_NVME_CMD_FUSE_SECOND"
    | (none) "fuse ?cmd \<noteq> fuse_code SPDK_NVME_CMD_FUSE_FIRST" "fuse ?cmd \<noteq> fuse_code SPDK_NVME_CMD_FUSE_SECOND" by blast
  then show ?thesis
  proof cases
    case first
    then show ?thesis
      by (auto simp: nvmf_ctrlr_process_io_fused_cmd_def Let_def traced_def fused_next_def fail_req_def split: option.splits)
  next
    case second
    show ?thesis
    proof (cases "qpair_first_fused_req s")
      case None
      with second show ?thesis
        by (simp add: nvmf_ctrlr_process_io_fused_cmd_def Let_def quiet_traced)
    next
      case (Some f)
      let ?req = "(io_reqs s rid)\<lparr>first_fused_req := Some f, first_fused := True\<rparr>"
      let ?first = "if f = rid then ?req else io_reqs s f"
      obtain st th' req' where c: "nvmf_bdev_ctrlr_compare_and_write_cmd (calloc_ok al) desc (io_th s) ?first ?req = (st, th', req')"
        using prod_cases3 by blast
      show ?thesis
      proof (cases "opc ?cmd = nvm_opc SPDK_NVME_OPC_WRITE")
        case False
        with second Some have "?res = fail_req rid (set_generic SPDK_NVME_SC_INVALID_OPCODE) ((abort_first f s)\<lparr>qpair_first_fused_req := None\<rparr>)"
          by (simp add: nvmf_ctrlr_process_io_fused_cmd_def Let_def)
        then show ?thesis by (simp add: aborted_traced [OF Some])
      next
        case True
        have "same_cmd (io_reqs s rid) req'"
          using fused_handler_same [of ?req "calloc_ok al" desc "io_th s" ?first] by (simp add: c)
        with True second Some c show ?thesis
          by (cases "f = rid") (simp_all add: nvmf_ctrlr_process_io_fused_cmd_def Let_def lift_handler_def traced_def fused_next_def)
      qed
    qed
  next
    case none
    then show ?thesis by (simp add: nvmf_ctrlr_process_io_fused_cmd_def Let_def quiet_traced)
  qed
qed

lemma reservation_check_same:
  "nvmf_ns_reservation_request_check info hostid req = (e, req') \<Longrightarrow> same_cmd a req \<Longrightarrow> same_cmd a req'"
  by (auto simp: nvmf_ns_reservation_request_check_def Let_def split: if_splits)

lemma traced_put:
  assumes "same_cmd (io_reqs s rid) req" "traced rid (put_req rid req s) res"
  shows "traced rid s res"
  by (rule traced_cong [OF _ _ _ assms(2)]) (use assms(1) in auto)

lemma process_io_cmd_traced: "traced rid s (nvmf_ctrlr_process_io_cmd al ctrlr ns_infos rid s)"
proof -
  have none: "traced rid s res" if "same_cmd (io_reqs s rid) req" "quiet (put_req rid req s) res" for req res
    by (rule traced_put [OF that(1) quiet_traced [OF that(2)]])
  have fail: "traced rid s (Some (fail_req rid g (put_req rid req s)))" if "same_cmd (io_reqs s rid) req" for g req
    by (rule none [OF that]) simp
  have refused: "traced rid s (Some (st, put_req rid req s))" if "same_cmd (io_reqs s rid) req" for st req
    using that by (simp add: traced_def fused_next_def)
  have fused: "traced rid s (Some (nvmf_ctrlr_process_io_fused_cmd al desc rid (put_req rid req s)))"
    if "same_cmd (io_reqs s rid) req" for desc req
    by (rule traced_put [OF that fused_cmd_traced])
  have first: "traced rid s res" if "same_cmd (io_reqs s rid) req" "qpair_first_fused_req s = Some f"
    "quiet ((abort_first f (put_req rid req s))\<lparr>qpair_first_fused_req := None\<rparr>) res" for req f res
    using that(2) by (intro traced_put [OF that(1) aborted_traced [OF _ that(3)]]) simp
  have chk: "same_cmd (io_reqs s rid) req"
    if "nvmf_ns_reservation_request_check info hostid (upd_rsp f (io_reqs s rid)) = (e, req)" for info hostid f e req
    using reservation_check_same [OF that] by simp
  show ?thesis
    by (auto simp: nvmf_ctrlr_process_io_cmd_def Let_def rw_handlers_same dispatch_quiet dest!: chk
        intro: fail refused fused none first split: option.split prod.split)
qed


subsection \<open>Accounting\<close>

text \<open>
  An I/O command in flight: neither a fabrics command nor one whose opcode equals that of an asynchronous
  event request, in a phase in which it may be outstanding.
\<close>

definition live :: "spdk_nvmf_request \<Rightarrow> bool" where
  "live req \<longleftrightarrow> opc (req_cmd req) \<noteq> SPDK_NVME_OPC_FABRIC \<and> opc (req_cmd req) \<noteq> SPDK_NVME_OPC_ASYNC_EVENT_REQUEST \<and>
     zcopy_phase req \<in> {NVMF_ZCOPY_PHASE_NONE, NVMF_ZCOPY_PHASE_INIT, NVMF_ZCOPY_PHASE_EXECUTE, NVMF_ZCOPY_PHASE_END_PENDING}"

definition ns_index :: "spdk_nvmf_request \<Rightarrow> nat" where
  "ns_index req = unat (nsid (req_cmd req) - 1)"

definition busy :: "(nat \<Rightarrow> spdk_nvmf_request) \<Rightarrow> nat list \<Rightarrow> nat \<Rightarrow> nat" where
  "busy rs out i = length (filter (\<lambda>r. ns_index (rs r) = i) out)"

definition counted :: "(nat \<Rightarrow> spdk_nvmf_request) \<Rightarrow> nat list \<Rightarrow> spdk_nvmf_subsystem_pg_ns_info list \<Rightarrow> bool" where
  "counted rs out infos \<longleftrightarrow> (\<forall>i<length infos. io_outstanding (infos ! i) = word_of_nat (busy rs out i))"

definition in_flight :: "(nat \<Rightarrow> spdk_nvmf_request) \<Rightarrow> nat list \<Rightarrow> nat list \<Rightarrow> nat option \<Rightarrow> bool" where
  "in_flight rs out qd first \<longleftrightarrow> distinct (out @ qd) \<and> (\<forall>r\<in>set (out @ qd). live (rs r)) \<and>
     (case first of None \<Rightarrow> True | Some f \<Rightarrow> f \<in> set out)"

lemma same_cmd_keeps:
  assumes "same_cmd a b" shows "ns_index b = ns_index a" "live b = live a"
  using assms by (simp_all add: same_cmd_def ns_index_def live_def)

lemma counted_same: "counted rs out infos \<Longrightarrow> (\<And>r. same_cmd (rs r) (rs' r)) \<Longrightarrow> counted rs' out infos"
  by (simp add: counted_def busy_def same_cmd_keeps [of "rs r" "rs' r" for r])

lemma in_flight_same: "in_flight rs out qd first \<Longrightarrow> (\<And>r. same_cmd (rs r) (rs' r)) \<Longrightarrow> in_flight rs' out qd first"
  by (simp add: in_flight_def same_cmd_keeps [of "rs r" "rs' r" for r])

definition plus_at :: "nat \<Rightarrow> u64 \<Rightarrow> spdk_nvmf_subsystem_pg_ns_info list \<Rightarrow> spdk_nvmf_subsystem_pg_ns_info list" where
  "plus_at i d infos = (if i < length infos then infos[i := (infos ! i)\<lparr>io_outstanding := io_outstanding (infos ! i) + d\<rparr>] else infos)"

lemma plus_at_simps [simp]:
  "length (plus_at i d infos) = length infos"
  "j < length infos \<Longrightarrow> io_outstanding (plus_at i d infos ! j) = io_outstanding (infos ! j) + (if i = j then d else 0)"
  "j < length infos \<Longrightarrow> ni_state (plus_at i d infos ! j) = ni_state (infos ! j)"
  "j < length infos \<Longrightarrow> ni_channel (plus_at i d infos ! j) = ni_channel (infos ! j)"
  by (auto simp: plus_at_def nth_list_update)

lemma upd_ns_plus:
  "upd_ns i (\<lambda>n. n\<lparr>io_outstanding := io_outstanding n + 1\<rparr>) sg = sg\<lparr>ns_info := plus_at i 1 (ns_info sg)\<rparr>"
  "upd_ns i (\<lambda>n. n\<lparr>io_outstanding := io_outstanding n - 1\<rparr>) sg = sg\<lparr>ns_info := plus_at i (- 1) (ns_info sg)\<rparr>"
  by (simp_all add: upd_ns_def plus_at_def)

lemma counted_admit: "counted rs out infos \<Longrightarrow> counted rs (out @ [rid]) (plus_at (ns_index (rs rid)) 1 infos)"
  by (auto simp: counted_def busy_def)

lemma counted_remove:
  assumes "counted rs out infos" "rid \<in> set out"
  shows "counted rs (remove1 rid out) (plus_at (ns_index (rs rid)) (- 1) infos)"
proof -
  have "io_outstanding (infos ! i) + (if ns_index (rs rid) = i then - 1 else 0) = word_of_nat (busy rs (remove1 rid out) i)"
    if i: "i < length infos" for i
  proof (cases "ns_index (rs rid) = i")
    case True
    let ?f = "filter (\<lambda>r. ns_index (rs r) = i) out"
    have r: "rid \<in> set ?f" using True assms(2) by simp
    then have "length ?f = Suc (length (remove1 rid ?f))"
      using length_pos_if_in_set [OF r] by (simp only: length_remove1 if_True Suc_pred)
    then have "busy rs out i = Suc (busy rs (remove1 rid out) i)" by (simp add: busy_def filter_remove1)
    with True i assms(1) show ?thesis by (simp add: counted_def)
  next
    case False
    then have "filter (\<lambda>r. ns_index (rs r) = i) (remove1 rid out) = filter (\<lambda>r. ns_index (rs r) = i) out"
      by (simp add: filter_remove1 remove1_idem)
    with False i assms(1) show ?thesis by (simp add: counted_def busy_def)
  qed
  then show ?thesis by (simp only: counted_def plus_at_simps simp_thms cong: imp_cong)
qed

lemma in_flight_remove:
  assumes "in_flight rs out qd first" "first \<noteq> Some rid"
  shows "in_flight rs (remove1 rid out) qd first"
  using assms by (auto simp: in_flight_def dest: notin_set_remove1 in_set_remove1 split: option.splits) 

lemma in_flight_admit:
  "in_flight rs out qd first \<Longrightarrow> rid \<notin> set (out @ qd) \<Longrightarrow> live (rs rid) \<Longrightarrow> in_flight rs (out @ [rid]) qd first"
  by (auto simp: in_flight_def split: option.splits)

lemma in_flight_enqueue:
  "in_flight rs out qd first \<Longrightarrow> rid \<notin> set (out @ qd) \<Longrightarrow> live (rs rid) \<Longrightarrow> in_flight rs out (qd @ [rid]) first"
  by (auto simp: in_flight_def split: option.splits)

lemma in_flight_dequeue: "in_flight rs out (rid # qd) first \<Longrightarrow> in_flight rs out qd first \<and> rid \<notin> set (out @ qd) \<and> live (rs rid)"
  by (auto simp: in_flight_def split: option.splits)


text \<open>The invariant of an I/O queue pair and its poll group.\<close>

abbreviation out_of :: "nvmf_sys \<Rightarrow> nat list" where
  "out_of s \<equiv> outstanding (qpair s)"

abbreviation infos_of :: "nvmf_sys \<Rightarrow> spdk_nvmf_subsystem_pg_ns_info list" where
  "infos_of s \<equiv> ns_info (sgroup s)"

definition all_paused :: "spdk_nvmf_subsystem_poll_group \<Rightarrow> bool" where
  "all_paused sg \<longleftrightarrow> mgmt_io_outstanding sg = 0 \<and>
     list_all (\<lambda>n. ni_state n = SPDK_NVMF_SUBSYSTEM_PAUSING \<longrightarrow> io_outstanding n = 0) (ns_info sg)"

definition acct :: "nvmf_sys \<Rightarrow> bool" where
  "acct s \<longleftrightarrow> qid (qpair s) \<noteq> 0 \<and> qp_ctrlr (qpair s) \<noteq> None \<and>
     counted (io_reqs (sys_io s)) (out_of s) (infos_of s) \<and>
     in_flight (io_reqs (sys_io s)) (out_of s) (queued (sgroup s)) (qpair_first_fused_req (sys_io s)) \<and>
     (sg_state (sgroup s) = SPDK_NVMF_SUBSYSTEM_PAUSING \<longrightarrow> cb_fn (sgroup s) \<noteq> None)"

definition pause_ok :: "nvmf_sys \<Rightarrow> bool" where
  "pause_ok s \<longleftrightarrow>
     (sg_state (sgroup s) = SPDK_NVMF_SUBSYSTEM_PAUSED \<longrightarrow> mgmt_io_outstanding (sgroup s) = 0) \<and>
     (\<forall>i<length (infos_of s). ni_state (infos_of s ! i) = SPDK_NVMF_SUBSYSTEM_PAUSING \<longrightarrow>
        sg_state (sgroup s) = SPDK_NVMF_SUBSYSTEM_PAUSING \<or>
        sg_state (sgroup s) = SPDK_NVMF_SUBSYSTEM_PAUSED \<and> busy (io_reqs (sys_io s)) (out_of s) i = 0)"

text \<open>A request that has not been started.\<close>

definition fresh_req :: "spdk_nvmf_request \<Rightarrow> bool" where
  "fresh_req req \<longleftrightarrow> live req \<and> zcopy_phase req \<in> {NVMF_ZCOPY_PHASE_NONE, NVMF_ZCOPY_PHASE_INIT}"

definition sys_inv :: "nvmf_sys \<Rightarrow> bool" where
  "sys_inv s \<longleftrightarrow> acct s \<and> pause_ok s \<and> length (out_of s) + length (queued (sgroup s)) < 2 ^ 32 \<and>
     list_all (\<lambda>r. fresh_req (sys_req s r)) (queued (sgroup s))"

lemma emit_simps [simp]:
  "sys_io (emit e s) = sys_io s" "qpair (emit e s) = qpair s" "sgroup (emit e s) = sgroup s"
  by (simp_all add: emit_def)

lemma cleanup_simps [simp]:
  "sys_io (nvmf_qpair_request_cleanup s) = sys_io s" "qpair (nvmf_qpair_request_cleanup s) = qpair s"
  "sgroup (nvmf_qpair_request_cleanup s) = sgroup s"
  by (simp_all add: nvmf_qpair_request_cleanup_def)

lemma set_simps [simp]:
  "sys_io (set_outstanding xs s) = sys_io s" "sgroup (set_outstanding xs s) = sgroup s"
  "qpair (set_outstanding xs s) = (qpair s)\<lparr>outstanding := xs\<rparr>"
  "sys_io (set_req rid req s) = put_req rid req (sys_io s)" "sgroup (set_req rid req s) = sgroup s"
  "qpair (set_req rid req s) = qpair s"
  by (simp_all add: set_outstanding_def set_req_def)

text \<open>The request at its completion, and the state after the accounting.\<close>

definition ended_req :: "spdk_nvmf_qpair \<Rightarrow> spdk_nvmf_request \<Rightarrow> spdk_nvmf_request" where
  "ended_req qp req = req\<lparr>rsp := completion_rsp qp req,
     zcopy_phase := fst (zcopy_next (zcopy_phase req) (spdk_nvme_cpl_is_error (completion_rsp qp req)))\<rparr>"

lemma zcopy_next_live:
  assumes "live req"
  shows "snd (zcopy_next (zcopy_phase req) err) \<longleftrightarrow> request_ended (req\<lparr>rsp := c, zcopy_phase := fst (zcopy_next (zcopy_phase req) err)\<rparr>)"
    and "\<not> snd (zcopy_next (zcopy_phase req) err) \<Longrightarrow> live (req\<lparr>rsp := c, zcopy_phase := fst (zcopy_next (zcopy_phase req) err)\<rparr>)"
  using assms by (auto simp: live_def request_ended_def split: if_splits)

lemma ended_req_simps [simp]: "req_cmd (ended_req qp req) = req_cmd req" "ns_index (ended_req qp req) = ns_index req"
  by (simp_all add: ended_req_def ns_index_def)

lemma report_pause_acct:
  assumes "sg_state (sgroup s) = SPDK_NVMF_SUBSYSTEM_PAUSING \<longrightarrow> cb_fn (sgroup s) \<noteq> None"
  shows "\<exists>s'. report_pause s = Some s' \<and> sys_io s' = sys_io s \<and> qpair s' = qpair s \<and>
    infos_of s' = infos_of s \<and> queued (sgroup s') = queued (sgroup s) \<and>
    mgmt_io_outstanding (sgroup s') = mgmt_io_outstanding (sgroup s) \<and>
    (if pause_reached (sgroup s)
     then sg_state (sgroup s') = SPDK_NVMF_SUBSYSTEM_PAUSED \<and> all_paused (sgroup s') \<and>
       exec_events s' = exec_events s @ [Mod_Done (the (cb_fn (sgroup s))) 0]
     else s' = s)"
  using assms by (auto simp: report_pause_def pause_reached_def all_paused_def list_all_iff list_ex_iff emit_def word_gt_0)

text \<open>What a completion leaves as it was.\<close>

definition ns_frame :: "nvmf_sys \<Rightarrow> nvmf_sys \<Rightarrow> bool" where
  "ns_frame s s' \<longleftrightarrow> map ni_state (infos_of s') = map ni_state (infos_of s) \<and>
     map ni_channel (infos_of s') = map ni_channel (infos_of s) \<and>
     mgmt_io_outstanding (sgroup s') = mgmt_io_outstanding (sgroup s) \<and> queued (sgroup s') = queued (sgroup s) \<and>
     qp_state (qpair s') = qp_state (qpair s) \<and>
     (\<forall>r. req_cmd (sys_req s' r) = req_cmd (sys_req s r)) \<and>
     qpair_first_fused_req (sys_io s') = qpair_first_fused_req (sys_io s)"

lemma plus_at_maps [simp]: "map ni_state (plus_at i d infos) = map ni_state infos" "map ni_channel (plus_at i d infos) = map ni_channel infos"
  by (auto intro: nth_equalityI)

definition uncounted :: "nat \<Rightarrow> nvmf_sys \<Rightarrow> nvmf_sys" where
  "uncounted rid s =
     (let req = ended_req (qpair s) (sys_req s rid); s1 = set_req rid req s;
          s2 = (if request_ended req then set_outstanding (remove1 rid (out_of s)) s1 else s1);
          sg = sgroup s
      in (emit (Transport_Req_Complete rid (rsp req)) (s2\<lparr>completed_nvme_io := completed_nvme_io s + 1\<rparr>))
           \<lparr>sgroup := if request_ended req then sg\<lparr>ns_info := plus_at (ns_index req) (- 1) (ns_info sg)\<rparr> else sg\<rparr>)"

lemma request_complete_eq:
  assumes "acct s" "rid \<in> set (out_of s)"
  shows "nvmf_request_complete env rid s = map_option nvmf_qpair_request_cleanup (report_pause (uncounted rid s))"
proof -
  have l: "live (sys_req s rid)" using assms by (simp add: acct_def in_flight_def)
  then have o: "opc (req_cmd (sys_req s rid)) \<noteq> SPDK_NVME_OPC_FABRIC"
    "opc (req_cmd (sys_req s rid)) \<noteq> SPDK_NVME_OPC_ASYNC_EVENT_REQUEST" by (simp_all add: live_def)
  obtain phase unlink where z: "zcopy_next (zcopy_phase (sys_req s rid))
      (spdk_nvme_cpl_is_error (completion_rsp (qpair s) (sys_req s rid))) = (phase, unlink)" by fastforce
  have e: "ended_req (qpair s) (sys_req s rid) =
      (sys_req s rid)\<lparr>rsp := completion_rsp (qpair s) (sys_req s rid), zcopy_phase := phase\<rparr>" (is "_ = ?req")
    by (simp add: ended_req_def z)
  have u: "unlink \<longleftrightarrow> request_ended ?req"
    using zcopy_next_live(1) [OF l, of _ "completion_rsp (qpair s) (sys_req s rid)"] z by (metis fst_conv snd_conv)
  have q: "qid (qpair s) \<noteq> 0" "qp_ctrlr (qpair s) \<noteq> None" using assms(1) by (simp_all add: acct_def)
  have un: "uncount False ?req sg = (if unlink then sg\<lparr>ns_info := plus_at (ns_index ?req) (- 1) (ns_info sg)\<rparr> else sg)" for sg
    using o by (simp add: uncount_def u upd_ns_plus ns_index_def)
  show ?thesis
    using o q assms(2)
    by (simp add: nvmf_request_complete_def uncounted_def e z has_sgroup_def nvmf_qpair_is_admin_queue_def un tailq_remove_def
        u [symmetric] Let_def) (simp add: set_outstanding_def set_req_def emit_def)
qed

lemma uncounted_acct:
  assumes a: "acct s" and rid: "rid \<in> set (out_of s)" "qpair_first_fused_req (sys_io s) \<noteq> Some rid"
  shows "acct (uncounted rid s)"
proof -
  let ?r = "ended_req (qpair s) (sys_req s rid)" and ?rs = "io_reqs (sys_io s)"
  have l: "live (sys_req s rid)" using assms by (simp add: acct_def in_flight_def)
  have c: "counted (?rs(rid := ?r)) out infos = counted ?rs out infos" for out infos
  proof -
    have "ns_index ((?rs(rid := ?r)) r) = ns_index (?rs r)" for r by simp
    then show ?thesis by (simp only: counted_def busy_def)
  qed
  have fl: "in_flight ?rs (out_of s) (queued (sgroup s)) (qpair_first_fused_req (sys_io s))"
    and ct: "counted ?rs (out_of s) (infos_of s)" using a by (simp_all add: acct_def)
  have r1: "in_flight (?rs(rid := ?r)) (remove1 rid (out_of s)) (queued (sgroup s)) (qpair_first_fused_req (sys_io s))"
    using in_flight_remove [OF fl rid(2)] fl rid(1) by (auto simp: in_flight_def)
  have r2: "in_flight (?rs(rid := ?r)) (out_of s) (queued (sgroup s)) (qpair_first_fused_req (sys_io s))"
    if "\<not> request_ended ?r"
    using zcopy_next_live [OF l, of _ "completion_rsp (qpair s) (sys_req s rid)"] fl that
    by (auto simp: in_flight_def ended_req_def)
  show ?thesis
    using a r1 r2 ct counted_remove [OF ct rid(1)] unfolding acct_def uncounted_def Let_def by (simp add: c)
qed

lemma uncounted_frame: "ns_frame s (uncounted rid s)"
  by (simp add: ns_frame_def uncounted_def Let_def)

lemma request_complete_acct:
  assumes a: "acct s" and rid: "rid \<in> set (out_of s)" "qpair_first_fused_req (sys_io s) \<noteq> Some rid"
  shows "\<exists>s'. nvmf_request_complete env rid s = Some s' \<and> acct s' \<and> ns_frame s s' \<and>
    (if request_ended (sys_req s' rid) then out_of s' = remove1 rid (out_of s) else out_of s' = out_of s) \<and>
    sys_req s' rid = ended_req (qpair s) (sys_req s rid) \<and> (\<forall>r. r \<noteq> rid \<longrightarrow> sys_req s' r = sys_req s r) \<and>
    (sg_state (sgroup s') = sg_state (sgroup s) \<or> sg_state (sgroup s') = SPDK_NVMF_SUBSYSTEM_PAUSED \<and> all_paused (sgroup s'))"
proof -
  let ?s = "uncounted rid s"
  have a': "acct ?s" by (rule uncounted_acct [OF assms])
  then have "sg_state (sgroup ?s) = SPDK_NVMF_SUBSYSTEM_PAUSING \<longrightarrow> cb_fn (sgroup ?s) \<noteq> None" by (simp add: acct_def)
  from report_pause_acct [OF this] obtain s1 where
    s1: "report_pause ?s = Some s1" "sys_io s1 = sys_io ?s" "qpair s1 = qpair ?s" "infos_of s1 = infos_of ?s"
      "queued (sgroup s1) = queued (sgroup ?s)" "mgmt_io_outstanding (sgroup s1) = mgmt_io_outstanding (sgroup ?s)"
    and p: "if pause_reached (sgroup ?s) then sg_state (sgroup s1) = SPDK_NVMF_SUBSYSTEM_PAUSED \<and> all_paused (sgroup s1)
      else s1 = ?s" by (auto split: if_splits)
  have "acct s1" using a' p unfolding acct_def s1(2-5) by (auto simp: s1 split: if_splits)
  moreover have "ns_frame s s1" using uncounted_frame [of s rid] by (simp add: ns_frame_def s1)
  moreover have "sg_state (sgroup ?s) = sg_state (sgroup s)" by (simp add: uncounted_def Let_def)
  moreover have "if request_ended (sys_req s1 rid) then out_of s1 = remove1 rid (out_of s) else out_of s1 = out_of s"
    unfolding s1(2,3) by (simp add: uncounted_def Let_def)
  moreover have "sys_req s1 rid = ended_req (qpair s) (sys_req s rid)" "\<forall>r. r \<noteq> rid \<longrightarrow> sys_req s1 r = sys_req s r"
    unfolding s1(2) by (simp_all add: uncounted_def Let_def)
  ultimately show ?thesis
    using p by (auto simp: request_complete_eq [OF a rid(1)] s1(1) acct_def ns_frame_def split: if_splits)
qed


lemma busy_bound: "busy rs out i \<le> length out"
  by (simp add: busy_def)

lemma acct_idle:
  assumes "acct s" "length (out_of s) < 2 ^ 64" "i < length (infos_of s)"
  shows "io_outstanding (infos_of s ! i) = 0 \<longleftrightarrow> busy (io_reqs (sys_io s)) (out_of s) i = 0"
proof -
  have "busy (io_reqs (sys_io s)) (out_of s) i < 2 ^ 64" using busy_bound assms(2) le_less_trans by blast
  then have "(word_of_nat (busy (io_reqs (sys_io s)) (out_of s) i) = (0 :: u64)) \<longleftrightarrow> busy (io_reqs (sys_io s)) (out_of s) i = 0"
    by (auto simp: word_of_nat_eq_0_iff dest: nat_dvd_not_less)
  then show ?thesis using assms by (simp add: acct_def counted_def)
qed

lemma all_paused_ok:
  assumes "acct s" "length (out_of s) < 2 ^ 64" "all_paused (sgroup s)" "sg_state (sgroup s) = SPDK_NVMF_SUBSYSTEM_PAUSED"
  shows "pause_ok s"
  using assms(3,4) acct_idle [OF assms(1,2)] by (auto simp: all_paused_def pause_ok_def list_all_length)

lemma ns_frame_infos:
  assumes "ns_frame s s'"
  shows "length (infos_of s') = length (infos_of s)"
    and "i < length (infos_of s) \<Longrightarrow> ni_state (infos_of s' ! i) = ni_state (infos_of s ! i)"
    and "ns_index (sys_req s' r) = ns_index (sys_req s r)"
  using assms by (auto simp: ns_frame_def ns_index_def dest: map_eq_imp_length_eq) (metis map_eq_imp_length_eq nth_map)

lemma pause_mono:
  assumes "pause_ok s" "ns_frame s s'" "sg_state (sgroup s') = sg_state (sgroup s)"
    and "\<And>i. i < length (infos_of s) \<Longrightarrow> ni_state (infos_of s ! i) = SPDK_NVMF_SUBSYSTEM_PAUSING \<Longrightarrow>
      busy (io_reqs (sys_io s')) (out_of s') i \<le> busy (io_reqs (sys_io s)) (out_of s) i"
  shows "pause_ok s'"
  using assms(1,3) assms(4) ns_frame_infos [OF assms(2)] assms(2)
  by (fastforce simp: pause_ok_def ns_frame_def)

lemma busy_frame: "ns_frame s s' \<Longrightarrow> busy (io_reqs (sys_io s')) out i = busy (io_reqs (sys_io s)) out i"
  by (simp add: busy_def ns_frame_infos(3))

lemma busy_remove: "busy rs (remove1 r out) i \<le> busy rs out i"
proof -
  have "length (remove1 r xs) \<le> length xs" for xs :: "nat list" by (simp add: length_remove1)
  then show ?thesis by (simp add: busy_def filter_remove1)
qed

lemma request_complete_inv:
  assumes inv: "sys_inv s" and rid: "rid \<in> set (out_of s)" "qpair_first_fused_req (sys_io s) \<noteq> Some rid"
  shows "\<exists>s'. nvmf_request_complete env rid s = Some s' \<and> sys_inv s' \<and> ns_frame s s' \<and>
    (\<forall>r. r \<noteq> rid \<longrightarrow> sys_req s' r = sys_req s r) \<and> sys_req s' rid = ended_req (qpair s) (sys_req s rid) \<and>
    (if request_ended (sys_req s' rid) then out_of s' = remove1 rid (out_of s) else out_of s' = out_of s) \<and>
    (sg_state (sgroup s') = sg_state (sgroup s) \<or> sg_state (sgroup s') = SPDK_NVMF_SUBSYSTEM_PAUSED \<and> all_paused (sgroup s'))"
proof -
  have a: "acct s" using inv by (simp add: sys_inv_def)
  from request_complete_acct [OF a rid] obtain s' where
    s': "nvmf_request_complete env rid s = Some s'" "acct s'" "ns_frame s s'"
      "if request_ended (sys_req s' rid) then out_of s' = remove1 rid (out_of s) else out_of s' = out_of s"
      "\<forall>r. r \<noteq> rid \<longrightarrow> sys_req s' r = sys_req s r" "sys_req s' rid = ended_req (qpair s) (sys_req s rid)"
      "sg_state (sgroup s') = sg_state (sgroup s) \<or> sg_state (sgroup s') = SPDK_NVMF_SUBSYSTEM_PAUSED \<and> all_paused (sgroup s')"
    by blast
  have q: "queued (sgroup s') = queued (sgroup s)" using s'(3) by (simp add: ns_frame_def)
  have len: "length (out_of s') \<le> length (out_of s)" using s'(4) by (auto simp: length_remove1 split: if_splits)
  then have b: "length (out_of s') + length (queued (sgroup s')) < 2 ^ 32" using inv q by (simp add: sys_inv_def)
  have "pause_ok s'"
    using s'(7)
  proof
    assume "sg_state (sgroup s') = sg_state (sgroup s)"
    then show ?thesis
      using inv s'(3,4) busy_remove by (intro pause_mono [OF _ s'(3)]) (auto simp: sys_inv_def busy_frame split: if_splits)
  next
    assume "sg_state (sgroup s') = SPDK_NVMF_SUBSYSTEM_PAUSED \<and> all_paused (sgroup s')"
    then show ?thesis using b by (intro all_paused_ok [OF s'(2)]) simp_all
  qed
  moreover have "rid \<notin> set (queued (sgroup s))" using a rid(1) by (auto simp: acct_def in_flight_def)
  then have "list_all (\<lambda>r. fresh_req (sys_req s' r)) (queued (sgroup s'))"
    using inv s'(5) by (auto simp: sys_inv_def q list_all_iff)
  ultimately have "sys_inv s'" using s'(2) b by (simp add: sys_inv_def)
  with s' show ?thesis by blast
qed


subsection \<open>Execution keeps the accounts\<close>

definition arriving :: "nat \<Rightarrow> nvmf_sys \<Rightarrow> bool" where
  "arriving rid s \<longleftrightarrow> rid \<notin> set (out_of s @ queued (sgroup s)) \<and> fresh_req (sys_req s rid) \<and>
     length (out_of s) + length (queued (sgroup s)) < 2 ^ 32 - 1"

abbreviation started :: "nat \<Rightarrow> nvmf_sys \<Rightarrow> nvmf_sys" where
  "started rid s \<equiv> admit rid (count_io (ns_index (sys_req s rid)) s)"

lemma count_io_simps [simp]:
  "sys_io (count_io i s) = sys_io s" "qpair (count_io i s) = qpair s"
  "sgroup (count_io i s) = (sgroup s)\<lparr>ns_info := plus_at i 1 (infos_of s)\<rparr>"
  by (simp_all add: count_io_def upd_ns_plus)

lemma admit_simps [simp]:
  "sys_io (admit rid s) = sys_io s" "sgroup (admit rid s) = sgroup s"
  "qpair (admit rid s) = (qpair s)\<lparr>outstanding := out_of s @ [rid]\<rparr>"
  by (simp_all add: admit_def)

lemma started_acct:
  assumes "sys_inv s" "arriving rid s"
  shows "acct (started rid s)"
  using assms counted_admit [of "io_reqs (sys_io s)" "out_of s" "infos_of s" rid]
    in_flight_admit [of "io_reqs (sys_io s)" "out_of s" "queued (sgroup s)" "qpair_first_fused_req (sys_io s)" rid]
  by (simp add: sys_inv_def acct_def arriving_def fresh_req_def)

lemma acct_io:
  assumes "acct s" "\<And>r. same_cmd (sys_req s r) (io_reqs io r)"
    and "case qpair_first_fused_req io of None \<Rightarrow> True | Some f \<Rightarrow> f \<in> set (out_of s)"
  shows "acct (s\<lparr>sys_io := io\<rparr>)"
proof -
  have "in_flight (io_reqs io) (out_of s) (queued (sgroup s)) (qpair_first_fused_req (sys_io s))"
    using assms(1) by (intro in_flight_same [OF _ assms(2)]) (simp add: acct_def)
  then have "in_flight (io_reqs io) (out_of s) (queued (sgroup s)) (qpair_first_fused_req io)"
    using assms(3) by (simp add: in_flight_def)
  then show ?thesis using assms(1) counted_same [OF _ assms(2)] by (simp add: acct_def)
qed

lemma acct_upd: "acct s \<Longrightarrow> same_cmd (sys_req s rid) req \<Longrightarrow> acct (set_req rid req s)"
  unfolding set_req_def by (rule acct_io) (auto simp: acct_def in_flight_def)

text \<open>What a new request does to the namespaces and the queue: it may be queued when its namespace is not active.\<close>

definition exec_frame :: "nat \<Rightarrow> nvmf_sys \<Rightarrow> nvmf_sys \<Rightarrow> bool" where
  "exec_frame rid s s' \<longleftrightarrow> map ni_state (infos_of s') = map ni_state (infos_of s) \<and>
     (queued (sgroup s') = queued (sgroup s) \<or>
      queued (sgroup s') = queued (sgroup s) @ [rid] \<and>
      list_ex (\<lambda>n. ni_state n \<noteq> SPDK_NVMF_SUBSYSTEM_ACTIVE) (infos_of s))"

lemma ns_frame_exec: "ns_frame s s' \<Longrightarrow> exec_frame rid s s'"
  by (simp add: ns_frame_def exec_frame_def)

text \<open>A request that fails at once leaves the accounts as they were.\<close>

lemma fail_now_inv:
  assumes inv: "sys_inv s" and arr: "arriving rid s" and err: "\<And>c. spdk_nvme_cpl_is_error (f c)"
  shows "\<exists>s'. fail_now env f rid (count_io (ns_index (sys_req s rid)) s) = Some s' \<and> sys_inv s' \<and> exec_frame rid s s'"
proof -
  let ?c = "count_io (ns_index (sys_req s rid)) s"
  let ?t = "admit rid (set_req rid (upd_rsp f (sys_req s rid)) ?c)"
  have t: "?t = set_req rid (upd_rsp f (sys_req s rid)) (started rid s)"
    by (simp add: admit_def set_req_def set_outstanding_def)
  have "acct ?t" unfolding t by (rule acct_upd [OF started_acct [OF inv arr]]) simp
  moreover have "rid \<in> set (out_of ?t)" by simp
  moreover have nf: "qpair_first_fused_req (sys_io s) \<noteq> Some rid"
    using inv arr by (auto simp: sys_inv_def acct_def in_flight_def arriving_def)
  ultimately obtain s' where
    s': "nvmf_request_complete env rid ?t = Some s'" "acct s'" "ns_frame ?t s'"
      "if request_ended (sys_req s' rid) then out_of s' = remove1 rid (out_of ?t) else out_of s' = out_of ?t"
      "sys_req s' rid = ended_req (qpair ?t) (sys_req ?t rid)" "\<forall>r. r \<noteq> rid \<longrightarrow> sys_req s' r = sys_req ?t r"
      "sg_state (sgroup s') = sg_state (sgroup ?t) \<or> sg_state (sgroup s') = SPDK_NVMF_SUBSYSTEM_PAUSED \<and> all_paused (sgroup s')"
    using request_complete_acct [of ?t rid env] by auto
  have "spdk_nvme_cpl_is_error (completion_rsp qp (upd_rsp f req))" for qp req
    using err [of "rsp req"] by (simp add: completion_rsp_def Let_def spdk_nvme_cpl_is_error_def)
  then have "request_ended (sys_req s' rid)"
    using arr by (auto simp: s'(5) ended_req_def request_ended_def arriving_def fresh_req_def)
  then have out: "out_of s' = out_of s" using s'(4) arr by (auto simp: arriving_def remove1_append)
  have fr: "ns_frame s s'" using s'(3) by (auto simp: ns_frame_def)
  have q: "queued (sgroup s') = queued (sgroup s)" using fr by (simp add: ns_frame_def)
  have b: "length (out_of s') + length (queued (sgroup s')) < 2 ^ 32" using inv out q by (simp add: sys_inv_def)
  have "pause_ok s'"
    using s'(7)
  proof
    assume "sg_state (sgroup s') = sg_state (sgroup ?t)"
    then show ?thesis
      using inv by (intro pause_mono [OF _ fr]) (simp_all add: sys_inv_def out busy_frame [OF fr])
  next
    assume "sg_state (sgroup s') = SPDK_NVMF_SUBSYSTEM_PAUSED \<and> all_paused (sgroup s')"
    then show ?thesis using b by (intro all_paused_ok [OF s'(2)]) simp_all
  qed
  moreover have "sys_req s' r = sys_req s r" if "r \<in> set (queued (sgroup s))" for r
    using that arr s'(6) by (cases "r = rid") (simp_all add: arriving_def)
  then have "list_all (\<lambda>r. fresh_req (sys_req s' r)) (queued (sgroup s'))"
    using inv by (simp add: sys_inv_def q list_all_iff)
  ultimately have "sys_inv s'" using s'(2) b by (simp add: sys_inv_def)
  moreover have "fail_now env f rid ?c = Some s'" using s'(1) by (simp add: fail_now_def)
  ultimately show ?thesis using ns_frame_exec [OF fr] by blast
qed

text \<open>A request for an active namespace, or none of this group, may start.\<close>

lemma started_inv:
  assumes inv: "sys_inv s" and arr: "arriving rid s"
    and ns: "ns_index (sys_req s rid) < length (infos_of s)"
      "ni_state (infos_of s ! ns_index (sys_req s rid)) = SPDK_NVMF_SUBSYSTEM_ACTIVE"
  shows "sys_inv (started rid s)"
proof -
  have fr: "ns_frame s (started rid s)" by (simp add: ns_frame_def)
  have other: "busy rs (out @ [rid]) i = busy rs out i" if "ns_index (rs rid) \<noteq> i" for rs out i
    using that by (simp add: busy_def)
  have p: "pause_ok s" using inv by (simp add: sys_inv_def)
  have "pause_ok (started rid s)"
  proof (rule pause_mono [OF p fr])
    fix i
    assume "ni_state (infos_of s ! i) = SPDK_NVMF_SUBSYSTEM_PAUSING"
    then have "ns_index (sys_req s rid) \<noteq> i" using ns(2) by auto
    then show "busy (io_reqs (sys_io (started rid s))) (out_of (started rid s)) i \<le> busy (io_reqs (sys_io s)) (out_of s) i"
      by (simp add: other)
  qed simp
  moreover have "length (out_of (started rid s)) + length (queued (sgroup (started rid s))) < 2 ^ 32"
    using arr by (simp add: arriving_def)
  ultimately show ?thesis using started_acct [OF inv arr] inv by (simp add: sys_inv_def)
qed

lemma enqueue_frame:
  "i < length (infos_of s) \<Longrightarrow> ni_state (infos_of s ! i) \<noteq> SPDK_NVMF_SUBSYSTEM_ACTIVE \<Longrightarrow> exec_frame rid s (enqueue rid s)"
  by (auto simp: exec_frame_def enqueue_def list_ex_length)

lemma enqueue_inv: "sys_inv s \<Longrightarrow> arriving rid s \<Longrightarrow> sys_inv (enqueue rid s)"
  by (auto simp: sys_inv_def acct_def enqueue_def arriving_def pause_ok_def fresh_req_def intro: in_flight_enqueue)


lemma sys_inv_io:
  assumes "sys_inv s" "\<And>r. same_cmd (sys_req s r) (io_reqs io r)"
    and "case qpair_first_fused_req io of None \<Rightarrow> True | Some f \<Rightarrow> f \<in> set (out_of s)"
  shows "sys_inv (s\<lparr>sys_io := io\<rparr>)"
proof -
  have "busy (io_reqs io) out i = busy (io_reqs (sys_io s)) out i" for out i
    using same_cmd_keeps(1) [OF assms(2)] by (simp add: busy_def)
  moreover have "fresh_req (io_reqs io r) = fresh_req (sys_req s r)" for r
    using assms(2) [of r] same_cmd_keeps(2) [OF assms(2)] by (simp add: fresh_req_def same_cmd_def)
  ultimately show ?thesis
    using assms(1) acct_io [OF _ assms(2,3)] by (simp add: sys_inv_def pause_ok_def)
qed

lemma exec_io_inv:
  assumes inv: "sys_inv t" and rid: "rid \<in> set (out_of t)" "qpair_first_fused_req (sys_io t) \<noteq> Some rid"
    and run: "exec_io_cmd env rid t = Some (st, t')"
  shows "sys_inv t' \<and> exec_frame rid t t' \<and> rid \<in> set (out_of t') \<and>
    (st = SPDK_NVMF_REQUEST_EXEC_STATUS_COMPLETE \<longrightarrow> qpair_first_fused_req (sys_io t') \<noteq> Some rid)"
proof -
  let ?io = "(sys_io t)\<lparr>io_events := []\<rparr>"
  obtain ctrlr io' where p: "nvmf_ctrlr_process_io_cmd (env_alloc env) ctrlr (\<lambda>i. ns_info (sgroup t) ! i) rid ?io = Some (st, io')"
    and r: "replay env (io_events io') (t\<lparr>sys_io := io'\<lparr>io_events := []\<rparr>\<rparr>) = Some t'"
    using run by (auto simp: exec_io_cmd_def bind_eq_Some_conv split: option.splits)
  let ?u = "t\<lparr>sys_io := io'\<lparr>io_events := []\<rparr>\<rparr>"
  have "traced rid ?io (Some (st, io'))" using process_io_cmd_traced [of rid ?io "env_alloc env"] p by metis
  then have sc: "\<And>r. same_cmd (sys_req t r) (io_reqs (io'\<lparr>io_events := []\<rparr>) r)"
    and fn: "fused_next (qpair_first_fused_req (sys_io t)) rid st (io_events io') (qpair_first_fused_req io')"
    by (simp_all add: traced_def)
  have first: "f \<in> set (out_of t)" if "qpair_first_fused_req (sys_io t) = Some f" for f
    using inv that by (simp add: sys_inv_def acct_def in_flight_def)
  have u: "sys_inv ?u"
    using fn first rid(1) by (intro sys_inv_io [OF inv sc]) (auto simp: fused_next_def split: option.splits)
  have nr: "st = SPDK_NVMF_REQUEST_EXEC_STATUS_COMPLETE \<longrightarrow> qpair_first_fused_req io' \<noteq> Some rid"
    using fn rid(2) by (auto simp: fused_next_def)
  show ?thesis
  proof (cases "io_events io' = []")
    case True
    with r u rid(1) nr show ?thesis by (auto simp: exec_frame_def)
  next
    case False
    with fn obtain f c where f: "qpair_first_fused_req (sys_io t) = Some f" "io_events io' = [Request_Complete f c]"
      by (auto simp: fused_next_def)
    then have "f \<noteq> rid" "f \<in> set (out_of ?u)" "qpair_first_fused_req (sys_io ?u) \<noteq> Some f"
      using rid(2) first fn by (auto simp: fused_next_def)
    with request_complete_inv [OF u this(2,3), of env] r f(2) rid(1) nr show ?thesis
      by (auto simp: ns_frame_def exec_frame_def bind_eq_Some_conv split: if_splits)
  qed
qed

lemma check_error_simps [simp]:
  "spdk_nvme_cpl_is_error (invalid_ns c)" "spdk_nvme_cpl_is_error (set_generic SPDK_NVME_SC_COMMAND_SEQUENCE_ERROR c)"
  "spdk_nvme_cpl_is_error (set_status (sct_code SPDK_NVME_SCT_COMMAND_SPECIFIC) 0x91 c)"
  by (simp_all add: invalid_ns_def spdk_nvme_cpl_is_error_def set_dnr_def)

lemma check_subsystem_cases:
  assumes inv: "sys_inv s" and arr: "arriving rid s" and c: "nvmf_check_subsystem_active env rid s = Some x"
  shows "(\<exists>s'. x = Dealt_With s' \<and> sys_inv s' \<and> exec_frame rid s s') \<or>
    x = Go_On (count_io (ns_index (sys_req s rid)) s) \<and> ns_index (sys_req s rid) < length (infos_of s) \<and>
    ni_state (infos_of s ! ns_index (sys_req s rid)) = SPDK_NVMF_SUBSYSTEM_ACTIVE"
proof -
  let ?i = "ns_index (sys_req s rid)"
  have io: "has_sgroup env s rid" "\<not> nvmf_qpair_is_admin_queue (qpair s)" "opc (req_cmd (sys_req s rid)) \<noteq> SPDK_NVME_OPC_FABRIC"
    using inv arr by (auto simp: sys_inv_def acct_def has_sgroup_def nvmf_qpair_is_admin_queue_def arriving_def fresh_req_def live_def)
  obtain s' where f: "fail_now env invalid_ns rid (count_io ?i s) = Some s'" "sys_inv s'" "exec_frame rid s s'"
    using fail_now_inv [OF inv arr, of invalid_ns env] by auto
  have "count_io ?i s = s" if "length (infos_of s) \<le> ?i" using that by (simp add: count_io_def upd_ns_def)
  then show ?thesis
    using c io f enqueue_inv [OF inv arr] enqueue_frame [of ?i s rid]
    by (auto simp: nvmf_check_subsystem_active_def Let_def ns_index_def [symmetric] split: if_splits)
qed

lemma check_qpair_cases:
  assumes inv: "sys_inv s" and arr: "arriving rid s"
    and c: "nvmf_check_qpair_active env rid (count_io (ns_index (sys_req s rid)) s) = Some x"
  shows "(\<exists>s'. x = Dealt_With s' \<and> sys_inv s' \<and> exec_frame rid s s') \<or> x = Go_On (count_io (ns_index (sys_req s rid)) s)"
proof -
  let ?c = "count_io (ns_index (sys_req s rid)) s"
  obtain s1 where 1: "fail_now env (set_generic SPDK_NVME_SC_COMMAND_SEQUENCE_ERROR) rid ?c = Some s1" "sys_inv s1 \<and> exec_frame rid s s1"
    using fail_now_inv [OF inv arr, of "set_generic SPDK_NVME_SC_COMMAND_SEQUENCE_ERROR", OF check_error_simps(2)] by blast
  obtain s2 where 2: "fail_now env (set_status (sct_code SPDK_NVME_SCT_COMMAND_SPECIFIC) 0x91) rid ?c = Some s2" "sys_inv s2 \<and> exec_frame rid s s2"
    using fail_now_inv [OF inv arr, of "set_status (sct_code SPDK_NVME_SCT_COMMAND_SPECIFIC) 0x91", OF check_error_simps(3)] by blast
  show ?thesis
    using c unfolding nvmf_check_qpair_active_def Let_def 1 2 using 1(2) 2(2)
    by (auto split: spdk_nvmf_qpair_state.splits if_splits)
qed

lemma request_exec_inv:
  assumes inv: "sys_inv s" and arr: "arriving rid s" and e: "spdk_nvmf_request_exec env rid s = Some s'"
  shows "sys_inv s' \<and> exec_frame rid s s'"
proof -
  let ?c = "count_io (ns_index (sys_req s rid)) s"
  obtain x where x: "nvmf_check_subsystem_active env rid s = Some x"
    using e by (cases "nvmf_check_subsystem_active env rid s") (auto simp: spdk_nvmf_request_exec_def go_on_def)
  from check_subsystem_cases [OF inv arr x] show ?thesis
  proof (elim disjE exE conjE)
    fix s1 assume "x = Dealt_With s1" "sys_inv s1" "exec_frame rid s s1"
    with e x show ?thesis by (simp add: spdk_nvmf_request_exec_def go_on_def)
  next
    assume go: "x = Go_On ?c" and ns: "ns_index (sys_req s rid) < length (infos_of s)"
      "ni_state (infos_of s ! ns_index (sys_req s rid)) = SPDK_NVMF_SUBSYSTEM_ACTIVE"
    obtain y where y: "nvmf_check_qpair_active env rid ?c = Some y"
      using e x go by (cases "nvmf_check_qpair_active env rid ?c") (auto simp: spdk_nvmf_request_exec_def go_on_def)
    from check_qpair_cases [OF inv arr y] show ?thesis
    proof (elim disjE exE conjE)
      fix s1 assume "y = Dealt_With s1" "sys_inv s1" "exec_frame rid s s1"
      with e x go y show ?thesis by (simp add: spdk_nvmf_request_exec_def go_on_def)
    next
      assume "y = Go_On ?c"
      moreover have io: "opc (req_cmd (sys_req s rid)) \<noteq> SPDK_NVME_OPC_FABRIC" "\<not> nvmf_qpair_is_admin_queue (qpair (started rid s))"
        using inv arr by (auto simp: sys_inv_def acct_def nvmf_qpair_is_admin_queue_def arriving_def fresh_req_def live_def)
      ultimately obtain st t where t: "exec_io_cmd env rid (started rid s) = Some (st, t)"
        "(if st = SPDK_NVMF_REQUEST_EXEC_STATUS_COMPLETE then nvmf_request_complete env rid t else Some t) = Some s'"
        using e x go y by (auto simp: spdk_nvmf_request_exec_def go_on_def bind_eq_Some_conv Let_def)
      have "sys_inv (started rid s)" by (rule started_inv [OF inv arr ns])
      moreover have "qpair_first_fused_req (sys_io (started rid s)) \<noteq> Some rid"
        using inv arr by (auto simp: sys_inv_def acct_def in_flight_def arriving_def)
      ultimately have t': "sys_inv t" "exec_frame rid (started rid s) t" "rid \<in> set (out_of t)"
        "st = SPDK_NVMF_REQUEST_EXEC_STATUS_COMPLETE \<longrightarrow> qpair_first_fused_req (sys_io t) \<noteq> Some rid"
        using exec_io_inv [OF _ _ _ t(1)] by auto
      have "exec_frame rid s t" using t'(2) ns by (auto simp: exec_frame_def list_ex_length)
      with t(2) t' request_complete_inv [of t rid env] show ?thesis
        by (auto simp: ns_frame_def exec_frame_def split: if_splits)
    qed
  qed
qed


subsection \<open>Pausing and resuming keep the accounts\<close>

lemma mod_done_simps [simp]:
  "sys_io (mod_done fn rc s) = sys_io s" "qpair (mod_done fn rc s) = qpair s" "sgroup (mod_done fn rc s) = sgroup s"
  by (simp_all add: mod_done_def split: option.splits)

lemma sys_inv_mod_done [simp]: "sys_inv (mod_done fn rc s) = sys_inv s"
  by (simp add: sys_inv_def acct_def pause_ok_def)

lemma pausing_ns_simps [simp]:
  "length (ns_info (pausing_ns nid sg)) = length (ns_info sg)"
  "queued (pausing_ns nid sg) = queued sg" "sg_state (pausing_ns nid sg) = sg_state sg"
  "mgmt_io_outstanding (pausing_ns nid sg) = mgmt_io_outstanding sg"
  "i < length (ns_info sg) \<Longrightarrow> io_outstanding (ns_info (pausing_ns nid sg) ! i) = io_outstanding (ns_info sg ! i)"
  by (auto simp: pausing_ns_def upd_ns_def nth_list_update)

lemma pausing_ns_state:
  "i < length (ns_info sg) \<Longrightarrow> ni_state (ns_info (pausing_ns nid sg) ! i) = SPDK_NVMF_SUBSYSTEM_PAUSING \<longleftrightarrow>
     nid = SPDK_NVME_GLOBAL_NS_TAG \<or> i = unat (nid - 1) \<or> ni_state (ns_info sg ! i) = SPDK_NVMF_SUBSYSTEM_PAUSING"
  by (auto simp: pausing_ns_def upd_ns_def nth_list_update)

lemma pause_inv:
  assumes inv: "sys_inv s" and st: "sg_state (sgroup s) \<noteq> SPDK_NVMF_SUBSYSTEM_PAUSING"
  shows "sys_inv (nvmf_poll_group_pause_subsystem nid (Some c) s)"
proof (cases "sg_state (sgroup s) = SPDK_NVMF_SUBSYSTEM_PAUSED")
  case True
  with inv show ?thesis by (simp add: nvmf_poll_group_pause_subsystem_def)
next
  case False
  let ?sg = "pausing_ns nid ((sgroup s)\<lparr>sg_state := SPDK_NVMF_SUBSYSTEM_PAUSING\<rparr>)"
  have b: "length (out_of s) < 2 ^ 64" "acct s" using inv by (simp_all add: sys_inv_def)
  have ct: "counted (io_reqs (sys_io s)) (out_of s) (ns_info ?sg)"
    using b(2) by (simp add: acct_def counted_def)
  show ?thesis
  proof (cases "pause_waits nid ?sg")
    case True
    with False inv ct show ?thesis
      by (simp add: nvmf_poll_group_pause_subsystem_def Let_def sys_inv_def acct_def pause_ok_def)
  next
    case w: False
    have other: "ni_state (infos_of s ! i) \<noteq> SPDK_NVMF_SUBSYSTEM_PAUSING" if "i < length (infos_of s)" for i
      using inv st False that by (auto simp: sys_inv_def pause_ok_def)
    have "busy (io_reqs (sys_io s)) (out_of s) i = 0"
      if "i < length (infos_of s)" "ni_state (ns_info ?sg ! i) = SPDK_NVMF_SUBSYSTEM_PAUSING" for i
    proof -
      have "io_outstanding (infos_of s ! i) = 0"
        using w that other [OF that(1)] by (auto simp: pause_waits_def pausing_ns_state list_ex_length word_gt_0 split: if_splits)
      then show ?thesis using acct_idle [OF b(2,1) that(1)] by simp
    qed
    moreover have "mgmt_io_outstanding (sgroup s) = 0" using w by (auto simp: pause_waits_def word_gt_0)
    ultimately show ?thesis
      using False w inv ct
      by (simp add: nvmf_poll_group_pause_subsystem_def Let_def) (simp add: sys_inv_def acct_def pause_ok_def)
  qed
qed

abbreviation all_active :: "nvmf_sys \<Rightarrow> bool" where
  "all_active s \<equiv> \<forall>st\<in>set (map ni_state (infos_of s)). st = SPDK_NVMF_SUBSYSTEM_ACTIVE"

lemma exec_frame_active: "exec_frame rid s s' \<Longrightarrow> all_active s \<Longrightarrow> all_active s' \<and> queued (sgroup s') = queued (sgroup s)"
  by (auto simp: exec_frame_def list_ex_iff)

lemma dequeue_inv:
  assumes inv: "sys_inv s" and q: "queued (sgroup s) = rid # rest"
  shows "sys_inv (s\<lparr>sgroup := (sgroup s)\<lparr>queued := rest\<rparr>\<rparr>)" "arriving rid (s\<lparr>sgroup := (sgroup s)\<lparr>queued := rest\<rparr>\<rparr>)"
  using inv in_flight_dequeue [of "io_reqs (sys_io s)" "out_of s" rid rest "qpair_first_fused_req (sys_io s)"]
  by (auto simp: sys_inv_def acct_def pause_ok_def arriving_def q)

lemma release_queued_inv:
  "sys_inv s \<Longrightarrow> all_active s \<Longrightarrow> queued (sgroup s) = rids \<Longrightarrow> release_queued env rids s = Some s' \<Longrightarrow>
     sys_inv s' \<and> queued (sgroup s') = []"
proof (induction rids arbitrary: s)
  case (Cons rid rids)
  let ?s1 = "s\<lparr>sgroup := (sgroup s)\<lparr>queued := rids\<rparr>\<rparr>"
  let ?z = "(sys_req ?s1 rid)\<lparr>iov := take NVMF_REQ_MAX_BUFFERS (iov (sys_req ?s1 rid) @ replicate NVMF_REQ_MAX_BUFFERS [])\<rparr>"
  note d = dequeue_inv [OF Cons.prems(1,3)]
  have z: "sys_inv (set_req rid ?z ?s1)" "arriving rid (set_req rid ?z ?s1)"
  proof -
    show "sys_inv (set_req rid ?z ?s1)"
      unfolding set_req_def by (rule sys_inv_io [OF d(1)]) (use d(1) in \<open>auto simp: sys_inv_def acct_def in_flight_def split: option.splits\<close>)
    show "arriving rid (set_req rid ?z ?s1)" using d(2) by (simp add: arriving_def fresh_req_def live_def)
  qed
  obtain s2 where s2: "release_queued env rids s2 = Some s'"
    "spdk_nvmf_request_exec env rid ?s1 = Some s2 \<or> spdk_nvmf_request_exec env rid (set_req rid ?z ?s1) = Some s2"
    using Cons.prems(3,4) by (auto simp: bind_eq_Some_conv spdk_nvmf_request_zcopy_start_def Let_def split: if_splits)
  then have "sys_inv s2 \<and> (exec_frame rid ?s1 s2 \<or> exec_frame rid (set_req rid ?z ?s1) s2)"
    using request_exec_inv [OF d] request_exec_inv [OF z] by blast
  then have "sys_inv s2" "all_active s2" "queued (sgroup s2) = rids"
    using exec_frame_active [of rid ?s1 s2] exec_frame_active [of rid "set_req rid ?z ?s1" s2] Cons.prems(2) by auto
  then show ?case using Cons.IH s2(1) by blast
qed simp

lemma resume_inv:
  assumes inv: "sys_inv s" and st: "sg_state (sgroup s) = SPDK_NVMF_SUBSYSTEM_PAUSED"
    and upd: "poll_group_update_subsystem env (sgroup s) = (0, sgroup s)"
    and r: "nvmf_poll_group_resume_subsystem env fn s = Some s'"
  shows "sys_inv s' \<and> queued (sgroup s') = []"
proof -
  let ?sg = "(sgroup s)\<lparr>ns_info := map (\<lambda>n. n\<lparr>ni_state := SPDK_NVMF_SUBSYSTEM_ACTIVE\<rparr>) (infos_of s), sg_state := SPDK_NVMF_SUBSYSTEM_ACTIVE\<rparr>"
  have "sys_inv (s\<lparr>sgroup := ?sg\<rparr>)"
    using inv by (auto simp: sys_inv_def acct_def pause_ok_def counted_def)
  moreover have "all_active (s\<lparr>sgroup := ?sg\<rparr>)" by auto
  moreover obtain s1 where "release_queued env (queued (sgroup s)) (s\<lparr>sgroup := ?sg\<rparr>) = Some s1" "s' = mod_done fn 0 s1"
    using r st upd by (auto simp: nvmf_poll_group_resume_subsystem_def Let_def)
  ultimately show ?thesis using release_queued_inv [of "s\<lparr>sgroup := ?sg\<rparr>" "queued (sgroup s)" env s1] by simp
qed

subsection \<open>Reachable states\<close>

text \<open>
  Requests arrive, complete, end their zero-copy phase; the subsystem pauses and resumes. A completion callback may
  have changed the response, the buffers and the thread, not the command. The poll group has nothing to update on
  resume, and a pause is not requested again while one is pending.
\<close>

inductive sys_step :: "exec_env \<Rightarrow> nvmf_sys \<Rightarrow> nvmf_sys \<Rightarrow> bool" for env where
  Arrive: "arriving rid (set_req rid req s) \<Longrightarrow> spdk_nvmf_request_exec env rid (set_req rid req s) = Some s' \<Longrightarrow> sys_step env s s'"
| Finish: "rid \<in> set (out_of s) \<Longrightarrow> qpair_first_fused_req (sys_io s) \<noteq> Some rid \<Longrightarrow> same_cmd (sys_req s rid) req \<Longrightarrow>
    nvmf_request_complete env rid (s\<lparr>sys_io := (put_req rid req (sys_io s))\<lparr>io_th := th\<rparr>\<rparr>) = Some s' \<Longrightarrow> sys_step env s s'"
| Zcopy_End: "rid \<in> set (out_of s) \<Longrightarrow> zcopy_phase (sys_req s rid) = NVMF_ZCOPY_PHASE_EXECUTE \<Longrightarrow>
    spdk_nvmf_request_zcopy_end rid commit s = Some s' \<Longrightarrow> sys_step env s s'"
| Pause: "sg_state (sgroup s) \<noteq> SPDK_NVMF_SUBSYSTEM_PAUSING \<Longrightarrow>
    sys_step env s (nvmf_poll_group_pause_subsystem nid (Some fn) s)"
| Resume: "sg_state (sgroup s) = SPDK_NVMF_SUBSYSTEM_PAUSED \<Longrightarrow>
    poll_group_update_subsystem env (sgroup s) = (0, sgroup s) \<Longrightarrow>
    nvmf_poll_group_resume_subsystem env fn' s = Some s' \<Longrightarrow> sys_step env s s'"

definition sys_init :: "nvmf_sys \<Rightarrow> bool" where
  "sys_init s \<longleftrightarrow> qid (qpair s) \<noteq> 0 \<and> qp_ctrlr (qpair s) \<noteq> None \<and> out_of s = [] \<and> queued (sgroup s) = [] \<and>
     qpair_first_fused_req (sys_io s) = None \<and> sg_state (sgroup s) = SPDK_NVMF_SUBSYSTEM_ACTIVE \<and>
     list_all (\<lambda>n. ni_state n = SPDK_NVMF_SUBSYSTEM_ACTIVE \<and> io_outstanding n = 0) (infos_of s)"

lemma sys_init_inv: "sys_init s \<Longrightarrow> sys_inv s"
  by (simp add: sys_init_def sys_inv_def acct_def pause_ok_def counted_def in_flight_def busy_def list_all_length)

lemma arrive_inv:
  assumes inv: "sys_inv s" and new: "rid \<notin> set (out_of s @ queued (sgroup s))"
  shows "sys_inv (set_req rid req s)"
proof -
  let ?rs = "io_reqs (sys_io s)" and ?rs' = "(io_reqs (sys_io s))(rid := req)"
  have same: "?rs' r = ?rs r" if "r \<in> set (out_of s @ queued (sgroup s))" for r using that new by auto
  have "filter (\<lambda>r. ns_index (?rs' r) = i) (out_of s) = filter (\<lambda>r. ns_index (?rs r) = i) (out_of s)" for i
    by (rule filter_cong) (use new in auto)
  then have "busy ?rs' (out_of s) i = busy ?rs (out_of s) i" for i by (simp only: busy_def)
  moreover have "in_flight ?rs' (out_of s) (queued (sgroup s)) first = in_flight ?rs (out_of s) (queued (sgroup s)) first" for first
    unfolding in_flight_def using same by (metis (no_types, lifting))
  moreover have "list_all (\<lambda>r. fresh_req (?rs' r)) (queued (sgroup s)) = list_all (\<lambda>r. fresh_req (?rs r)) (queued (sgroup s))"
    by (rule list.pred_cong) (use new in auto)
  ultimately show ?thesis
    using inv by (simp add: sys_inv_def acct_def pause_ok_def counted_def)
qed

lemma zcopy_end_inv:
  assumes inv: "sys_inv s" and rid: "rid \<in> set (out_of s)"
    and e: "spdk_nvmf_request_zcopy_end rid commit s = Some s'"
  shows "sys_inv s'"
proof -
  let ?req = "(sys_req s rid)\<lparr>zcopy_phase := NVMF_ZCOPY_PHASE_END_PENDING\<rparr>" and ?rs = "io_reqs (sys_io s)"
  obtain th where s': "s' = s\<lparr>sys_io := (put_req rid ?req (sys_io s))\<lparr>io_th := th\<rparr>\<rparr>"
    using e by (auto simp: spdk_nvmf_request_zcopy_end_def Let_def split: option.splits)
  have "ns_index ((?rs(rid := ?req)) r) = ns_index (?rs r)" for r by (simp add: ns_index_def)
  then have "busy (?rs(rid := ?req)) out i = busy ?rs out i" for out i by (simp only: busy_def)
  moreover have "live ?req" using inv rid by (auto simp: sys_inv_def acct_def in_flight_def live_def)
  moreover have "rid \<notin> set (queued (sgroup s))" using inv rid by (auto simp: sys_inv_def acct_def in_flight_def)
  ultimately show ?thesis
    using inv by (auto simp: s' sys_inv_def acct_def pause_ok_def counted_def in_flight_def list_all_iff)
qed

lemma sys_step_inv: "sys_step env s s' \<Longrightarrow> sys_inv s \<Longrightarrow> sys_inv s'"
proof (induction rule: sys_step.induct)
  case (Arrive rid req s s')
  then have "sys_inv (set_req rid req s)" by (intro arrive_inv) (simp_all add: arriving_def)
  with Arrive show ?case using request_exec_inv by blast
next
  case (Finish rid s req th s')
  let ?io = "(put_req rid req (sys_io s))\<lparr>io_th := th\<rparr>"
  have "sys_inv (s\<lparr>sys_io := ?io\<rparr>)"
    using Finish by (intro sys_inv_io) (auto simp: sys_inv_def acct_def in_flight_def split: option.splits)
  with Finish request_complete_inv [of "s\<lparr>sys_io := ?io\<rparr>" rid env] show ?case by auto
next
  case (Zcopy_End rid s commit s')
  then show ?case using zcopy_end_inv by blast
next
  case (Pause s nid fn)
  then show ?case by (simp add: pause_inv)
next
  case (Resume s fn' s')
  then show ?case using resume_inv by blast
qed

lemma reachable_inv: "(sys_step env)\<^sup>*\<^sup>* s0 s \<Longrightarrow> sys_init s0 \<Longrightarrow> sys_inv s"
  by (induction rule: rtranclp_induct) (auto intro: sys_init_inv sys_step_inv)

end
