(* ===== verification/Reservation.thy ===== *)
theory Reservation
  imports Ctrlr
begin

section \<open>Reservation commands (\<open>lib/nvmf/subsystem.c\<close>)\<close>

text \<open>
  The hosts registered with a namespace and the reservation one of them holds: the commands register, acquire, release
  and report, the record kept through a power loss, and the copy of the reservation each poll group checks commands
  against (\<open>nvmf.c\<close>). A registrant is a node of a linked list; its address \<open>r_ptr\<close> is its identity, and the holder is a
  pointer to such a node. Results of \<open>calloc\<close> are parameters.
\<close>

subsection \<open>State\<close>

record spdk_nvmf_registrant =
  r_ptr :: nat
  r_hostid :: uuid
  r_key :: u64

text \<open>The reservation fields of \<open>struct spdk_nvmf_ns\<close>. Of the block device only the UUID is read.\<close>

record resv_ns = spdk_nvmf_ns +
  ns_bdev_uuid :: "uuid option"
  gen :: u32
  registrants :: "spdk_nvmf_registrant list"
  crkey :: u64
  ns_rtype :: spdk_nvme_reservation_type
  holder :: "nat option"
  ptpl_activated :: bool

primrec rtype_code :: "spdk_nvme_reservation_type \<Rightarrow> u8" where
  "rtype_code SPDK_NVME_RESERVE_NONE = 0"
| "rtype_code SPDK_NVME_RESERVE_WRITE_EXCLUSIVE = 1"
| "rtype_code SPDK_NVME_RESERVE_EXCLUSIVE_ACCESS = 2"
| "rtype_code SPDK_NVME_RESERVE_WRITE_EXCLUSIVE_REG_ONLY = 3"
| "rtype_code SPDK_NVME_RESERVE_EXCLUSIVE_ACCESS_REG_ONLY = 4"
| "rtype_code SPDK_NVME_RESERVE_WRITE_EXCLUSIVE_ALL_REGS = 5"
| "rtype_code SPDK_NVME_RESERVE_EXCLUSIVE_ACCESS_ALL_REGS = 6"

text \<open>The enumeration value a byte is converted to; only called for bytes up to 6.\<close>

definition rtype_of :: "u8 \<Rightarrow> spdk_nvme_reservation_type" where
  "rtype_of c =
     (if c = 1 then SPDK_NVME_RESERVE_WRITE_EXCLUSIVE
      else if c = 2 then SPDK_NVME_RESERVE_EXCLUSIVE_ACCESS
      else if c = 3 then SPDK_NVME_RESERVE_WRITE_EXCLUSIVE_REG_ONLY
      else if c = 4 then SPDK_NVME_RESERVE_EXCLUSIVE_ACCESS_REG_ONLY
      else if c = 5 then SPDK_NVME_RESERVE_WRITE_EXCLUSIVE_ALL_REGS
      else if c = 6 then SPDK_NVME_RESERVE_EXCLUSIVE_ACCESS_ALL_REGS
      else SPDK_NVME_RESERVE_NONE)"

definition SPDK_NVMF_MAX_NUM_REGISTRANTS :: nat where
  "SPDK_NVMF_MAX_NUM_REGISTRANTS = 16"

datatype spdk_nvme_reservation_notification_log_page_type =
    SPDK_NVME_RESERVATION_LOG_PAGE_EMPTY
  | SPDK_NVME_REGISTRATION_PREEMPTED
  | SPDK_NVME_RESERVATION_RELEASED
  | SPDK_NVME_RESERVATION_PREEMPTED

text \<open>A notification: the host whose controllers get a log entry, and its type.\<close>

type_synonym notice = "uuid \<times> spdk_nvme_reservation_notification_log_page_type"

text \<open>
  The persistent record. UUIDs are kept as UUIDs where the source has their printed form; \<open>None\<close> is the empty string.
  The array of registrants has 16 entries, of which the list holds the first \<open>num_regs\<close>.
\<close>

record spdk_nvmf_reservation_info =
  info_crkey :: u64
  info_rtype :: spdk_nvme_reservation_type
  info_ptpl_activated :: bool
  info_bdev_uuid :: uuid
  info_holder_uuid :: "uuid option"
  info_registrants :: "(u64 \<times> uuid) list"

text \<open>The function pointers \<open>g_reservation_ops\<close>, which an application may replace.\<close>

record spdk_nvmf_ns_reservation_ops =
  is_ptpl_capable :: "resv_ns \<Rightarrow> bool"
  resv_update :: "resv_ns \<Rightarrow> spdk_nvmf_reservation_info \<Rightarrow> rc"

subsection \<open>Registrants\<close>

definition nvmf_ns_reservation_get_registrant :: "resv_ns \<Rightarrow> uuid \<Rightarrow> spdk_nvmf_registrant option" where
  "nvmf_ns_reservation_get_registrant ns uuid = find (\<lambda>reg. r_hostid reg = uuid) (registrants ns)"

definition nvmf_subsystem_gen_ctrlr_notification ::
  "uuid list \<Rightarrow> spdk_nvme_reservation_notification_log_page_type \<Rightarrow> notice list" where
  "nvmf_subsystem_gen_ctrlr_notification hostid_list t = map (\<lambda>h. (h, t)) hostid_list"

definition nvmf_ns_reservation_get_all_other_hostid :: "resv_ns \<Rightarrow> nat \<Rightarrow> uuid \<Rightarrow> uuid list" where
  "nvmf_ns_reservation_get_all_other_hostid ns max_num_hostid current_hostid =
     take max_num_hostid (filter (\<lambda>h. h \<noteq> current_hostid) (map r_hostid (registrants ns)))"

definition nvmf_ns_reservation_get_unregistered_hostid :: "uuid list \<Rightarrow> uuid list \<Rightarrow> uuid list" where
  "nvmf_ns_reservation_get_unregistered_hostid old_hostid_list remaining_hostid_list =
     (if remaining_hostid_list = [] then old_hostid_list
      else filter (\<lambda>h. \<not> list_ex (\<lambda>h'. h = h') remaining_hostid_list) old_hostid_list)"

definition nvmf_ns_reservation_all_registrants_type :: "resv_ns \<Rightarrow> bool" where
  "nvmf_ns_reservation_all_registrants_type ns \<longleftrightarrow>
     ns_rtype ns = SPDK_NVME_RESERVE_WRITE_EXCLUSIVE_ALL_REGS \<or>
     ns_rtype ns = SPDK_NVME_RESERVE_EXCLUSIVE_ACCESS_ALL_REGS"

definition nvmf_ns_reservation_registrant_is_holder :: "resv_ns \<Rightarrow> spdk_nvmf_registrant \<Rightarrow> bool" where
  "nvmf_ns_reservation_registrant_is_holder ns reg \<longleftrightarrow>
     (if nvmf_ns_reservation_all_registrants_type ns then True else holder ns = Some (r_ptr reg))"

definition nvmf_ns_reservation_add_registrant ::
  "nat option \<Rightarrow> resv_ns \<Rightarrow> uuid \<Rightarrow> u64 \<Rightarrow> rc \<times> resv_ns" where
  "nvmf_ns_reservation_add_registrant calloc ns hid nrkey =
     (case calloc of
        None \<Rightarrow> (Some ENOMEM, ns)
      | Some p \<Rightarrow>
          (None, ns\<lparr>registrants := registrants ns @ [\<lparr>r_ptr = p, r_hostid = hid, r_key = nrkey\<rparr>], gen := gen ns + 1\<rparr>))"

definition nvmf_ns_reservation_release_reservation :: "resv_ns \<Rightarrow> resv_ns" where
  "nvmf_ns_reservation_release_reservation ns =
     ns\<lparr>ns_rtype := SPDK_NVME_RESERVE_NONE, crkey := 0, holder := None\<rparr>"

definition nvmf_ns_reservation_check_release_on_remove_registrant ::
  "resv_ns \<Rightarrow> spdk_nvmf_registrant \<Rightarrow> resv_ns" where
  "nvmf_ns_reservation_check_release_on_remove_registrant ns reg =
     (if holder ns = None then ns
      else if registrants ns \<noteq> [] \<and> nvmf_ns_reservation_all_registrants_type ns
      then ns\<lparr>holder := Some (r_ptr (hd (registrants ns)))\<rparr>
      else if nvmf_ns_reservation_registrant_is_holder ns reg then nvmf_ns_reservation_release_reservation ns
      else ns)"

definition nvmf_ns_reservation_remove_registrant :: "resv_ns \<Rightarrow> spdk_nvmf_registrant \<Rightarrow> resv_ns" where
  "nvmf_ns_reservation_remove_registrant ns reg =
     (let ns1 = ns\<lparr>registrants := filter (\<lambda>r. r_ptr r \<noteq> r_ptr reg) (registrants ns)\<rparr>;
          ns2 = nvmf_ns_reservation_check_release_on_remove_registrant ns1 reg
      in ns2\<lparr>gen := gen ns2 + 1\<rparr>)"

text \<open>
  The three loops over the list, which fetch the next node before they free the current one.
\<close>

definition remove_where :: "(spdk_nvmf_registrant \<Rightarrow> bool) \<Rightarrow> resv_ns \<Rightarrow> resv_ns \<times> nat" where
  "remove_where P ns =
     fold (\<lambda>reg (ns, count). if P reg then (nvmf_ns_reservation_remove_registrant ns reg, Suc count) else (ns, count))
       (registrants ns) (ns, 0)"

definition nvmf_ns_reservation_remove_registrants_by_key :: "resv_ns \<Rightarrow> u64 \<Rightarrow> resv_ns \<times> nat" where
  "nvmf_ns_reservation_remove_registrants_by_key ns rkey = remove_where (\<lambda>reg. r_key reg = rkey) ns"

definition nvmf_ns_reservation_remove_all_other_registrants ::
  "resv_ns \<Rightarrow> spdk_nvmf_registrant \<Rightarrow> resv_ns \<times> nat" where
  "nvmf_ns_reservation_remove_all_other_registrants ns reg = remove_where (\<lambda>reg_tmp. r_ptr reg_tmp \<noteq> r_ptr reg) ns"

definition nvmf_ns_reservation_clear_all_registrants :: "resv_ns \<Rightarrow> resv_ns \<times> nat" where
  "nvmf_ns_reservation_clear_all_registrants ns = remove_where (\<lambda>reg. True) ns"

definition nvmf_ns_reservation_acquire_reservation ::
  "resv_ns \<Rightarrow> u64 \<Rightarrow> spdk_nvme_reservation_type \<Rightarrow> spdk_nvmf_registrant \<Rightarrow> resv_ns" where
  "nvmf_ns_reservation_acquire_reservation ns rkey rt reg =
     ns\<lparr>ns_rtype := rt, crkey := rkey, holder := Some (r_ptr reg)\<rparr>"

subsection \<open>Register\<close>

text \<open>The bit-fields of \<open>cdw10\<close>, and the key structure fetched from the data buffers of a request.\<close>

definition resv_action :: "spdk_nvme_cmd \<Rightarrow> u32" where
  "resv_action cmd = cdw10 cmd AND 7"

definition resv_iekey :: "spdk_nvme_cmd \<Rightarrow> bool" where
  "resv_iekey cmd = bit (cdw10 cmd) 3"

definition resv_register_cptpl :: "spdk_nvme_cmd \<Rightarrow> u32" where
  "resv_register_cptpl cmd = drop_bit 30 (cdw10 cmd)"

definition resv_rtype :: "spdk_nvme_cmd \<Rightarrow> u8" where
  "resv_rtype cmd = ucast (drop_bit 8 (cdw10 cmd))"

definition resv_keys :: "nat \<Rightarrow> spdk_nvmf_request \<Rightarrow> byte list option" where
  "resv_keys sz req =
     (if iov req \<noteq> [] \<and> sz \<le> unat (req_length req)
      then Some (spdk_copy_iovs_to_buf (replicate sz 0) (iov req))
      else None)"

definition register_cptpl :: "spdk_nvmf_ns_reservation_ops \<Rightarrow> u32 \<Rightarrow> resv_ns \<Rightarrow> (resv_ns \<times> bool) option" where
  "register_cptpl ops cptpl ns =
     (if cptpl = 2 then
        Some (if ptpl_activated ns then (ns\<lparr>ptpl_activated := False\<rparr>, True) else (ns, False))
      else if cptpl = 3 then
        (if \<not> is_ptpl_capable ops ns then None
         else Some (if \<not> ptpl_activated ns then (ns\<lparr>ptpl_activated := True\<rparr>, True) else (ns, False)))
      else Some (ns, False))"

type_synonym resv_outcome =
  "spdk_nvme_generic_command_status_code \<times> bool \<times> resv_ns \<times> notice list"

definition register_new :: "nat option \<Rightarrow> resv_ns \<Rightarrow> bool \<Rightarrow> uuid \<Rightarrow> u64 \<Rightarrow> resv_outcome" where
  "register_new calloc ns upd hid nrkey =
     (case nvmf_ns_reservation_add_registrant calloc ns hid nrkey of
        (Some e, ns') \<Rightarrow> (SPDK_NVME_SC_INTERNAL_DEVICE_ERROR, upd, ns', [])
      | (None, ns') \<Rightarrow> (SPDK_NVME_SC_SUCCESS, True, ns', []))"

definition register_key ::
  "nat option \<Rightarrow> resv_ns \<Rightarrow> bool \<Rightarrow> uuid \<Rightarrow> spdk_nvmf_registrant option \<Rightarrow> u64 \<Rightarrow> resv_outcome" where
  "register_key calloc ns upd hid rego nrkey =
     (case rego of
        None \<Rightarrow> if nrkey = 0 then (SPDK_NVME_SC_INVALID_FIELD, upd, ns, []) else register_new calloc ns upd hid nrkey
      | Some reg \<Rightarrow>
          if r_key reg \<noteq> nrkey then (SPDK_NVME_SC_RESERVATION_CONFLICT, upd, ns, [])
          else (SPDK_NVME_SC_SUCCESS, upd, ns, []))"

definition unregister_key ::
  "resv_ns \<Rightarrow> bool \<Rightarrow> uuid \<Rightarrow> spdk_nvmf_registrant option \<Rightarrow> bool \<Rightarrow> u64 \<Rightarrow> resv_outcome" where
  "unregister_key ns upd hid rego iekey ck =
     (case rego of
        None \<Rightarrow> (SPDK_NVME_SC_RESERVATION_CONFLICT, upd, ns, [])
      | Some reg \<Rightarrow>
          if \<not> iekey \<and> r_key reg \<noteq> ck then (SPDK_NVME_SC_RESERVATION_CONFLICT, upd, ns, [])
          else
            let hostid_list = nvmf_ns_reservation_get_all_other_hostid ns SPDK_NVMF_MAX_NUM_REGISTRANTS hid;
                ns' = nvmf_ns_reservation_remove_registrant ns reg
            in (SPDK_NVME_SC_SUCCESS, True, ns',
                if ns_rtype ns' = SPDK_NVME_RESERVE_NONE \<and>
                   (ns_rtype ns = SPDK_NVME_RESERVE_WRITE_EXCLUSIVE_REG_ONLY \<or>
                    ns_rtype ns = SPDK_NVME_RESERVE_EXCLUSIVE_ACCESS_REG_ONLY)
                then nvmf_subsystem_gen_ctrlr_notification hostid_list SPDK_NVME_RESERVATION_RELEASED
                else []))"

definition set_key :: "resv_ns \<Rightarrow> spdk_nvmf_registrant \<Rightarrow> u64 \<Rightarrow> resv_ns" where
  "set_key ns reg k =
     ns\<lparr>registrants := map (\<lambda>r. if r_ptr r = r_ptr reg then r\<lparr>r_key := k\<rparr> else r) (registrants ns)\<rparr>"

definition replace_key ::
  "nat option \<Rightarrow> resv_ns \<Rightarrow> bool \<Rightarrow> uuid \<Rightarrow> spdk_nvmf_registrant option \<Rightarrow> bool \<Rightarrow> u64 \<Rightarrow> u64 \<Rightarrow> resv_outcome" where
  "replace_key calloc ns upd hid rego iekey ck nrkey =
     (if nrkey = 0 then (SPDK_NVME_SC_INVALID_FIELD, upd, ns, [])
      else case rego of
        Some reg \<Rightarrow>
          if \<not> iekey \<and> r_key reg \<noteq> ck then (SPDK_NVME_SC_RESERVATION_CONFLICT, upd, ns, [])
          else if r_key reg = nrkey then (SPDK_NVME_SC_SUCCESS, upd, ns, [])
          else (SPDK_NVME_SC_SUCCESS, True, set_key ns reg nrkey, [])
      | None \<Rightarrow>
          if iekey then register_new calloc ns upd hid nrkey
          else (SPDK_NVME_SC_RESERVATION_CONFLICT, upd, ns, []))"

definition nvmf_ns_reservation_register ::
  "spdk_nvmf_ns_reservation_ops \<Rightarrow> nat option \<Rightarrow> resv_ns \<Rightarrow> uuid \<Rightarrow> spdk_nvmf_request \<Rightarrow> resv_outcome" where
  "nvmf_ns_reservation_register ops calloc ns hid req =
     (let cmd = req_cmd req; rrega = resv_action cmd; iekey = resv_iekey cmd; cptpl = resv_register_cptpl cmd in
      case resv_keys 16 req of
        None \<Rightarrow> (SPDK_NVME_SC_INVALID_FIELD, False, ns, [])
      | Some key \<Rightarrow>
          let ck = le64_word (get_at 0 8 key); nrkey = le64_word (get_at 8 8 key) in
          case register_cptpl ops cptpl ns of
            None \<Rightarrow> (SPDK_NVME_SC_INVALID_FIELD, False, ns, [])
          | Some (ns1, upd) \<Rightarrow>
              let rego = nvmf_ns_reservation_get_registrant ns1 hid in
              if rrega = 0 then register_key calloc ns1 upd hid rego nrkey
              else if rrega = 1 then unregister_key ns1 upd hid rego iekey ck
              else if rrega = 2 then replace_key calloc ns1 upd hid rego iekey ck nrkey
              else (SPDK_NVME_SC_INVALID_FIELD, upd, ns1, []))"

subsection \<open>Acquire\<close>

text \<open>
  The action of an acquire command by the registrant \<open>reg\<close>: the status, whether poll groups are updated, the namespace,
  the hosts registered before, and whether the reservation was released.
\<close>

type_synonym acquire_outcome =
  "spdk_nvme_generic_command_status_code \<times> bool \<times> resv_ns \<times> uuid list \<times> bool"

definition acquire_first :: "resv_ns \<Rightarrow> spdk_nvmf_registrant \<Rightarrow> u64 \<Rightarrow> u8 \<Rightarrow> acquire_outcome" where
  "acquire_first ns reg ck rt =
     (if nvmf_ns_reservation_registrant_is_holder ns reg \<and> rtype_code (ns_rtype ns) = rt
      then (SPDK_NVME_SC_SUCCESS, False, ns, [], False)
      else if holder ns = None
      then (SPDK_NVME_SC_SUCCESS, True, nvmf_ns_reservation_acquire_reservation ns ck (rtype_of rt) reg, [], False)
      else (SPDK_NVME_SC_RESERVATION_CONFLICT, False, ns, [], False))"

text \<open>The holder the pointer designates; only called while the holder is in the list.\<close>

definition holder_reg :: "resv_ns \<Rightarrow> nat \<Rightarrow> spdk_nvmf_registrant" where
  "holder_reg ns p = the (find (\<lambda>reg. r_ptr reg = p) (registrants ns))"

definition acquire_preempt :: "resv_ns \<Rightarrow> uuid \<Rightarrow> spdk_nvmf_registrant \<Rightarrow> u64 \<Rightarrow> u64 \<Rightarrow> u8 \<Rightarrow> acquire_outcome" where
  "acquire_preempt ns hid reg ck prkey rt =
     (case holder ns of
        None \<Rightarrow> (SPDK_NVME_SC_SUCCESS, True, fst (nvmf_ns_reservation_remove_registrants_by_key ns prkey), [], False)
      | Some h \<Rightarrow>
          let hostid_list = nvmf_ns_reservation_get_all_other_hostid ns SPDK_NVMF_MAX_NUM_REGISTRANTS hid in
          if \<not> nvmf_ns_reservation_all_registrants_type ns then
            (if nvmf_ns_reservation_registrant_is_holder ns reg \<and> crkey ns = prkey
             then (SPDK_NVME_SC_SUCCESS, True, ns\<lparr>ns_rtype := rtype_of rt\<rparr>, hostid_list, True)
             else if crkey ns = prkey
             then (SPDK_NVME_SC_SUCCESS, True,
                   nvmf_ns_reservation_acquire_reservation
                     (nvmf_ns_reservation_remove_registrant ns (holder_reg ns h)) ck (rtype_of rt) reg,
                   hostid_list, True)
             else if prkey \<noteq> 0
             then (SPDK_NVME_SC_SUCCESS, True, fst (nvmf_ns_reservation_remove_registrants_by_key ns prkey),
                   hostid_list, False)
             else (SPDK_NVME_SC_RESERVATION_CONFLICT, False, ns, hostid_list, False))
          else
            (if prkey = 0
             then (SPDK_NVME_SC_SUCCESS, True, fst (nvmf_ns_reservation_remove_all_other_registrants ns reg),
                   hostid_list, False)
             else
               let (ns', count) = nvmf_ns_reservation_remove_registrants_by_key ns prkey in
               if count = 0 then (SPDK_NVME_SC_RESERVATION_CONFLICT, False, ns', hostid_list, False)
               else (SPDK_NVME_SC_SUCCESS, True, ns', hostid_list, False)))"

definition acquire_body :: "resv_ns \<Rightarrow> uuid \<Rightarrow> spdk_nvmf_request \<Rightarrow> acquire_outcome" where
  "acquire_body ns hid req =
     (let cmd = req_cmd req; racqa = resv_action cmd; rt = resv_rtype cmd in
      case resv_keys 16 req of
        None \<Rightarrow> (SPDK_NVME_SC_INVALID_FIELD, True, ns, [], False)
      | Some key \<Rightarrow>
          let ck = le64_word (get_at 0 8 key); prkey = le64_word (get_at 8 8 key) in
          if resv_iekey cmd \<or> rtype_code SPDK_NVME_RESERVE_EXCLUSIVE_ACCESS_ALL_REGS < rt
          then (SPDK_NVME_SC_INVALID_FIELD, False, ns, [], False)
          else case nvmf_ns_reservation_get_registrant ns hid of
            None \<Rightarrow> (SPDK_NVME_SC_RESERVATION_CONFLICT, False, ns, [], False)
          | Some reg \<Rightarrow>
              if r_key reg \<noteq> ck then (SPDK_NVME_SC_RESERVATION_CONFLICT, False, ns, [], False)
              else if racqa = 0 then acquire_first ns reg ck rt
              else if racqa = 1 then acquire_preempt ns hid reg ck prkey rt
              else (SPDK_NVME_SC_INVALID_FIELD, False, ns, [], False))"

definition nvmf_ns_reservation_acquire :: "resv_ns \<Rightarrow> uuid \<Rightarrow> spdk_nvmf_request \<Rightarrow> resv_outcome" where
  "nvmf_ns_reservation_acquire ns hid req =
     (let (status, upd, ns', hostid_list, reservation_released) = acquire_body ns hid req in
      (status, upd, ns',
       if upd \<and> resv_action (req_cmd req) = 1 then
         let new_hostid_list = nvmf_ns_reservation_get_all_other_hostid ns' SPDK_NVMF_MAX_NUM_REGISTRANTS hid
         in nvmf_subsystem_gen_ctrlr_notification
              (nvmf_ns_reservation_get_unregistered_hostid hostid_list new_hostid_list) SPDK_NVME_REGISTRATION_PREEMPTED @
            (if reservation_released
             then nvmf_subsystem_gen_ctrlr_notification new_hostid_list SPDK_NVME_RESERVATION_RELEASED else [])
       else []))"

subsection \<open>Release\<close>

definition release_held :: "resv_ns \<Rightarrow> spdk_nvmf_registrant \<Rightarrow> u8 \<Rightarrow> uuid list \<Rightarrow> resv_outcome" where
  "release_held ns reg rt hostid_list =
     (if holder ns = None then (SPDK_NVME_SC_SUCCESS, False, ns, [])
      else if rtype_code (ns_rtype ns) \<noteq> rt then (SPDK_NVME_SC_INVALID_FIELD, False, ns, [])
      else if \<not> nvmf_ns_reservation_registrant_is_holder ns reg then (SPDK_NVME_SC_SUCCESS, False, ns, [])
      else
        (SPDK_NVME_SC_SUCCESS, True, nvmf_ns_reservation_release_reservation ns,
         if ns_rtype ns \<noteq> SPDK_NVME_RESERVE_WRITE_EXCLUSIVE \<and> ns_rtype ns \<noteq> SPDK_NVME_RESERVE_EXCLUSIVE_ACCESS
         then nvmf_subsystem_gen_ctrlr_notification hostid_list SPDK_NVME_RESERVATION_RELEASED else []))"

definition nvmf_ns_reservation_release :: "resv_ns \<Rightarrow> uuid \<Rightarrow> spdk_nvmf_request \<Rightarrow> resv_outcome" where
  "nvmf_ns_reservation_release ns hid req =
     (let cmd = req_cmd req; rrela = resv_action cmd in
      case resv_keys 8 req of
        None \<Rightarrow> (SPDK_NVME_SC_INVALID_FIELD, True, ns, [])
      | Some key \<Rightarrow>
          let ck = le64_word key in
          if resv_iekey cmd then (SPDK_NVME_SC_INVALID_FIELD, False, ns, [])
          else case nvmf_ns_reservation_get_registrant ns hid of
            None \<Rightarrow> (SPDK_NVME_SC_RESERVATION_CONFLICT, False, ns, [])
          | Some reg \<Rightarrow>
              if r_key reg \<noteq> ck then (SPDK_NVME_SC_RESERVATION_CONFLICT, False, ns, [])
              else
                let hostid_list = nvmf_ns_reservation_get_all_other_hostid ns SPDK_NVMF_MAX_NUM_REGISTRANTS hid in
                if rrela = 0 then release_held ns reg (resv_rtype cmd) hostid_list
                else if rrela = 1 then
                  (SPDK_NVME_SC_SUCCESS, True, fst (nvmf_ns_reservation_clear_all_registrants ns),
                   nvmf_subsystem_gen_ctrlr_notification hostid_list SPDK_NVME_RESERVATION_PREEMPTED)
                else (SPDK_NVME_SC_INVALID_FIELD, False, ns, []))"

subsection \<open>Report\<close>

definition status_data_bytes :: "resv_ns \<Rightarrow> byte list" where
  "status_data_bytes ns =
     le_bytes 4 (unat (gen ns)) @ [rtype_code (ns_rtype ns)] @ le_bytes 2 (length (registrants ns)) @ [0, 0] @
     [if ptpl_activated ns then 1 else 0] @ replicate 14 0 @ replicate 40 0"

definition ctrlr_data_bytes :: "resv_ns \<Rightarrow> spdk_nvmf_registrant \<Rightarrow> byte list" where
  "ctrlr_data_bytes ns reg =
     le_bytes 2 0xffff @ [if holder ns = Some (r_ptr reg) then 1 else 0] @ replicate 5 0 @ le64_bytes (r_key reg) @
     r_hostid reg @ replicate 32 0"

definition resv_report_eds :: "spdk_nvme_cmd \<Rightarrow> bool" where
  "resv_report_eds cmd = bit (cdw11 cmd) 0"

definition report_xfer :: "resv_ns \<Rightarrow> iovs \<Rightarrow> iovs" where
  "report_xfer ns iv =
     ix_iovs (fold (\<lambda>reg ix. fst (spdk_iov_xfer_from_buf ix (ctrlr_data_bytes ns reg))) (registrants ns)
       (fst (spdk_iov_xfer_from_buf (spdk_iov_xfer_init iv) (status_data_bytes ns))))"

definition nvmf_ns_reservation_report ::
  "resv_ns \<Rightarrow> spdk_nvmf_request \<Rightarrow> spdk_nvme_generic_command_status_code \<times> iovs" where
  "nvmf_ns_reservation_report ns req =
     (let cmd = req_cmd req; transfer_len = (cdw10 cmd + 1) * 4 in
      if iov req = [] then (SPDK_NVME_SC_INVALID_FIELD, iov req)
      else if \<not> resv_report_eds cmd then (SPDK_NVME_SC_HOSTID_INCONSISTENT_FORMAT, iov req)
      else if transfer_len < 64 then (SPDK_NVME_SC_INTERNAL_DEVICE_ERROR, iov req)
      else (SPDK_NVME_SC_SUCCESS, report_xfer ns (iov req)))"

subsection \<open>The persistent record\<close>

text \<open>
  \<open>nvmf_ns_update_reservation_info\<close> fills a record on the stack; a registrant behind the sixteenth is stored behind the end of
  its array, the value \<open>None\<close>. Otherwise it gives the return code and the record passed on, if one is.
\<close>

definition reservation_info :: "resv_ns \<Rightarrow> uuid \<Rightarrow> spdk_nvmf_reservation_info option" where
  "reservation_info ns bdev_uuid =
     (if SPDK_NVMF_MAX_NUM_REGISTRANTS < length (registrants ns) then None
      else Some \<lparr>info_crkey = (if ns_rtype ns \<noteq> SPDK_NVME_RESERVE_NONE then crkey ns else 0), info_rtype = ns_rtype ns,
        info_ptpl_activated = ptpl_activated ns, info_bdev_uuid = bdev_uuid,
        info_holder_uuid =
          (if ns_rtype ns \<noteq> SPDK_NVME_RESERVE_NONE \<and> \<not> nvmf_ns_reservation_all_registrants_type ns
           then map_option (\<lambda>p. r_hostid (holder_reg ns p)) (holder ns) else None),
        info_registrants = map (\<lambda>reg. (r_key reg, r_hostid reg)) (registrants ns)\<rparr>)"

definition nvmf_ns_update_reservation_info ::
  "spdk_nvmf_ns_reservation_ops \<Rightarrow> resv_ns \<Rightarrow> (rc \<times> spdk_nvmf_reservation_info option) option" where
  "nvmf_ns_update_reservation_info ops ns =
     (case ns_bdev_uuid ns of
        None \<Rightarrow> Some (None, None)
      | Some bdev_uuid \<Rightarrow>
          if \<not> is_ptpl_capable ops ns then Some (None, None)
          else case reservation_info ns bdev_uuid of
            None \<Rightarrow> None
          | Some info \<Rightarrow> Some (resv_update ops ns info, Some info))"

text \<open>
  \<open>nvmf_ns_reservation_restore\<close>. \<open>callocs\<close> are the results of the allocations of the loop, \<open>junk\<close> the content of the
  variable \<open>holder_uuid\<close> when the empty string is not parsed into it.
\<close>

fun restore_registrants ::
  "nat option list \<Rightarrow> (u64 \<times> uuid) list \<Rightarrow> spdk_nvmf_registrant list \<Rightarrow> rc \<times> spdk_nvmf_registrant list" where
  "restore_registrants callocs [] regs = (None, regs)"
| "restore_registrants (Some p # callocs) ((k, h) # infos) regs =
     restore_registrants callocs infos (regs @ [\<lparr>r_ptr = p, r_hostid = h, r_key = k\<rparr>])"
| "restore_registrants callocs (i # infos) regs = (Some ENOMEM, regs)"

definition nvmf_ns_reservation_restore ::
  "nat option list \<Rightarrow> uuid \<Rightarrow> resv_ns \<Rightarrow> spdk_nvmf_reservation_info \<Rightarrow> rc \<times> resv_ns" where
  "nvmf_ns_reservation_restore callocs junk ns info =
     (if \<not> info_ptpl_activated info \<or> info_registrants info = [] then (None, ns)
      else if \<not> list_ex (\<lambda>(k, h). info_crkey info = k) (info_registrants info) \<and> info_crkey info \<noteq> 0 then (Some EINVAL, ns)
      else if Some (info_bdev_uuid info) \<noteq> ns_bdev_uuid ns then (Some EINVAL, ns)
      else
        let ns1 = ns\<lparr>crkey := info_crkey info, ns_rtype := info_rtype info, ptpl_activated := info_ptpl_activated info\<rparr>;
            holder_uuid = (case info_holder_uuid info of Some h \<Rightarrow> h | None \<Rightarrow> junk);
            (e, regs) = restore_registrants callocs (info_registrants info) (registrants ns1);
            ns2 = ns1\<lparr>registrants := regs\<rparr>;
            added = drop (length (registrants ns1)) regs
        in if e \<noteq> None then (e, ns2)
           else (None, ns2\<lparr>holder :=
             (if nvmf_ns_reservation_all_registrants_type ns2 then Some (r_ptr (hd (registrants ns2)))
              else if info_crkey info \<noteq> 0
              then map_option r_ptr (find (\<lambda>reg. r_hostid reg = holder_uuid) (rev added))
              else None)\<rparr>))"

subsection \<open>The poll groups\<close>

text \<open>
  The reservation part of \<open>poll_group_update_subsystem\<close> for a namespace that exists and keeps its device. The array
  \<open>reg_hostid\<close> is zeroed, then filled from the list.
\<close>

definition null_uuid :: uuid where
  "null_uuid = replicate 16 0"

definition poll_group_update_ns :: "resv_ns \<Rightarrow> spdk_nvmf_subsystem_pg_ns_info \<Rightarrow> rc \<times> spdk_nvmf_subsystem_pg_ns_info" where
  "poll_group_update_ns ns ns_info =
     (let ns_info1 = ns_info\<lparr>rtype := ns_rtype ns,
            holder_id := (case holder ns of None \<Rightarrow> holder_id ns_info | Some p \<Rightarrow> r_hostid (holder_reg ns p)),
            reg_hostid := take SPDK_NVMF_MAX_NUM_REGISTRANTS
              (map r_hostid (registrants ns) @ replicate SPDK_NVMF_MAX_NUM_REGISTRANTS null_uuid)\<rparr>
      in (if SPDK_NVMF_MAX_NUM_REGISTRANTS < length (registrants ns) then Some EINVAL else None, ns_info1))"

text \<open>
  \<open>spdk_for_each_channel\<close> visits the poll groups in turn and stops at the first error. The request completes whatever the
  result is.
\<close>

fun nvmf_subsystem_update_ns ::
  "resv_ns \<Rightarrow> spdk_nvmf_subsystem_pg_ns_info list \<Rightarrow> spdk_nvmf_subsystem_pg_ns_info list" where
  "nvmf_subsystem_update_ns ns [] = []"
| "nvmf_subsystem_update_ns ns (pg # pgs) =
     (case poll_group_update_ns ns pg of
        (None, pg') \<Rightarrow> pg' # nvmf_subsystem_update_ns ns pgs
      | (Some e, pg') \<Rightarrow> pg' # pgs)"

record resv_env =
  resv_ops :: spdk_nvmf_ns_reservation_ops
  reg_calloc :: "nat option"
  ctx_calloc :: bool

record resv_sys =
  sys_ns :: resv_ns
  sys_pgs :: "spdk_nvmf_subsystem_pg_ns_info list"
  sys_saved :: "spdk_nvmf_reservation_info option"
  sys_notices :: "notice list"

text \<open>
  The part of \<open>nvmf_ns_reservation_request\<close> behind the switch: persist, update the poll groups, complete. \<open>None\<close> is the store
  behind the end of the record.
\<close>

definition finish_update ::
  "resv_env \<Rightarrow> resv_sys \<Rightarrow> spdk_nvmf_request \<Rightarrow> resv_outcome \<Rightarrow> (resv_sys \<times> spdk_nvmf_request) option" where
  "finish_update env s req out =
     (let (st, upd, ns, notices) = out;
          req1 = upd_rsp (set_generic st) req;
          s1 = s\<lparr>sys_ns := ns, sys_notices := sys_notices s @ notices\<rparr>
      in if \<not> upd then Some (s1, req1)
         else case (if ptpl_activated ns \<or> opc (req_cmd req) = nvm_opc SPDK_NVME_OPC_RESERVATION_REGISTER
                    then nvmf_ns_update_reservation_info (resv_ops env) ns else Some (None, None)) of
           None \<Rightarrow> None
         | Some (e, info) \<Rightarrow>
             let req2 = (if e \<noteq> None then upd_rsp (set_sc (generic_sc SPDK_NVME_SC_INTERNAL_DEVICE_ERROR)) req1 else req1);
                 s2 = (if e = None \<and> info \<noteq> None then s1\<lparr>sys_saved := info\<rparr> else s1)
             in Some (if ctx_calloc env then s2\<lparr>sys_pgs := nvmf_subsystem_update_ns ns (sys_pgs s2)\<rparr> else s2, req2))"

definition nvmf_ns_reservation_request ::
  "resv_env \<Rightarrow> resv_sys \<Rightarrow> uuid \<Rightarrow> spdk_nvmf_request \<Rightarrow> (resv_sys \<times> spdk_nvmf_request) option" where
  "nvmf_ns_reservation_request env s hid req =
     (let ns = sys_ns s; opcode = opc (req_cmd req) in
      if opcode = nvm_opc SPDK_NVME_OPC_RESERVATION_REGISTER then
        finish_update env s req (nvmf_ns_reservation_register (resv_ops env) (reg_calloc env) ns hid req)
      else if opcode = nvm_opc SPDK_NVME_OPC_RESERVATION_ACQUIRE then
        finish_update env s req (nvmf_ns_reservation_acquire ns hid req)
      else if opcode = nvm_opc SPDK_NVME_OPC_RESERVATION_RELEASE then
        finish_update env s req (nvmf_ns_reservation_release ns hid req)
      else if opcode = nvm_opc SPDK_NVME_OPC_RESERVATION_REPORT then
        let (st, iv) = nvmf_ns_reservation_report ns req
        in Some (s, upd_rsp (set_generic st) (req\<lparr>iov := iv\<rparr>))
      else Some (s, req))"

subsection \<open>The invariant of a namespace\<close>

text \<open>
  Registrants have distinct addresses and distinct hosts, no key is zero, the holder is a registrant, and without a holder there
  is no reservation type. The second predicate is the converse: a holder holds a reservation of some type.
\<close>

definition resv_wf :: "resv_ns \<Rightarrow> bool" where
  "resv_wf ns \<longleftrightarrow>
     distinct (map r_ptr (registrants ns)) \<and> distinct (map r_hostid (registrants ns)) \<and>
     list_all (\<lambda>reg. r_key reg \<noteq> 0) (registrants ns) \<and>
     (case holder ns of None \<Rightarrow> ns_rtype ns = SPDK_NVME_RESERVE_NONE | Some p \<Rightarrow> p \<in> set (map r_ptr (registrants ns)))"

definition resv_typed :: "resv_ns \<Rightarrow> bool" where
  "resv_typed ns \<longleftrightarrow> (holder ns \<noteq> None \<longrightarrow> ns_rtype ns \<noteq> SPDK_NVME_RESERVE_NONE)"

definition resv_ok :: "bool \<Rightarrow> resv_ns \<Rightarrow> bool" where
  "resv_ok strict ns \<longleftrightarrow> resv_wf ns \<and> (strict \<longrightarrow> resv_typed ns)"

named_theorems resv_defs \<open>unfoldings of the reservation commands\<close>

lemmas [resv_defs] = nvmf_ns_reservation_release_reservation_def
  nvmf_ns_reservation_check_release_on_remove_registrant_def nvmf_ns_reservation_registrant_is_holder_def
  nvmf_ns_reservation_acquire_reservation_def nvmf_ns_reservation_all_registrants_type_def

lemma remove_registrant_fields:
  "registrants (nvmf_ns_reservation_remove_registrant ns reg) = filter (\<lambda>r. r_ptr r \<noteq> r_ptr reg) (registrants ns)"
  "ns_bdev_uuid (nvmf_ns_reservation_remove_registrant ns reg) = ns_bdev_uuid ns"
  by (auto simp: nvmf_ns_reservation_remove_registrant_def resv_defs Let_def)

lemma remove_registrant_ok:
  assumes "resv_ok strict ns"
  shows "resv_ok strict (nvmf_ns_reservation_remove_registrant ns reg)"
proof (cases "holder ns")
  case None
  with assms show ?thesis
    by (auto simp: resv_ok_def resv_wf_def resv_typed_def nvmf_ns_reservation_remove_registrant_def resv_defs
        distinct_map_filter list_all_iff)
next
  case (Some p)
  let ?regs = "filter (\<lambda>r. r_ptr r \<noteq> r_ptr reg) (registrants ns)"
  have "?regs \<noteq> [] \<Longrightarrow> r_ptr (hd ?regs) \<in> set (map r_ptr ?regs)"
    by (metis (no_types) hd_in_set image_eqI set_map)
  with assms Some show ?thesis
    by (auto simp: resv_ok_def resv_wf_def resv_typed_def nvmf_ns_reservation_remove_registrant_def resv_defs Let_def
        distinct_map_filter list_all_iff filter_empty_conv)
qed

text \<open>The loops remove exactly the registrants they select.\<close>

lemma remove_fold:
  fixes P :: "spdk_nvmf_registrant \<Rightarrow> bool"
  defines "f \<equiv> \<lambda>reg (ns, count). if P reg then (nvmf_ns_reservation_remove_registrant ns reg, Suc count) else (ns, count :: nat)"
  assumes "fold f xs (ns, c) = (ns', c')" "resv_ok strict ns"
  shows "resv_ok strict ns'"
    and "registrants ns' = filter (\<lambda>r. \<forall>x \<in> set xs. P x \<longrightarrow> r_ptr r \<noteq> r_ptr x) (registrants ns)"
    and "c' = c + length (filter P xs)" and "filter P xs = [] \<Longrightarrow> ns' = ns"
  using assms(2,3)
proof (induction xs arbitrary: ns c)
  case Nil
  { case 1 then show ?case by simp }
  { case 2 then show ?case by simp }
  { case 3 then show ?case by simp }
  { case 4 then show ?case by simp }
next
  case (Cons x xs)
  have go: "fold f xs (if P x then (nvmf_ns_reservation_remove_registrant ns x, Suc c) else (ns, c)) = (ns', c')"
    if "fold f (x # xs) (ns, c) = (ns', c')" for ns c
    using that by (simp add: f_def)
  { case 1 then show ?case
      using go [OF 1(1)] Cons.IH(1) [of "nvmf_ns_reservation_remove_registrant ns x" "Suc c"] Cons.IH(1) [of ns c] remove_registrant_ok
      by (auto split: if_splits) }
  { case 2 then show ?case
      using go [OF 2(1)] Cons.IH(2) [of "nvmf_ns_reservation_remove_registrant ns x" "Suc c"] Cons.IH(2) [of ns c] remove_registrant_ok
      by (auto simp: remove_registrant_fields conj_commute split: if_splits intro!: filter_cong) }
  { case 3 then show ?case
      using go [OF 3(1)] Cons.IH(3) [of "nvmf_ns_reservation_remove_registrant ns x" "Suc c"] Cons.IH(3) [of ns c] remove_registrant_ok
      by (auto split: if_splits) }
  { case 4 then show ?case using go [OF 4(2)] Cons.IH(4) [of ns c] by (auto split: if_splits) }
qed

lemma remove_where_spec:
  assumes "remove_where P ns = (ns', n)" "resv_ok strict ns"
  shows "resv_ok strict ns'" "registrants ns' = filter (\<lambda>r. \<not> P r) (registrants ns)"
    "n = length (filter P (registrants ns))" "n = 0 \<Longrightarrow> ns' = ns"
proof -
  note fold = remove_fold [OF assms(1) [unfolded remove_where_def] assms(2)]
  have inj: "inj_on r_ptr (set (registrants ns))"
    using assms(2) by (simp add: resv_ok_def resv_wf_def distinct_map)
  show "resv_ok strict ns'" "n = length (filter P (registrants ns))" "n = 0 \<Longrightarrow> ns' = ns"
    using fold by simp_all
  show "registrants ns' = filter (\<lambda>r. \<not> P r) (registrants ns)"
    unfolding fold(2) by (rule filter_cong [OF refl]) (use inj in \<open>auto dest: inj_onD\<close>)
qed

text \<open>
  What a command leaves behind: a namespace that satisfies the invariant, and an unchanged one when the poll groups are not
  updated.
\<close>

definition outcome_ok :: "bool \<Rightarrow> resv_ns \<Rightarrow> bool \<Rightarrow> resv_ns \<Rightarrow> bool" where
  "outcome_ok strict ns upd ns' \<longleftrightarrow> resv_ok strict ns' \<and> (upd \<or> ns' = ns)"

definition fresh :: "nat option \<Rightarrow> resv_ns \<Rightarrow> bool" where
  "fresh calloc ns \<longleftrightarrow> (case calloc of None \<Rightarrow> True | Some p \<Rightarrow> p \<notin> set (map r_ptr (registrants ns)))"

lemma get_registrant_Some:
  assumes "nvmf_ns_reservation_get_registrant ns hid = Some reg"
  shows "reg \<in> set (registrants ns)" "r_hostid reg = hid"
  using assms by (auto simp: nvmf_ns_reservation_get_registrant_def find_Some_iff)

lemma get_registrant_None:
  "nvmf_ns_reservation_get_registrant ns hid = None \<Longrightarrow> hid \<notin> set (map r_hostid (registrants ns))"
  by (auto simp: nvmf_ns_reservation_get_registrant_def find_None_iff)

lemma register_new_ok:
  assumes "resv_ok strict ns" "fresh calloc ns" "nvmf_ns_reservation_get_registrant ns hid = None" "k \<noteq> 0"
    and "register_new calloc ns upd hid k = (st, upd', ns', notices)"
  shows "resv_ok strict ns' \<and> (upd' \<or> ns' = ns) \<and> (upd \<longrightarrow> upd')"
  using assms get_registrant_None [OF assms(3)]
  by (auto simp: register_new_def nvmf_ns_reservation_add_registrant_def fresh_def resv_ok_def resv_wf_def resv_typed_def
      split: option.splits)

lemma set_key_fields:
  "map r_ptr (registrants (set_key ns reg k)) = map r_ptr (registrants ns)"
  "map r_hostid (registrants (set_key ns reg k)) = map r_hostid (registrants ns)"
  "holder (set_key ns reg k) = holder ns" "ns_rtype (set_key ns reg k) = ns_rtype ns"
  "crkey (set_key ns reg k) = crkey ns" "ptpl_activated (set_key ns reg k) = ptpl_activated ns"
  "ns_bdev_uuid (set_key ns reg k) = ns_bdev_uuid ns"
  by (simp_all add: set_key_def)

lemma set_key_ok:
  assumes "resv_ok strict ns" "k \<noteq> 0"
  shows "resv_ok strict (set_key ns reg k)"
proof -
  have "list_all (\<lambda>reg. r_key reg \<noteq> 0) (registrants (set_key ns reg k))"
    using assms by (auto simp: set_key_def resv_ok_def resv_wf_def list_all_iff)
  with assms show ?thesis
    by (simp add: resv_ok_def resv_wf_def resv_typed_def set_key_fields del: set_map split: option.splits)
qed

lemma register_cptpl_ok:
  assumes "register_cptpl ops cptpl ns = Some (ns1, upd)" "resv_ok strict ns"
  shows "resv_ok strict ns1" "upd \<or> ns1 = ns" "registrants ns1 = registrants ns"
  using assms by (auto simp: register_cptpl_def resv_ok_def resv_wf_def resv_typed_def split: if_splits option.splits)

lemma register_actions_ok:
  fixes hid ns
  assumes "resv_ok strict ns" "fresh calloc ns"
  defines "rego \<equiv> nvmf_ns_reservation_get_registrant ns hid"
  shows "register_key calloc ns upd hid rego k = (st, upd', ns', notices) \<Longrightarrow>
      resv_ok strict ns' \<and> (upd' \<or> ns' = ns) \<and> (upd \<longrightarrow> upd')"
    and "unregister_key ns upd hid rego iekey ck = (st, upd', ns', notices) \<Longrightarrow>
      resv_ok strict ns' \<and> (upd' \<or> ns' = ns) \<and> (upd \<longrightarrow> upd')"
    and "replace_key calloc ns upd hid rego iekey ck k = (st, upd', ns', notices) \<Longrightarrow>
      resv_ok strict ns' \<and> (upd' \<or> ns' = ns) \<and> (upd \<longrightarrow> upd')"
  using assms(1) remove_registrant_ok [OF assms(1)] set_key_ok [OF assms(1)]
  unfolding rego_def register_key_def unregister_key_def replace_key_def Let_def
  by (auto dest: register_new_ok [OF assms(1,2)] split: if_splits option.splits)

lemma register_ok:
  assumes "resv_ok strict ns" "fresh calloc ns"
    and "nvmf_ns_reservation_register ops calloc ns hid req = (st, upd', ns', notices)"
  shows "outcome_ok strict ns upd' ns'"
proof (cases "resv_keys 16 req")
  case None
  with assms show ?thesis by (auto simp: nvmf_ns_reservation_register_def outcome_ok_def Let_def)
next
  case key: (Some key)
  show ?thesis
  proof (cases "register_cptpl ops (resv_register_cptpl (req_cmd req)) ns")
    case None
    with key assms show ?thesis by (auto simp: nvmf_ns_reservation_register_def outcome_ok_def Let_def)
  next
    case (Some out)
    then obtain ns1 upd where cp: "register_cptpl ops (resv_register_cptpl (req_cmd req)) ns = Some (ns1, upd)"
      by (cases out) auto
    note ok = register_cptpl_ok [OF cp assms(1)]
    have "fresh calloc ns1" using assms(2) ok(3) by (simp add: fresh_def split: option.splits)
    note act = register_actions_ok [OF ok(1) this]
    have "resv_ok strict ns' \<and> (upd' \<or> ns' = ns1) \<and> (upd \<longrightarrow> upd')"
      using assms(3) key cp ok(1) by (auto simp: nvmf_ns_reservation_register_def Let_def dest: act split: if_splits)
    with ok(2) show ?thesis by (auto simp: outcome_ok_def)
  qed
qed

lemma acquire_reservation_ok:
  assumes "resv_ok strict ns" "reg \<in> set (registrants ns)" "strict \<longrightarrow> rt \<noteq> SPDK_NVME_RESERVE_NONE"
  shows "resv_ok strict (nvmf_ns_reservation_acquire_reservation ns k rt reg)"
  using assms by (auto simp: resv_ok_def resv_wf_def resv_typed_def nvmf_ns_reservation_acquire_reservation_def)

lemma rtype_of_NONE [simp]: "c \<le> 6 \<Longrightarrow> rtype_of c = SPDK_NVME_RESERVE_NONE \<longleftrightarrow> c = 0"
  by (auto simp: rtype_of_def word_le_nat_alt word_unat_eq_iff)

lemma remove_where_ok:
  assumes "resv_ok strict ns"
  shows "resv_ok strict (fst (nvmf_ns_reservation_remove_registrants_by_key ns k))"
    "resv_ok strict (fst (nvmf_ns_reservation_remove_all_other_registrants ns reg))"
    "resv_ok strict (fst (nvmf_ns_reservation_clear_all_registrants ns))"
    "snd (nvmf_ns_reservation_remove_registrants_by_key ns k) = 0 \<Longrightarrow>
       fst (nvmf_ns_reservation_remove_registrants_by_key ns k) = ns"
  using remove_where_spec [OF _ assms, OF surjective_pairing]
  by (auto simp: nvmf_ns_reservation_remove_registrants_by_key_def nvmf_ns_reservation_remove_all_other_registrants_def
      nvmf_ns_reservation_clear_all_registrants_def)

lemma holder_reg_in:
  assumes "resv_wf ns" "holder ns = Some p"
  shows "holder_reg ns p \<in> set (registrants ns)" "r_ptr (holder_reg ns p) = p"
proof -
  obtain reg where found: "find (\<lambda>reg. r_ptr reg = p) (registrants ns) = Some reg"
    using assms by (cases "find (\<lambda>reg. r_ptr reg = p) (registrants ns)") (auto simp: resv_wf_def find_None_iff)
  moreover have "reg \<in> set (registrants ns)" "r_ptr reg = p" using found by (auto simp: find_Some_iff)
  ultimately show "holder_reg ns p \<in> set (registrants ns)" "r_ptr (holder_reg ns p) = p"
    by (simp_all add: holder_reg_def)
qed

lemma acquire_preempt_ok:
  assumes "resv_ok strict ns" "reg \<in> set (registrants ns)" "strict \<longrightarrow> rtype_of rt \<noteq> SPDK_NVME_RESERVE_NONE"
    and "acquire_preempt ns hid reg ck prkey rt = (st, upd, ns', old, released)"
  shows "outcome_ok strict ns upd ns'"
proof (cases "holder ns")
  case None
  with assms remove_where_ok [OF assms(1)] show ?thesis by (auto simp: acquire_preempt_def outcome_ok_def)
next
  case (Some h)
  have self: "resv_ok strict (ns\<lparr>ns_rtype := rtype_of rt\<rparr>)"
    using assms(1,3) Some by (auto simp: resv_ok_def resv_wf_def resv_typed_def)
  have other: "resv_ok strict (nvmf_ns_reservation_acquire_reservation
      (nvmf_ns_reservation_remove_registrant ns (holder_reg ns h)) ck (rtype_of rt) reg)" if "holder ns \<noteq> Some (r_ptr reg)"
    using acquire_reservation_ok [OF remove_registrant_ok [OF assms(1)] _ assms(3)] assms(1,2) that Some holder_reg_in(2) [OF _ Some]
    by (auto simp: remove_registrant_fields resv_ok_def)
  show ?thesis
    using assms(1,4) Some self other remove_where_ok [OF assms(1)]
    by (auto simp: acquire_preempt_def outcome_ok_def Let_def nvmf_ns_reservation_registrant_is_holder_def
        split_beta split: if_splits)
qed

lemma acquire_body_ok:
  assumes "resv_ok strict ns" "strict \<longrightarrow> resv_rtype (req_cmd req) \<noteq> 0"
    and "acquire_body ns hid req = (st, upd, ns', old, released)"
  shows "outcome_ok strict ns upd ns'"
proof -
  have same: "outcome_ok strict ns b ns" for b using assms(1) by (simp add: outcome_ok_def)
  have typed: "strict \<longrightarrow> rtype_of (resv_rtype (req_cmd req)) \<noteq> SPDK_NVME_RESERVE_NONE"
    if "\<not> rtype_code SPDK_NVME_RESERVE_EXCLUSIVE_ACCESS_ALL_REGS < resv_rtype (req_cmd req)"
    using that assms(2) by (simp add: not_less)
  have first: "outcome_ok strict ns upd ns'"
    if "acquire_first ns reg ck (resv_rtype (req_cmd req)) = (st, upd, ns', old, released)" "reg \<in> set (registrants ns)"
      "\<not> rtype_code SPDK_NVME_RESERVE_EXCLUSIVE_ACCESS_ALL_REGS < resv_rtype (req_cmd req)" for reg ck
    using that same acquire_reservation_ok [OF assms(1) that(2) typed [OF that(3)]]
    by (auto simp: acquire_first_def outcome_ok_def split: if_splits)
  show ?thesis
    using assms(3) same unfolding acquire_body_def Let_def
    by (auto split: if_splits option.splits dest: get_registrant_Some(1) intro: first acquire_preempt_ok [OF assms(1) _ typed])
qed

lemma acquire_ok:
  assumes "resv_ok strict ns" "strict \<longrightarrow> resv_rtype (req_cmd req) \<noteq> 0"
    and "nvmf_ns_reservation_acquire ns hid req = (st, upd, ns', notices)"
  shows "outcome_ok strict ns upd ns'"
  using assms(3) acquire_body_ok [OF assms(1,2)]
  by (auto simp: nvmf_ns_reservation_acquire_def split: prod.splits)

lemma release_ok:
  assumes "resv_ok strict ns" "nvmf_ns_reservation_release ns hid req = (st, upd, ns', notices)"
  shows "outcome_ok strict ns upd ns'"
proof -
  have "resv_ok strict (nvmf_ns_reservation_release_reservation ns)"
    using assms(1) by (simp add: resv_ok_def resv_wf_def resv_typed_def nvmf_ns_reservation_release_reservation_def)
  with assms remove_where_ok(3) [OF assms(1)] show ?thesis
    by (auto simp: nvmf_ns_reservation_release_def release_held_def outcome_ok_def Let_def split: if_splits option.splits)
qed

end
