(* ===== verification/Reservation_Run.thy ===== *)
theory Reservation_Run
  imports Reservation
begin

section \<open>Reservations across commands and poll groups\<close>

text \<open>
  Sequences of reservation commands by any hosts: the namespace keeps its invariant, and the copies in the poll groups follow it,
  so that the check of a command in a poll group decides as the namespace's reservation says. Then what happens with the
  reserved type 0, with more than sixteen registrants, with a replaced key, and to a reservation saved and restored.
\<close>

subsection \<open>Sequences of commands\<close>

lemma finish_update_fields:
  assumes "finish_update env s req (st, upd, ns, notices) = Some (s', req')"
  shows "sys_ns s' = ns"
    "sys_pgs s' = (if upd \<and> ctx_calloc env then nvmf_subsystem_update_ns ns (sys_pgs s) else sys_pgs s)"
    "sys_notices s' = sys_notices s @ notices"
  using assms by (auto simp: finish_update_def Let_def split: if_splits option.splits)

text \<open>
  A step is one command of some host. \<open>strict\<close> steps acquire no reservation of type 0; \<open>good\<close> steps have the memory for the update of the
  poll groups and do not exceed sixteen registrants.
\<close>

inductive resv_step :: "bool \<Rightarrow> bool \<Rightarrow> resv_sys \<Rightarrow> resv_sys \<Rightarrow> bool" for strict good where
  command: "nvmf_ns_reservation_request env s hid req = Some (s', req') \<Longrightarrow> fresh (reg_calloc env) (sys_ns s) \<Longrightarrow>
    (strict \<longrightarrow> opc (req_cmd req) = nvm_opc SPDK_NVME_OPC_RESERVATION_ACQUIRE \<longrightarrow> resv_rtype (req_cmd req) \<noteq> 0) \<Longrightarrow>
    (good \<longrightarrow> ctx_calloc env \<and> length (registrants (sys_ns s')) \<le> SPDK_NVMF_MAX_NUM_REGISTRANTS) \<Longrightarrow>
    resv_step strict good s s'"

inductive_cases resv_stepE: "resv_step strict good s s'"

definition resv_init :: "resv_sys \<Rightarrow> bool" where
  "resv_init s \<longleftrightarrow>
     registrants (sys_ns s) = [] \<and> holder (sys_ns s) = None \<and> ns_rtype (sys_ns s) = SPDK_NVME_RESERVE_NONE \<and>
     list_all (\<lambda>pg. rtype pg = SPDK_NVME_RESERVE_NONE \<and>
       reg_hostid pg = replicate SPDK_NVMF_MAX_NUM_REGISTRANTS null_uuid) (sys_pgs s)"

definition step_ok :: "bool \<Rightarrow> bool \<Rightarrow> resv_sys \<Rightarrow> resv_sys \<Rightarrow> bool" where
  "step_ok strict ctx s s' \<longleftrightarrow>
     resv_ok strict (sys_ns s') \<and>
     (sys_ns s' = sys_ns s \<and> sys_pgs s' = sys_pgs s \<or>
      sys_pgs s' = (if ctx then nvmf_subsystem_update_ns (sys_ns s') (sys_pgs s) else sys_pgs s))"

text \<open>
  The contract the commands share: from a namespace in order, a command leaves one in order, and an unchanged one if it does not
  ask for an update. What the common end of \<open>nvmf_ns_reservation_request\<close> makes of such a command is proved once.
\<close>

locale resv_command =
  fixes strict :: bool
    and pre :: "resv_ns \<Rightarrow> bool"
    and cmd :: "resv_ns \<Rightarrow> resv_outcome"
  assumes cmd_ok: "resv_ok strict ns \<Longrightarrow> pre ns \<Longrightarrow> cmd ns = (st, upd, ns', notices) \<Longrightarrow> outcome_ok strict ns upd ns'"
begin

lemma finish_ok:
  assumes "finish_update env s req (cmd (sys_ns s)) = Some (s', req')" "resv_ok strict (sys_ns s)" "pre (sys_ns s)"
  shows "step_ok strict (ctx_calloc env) s s'"
proof -
  obtain st upd ns notices where out: "cmd (sys_ns s) = (st, upd, ns, notices)" by (cases "cmd (sys_ns s)")
  show ?thesis
    using finish_update_fields [OF assms(1) [unfolded out]] cmd_ok [OF assms(2,3) out] by (auto simp: step_ok_def outcome_ok_def)
qed

end

interpretation register: resv_command strict "fresh calloc" "\<lambda>ns. nvmf_ns_reservation_register ops calloc ns hid req"
  for strict calloc ops hid req
  by unfold_locales (rule register_ok)

interpretation acquire: resv_command strict "\<lambda>ns. strict \<longrightarrow> resv_rtype (req_cmd req) \<noteq> 0" "\<lambda>ns. nvmf_ns_reservation_acquire ns hid req"
  for strict hid req
  by unfold_locales (rule acquire_ok)

interpretation release: resv_command strict "\<lambda>ns. True" "\<lambda>ns. nvmf_ns_reservation_release ns hid req"
  for strict hid req
  by unfold_locales (rule release_ok)

lemma request_ok:
  assumes "nvmf_ns_reservation_request env s hid req = Some (s', req')" "resv_ok strict (sys_ns s)"
    and "fresh (reg_calloc env) (sys_ns s)"
    and "strict \<longrightarrow> opc (req_cmd req) = nvm_opc SPDK_NVME_OPC_RESERVATION_ACQUIRE \<longrightarrow> resv_rtype (req_cmd req) \<noteq> 0"
  shows "step_ok strict (ctx_calloc env) s s'"
proof -
  have "step_ok strict (ctx_calloc env) s s" using assms(2) by (simp add: step_ok_def)
  moreover have "strict \<longrightarrow> resv_rtype (req_cmd req) \<noteq> 0" if "opc (req_cmd req) = nvm_opc SPDK_NVME_OPC_RESERVATION_ACQUIRE"
    using assms(4) that by blast
  ultimately show ?thesis
    using assms(1-3) unfolding nvmf_ns_reservation_request_def Let_def
    by (auto split: if_splits prod.splits dest!: register.finish_ok acquire.finish_ok release.finish_ok)
qed

lemma init_ok: "resv_init s \<Longrightarrow> resv_ok strict (sys_ns s)"
  by (simp add: resv_init_def resv_ok_def resv_wf_def resv_typed_def)

lemma reachable_ok:
  assumes "(resv_step strict good)\<^sup>*\<^sup>* s t" "resv_ok strict (sys_ns s)"
  shows "resv_ok strict (sys_ns t)"
  using assms(1)
proof (induction rule: rtranclp_induct)
  case base
  show ?case by (rule assms(2))
next
  case (step t t')
  from step.hyps(2) step.IH show ?case
    by (elim resv_stepE) (auto dest: request_ok simp: step_ok_def)
qed

subsection \<open>The copies in the poll groups\<close>

definition in_sync :: "resv_ns \<Rightarrow> spdk_nvmf_subsystem_pg_ns_info \<Rightarrow> bool" where
  "in_sync ns pg \<longleftrightarrow>
     rtype pg = ns_rtype ns \<and>
     (case holder ns of None \<Rightarrow> True | Some p \<Rightarrow> holder_id pg = r_hostid (holder_reg ns p)) \<and>
     reg_hostid pg = take SPDK_NVMF_MAX_NUM_REGISTRANTS
       (map r_hostid (registrants ns) @ replicate SPDK_NVMF_MAX_NUM_REGISTRANTS null_uuid) \<and>
     length (registrants ns) \<le> SPDK_NVMF_MAX_NUM_REGISTRANTS"

lemma update_in_sync:
  assumes "length (registrants ns) \<le> SPDK_NVMF_MAX_NUM_REGISTRANTS" "pg \<in> set (nvmf_subsystem_update_ns ns pgs)"
  shows "in_sync ns pg"
  using assms
  by (induction pgs) (auto simp: poll_group_update_ns_def in_sync_def Let_def split: option.splits)

lemma init_in_sync: "resv_init s \<Longrightarrow> pg \<in> set (sys_pgs s) \<Longrightarrow> in_sync (sys_ns s) pg"
  by (simp add: resv_init_def in_sync_def list_all_iff)

lemma reachable_in_sync:
  assumes "resv_init s" "(resv_step strict True)\<^sup>*\<^sup>* s t" "pg \<in> set (sys_pgs t)"
  shows "in_sync (sys_ns t) pg"
  using assms(2,3)
proof (induction arbitrary: pg rule: rtranclp_induct)
  case base
  then show ?case using init_in_sync assms(1) by simp
next
  case (step t t')
  have "resv_ok strict (sys_ns t)" by (rule reachable_ok [OF step.hyps(1) init_ok [OF assms(1)]])
  with step.hyps(2) have "step_ok strict True t t'" "length (registrants (sys_ns t')) \<le> SPDK_NVMF_MAX_NUM_REGISTRANTS"
    by (auto elim!: resv_stepE dest: request_ok)
  with step.IH step.prems show ?case by (auto simp: step_ok_def intro: update_in_sync)
qed

text \<open>
  What the reservation of a namespace allows a host, by type: the holder everything; registered hosts everything unless the type
  is for the holder alone; anyone reads under a write exclusive reservation.
\<close>

definition holds :: "resv_ns \<Rightarrow> uuid \<Rightarrow> bool" where
  "holds ns hid \<longleftrightarrow> (case holder ns of None \<Rightarrow> False | Some p \<Rightarrow> r_hostid (holder_reg ns p) = hid)"

definition registered :: "resv_ns \<Rightarrow> uuid \<Rightarrow> bool" where
  "registered ns hid \<longleftrightarrow> list_ex (\<lambda>reg. r_hostid reg = hid) (registrants ns)"

definition may_write :: "resv_ns \<Rightarrow> uuid \<Rightarrow> bool" where
  "may_write ns hid \<longleftrightarrow>
     (case ns_rtype ns of
        SPDK_NVME_RESERVE_NONE \<Rightarrow> True
      | SPDK_NVME_RESERVE_WRITE_EXCLUSIVE \<Rightarrow> holds ns hid
      | SPDK_NVME_RESERVE_EXCLUSIVE_ACCESS \<Rightarrow> holds ns hid
      | _ \<Rightarrow> registered ns hid)"

definition may_read :: "resv_ns \<Rightarrow> uuid \<Rightarrow> bool" where
  "may_read ns hid \<longleftrightarrow>
     (case ns_rtype ns of
        SPDK_NVME_RESERVE_EXCLUSIVE_ACCESS \<Rightarrow> holds ns hid
      | SPDK_NVME_RESERVE_EXCLUSIVE_ACCESS_REG_ONLY \<Rightarrow> registered ns hid
      | SPDK_NVME_RESERVE_EXCLUSIVE_ACCESS_ALL_REGS \<Rightarrow> registered ns hid
      | _ \<Rightarrow> True)"

lemma in_sync_registrant:
  assumes "in_sync ns pg" "hid \<noteq> null_uuid"
  shows "nvmf_ns_info_ctrlr_is_registrant pg hid \<longleftrightarrow> registered ns hid"
  using assms
  by (auto simp: in_sync_def nvmf_ns_info_ctrlr_is_registrant_def registered_def list_ex_iff)

lemma in_sync_holder:
  assumes "in_sync ns pg" "resv_wf ns" "ns_rtype ns \<noteq> SPDK_NVME_RESERVE_NONE"
  shows "holder_id pg = hid \<longleftrightarrow> holds ns hid"
  using assms by (auto simp: in_sync_def resv_wf_def holds_def split: option.splits)

lemma holder_registered: "resv_wf ns \<Longrightarrow> holds ns hid \<Longrightarrow> registered ns hid"
  using holder_reg_in(1) by (fastforce simp: holds_def registered_def list_ex_iff split: option.splits)

lemma check_decides:
  assumes "in_sync ns pg" "resv_wf ns" "hid \<noteq> null_uuid"
  shows "opc (req_cmd req) = nvm_opc SPDK_NVME_OPC_WRITE \<Longrightarrow>
      fst (nvmf_ns_reservation_request_check pg hid req) = (if may_write ns hid then None else Some EPERM)"
    and "opc (req_cmd req) = nvm_opc SPDK_NVME_OPC_READ \<Longrightarrow>
      fst (nvmf_ns_reservation_request_check pg hid req) = (if may_read ns hid then None else Some EPERM)"
proof -
  have rt: "rtype pg = ns_rtype ns" using assms(1) by (simp add: in_sync_def)
  note facts = in_sync_registrant [OF assms(1,3)] in_sync_holder [OF assms(1,2)] holder_registered [OF assms(2)]
  show "opc (req_cmd req) = nvm_opc SPDK_NVME_OPC_WRITE \<Longrightarrow>
      fst (nvmf_ns_reservation_request_check pg hid req) = (if may_write ns hid then None else Some EPERM)"
    using facts by (cases "ns_rtype ns")
      (auto simp: nvmf_ns_reservation_request_check_def reservation_status_def may_write_def Let_def rt)
  show "opc (req_cmd req) = nvm_opc SPDK_NVME_OPC_READ \<Longrightarrow>
      fst (nvmf_ns_reservation_request_check pg hid req) = (if may_read ns hid then None else Some EPERM)"
    using facts by (cases "ns_rtype ns")
      (auto simp: nvmf_ns_reservation_request_check_def reservation_status_def may_read_def Let_def rt)
qed

subsection \<open>Granting a reservation\<close>

definition acquire_req :: "spdk_nvmf_request \<Rightarrow> u8 \<Rightarrow> u64 \<Rightarrow> bool" where
  "acquire_req req rt ck \<longleftrightarrow>
     opc (req_cmd req) = nvm_opc SPDK_NVME_OPC_RESERVATION_ACQUIRE \<and> resv_action (req_cmd req) = 0 \<and>
     \<not> resv_iekey (req_cmd req) \<and> resv_rtype (req_cmd req) = rt \<and> rt \<le> 6 \<and>
     (case resv_keys 16 req of None \<Rightarrow> False | Some key \<Rightarrow> le64_word (get_at 0 8 key) = ck)"

lemma get_registrant_eq:
  assumes "resv_wf ns" "reg \<in> set (registrants ns)"
  shows "nvmf_ns_reservation_get_registrant ns (r_hostid reg) = Some reg"
proof -
  have "inj_on r_hostid (set (registrants ns))" using assms(1) by (simp add: resv_wf_def distinct_map)
  moreover obtain reg' where reg': "nvmf_ns_reservation_get_registrant ns (r_hostid reg) = Some reg'"
    using get_registrant_None [of ns "r_hostid reg"] assms(2) by fastforce
  ultimately show ?thesis using get_registrant_Some [OF reg'] assms(2) by (metis inj_onD)
qed

lemma acquire_body_eq:
  assumes "resv_wf ns" "reg \<in> set (registrants ns)" "acquire_req req rt (r_key reg)"
  shows "acquire_body ns (r_hostid reg) req = acquire_first ns reg (r_key reg) rt"
  using assms get_registrant_eq [OF assms(1,2)]
  by (auto simp: acquire_req_def acquire_body_def Let_def not_less split: option.splits)

lemma acquire_eq:
  assumes "resv_wf ns" "reg \<in> set (registrants ns)" "acquire_req req rt (r_key reg)"
  shows "nvmf_ns_reservation_acquire ns (r_hostid reg) req =
    (let (st, upd, ns', old, released) = acquire_first ns reg (r_key reg) rt in (st, upd, ns', []))"
  using acquire_body_eq [OF assms] assms(3)
  by (auto simp: nvmf_ns_reservation_acquire_def acquire_req_def Let_def split: prod.splits)

lemma acquire_grants:
  assumes "resv_wf ns" "reg \<in> set (registrants ns)" "acquire_req req rt (r_key reg)" "holder ns = None"
  shows "nvmf_ns_reservation_acquire ns (r_hostid reg) req =
    (SPDK_NVME_SC_SUCCESS, True, nvmf_ns_reservation_acquire_reservation ns (r_key reg) (rtype_of rt) reg, [])"
  using acquire_eq [OF assms(1-3)] assms(1,4)
  by (simp add: acquire_first_def resv_wf_def nvmf_ns_reservation_registrant_is_holder_def
      nvmf_ns_reservation_all_registrants_type_def)

subsection \<open>Saving and restoring\<close>

definition mk_reg :: "nat \<Rightarrow> u64 \<times> uuid \<Rightarrow> spdk_nvmf_registrant" where
  "mk_reg p i = \<lparr>r_ptr = p, r_hostid = snd i, r_key = fst i\<rparr>"

lemma restore_registrants_all:
  "length infos \<le> length ps \<Longrightarrow> restore_registrants (map Some ps) infos regs = (None, regs @ map2 mk_reg ps infos)"
proof (induction infos arbitrary: ps regs)
  case Nil
  then show ?case by simp
next
  case (Cons i infos)
  then obtain p ps' where "ps = p # ps'" by (cases ps) auto
  with Cons show ?case by (cases i) (simp add: mk_reg_def)
qed

lemma map2_mk_reg:
  assumes "length infos \<le> length ps"
  shows "map r_ptr (map2 mk_reg ps infos) = take (length infos) ps"
    "map (\<lambda>reg. (r_key reg, r_hostid reg)) (map2 mk_reg ps infos) = infos"
  using assms
  by (auto simp: mk_reg_def list_eq_iff_nth_eq)

lemma holder_reg_eq:
  assumes "distinct (map r_ptr (registrants ns))" "reg \<in> set (registrants ns)"
  shows "holder_reg ns (r_ptr reg) = reg"
proof -
  obtain reg' where reg': "find (\<lambda>r. r_ptr r = r_ptr reg) (registrants ns) = Some reg'"
    using assms(2) by (cases "find (\<lambda>r. r_ptr r = r_ptr reg) (registrants ns)") (auto simp: find_None_iff)
  then have "reg' \<in> set (registrants ns)" "r_ptr reg' = r_ptr reg" by (auto simp: find_Some_iff)
  then have "reg' = reg" using assms by (metis distinct_map inj_onD)
  with reg' show ?thesis by (simp add: holder_reg_def)
qed

lemma key_host_maps:
  assumes "map (\<lambda>reg. (r_key reg, r_hostid reg)) xs = map (\<lambda>reg. (r_key reg, r_hostid reg)) ys"
  shows "map r_hostid xs = map r_hostid ys" "map r_key xs = map r_key ys"
  using arg_cong [OF assms, of "map snd"] arg_cong [OF assms, of "map fst"] by (simp_all add: comp_def)

lemma restore_step:
  assumes "info_ptpl_activated info" "info_registrants info \<noteq> []" "length (info_registrants info) \<le> length ps"
    and "list_ex (\<lambda>(k, h). info_crkey info = k) (info_registrants info) \<or> info_crkey info = 0"
    and "registrants ns0 = []" "ns_bdev_uuid ns0 = Some (info_bdev_uuid info)"
  defines "regs \<equiv> map2 mk_reg ps (info_registrants info)"
  shows "nvmf_ns_reservation_restore (map Some ps) junk ns0 info =
    (None, ns0\<lparr>crkey := info_crkey info, ns_rtype := info_rtype info, ptpl_activated := True, registrants := regs,
       holder := (if info_rtype info = SPDK_NVME_RESERVE_WRITE_EXCLUSIVE_ALL_REGS \<or> info_rtype info = SPDK_NVME_RESERVE_EXCLUSIVE_ACCESS_ALL_REGS
         then Some (r_ptr (hd regs))
         else if info_crkey info \<noteq> 0
         then map_option r_ptr (find (\<lambda>reg. r_hostid reg = (case info_holder_uuid info of Some h \<Rightarrow> h | None \<Rightarrow> junk)) (rev regs))
         else None)\<rparr>)"
proof -
  have run: "restore_registrants (map Some ps) (info_registrants info) [] = (None, regs)"
    using restore_registrants_all [OF assms(3)] by (simp add: regs_def)
  have "\<not> (\<not> list_ex (\<lambda>(k, h). info_crkey info = k) (info_registrants info) \<and> info_crkey info \<noteq> 0)" using assms(4) by blast
  then show ?thesis
    using assms(1,2,5,6) unfolding nvmf_ns_reservation_restore_def Let_def
    by (simp add: run nvmf_ns_reservation_all_registrants_type_def)
qed

lemma restore_saved:
  assumes "resv_wf ns" "ptpl_activated ns" "registrants ns \<noteq> []" "length (registrants ns) \<le> length ps"
    and "ns_rtype ns \<noteq> SPDK_NVME_RESERVE_NONE \<Longrightarrow> crkey ns \<in> set (map r_key (registrants ns))"
    and "reservation_info ns bdev_uuid = Some info" "registrants ns0 = []" "ns_bdev_uuid ns0 = Some bdev_uuid"
  obtains ns' where "nvmf_ns_reservation_restore (map Some ps) junk ns0 info = (None, ns')"
    "registrants ns' = map2 mk_reg ps (map (\<lambda>reg. (r_key reg, r_hostid reg)) (registrants ns))"
    "ns_rtype ns' = ns_rtype ns" "crkey ns' = (if ns_rtype ns = SPDK_NVME_RESERVE_NONE then 0 else crkey ns)"
    "holder ns' =
      (if nvmf_ns_reservation_all_registrants_type ns then Some (r_ptr (hd (registrants ns')))
       else if ns_rtype ns \<noteq> SPDK_NVME_RESERVE_NONE
       then map_option r_ptr (find (\<lambda>reg. holds ns (r_hostid reg)) (rev (registrants ns')))
       else None)"
proof -
  let ?rs = "map (\<lambda>reg. (r_key reg, r_hostid reg)) (registrants ns)"
  have nz: "ns_rtype ns \<noteq> SPDK_NVME_RESERVE_NONE \<Longrightarrow> crkey ns \<noteq> 0" "ns_rtype ns \<noteq> SPDK_NVME_RESERVE_NONE \<Longrightarrow> holder ns \<noteq> None"
    using assms(1,5) by (auto simp: resv_wf_def list_all_iff split: option.splits)
  have key: "list_ex (\<lambda>(k, h). info_crkey info = k) ?rs \<or> info_crkey info = 0"
    using assms(5,6) by (auto simp: reservation_info_def list_ex_iff split: if_splits)
  have info: "info_ptpl_activated info" "info_registrants info = ?rs" "info_bdev_uuid info = bdev_uuid" "info_rtype info = ns_rtype ns"
    "info_crkey info = (if ns_rtype ns = SPDK_NVME_RESERVE_NONE then 0 else crkey ns)"
    "info_holder_uuid info = (if ns_rtype ns \<noteq> SPDK_NVME_RESERVE_NONE \<and> \<not> nvmf_ns_reservation_all_registrants_type ns
           then map_option (\<lambda>p. r_hostid (holder_reg ns p)) (holder ns) else None)"
    using assms(2,6) by (auto simp: reservation_info_def split: if_splits)
  let ?ns = "snd (nvmf_ns_reservation_restore (map Some ps) junk ns0 info)"
  have holder: "find (\<lambda>reg. r_hostid reg = (case info_holder_uuid info of Some h \<Rightarrow> h | None \<Rightarrow> junk)) regs =
      find (\<lambda>reg. holds ns (r_hostid reg)) regs"
    if typed: "ns_rtype ns \<noteq> SPDK_NVME_RESERVE_NONE" "\<not> nvmf_ns_reservation_all_registrants_type ns" for regs
  proof -
    obtain p where "holder ns = Some p" using nz(2) [OF typed(1)] by blast
    then show ?thesis using typed info(6) by (auto simp: holds_def intro!: arg_cong [of _ _ "\<lambda>P. find P regs"])
  qed
  have run: "nvmf_ns_reservation_restore (map Some ps) junk ns0 info = (None, ?ns)"
    and regs: "registrants ?ns = map2 mk_reg ps ?rs" and fields: "ns_rtype ?ns = ns_rtype ns" "crkey ?ns = info_crkey info"
    and hold: "holder ?ns = (if nvmf_ns_reservation_all_registrants_type ns then Some (r_ptr (hd (map2 mk_reg ps ?rs)))
         else if info_crkey info \<noteq> 0
         then map_option r_ptr (find (\<lambda>reg. r_hostid reg = (case info_holder_uuid info of Some h \<Rightarrow> h | None \<Rightarrow> junk)) (rev (map2 mk_reg ps ?rs)))
         else None)"
    using restore_step [of info ps ns0 junk] key info(1-4) assms(3,4,7,8)
    by (simp_all add: nvmf_ns_reservation_all_registrants_type_def)
  show thesis
  proof (rule that [OF run regs fields(1)])
    show "crkey ?ns = (if ns_rtype ns = SPDK_NVME_RESERVE_NONE then 0 else crkey ns)" using fields(2) info(5) by simp
    show "holder ?ns =
      (if nvmf_ns_reservation_all_registrants_type ns then Some (r_ptr (hd (registrants ?ns)))
       else if ns_rtype ns \<noteq> SPDK_NVME_RESERVE_NONE
       then map_option r_ptr (find (\<lambda>reg. holds ns (r_hostid reg)) (rev (registrants ?ns)))
       else None)"
      unfolding hold regs using nz(1) info(5) by (auto simp del: map_map map_zip_map2 intro!: arg_cong [OF holder])
  qed
qed

text \<open>The restored holder is the host that held the reservation.\<close>

lemma restored_holder:
  assumes "resv_wf ns" "ns_rtype ns \<noteq> SPDK_NVME_RESERVE_NONE" "map r_hostid regs = map r_hostid (registrants ns)"
  obtains reg where "find (\<lambda>reg. holds ns (r_hostid reg)) (rev regs) = Some reg" "reg \<in> set regs" "holds ns (r_hostid reg)"
proof -
  obtain p where p: "holder ns = Some p" using assms(1,2) by (auto simp: resv_wf_def split: option.splits)
  have "r_hostid (holder_reg ns p) \<in> set (map r_hostid regs)"
    using holder_reg_in(1) [OF assms(1) p] assms(3) by simp
  then obtain x where "x \<in> set regs" "holds ns (r_hostid x)" using p by (auto simp: holds_def)
  then obtain reg where "find (\<lambda>reg. holds ns (r_hostid reg)) (rev regs) = Some reg"
    by (cases "find (\<lambda>reg. holds ns (r_hostid reg)) (rev regs)") (auto simp: find_None_iff)
  moreover from this have "reg \<in> set (rev regs)" "holds ns (r_hostid reg)" by (metis find_Some_iff nth_mem)+
  ultimately show thesis using that by auto
qed

lemma restored_access:
  assumes "resv_wf ns" "distinct (map r_ptr (registrants ns'))" "registrants ns \<noteq> []"
    and "map (\<lambda>reg. (r_key reg, r_hostid reg)) (registrants ns') = map (\<lambda>reg. (r_key reg, r_hostid reg)) (registrants ns)"
    and "ns_rtype ns' = ns_rtype ns"
    and "holder ns' =
      (if nvmf_ns_reservation_all_registrants_type ns then Some (r_ptr (hd (registrants ns')))
       else if ns_rtype ns \<noteq> SPDK_NVME_RESERVE_NONE
       then map_option r_ptr (find (\<lambda>reg. holds ns (r_hostid reg)) (rev (registrants ns')))
       else None)"
  shows "resv_wf ns'" "may_write ns' hid = may_write ns hid" "may_read ns' hid = may_read ns hid"
proof -
  note maps = key_host_maps [OF assms(4)]
  have ne: "registrants ns' \<noteq> []" using assms(3) maps(1) by force
  have keys: "list_all (\<lambda>reg. r_key reg \<noteq> 0) (registrants ns')"
  proof -
    have "set (map r_key (registrants ns')) = set (map r_key (registrants ns))" by (simp only: maps(2))
    then show ?thesis using assms(1) by (auto simp: resv_wf_def list_all_iff) (metis imageE image_eqI)
  qed
  have reg: "registered ns' hid = registered ns hid"
  proof -
    have "set (map r_hostid (registrants ns')) = set (map r_hostid (registrants ns))" by (simp only: maps(1))
    then show ?thesis by (auto simp: registered_def list_ex_iff) (metis imageE image_eqI)+
  qed
  have hold: "holds ns' hid = holds ns hid \<and> holder ns' \<noteq> None \<and> the (holder ns') \<in> set (map r_ptr (registrants ns'))"
    if rt: "ns_rtype ns \<noteq> SPDK_NVME_RESERVE_NONE" "\<not> nvmf_ns_reservation_all_registrants_type ns"
  proof -
    obtain x where x: "find (\<lambda>reg. holds ns (r_hostid reg)) (rev (registrants ns')) = Some x" "x \<in> set (registrants ns')"
      "holds ns (r_hostid x)" by (rule restored_holder [OF assms(1) rt(1) maps(1)])
    then have "holder ns' = Some (r_ptr x)" using assms(6) rt by simp
    moreover have "holder_reg ns' (r_ptr x) = x" by (rule holder_reg_eq [OF assms(2) x(2)])
    ultimately show ?thesis using x by (auto simp: holds_def split: option.splits)
  qed
  show "may_write ns' hid = may_write ns hid" "may_read ns' hid = may_read ns hid"
    using reg hold assms(5) by (cases "ns_rtype ns"; simp add: may_write_def may_read_def nvmf_ns_reservation_all_registrants_type_def)+
  show "resv_wf ns'"
  proof (cases "ns_rtype ns = SPDK_NVME_RESERVE_NONE \<or> nvmf_ns_reservation_all_registrants_type ns")
    case True
    with assms(1,2,5,6) maps(1) keys ne show ?thesis
      by (auto simp: resv_wf_def nvmf_ns_reservation_all_registrants_type_def)
  next
    case False
    with hold obtain p where "holder ns' = Some p" "p \<in> set (map r_ptr (registrants ns'))" by auto
    with assms(1,2) maps(1) keys show ?thesis by (simp add: resv_wf_def)
  qed
qed

subsection \<open>Replacing the holder's key\<close>

lemma replace_outcome:
  assumes "nvmf_ns_reservation_register ops calloc ns (r_hostid reg) req = (st, upd, ns', notices)"
    and "resv_wf ns" "reg \<in> set (registrants ns)" "resv_action (req_cmd req) = 2" "resv_register_cptpl (req_cmd req) = 0" "ns' \<noteq> ns"
  obtains k where "ns' = set_key ns reg k" "k \<noteq> r_key reg"
  using assms get_registrant_eq [OF assms(2,3)]
  by (auto simp: nvmf_ns_reservation_register_def register_cptpl_def replace_key_def Let_def split: if_splits option.splits)

lemma set_key_forgets:
  assumes "k \<noteq> r_key reg"
    and "\<And>r. r \<in> set (registrants ns) \<Longrightarrow> r_key r = r_key reg \<Longrightarrow> r = reg"
  shows "r_key reg \<notin> r_key ` set (registrants (set_key ns reg k))"
proof
  assume "r_key reg \<in> r_key ` set (registrants (set_key ns reg k))"
  then obtain r where r: "r \<in> set (registrants ns)"
    and eq: "r_key reg = r_key (if r_ptr r = r_ptr reg then r\<lparr>r_key := k\<rparr> else r)"
    by (auto simp: set_key_def simp del: if_cancel split del: if_split)
  show False
  proof (cases "r_ptr r = r_ptr reg")
    case True
    with eq assms(1) show False by simp
  next
    case False
    with eq assms(2) [OF r] show False by simp
  qed
qed

subsection \<open>Properties\<close>

text \<open>
  C12: In every state reached by reservation commands of any hosts, registrants have distinct
  addresses and host identifiers and non-zero keys, the holder is a registrant, and without a
  holder the type is none; if no command acquires the reserved type 0, a holder also has a type.
\<close>

theorem reservations_stay_well_formed:
  assumes "resv_init s" "(resv_step strict good)\<^sup>*\<^sup>* s t"
  shows "resv_wf (sys_ns t) \<and> (strict \<longrightarrow> resv_typed (sys_ns t))"
  using reachable_ok [OF assms(2) init_ok [OF assms(1)]] by (simp add: resv_ok_def)

text \<open>
  C11: After any sequence of reservation commands that stays within sixteen registrants, the
  check each poll group makes on its copy admits a Write or a Read of a host (other than the
  null host) exactly when the namespace's reservation allows it: the holder, or a registered
  host where the type says so, or anyone where the type does not forbid it.
\<close>

theorem poll_group_check_is_exact:
  assumes "resv_init s" "(resv_step strict True)\<^sup>*\<^sup>* s t" "pg \<in> set (sys_pgs t)" "hid \<noteq> null_uuid"
  shows "(opc (req_cmd req) = nvm_opc SPDK_NVME_OPC_WRITE \<longrightarrow>
      fst (nvmf_ns_reservation_request_check pg hid req) = (if may_write (sys_ns t) hid then None else Some EPERM)) \<and>
    (opc (req_cmd req) = nvm_opc SPDK_NVME_OPC_READ \<longrightarrow>
      fst (nvmf_ns_reservation_request_check pg hid req) = (if may_read (sys_ns t) hid then None else Some EPERM))"
proof -
  have "resv_wf (sys_ns t)" using reachable_ok [OF assms(2) init_ok [OF assms(1)]] by (simp add: resv_ok_def)
  with check_decides [OF reachable_in_sync [OF assms(1-3)] _ assms(4)] show ?thesis by blast
qed

text \<open>
  C13: What is saved of a namespace with persistence through power loss and at most sixteen
  registrants, whose reservation key is that of a registrant, restores on a fresh namespace with
  the same device to a well-formed namespace with the same keys and hosts in the same order, and
  every host may read and write exactly what it could before.
\<close>

theorem reservation_survives_restart:
  assumes "resv_wf ns" "ptpl_activated ns" "registrants ns \<noteq> []" "length (registrants ns) \<le> SPDK_NVMF_MAX_NUM_REGISTRANTS"
    and "ns_rtype ns \<noteq> SPDK_NVME_RESERVE_NONE \<Longrightarrow> crkey ns \<in> set (map r_key (registrants ns))"
    and "registrants ns0 = []" "ns_bdev_uuid ns0 = Some bdev_uuid"
    and "distinct ps" "length (registrants ns) \<le> length ps"
  shows "\<exists>info ns'. reservation_info ns bdev_uuid = Some info \<and>
    nvmf_ns_reservation_restore (map Some ps) junk ns0 info = (None, ns') \<and> resv_wf ns' \<and>
    map (\<lambda>reg. (r_key reg, r_hostid reg)) (registrants ns') = map (\<lambda>reg. (r_key reg, r_hostid reg)) (registrants ns) \<and>
    (\<forall>hid. may_write ns' hid = may_write ns hid \<and> may_read ns' hid = may_read ns hid)"
proof -
  obtain info where info: "reservation_info ns bdev_uuid = Some info"
    using assms(4) by (simp add: reservation_info_def)
  obtain ns' where ns': "nvmf_ns_reservation_restore (map Some ps) junk ns0 info = (None, ns')"
    "registrants ns' = map2 mk_reg ps (map (\<lambda>reg. (r_key reg, r_hostid reg)) (registrants ns))"
    "ns_rtype ns' = ns_rtype ns"
    "holder ns' =
      (if nvmf_ns_reservation_all_registrants_type ns then Some (r_ptr (hd (registrants ns')))
       else if ns_rtype ns \<noteq> SPDK_NVME_RESERVE_NONE
       then map_option r_ptr (find (\<lambda>reg. holds ns (r_hostid reg)) (rev (registrants ns')))
       else None)"
    by (rule restore_saved [OF assms(1-3,9,5) info assms(6,7), of junk]) 
  have maps: "map (\<lambda>reg. (r_key reg, r_hostid reg)) (registrants ns') = map (\<lambda>reg. (r_key reg, r_hostid reg)) (registrants ns)"
    unfolding ns'(2) by (rule map2_mk_reg(2)) (use assms(9) in simp)
  have "distinct (map r_ptr (registrants ns'))"
    unfolding ns'(2) by (subst map2_mk_reg(1)) (use assms(8,9) in simp_all)
  from restored_access [OF assms(1) this assms(3) maps ns'(3,4)] info ns'(1) maps show ?thesis by blast
qed

text \<open>
  C15: When the holder of a persistent reservation replaces its registration key and no other
  host has the old key, what is saved can never be restored: nvmf_ns_reservation_restore returns
  -EINVAL, because the reservation key still is the old one.
\<close>

theorem replaced_holder_key_is_not_restored:
  assumes "nvmf_ns_reservation_register ops calloc ns (r_hostid reg) req = (SPDK_NVME_SC_SUCCESS, upd, ns', notices)"
    and "resv_action (req_cmd req) = 2" "resv_register_cptpl (req_cmd req) = 0" "ns' \<noteq> ns"
    and "resv_wf ns" "ptpl_activated ns" "length (registrants ns) \<le> SPDK_NVMF_MAX_NUM_REGISTRANTS"
    and "reg \<in> set (registrants ns)" "ns_rtype ns \<noteq> SPDK_NVME_RESERVE_NONE" "crkey ns = r_key reg"
    and "\<And>r. r \<in> set (registrants ns) \<Longrightarrow> r_key r = r_key reg \<Longrightarrow> r = reg"
  shows "\<exists>info. reservation_info ns' bdev_uuid = Some info \<and>
    (\<forall>callocs junk ns0. nvmf_ns_reservation_restore callocs junk ns0 info = (Some EINVAL, ns0))"
proof -
  obtain k where ns': "ns' = set_key ns reg k" and k: "k \<noteq> r_key reg"
    using replace_outcome [OF assms(1,5,8,2,3,4)] by blast
  have len: "length (registrants ns') = length (registrants ns)" unfolding ns' by (simp add: set_key_def)
  obtain info where info: "reservation_info ns' bdev_uuid = Some info" using assms(7) len by (simp add: reservation_info_def)
  have "crkey ns \<noteq> 0" using assms(5,8,10) by (auto simp: resv_wf_def list_all_iff)
  moreover have "crkey ns \<notin> r_key ` set (registrants ns')"
    unfolding ns' assms(10) by (rule set_key_forgets [OF k assms(11)])
  moreover have "registrants ns' \<noteq> []" using assms(8) len by auto
  moreover have "info_crkey info = crkey ns" "info_ptpl_activated info"
    "info_registrants info = map (\<lambda>reg. (r_key reg, r_hostid reg)) (registrants ns')"
    using info assms(6,9) by (auto simp: reservation_info_def ns' set_key_fields split: if_splits)
  ultimately have "nvmf_ns_reservation_restore callocs junk ns0 info = (Some EINVAL, ns0)" for callocs junk ns0
    by (auto simp: nvmf_ns_reservation_restore_def list_ex_iff)
  with info show ?thesis by blast
qed

text \<open>
  C14: With more than sixteen registrants, a host that acquires a Write Exclusive reservation is
  told that it succeeded, but every poll group after the first keeps its old copy and goes on
  admitting every command of every host.
\<close>

theorem many_registrants_leave_poll_groups_open:
  assumes "resv_wf (sys_ns s)" "SPDK_NVMF_MAX_NUM_REGISTRANTS < length (registrants (sys_ns s))" "holder (sys_ns s) = None"
    and "\<not> ptpl_activated (sys_ns s)" "sys_pgs s = pg # pgs" "pg2 \<in> set pgs" "rtype pg2 = SPDK_NVME_RESERVE_NONE"
    and "reg \<in> set (registrants (sys_ns s))" "acquire_req req 1 (r_key reg)"
  shows "\<exists>s' req'. nvmf_ns_reservation_request env s (r_hostid reg) req = Some (s', req') \<and>
    \<not> spdk_nvme_cpl_is_error (rsp req') \<and> ns_rtype (sys_ns s') = SPDK_NVME_RESERVE_WRITE_EXCLUSIVE \<and>
    pg2 \<in> set (sys_pgs s') \<and> (\<forall>hid w. nvmf_ns_reservation_request_check pg2 hid w = (None, w))"
proof -
  have opc: "opc (req_cmd req) = nvm_opc SPDK_NVME_OPC_RESERVATION_ACQUIRE" using assms(9) by (simp add: acquire_req_def)
  have rt: "rtype_of 1 = SPDK_NVME_RESERVE_WRITE_EXCLUSIVE" by (simp add: rtype_of_def)
  note out = acquire_grants [OF assms(1,8,9,3)]
  have "nvmf_ns_reservation_request_check pg2 hid w = (None, w)" for hid w
    using assms(7) by (simp add: nvmf_ns_reservation_request_check_def)
  then show ?thesis
    using assms(2,4-6) out rt opc
    by (auto simp: nvmf_ns_reservation_request_def finish_update_def nvmf_ns_reservation_acquire_reservation_def
        poll_group_update_ns_def Let_def)
qed

text \<open>
  C16: An Acquire with the reserved type 0 succeeds while there is no holder: afterwards every
  other host's Acquire ends with Reservation Conflict, although every host may still read and
  write.
\<close>

theorem reserved_type_blocks_without_protecting:
  assumes "resv_wf ns" "holder ns = None" "reg \<in> set (registrants ns)" "other \<in> set (registrants ns)" "other \<noteq> reg"
    and "acquire_req req 0 (r_key reg)" "acquire_req req2 rt (r_key other)"
  shows "\<exists>ns'. nvmf_ns_reservation_acquire ns (r_hostid reg) req = (SPDK_NVME_SC_SUCCESS, True, ns', []) \<and>
    fst (nvmf_ns_reservation_acquire ns' (r_hostid other) req2) = SPDK_NVME_SC_RESERVATION_CONFLICT \<and>
    (\<forall>hid. may_write ns' hid \<and> may_read ns' hid)"
proof -
  let ?ns = "nvmf_ns_reservation_acquire_reservation ns (r_key reg) (rtype_of 0) reg"
  have none: "ns_rtype ?ns = SPDK_NVME_RESERVE_NONE" "holder ?ns = Some (r_ptr reg)" "registrants ?ns = registrants ns"
    by (simp_all add: nvmf_ns_reservation_acquire_reservation_def rtype_of_def)
  have wf: "resv_wf ?ns" using assms(1,3) none by (simp add: resv_wf_def)
  have "r_ptr other \<noteq> r_ptr reg" using assms(1,3-5) by (metis resv_wf_def distinct_map inj_onD)
  then have "fst (nvmf_ns_reservation_acquire ?ns (r_hostid other) req2) = SPDK_NVME_SC_RESERVATION_CONFLICT"
    using acquire_eq [OF wf _ assms(7)] assms(4) none
    by (simp add: acquire_first_def nvmf_ns_reservation_registrant_is_holder_def nvmf_ns_reservation_all_registrants_type_def)
  moreover have "may_write ?ns hid \<and> may_read ?ns hid" for hid using none by (simp add: may_write_def may_read_def)
  ultimately show ?thesis using acquire_grants [OF assms(1,3,6,2)] by blast
qed

subsection \<open>Further oddities\<close>

text \<open>Unused entries of the array of registrants are zero, so the host with the null identifier counts as registered.\<close>

lemma null_host_counts_as_registrant:
  assumes "in_sync ns pg" "length (registrants ns) < SPDK_NVMF_MAX_NUM_REGISTRANTS"
  shows "nvmf_ns_info_ctrlr_is_registrant pg null_uuid"
  using assms by (auto simp: in_sync_def nvmf_ns_info_ctrlr_is_registrant_def list_ex_iff)

text \<open>A preemption that meets no holder unregisters hosts without notifying them.\<close>

lemma preempt_without_holder_notifies_nobody:
  assumes "holder ns = None" "nvmf_ns_reservation_acquire ns hid req = (st, upd, ns', notices)"
  shows "notices = []"
proof -
  obtain st upd ns' old released where out: "acquire_body ns hid req = (st, upd, ns', old, released)" by (metis prod_cases5)
  then have "old = []" "\<not> released"
    using assms(1) by (auto simp: acquire_body_def acquire_first_def acquire_preempt_def Let_def split: if_splits option.splits)
  with assms(2) out show ?thesis
    by (auto simp: nvmf_ns_reservation_acquire_def nvmf_ns_reservation_get_unregistered_hostid_def
        nvmf_subsystem_gen_ctrlr_notification_def Let_def split: if_splits)
qed

subsection \<open>Sample hosts and namespaces\<close>

definition host :: "byte \<Rightarrow> uuid" where
  "host n = replicate 16 n"

definition sample_rns :: resv_ns where
  "sample_rns = \<lparr>ns_anagrpid = 1, ns_desc = None, ns_zcopy = False, ns_bdev_uuid = Some (host 9), gen = 0, registrants = [],
     crkey = 0, ns_rtype = SPDK_NVME_RESERVE_NONE, holder = None, ptpl_activated = False\<rparr>"

definition sample_pg :: spdk_nvmf_subsystem_pg_ns_info where
  "sample_pg = \<lparr>ni_channel = True, rtype = SPDK_NVME_RESERVE_NONE, holder_id = null_uuid, reg_hostid = replicate 16 null_uuid,
     io_outstanding = 0, ni_state = SPDK_NVMF_SUBSYSTEM_ACTIVE\<rparr>"

definition sample_rsys :: resv_sys where
  "sample_rsys = \<lparr>sys_ns = sample_rns, sys_pgs = [sample_pg, sample_pg], sys_saved = None, sys_notices = []\<rparr>"

definition sample_renv :: resv_env where
  "sample_renv = \<lparr>resv_ops = \<lparr>is_ptpl_capable = (\<lambda>ns. False), resv_update = (\<lambda>ns info. None)\<rparr>, reg_calloc = Some 100, ctx_calloc = True\<rparr>"

definition key_req :: "u8 \<Rightarrow> u32 \<Rightarrow> u64 \<Rightarrow> u64 \<Rightarrow> spdk_nvmf_request" where
  "key_req opcode dw10 k1 k2 = sample_req\<lparr>req_length := 16, iov := [le64_bytes k1 @ le64_bytes k2],
     req_cmd := sample_cmd\<lparr>opc := opcode, cdw10 := dw10\<rparr>\<rparr>"

lemma key_req_fields [simp]:
  "resv_keys 16 (key_req opcode dw10 k1 k2) = Some (le64_bytes k1 @ le64_bytes k2)"
  "opc (req_cmd (key_req opcode dw10 k1 k2)) = opcode" "cdw10 (req_cmd (key_req opcode dw10 k1 k2)) = dw10"
  by (simp_all add: key_req_def resv_keys_def copy_iovs_to_buf_flat)

lemma key_parts [simp]:
  "le64_word (get_at 0 8 (le64_bytes k1 @ le64_bytes k2)) = k1"
  "le64_word (get_at 8 8 (le64_bytes k1 @ le64_bytes k2)) = k2"
  by (simp_all add: get_at_def)

definition one_reg :: spdk_nvmf_registrant where
  "one_reg = \<lparr>r_ptr = 100, r_hostid = host 1, r_key = 5\<rparr>"

definition registered_sys :: resv_sys where
  "registered_sys = sample_rsys\<lparr>sys_ns := sample_rns\<lparr>registrants := [one_reg], gen := 1\<rparr>,
     sys_pgs := map (\<lambda>pg. pg\<lparr>reg_hostid := host 1 # replicate 15 null_uuid\<rparr>) [sample_pg, sample_pg]\<rparr>"

definition reserved_sys :: resv_sys where
  "reserved_sys = registered_sys\<lparr>sys_ns := (sys_ns registered_sys)\<lparr>ns_rtype := SPDK_NVME_RESERVE_WRITE_EXCLUSIVE,
       crkey := 5, holder := Some 100\<rparr>,
     sys_pgs := map (\<lambda>pg. pg\<lparr>rtype := SPDK_NVME_RESERVE_WRITE_EXCLUSIVE, holder_id := host 1,
       reg_hostid := host 1 # replicate 15 null_uuid\<rparr>) [sample_pg, sample_pg]\<rparr>"

lemmas resv_samples = sample_rns_def sample_pg_def sample_rsys_def sample_renv_def one_reg_def registered_sys_def reserved_sys_def

lemmas resv_eval = nvmf_ns_reservation_request_def nvmf_ns_reservation_register_def register_cptpl_def resv_register_cptpl_def
  resv_action_def register_key_def register_new_def nvmf_ns_reservation_add_registrant_def finish_update_def
  nvmf_ns_update_reservation_info_def poll_group_update_ns_def nvmf_ns_reservation_get_registrant_def
  SPDK_NVMF_MAX_NUM_REGISTRANTS_def Let_def

lemma acquire_req_key_req [simp]:
  "acquire_req (key_req 0x11 0x100 k1 k2) 1 k1" "acquire_req (key_req 0x11 0 k1 k2) 0 k1"
  by (simp_all add: acquire_req_def resv_action_def resv_iekey_def resv_rtype_def)

lemma sample_registers:
  "\<exists>req. nvmf_ns_reservation_request sample_renv sample_rsys (host 1) (key_req 0x0d 0 0 5) = Some (registered_sys, req)"
  by (simp add: resv_eval resv_samples)

lemma sample_acquires:
  "\<exists>req. nvmf_ns_reservation_request (sample_renv\<lparr>reg_calloc := None\<rparr>) registered_sys (host 1) (key_req 0x11 0x100 5 0) = Some (reserved_sys, req)"
proof -
  have "resv_wf (sys_ns registered_sys)" "holder (sys_ns registered_sys) = None" "one_reg \<in> set (registrants (sys_ns registered_sys))"
    by (simp_all add: resv_samples resv_wf_def)
  from acquire_grants [OF this(1,3) _ this(2), of "key_req 0x11 0x100 5 0" 1]
  have "nvmf_ns_reservation_acquire (sys_ns registered_sys) (host 1) (key_req 0x11 0x100 5 0) =
      (SPDK_NVME_SC_SUCCESS, True, nvmf_ns_reservation_acquire_reservation (sys_ns registered_sys) 5 (rtype_of 1) one_reg, [])"
    by (simp add: one_reg_def)
  then show ?thesis
    by (simp add: nvmf_ns_reservation_request_def finish_update_def Let_def)
      (simp add: resv_eval nvmf_ns_reservation_acquire_reservation_def rtype_of_def holder_reg_def resv_samples)
qed

lemma sample_reaches: "(resv_step True True)\<^sup>*\<^sup>* sample_rsys reserved_sys"
proof -
  obtain req where "nvmf_ns_reservation_request sample_renv sample_rsys (host 1) (key_req 0x0d 0 0 5) = Some (registered_sys, req)"
    using sample_registers by blast
  then have "resv_step True True sample_rsys registered_sys"
    by (rule resv_step.command) (simp_all add: resv_samples fresh_def SPDK_NVMF_MAX_NUM_REGISTRANTS_def)
  moreover obtain req where "nvmf_ns_reservation_request (sample_renv\<lparr>reg_calloc := None\<rparr>) registered_sys (host 1) (key_req 0x11 0x100 5 0) =
      Some (reserved_sys, req)"
    using sample_acquires by blast
  then have "resv_step True True registered_sys reserved_sys"
    by (rule resv_step.command) (simp_all add: resv_samples fresh_def SPDK_NVMF_MAX_NUM_REGISTRANTS_def resv_rtype_def)
  ultimately show ?thesis by simp
qed

lemma sample_init: "resv_init sample_rsys"
  by (simp add: resv_samples resv_init_def SPDK_NVMF_MAX_NUM_REGISTRANTS_def)

theorem reservations_stay_well_formed_witness:
  "resv_wf (sys_ns reserved_sys) \<and> resv_typed (sys_ns reserved_sys) \<and> holder (sys_ns reserved_sys) = Some 100"
  using reservations_stay_well_formed [OF sample_init sample_reaches] by (simp add: reserved_sys_def)

theorem poll_group_check_is_exact_witness:
  "fst (nvmf_ns_reservation_request_check (hd (sys_pgs reserved_sys)) (host 2) (sample_req\<lparr>req_cmd := sample_cmd\<lparr>opc := 1\<rparr>\<rparr>)) = Some EPERM"
proof -
  have "hd (sys_pgs reserved_sys) \<in> set (sys_pgs reserved_sys)" "host 2 \<noteq> null_uuid" "\<not> may_write (sys_ns reserved_sys) (host 2)"
    by (simp_all add: resv_samples may_write_def holds_def holder_reg_def host_def null_uuid_def)
  with poll_group_check_is_exact [OF sample_init sample_reaches this(1,2), of "sample_req\<lparr>req_cmd := sample_cmd\<lparr>opc := 1\<rparr>\<rparr>"]
  show ?thesis by simp
qed

definition durable_ns :: resv_ns where
  "durable_ns = (sys_ns reserved_sys)\<lparr>ptpl_activated := True\<rparr>"

lemma durable_ns_facts:
  "resv_wf durable_ns" "ptpl_activated durable_ns" "registrants durable_ns = [one_reg]" "crkey durable_ns = r_key one_reg"
  "ns_rtype durable_ns = SPDK_NVME_RESERVE_WRITE_EXCLUSIVE"
  by (simp_all add: durable_ns_def resv_samples resv_wf_def)

theorem reservation_survives_restart_witness:
  "\<exists>info ns'. reservation_info durable_ns (host 9) = Some info \<and>
    nvmf_ns_reservation_restore [Some 7] [] sample_rns info = (None, ns') \<and> may_write ns' (host 1) \<and> \<not> may_write ns' (host 2)"
proof -
  have "may_write durable_ns (host 1)" "\<not> may_write durable_ns (host 2)"
    by (simp_all add: durable_ns_def resv_samples may_write_def holds_def holder_reg_def host_def)
  then show ?thesis
    using reservation_survives_restart [of durable_ns sample_rns "host 9" "[7]" "[]"] durable_ns_facts
    by (auto simp: SPDK_NVMF_MAX_NUM_REGISTRANTS_def sample_rns_def)
qed

theorem replaced_holder_key_is_not_restored_witness:
  "\<exists>info. reservation_info (set_key durable_ns one_reg 6) (host 9) = Some info \<and>
    nvmf_ns_reservation_restore [Some 7] [] sample_rns info = (Some EINVAL, sample_rns)"
proof -
  have run: "nvmf_ns_reservation_register (resv_ops sample_renv) None durable_ns (r_hostid one_reg) (key_req 0x0d 2 5 6) =
      (SPDK_NVME_SC_SUCCESS, True, set_key durable_ns one_reg 6, [])"
    by (simp add: nvmf_ns_reservation_register_def register_cptpl_def resv_register_cptpl_def resv_action_def
        nvmf_ns_reservation_get_registrant_def durable_ns_facts replace_key_def Let_def)
      (simp add: one_reg_def)
  have "set_key durable_ns one_reg 6 \<noteq> durable_ns"
    by (simp add: set_key_def durable_ns_def resv_samples)
  then have "\<exists>info. reservation_info (set_key durable_ns one_reg 6) (host 9) = Some info \<and>
      (\<forall>callocs junk ns0. nvmf_ns_reservation_restore callocs junk ns0 info = (Some EINVAL, ns0))"
    by (intro replaced_holder_key_is_not_restored [OF run])
      (simp_all add: durable_ns_facts resv_action_def resv_register_cptpl_def SPDK_NVMF_MAX_NUM_REGISTRANTS_def)
  then show ?thesis by blast
qed

definition many_regs :: "spdk_nvmf_registrant list" where
  "many_regs = map (\<lambda>i. \<lparr>r_ptr = i, r_hostid = host (of_nat i), r_key = of_nat i\<rparr>) [1..<18]"

lemma many_regs_wf: "resv_wf (sample_rns\<lparr>registrants := many_regs\<rparr>)"
  by (simp add: many_regs_def sample_rns_def resv_wf_def host_def upt_rec)

theorem many_registrants_leave_poll_groups_open_witness:
  "\<exists>s' req'. nvmf_ns_reservation_request sample_renv (sample_rsys\<lparr>sys_ns := sample_rns\<lparr>registrants := many_regs\<rparr>\<rparr>) (host 3)
      (key_req 0x11 0x100 3 0) = Some (s', req') \<and> ns_rtype (sys_ns s') = SPDK_NVME_RESERVE_WRITE_EXCLUSIVE \<and>
    sample_pg \<in> set (sys_pgs s') \<and>
    nvmf_ns_reservation_request_check sample_pg (host 20) (sample_req\<lparr>req_cmd := sample_cmd\<lparr>opc := 1\<rparr>\<rparr>) =
      (None, sample_req\<lparr>req_cmd := sample_cmd\<lparr>opc := 1\<rparr>\<rparr>)"
proof -
  let ?s = "sample_rsys\<lparr>sys_ns := sample_rns\<lparr>registrants := many_regs\<rparr>\<rparr>" and ?reg = "\<lparr>r_ptr = 3, r_hostid = host 3, r_key = 3\<rparr>"
  have "?reg \<in> set many_regs" unfolding many_regs_def set_map by (rule image_eqI [of _ _ 3]) simp_all
  then have "\<exists>s' req'. nvmf_ns_reservation_request sample_renv ?s (r_hostid ?reg) (key_req 0x11 0x100 3 0) = Some (s', req') \<and>
    \<not> spdk_nvme_cpl_is_error (rsp req') \<and> ns_rtype (sys_ns s') = SPDK_NVME_RESERVE_WRITE_EXCLUSIVE \<and>
    sample_pg \<in> set (sys_pgs s') \<and> (\<forall>hid w. nvmf_ns_reservation_request_check sample_pg hid w = (None, w))"
    using many_regs_wf
    by (intro many_registrants_leave_poll_groups_open [where pg = sample_pg and pgs = "[sample_pg]" and reg = ?reg])
      (simp_all add: resv_samples SPDK_NVMF_MAX_NUM_REGISTRANTS_def many_regs_def)
  then show ?thesis by auto
qed

definition two_reg :: spdk_nvmf_registrant where
  "two_reg = \<lparr>r_ptr = 101, r_hostid = host 2, r_key = 6\<rparr>"

theorem reserved_type_blocks_without_protecting_witness:
  "\<exists>ns'. nvmf_ns_reservation_acquire (sample_rns\<lparr>registrants := [one_reg, two_reg]\<rparr>) (host 1) (key_req 0x11 0 5 0) =
      (SPDK_NVME_SC_SUCCESS, True, ns', []) \<and>
    fst (nvmf_ns_reservation_acquire ns' (host 2) (key_req 0x11 0x100 6 0)) = SPDK_NVME_SC_RESERVATION_CONFLICT \<and> may_write ns' (host 3)"
proof -
  let ?ns = "sample_rns\<lparr>registrants := [one_reg, two_reg]\<rparr>"
  have "resv_wf ?ns" by (simp add: sample_rns_def one_reg_def two_reg_def resv_wf_def host_def)
  then have "\<exists>ns'. nvmf_ns_reservation_acquire ?ns (r_hostid one_reg) (key_req 0x11 0 5 0) = (SPDK_NVME_SC_SUCCESS, True, ns', []) \<and>
    fst (nvmf_ns_reservation_acquire ns' (r_hostid two_reg) (key_req 0x11 0x100 6 0)) = SPDK_NVME_SC_RESERVATION_CONFLICT \<and>
    (\<forall>hid. may_write ns' hid \<and> may_read ns' hid)"
    by (rule reserved_type_blocks_without_protecting [where rt = 1])
      (simp_all add: sample_rns_def one_reg_def two_reg_def)
  then show ?thesis by (auto simp: one_reg_def two_reg_def)
qed

end
