(* ===== verification/Heaan_Run.thy ===== *)
theory Heaan_Run
  imports Ndp_Heaan
begin

section \<open>The ciphertext addition as a whole\<close>

text \<open>
  The command together with the block device below it: the device's bytes, the I/Os in flight, and
  the callbacks that run when one of them completes. A schedule picks, again and again, one I/O
  in flight and whether it succeeds: a read that succeeds has put the device's bytes into its buffer,
  a write that succeeds has put its buffer's bytes onto the device. The theorems are about every schedule,
  so about every order of completion.
\<close>

subsection \<open>Moving bytes in pieces\<close>

text \<open>
  A move \<open>(b, d, s, l)\<close> copies \<open>l\<close> bytes from \<open>s\<close> of the source to \<open>d\<close> of memory \<open>b\<close>. Moves whose
  destinations are apart can be done in any order.
\<close>

type_synonym move = "nat \<times> nat \<times> nat \<times> nat"

fun apart :: "move \<Rightarrow> move \<Rightarrow> bool" where
  "apart (b, d, s, l) (b', d', s', l') \<longleftrightarrow> b \<noteq> b' \<or> d + l \<le> d' \<or> d' + l' \<le> d"

fun in_bounds :: "byte list \<Rightarrow> (nat \<Rightarrow> byte list) \<Rightarrow> move \<Rightarrow> bool" where
  "in_bounds src mem (b, d, s, l) \<longleftrightarrow> d + l \<le> length (mem b) \<and> s + l \<le> length src"

fun moved :: "byte list \<Rightarrow> (nat \<Rightarrow> byte list) \<Rightarrow> move \<Rightarrow> bool" where
  "moved src mem (b, d, s, l) \<longleftrightarrow> get_at d l (mem b) = get_at s l src"

fun do_move :: "byte list \<Rightarrow> move \<Rightarrow> (nat \<Rightarrow> byte list) \<Rightarrow> nat \<Rightarrow> byte list" where
  "do_move src (b, d, s, l) mem = mem(b := put_at d (get_at s l src) (mem b))"

definition moves_ok :: "move list \<Rightarrow> move list \<Rightarrow> byte list \<Rightarrow> (nat \<Rightarrow> byte list) \<Rightarrow> bool" where
  "moves_ok ms pend src mem \<longleftrightarrow>
     set pend \<subseteq> set ms \<and> (\<forall>m\<in>set ms. in_bounds src mem m \<and> (m \<in> set pend \<or> moved src mem m))"

lemma get_put_apart:
  "d + l \<le> d' \<or> d' + length ys \<le> d \<Longrightarrow> d' + length ys \<le> length xs \<Longrightarrow>
   get_at d l (put_at d' ys xs) = get_at d l xs"
proof (erule disjE)
  assume le: "d + l \<le> d'" and b: "d' + length ys \<le> length xs"
  have "get_at d l (put_at d' ys xs) = get_at d l (take d' xs)"
    unfolding put_at_def by (rule get_at_append_left) (use le b in simp)
  then show ?thesis using le by (simp add: get_at_def drop_take min_def)
next
  assume le: "d' + length ys \<le> d" and b: "d' + length ys \<le> length xs"
  have "drop d (put_at d' ys xs) = drop d xs"
    using le b by (simp add: put_at_def drop_append)
  then show ?thesis by (simp add: get_at_def)
qed

lemma length_put_get [simp]: "d + l \<le> length xs \<Longrightarrow> length (put_at d (get_at o' l src) xs) = length xs"
  by (rule length_put_at) simp

lemma length_do_move: "in_bounds src mem m \<Longrightarrow> length (do_move src m mem b) = length (mem b)"
  by (cases m) auto

lemma moved_same: "in_bounds src mem m \<Longrightarrow> moved src (do_move src m mem) m"
  by (cases m) (auto simp: put_at_def get_at_def)

lemma moved_other: "in_bounds src mem m \<Longrightarrow> apart m m' \<or> apart m' m \<Longrightarrow> moved src mem m' \<Longrightarrow> moved src (do_move src m mem) m'"
  by (cases m; cases m') (auto simp: get_put_apart)

lemma sorted_wrt_both: "sorted_wrt P xs \<Longrightarrow> x \<in> set xs \<Longrightarrow> y \<in> set xs \<Longrightarrow> x \<noteq> y \<Longrightarrow> P x y \<or> P y x"
  by (induction xs) auto

definition del :: "nat \<Rightarrow> 'a list \<Rightarrow> 'a list" where
  "del i xs = take i xs @ drop (Suc i) xs"

lemma length_del [simp]: "i < length xs \<Longrightarrow> length (del i xs) = length xs - 1"
  by (simp add: del_def)

lemma set_del: "i < length xs \<Longrightarrow> set xs = insert (xs ! i) (set (del i xs))"
  using id_take_nth_drop [of i xs] by (metis del_def insert_is_Un list.simps(15) set_append Un_insert_right)

lemma list_all2_del: "list_all2 P xs ys \<Longrightarrow> list_all2 P (del i xs) (del i ys)"
  by (simp add: del_def list_all2_appendI)

lemma map_del: "map f (del i xs) = del i (map f xs)"
  by (simp add: del_def take_map drop_map)

lemma moves_ok_step:
  assumes "moves_ok ms pend src mem" "sorted_wrt apart ms" "i < length pend"
  shows "moves_ok ms (del i pend) src (do_move src (pend ! i) mem)"
proof -
  let ?m = "pend ! i"
  have "?m \<in> set pend" using assms(3) by simp
  then have m: "?m \<in> set ms" "in_bounds src mem ?m"
    using assms(1) unfolding moves_ok_def by blast+
  have "in_bounds src (do_move src ?m mem) m' \<and> (m' \<in> set (del i pend) \<or> moved src (do_move src ?m mem) m')"
    if m': "m' \<in> set ms" for m'
  proof
    show "in_bounds src (do_move src ?m mem) m'"
      using assms(1) m' length_do_move [OF m(2)] by (cases m') (auto simp: moves_ok_def)
    show "m' \<in> set (del i pend) \<or> moved src (do_move src ?m mem) m'"
    proof (cases "m' = ?m")
      case True
      then show ?thesis using moved_same [OF m(2)] by simp
    next
      case False
      then have "apart ?m m' \<or> apart m' ?m" using sorted_wrt_both [OF assms(2) m(1) m'] by blast
      with False m' assms(1) show ?thesis
        using moved_other [OF m(2), of m'] set_del [OF assms(3)] unfolding moves_ok_def by blast
    qed
  qed
  then show ?thesis using assms(1) set_del [OF assms(3)] by (auto simp: moves_ok_def)
qed

subsection \<open>Extents as moves\<close>

definition ext_total :: "extent list \<Rightarrow> nat" where
  "ext_total exts = sum_list (map (\<lambda>(off, len). unat len) exts)"

text \<open>The bytes of a file: those of its extents, in order.\<close>

definition gather :: "extent list \<Rightarrow> byte list \<Rightarrow> byte list" where
  "gather exts disk = concat (map (\<lambda>(off, len). get_at (unat off) (unat len) disk) exts)"

fun write_move :: "job \<Rightarrow> move" where
  "write_move (k, pos, off, len) = (0, off, pos, len)"

lemma ext_size_nat: "ext_total exts < 2 ^ 64 \<Longrightarrow> unat (ext_size exts) = ext_total exts"
proof -
  have "unat (foldl (\<lambda>size (off, len). size + len) a exts) = unat a + ext_total exts"
    if "unat a + ext_total exts < 2 ^ 64" for a :: u64
    using that
  proof (induction exts arbitrary: a)
    case Nil
    then show ?case by (simp add: ext_total_def)
  next
    case (Cons e exts)
    then show ?case using Cons.IH [of "a + snd e"]
      by (cases e) (auto simp: ext_total_def unat_plus_if')
  qed
  from this [of 0] show "ext_total exts < 2 ^ 64 \<Longrightarrow> ?thesis" by (simp add: ext_size_def)
qed

lemma jobs_of_bounds:
  "(k', p, o', l) \<in> set (jobs_of k pos exts) \<Longrightarrow>
     k' = k \<and> pos \<le> p \<and> p + l \<le> pos + ext_total exts \<and>
     (\<exists>off len. (off, len) \<in> set exts \<and> o' = unat off \<and> l = unat len)"
  by (induction k pos exts rule: jobs_of.induct) (fastforce simp: ext_total_def)+

lemma jobs_of_apart: "sorted_wrt apart (jobs_of k pos exts)"
  by (induction k pos exts rule: jobs_of.induct) (auto dest: jobs_of_bounds)

lemma jobs_of_filled:
  "\<forall>(k, p, o', l)\<in>set (jobs_of k pos exts). get_at p l buf = get_at o' l disk \<Longrightarrow>
   get_at pos (ext_total exts) buf = gather exts disk"
  by (induction k pos exts rule: jobs_of.induct) (auto simp: ext_total_def gather_def get_at_add)

subsection \<open>The system\<close>

record heaan_sys =
  hs_ctx :: "heaan_ctx option"
  hs_th :: nvmf_thread
  hs_req :: spdk_nvmf_request
  hs_disk :: "byte list"
  hs_inflight :: "nvmf_bdev_io list"
  hs_events :: "nvmf_event list"

definition get_buf :: "nat \<Rightarrow> heaan_ctx \<Rightarrow> byte list option" where
  "get_buf k ctx = (if k = 0 then input_0_buffer ctx else if k = 1 then input_1_buffer ctx else target_buffer ctx)"

definition set_buf :: "nat \<Rightarrow> byte list \<Rightarrow> heaan_ctx \<Rightarrow> heaan_ctx" where
  "set_buf k b ctx =
     (if k = 0 then ctx\<lparr>input_0_buffer := Some b\<rparr>
      else if k = 1 then ctx\<lparr>input_1_buffer := Some b\<rparr> else ctx\<lparr>target_buffer := Some b\<rparr>)"

text \<open>The system after a callback: what it submitted is in flight, what it did is recorded.\<close>

definition hs_after :: "heaan_sys \<Rightarrow> byte list \<Rightarrow> nvmf_bdev_io list \<Rightarrow> heaan_result \<Rightarrow> heaan_sys option" where
  "hs_after s disk rest res =
     map_option (\<lambda>(c, th, req, ev).
       \<lparr>hs_ctx = c, hs_th = th, hs_req = req, hs_disk = disk,
        hs_inflight = rest @ map snd (drop (length (handed (bch (hs_th s)))) (handed (bch th))),
        hs_events = hs_events s @ ev\<rparr>) res"

text \<open>
  The completion of the I/O at index \<open>i\<close>. There is no result when the transfer leaves its buffer or touches a
  freed one, and when a callback faults.
\<close>

definition io_done :: "'ct heaan_lib \<Rightarrow> spdk_bdev_desc \<Rightarrow> nat \<Rightarrow> bool \<Rightarrow> heaan_sys \<Rightarrow> heaan_sys option" where
  "io_done lib desc i success s =
     (let io = hs_inflight s ! i; rest = del i (hs_inflight s); disk = hs_disk s in
      case (hs_ctx s, io_job (desc_bdev desc) io) of
        (Some ctx, Some (k, pos, off, len)) \<Rightarrow>
          (case get_buf k ctx of
             None \<Rightarrow> None
           | Some buf \<Rightarrow>
               if length buf < pos + len \<or> length disk < off + len then None
               else (case cb io of
                   Caller_Cb (Heaan_Buffer_Fill_Complete rid) \<Rightarrow>
                     let ctx' = (if success then set_buf k (put_at pos (get_at off len disk) buf) ctx else ctx) in
                     hs_after s disk rest
                       (nvmf_heaan_buffer_fill_complete lib desc (Some ctx') (hs_th s) (hs_req s) success)
                 | Caller_Cb (Heaan_Cip_Write_Complete rid) \<Rightarrow>
                     hs_after s (if success then put_at off (get_at pos len buf) disk else disk) rest
                       (nvmf_heaan_cip_write_complete (Some ctx) (hs_th s) (hs_req s) success)
                 | _ \<Rightarrow> None))
      | _ \<Rightarrow> None)"

fun heaan_run :: "'ct heaan_lib \<Rightarrow> spdk_bdev_desc \<Rightarrow> (nat \<times> bool) list \<Rightarrow> heaan_sys \<Rightarrow> heaan_sys option" where
  "heaan_run lib desc [] s = Some s"
| "heaan_run lib desc ((i, success) # sched) s =
     (if hs_inflight s = [] then Some s
      else Option.bind (io_done lib desc (i mod length (hs_inflight s)) success s) (heaan_run lib desc sched))"

definition hs_start :: "nvmf_thread \<Rightarrow> nvmf_thread \<Rightarrow> spdk_nvmf_request \<Rightarrow> heaan_ctx option \<Rightarrow> byte list \<Rightarrow> heaan_sys" where
  "hs_start th th' req c disk =
     \<lparr>hs_ctx = c, hs_th = th', hs_req = req, hs_disk = disk,
      hs_inflight = map snd (drop (length (handed (bch th))) (handed (bch th'))), hs_events = []\<rparr>"


subsection \<open>Invariants of the two phases\<close>

text \<open>The contents of the input buffers, and of the device, as memories.\<close>

definition bufs :: "byte list \<Rightarrow> byte list \<Rightarrow> nat \<Rightarrow> byte list" where
  "bufs b0 b1 = (\<lambda>_. [])(0 := b0, Suc 0 := b1)"

definition device :: "byte list \<Rightarrow> nat \<Rightarrow> byte list" where
  "device disk = (\<lambda>_. [])(0 := disk)"

definition input_jobs :: "extent list \<Rightarrow> extent list \<Rightarrow> job list" where
  "input_jobs ext0 ext1 = jobs_of 0 0 ext0 @ jobs_of 1 0 ext1"

definition target_jobs :: "extent list \<Rightarrow> job list" where
  "target_jobs extt = jobs_of 2 0 extt"

definition ctx_static :: "extent list \<Rightarrow> extent list \<Rightarrow> extent list \<Rightarrow> heaan_ctx \<Rightarrow> bool" where
  "ctx_static ext0 ext1 extt ctx \<longleftrightarrow>
     target_buffer ctx = Some (replicate (ext_total extt) 0) \<and> target_ext ctx = extt \<and>
     sint (target_extents_count ctx) = int (length extt) \<and>
     input_0_total_size ctx = ext_size ext0 \<and> input_1_total_size ctx = ext_size ext1 \<and>
     input_0_start_offset ctx = 0 \<and> input_1_start_offset ctx = 0"

definition filling ::
  "spdk_bdev_desc \<Rightarrow> spdk_nvmf_request \<Rightarrow> extent list \<Rightarrow> extent list \<Rightarrow> extent list \<Rightarrow> byte list \<Rightarrow> job list
     \<Rightarrow> heaan_sys \<Rightarrow> bool" where
  "filling desc req ext0 ext1 extt disk pend s \<longleftrightarrow>
     (\<exists>ctx b0 b1. hs_ctx s = Some ctx \<and> hs_disk s = disk \<and> hs_req s = req \<and> hs_events s = [] \<and>
        jobs_ios (desc_bdev desc) (Heaan_Buffer_Fill_Complete (req_id req)) pend (hs_inflight s) \<and>
        descs_for (length extt) (bch (hs_th s)) \<and> pending_fills ctx = int (length pend) \<and>
        input_0_buffer ctx = Some b0 \<and> input_1_buffer ctx = Some b1 \<and>
        length b0 = ext_total ext0 \<and> length b1 = ext_total ext1 \<and>
        moves_ok (input_jobs ext0 ext1) pend disk (bufs b0 b1) \<and> ctx_static ext0 ext1 extt ctx)"

definition untouched :: "extent list \<Rightarrow> byte list \<Rightarrow> byte list \<Rightarrow> bool" where
  "untouched exts disk disk' \<longleftrightarrow> length disk' = length disk \<and>
     (\<forall>p<length disk. list_all (\<lambda>(off, len). p < unat off \<or> unat off + unat len \<le> p) exts \<longrightarrow> disk' ! p = disk ! p)"

definition writing ::
  "spdk_bdev_desc \<Rightarrow> spdk_nvmf_request \<Rightarrow> extent list \<Rightarrow> byte list \<Rightarrow> byte list \<Rightarrow> job list \<Rightarrow> heaan_sys \<Rightarrow> bool" where
  "writing desc req extt disk t pend s \<longleftrightarrow>
     (\<exists>ctx. hs_ctx s = Some ctx \<and> hs_req s = req \<and> hs_events s = [] \<and>
        jobs_ios (desc_bdev desc) (Heaan_Cip_Write_Complete (req_id req)) pend (hs_inflight s) \<and>
        pending_fills ctx = int (length pend) \<and> target_buffer ctx = Some t \<and>
        set pend \<subseteq> set (target_jobs extt) \<and>
        moves_ok (map write_move (target_jobs extt)) (map write_move pend) t (device (hs_disk s)) \<and>
        untouched extt disk (hs_disk s))"

lemma input_jobs_apart: "sorted_wrt apart (input_jobs ext0 ext1)"
  by (auto simp: input_jobs_def sorted_wrt_append jobs_of_apart dest!: jobs_of_bounds)

lemma input_jobs_k: "(k, p, o', l) \<in> set (input_jobs ext0 ext1) \<Longrightarrow> k = 0 \<or> k = 1"
  by (auto simp: input_jobs_def dest: jobs_of_bounds)

lemma bufs_sel [simp]: "bufs b0 b1 0 = b0" "bufs b0 b1 (Suc 0) = b1"
  by (simp_all add: bufs_def)

lemma bufs_upd [simp]: "(bufs b0 b1)(0 := x) = bufs x b1" "(bufs b0 b1)(Suc 0 := x) = bufs b0 x"
  by (auto simp: bufs_def)

lemma device_sel [simp]: "device d 0 = d" and device_upd [simp]: "(device d)(0 := x) = device x"
  by (auto simp: device_def)

lemma jobs_ios_del: "jobs_ios bdev c jobs ios \<Longrightarrow> jobs_ios bdev c (del i jobs) (del i ios)"
  by (simp add: jobs_ios_def list_all2_del)

lemma jobs_ios_nth: "jobs_ios bdev c jobs ios \<Longrightarrow> i < length jobs \<Longrightarrow> job_io bdev c (jobs ! i) (ios ! i)"
  by (simp add: jobs_ios_def list_all2_nthD)

lemma jobs_ios_length: "jobs_ios bdev c jobs ios \<Longrightarrow> length ios = length jobs"
  by (simp add: jobs_ios_def list_all2_lengthD)

text \<open>What the completion of a read does to the buffers.\<close>

lemma fill_transfer:
  assumes "filling desc req ext0 ext1 extt disk pend s" "i < length pend"
  shows "\<exists>ctx b0 b1. input_0_buffer ctx = Some b0 \<and> input_1_buffer ctx = Some b1 \<and>
    length b0 = ext_total ext0 \<and> length b1 = ext_total ext1 \<and>
    moves_ok (input_jobs ext0 ext1) (del i pend) disk (bufs b0 b1) \<and> ctx_static ext0 ext1 extt ctx \<and>
    pending_fills ctx = int (length pend) \<and>
    io_done lib desc i True s = hs_after s disk (del i (hs_inflight s))
      (nvmf_heaan_buffer_fill_complete lib desc (Some ctx) (hs_th s) req True)"
proof -
  from assms(1) obtain ctx b0 b1 where f: "hs_ctx s = Some ctx" "hs_disk s = disk" "hs_req s = req"
    "jobs_ios (desc_bdev desc) (Heaan_Buffer_Fill_Complete (req_id req)) pend (hs_inflight s)"
    "pending_fills ctx = int (length pend)" "input_0_buffer ctx = Some b0" "input_1_buffer ctx = Some b1"
    "length b0 = ext_total ext0" "length b1 = ext_total ext1"
    "moves_ok (input_jobs ext0 ext1) pend disk (bufs b0 b1)" "ctx_static ext0 ext1 extt ctx"
    unfolding filling_def by blast
  obtain k pos off len where j: "pend ! i = (k, pos, off, len)" using prod_cases4 by blast
  have io: "io_job (desc_bdev desc) (hs_inflight s ! i) = Some (k, pos, off, len)"
    "cb (hs_inflight s ! i) = Caller_Cb (Heaan_Buffer_Fill_Complete (req_id req))"
    using jobs_ios_nth [OF f(4) assms(2)] by (simp_all add: j job_io_def)
  have "(k, pos, off, len) \<in> set pend" using assms(2) j by (metis nth_mem)
  then have m: "(k, pos, off, len) \<in> set (input_jobs ext0 ext1)" "in_bounds disk (bufs b0 b1) (k, pos, off, len)"
    using f(10) unfolding moves_ok_def by blast+
  have step: "moves_ok (input_jobs ext0 ext1) (del i pend) disk (do_move disk (k, pos, off, len) (bufs b0 b1))"
    using moves_ok_step [OF f(10) input_jobs_apart assms(2)] by (simp add: j)
  from input_jobs_k [OF m(1)] show ?thesis
  proof
    assume k: "k = 0"
    show ?thesis
      by (rule exI [of _ "set_buf k (put_at pos (get_at off len disk) b0) ctx"],
          rule exI [of _ "put_at pos (get_at off len disk) b0"], rule exI [of _ b1])
         (use f m(2) step io in \<open>simp add: k io_done_def get_buf_def set_buf_def ctx_static_def Let_def\<close>)
  next
    assume k: "k = 1"
    show ?thesis
      by (rule exI [of _ "set_buf k (put_at pos (get_at off len disk) b1) ctx"],
          rule exI [of _ b0], rule exI [of _ "put_at pos (get_at off len disk) b1"])
         (use f m(2) step io in \<open>simp add: k io_done_def get_buf_def set_buf_def ctx_static_def Let_def\<close>)
  qed
qed

lemma filling_step:
  assumes "filling desc req ext0 ext1 extt disk pend s" "i < length pend" "1 < length pend"
  shows "\<exists>s'. io_done lib desc i True s = Some s' \<and> filling desc req ext0 ext1 extt disk (del i pend) s'"
proof -
  from fill_transfer [OF assms(1,2), of lib] obtain ctx b0 b1 where
    c: "input_0_buffer ctx = Some b0" "input_1_buffer ctx = Some b1"
    "length b0 = ext_total ext0" "length b1 = ext_total ext1"
    "moves_ok (input_jobs ext0 ext1) (del i pend) disk (bufs b0 b1)" "ctx_static ext0 ext1 extt ctx"
    "pending_fills ctx = int (length pend)"
    "io_done lib desc i True s = hs_after s disk (del i (hs_inflight s))
      (nvmf_heaan_buffer_fill_complete lib desc (Some ctx) (hs_th s) req True)" by blast
  have s: "hs_req s = req" "hs_events s = []" "descs_for (length extt) (bch (hs_th s))"
    "jobs_ios (desc_bdev desc) (Heaan_Buffer_Fill_Complete (req_id req)) (del i pend) (del i (hs_inflight s))"
    using assms(1) jobs_ios_del unfolding filling_def by blast+
  have cb: "nvmf_heaan_buffer_fill_complete lib desc (Some ctx) (hs_th s) req True =
    Some (Some (ctx\<lparr>pending_fills := int (length pend) - 1\<rparr>), hs_th s, req, [])"
    using assms(3) c(7) by (auto simp: nvmf_heaan_buffer_fill_complete_def Let_def)
  let ?s = "\<lparr>hs_ctx = Some (ctx\<lparr>pending_fills := int (length pend) - 1\<rparr>), hs_th = hs_th s, hs_req = req,
    hs_disk = disk, hs_inflight = del i (hs_inflight s), hs_events = []\<rparr>"
  have "io_done lib desc i True s = Some ?s" by (simp add: c(8) cb hs_after_def s(2))
  moreover have "filling desc req ext0 ext1 extt disk (del i pend) ?s"
    unfolding filling_def
    by (rule exI [of _ "ctx\<lparr>pending_fills := int (length pend) - 1\<rparr>"], rule exI [of _ b0], rule exI [of _ b1])
       (use c(1-6) s assms(2,3) in \<open>auto simp: ctx_static_def\<close>)
  ultimately show ?thesis by blast
qed


subsection \<open>From reading to writing\<close>

text \<open>The specification: the bytes of the sum of the two ciphertexts stored in the input files.\<close>

definition cipadd_result ::
  "'ct heaan_lib \<Rightarrow> extent list \<Rightarrow> extent list \<Rightarrow> extent list \<Rightarrow> byte list \<Rightarrow> byte list option" where
  "cipadd_result lib ext0 ext1 extt disk =
     Option.bind (ct_add lib (ct_read lib (gather ext0 disk) (ext_size ext0) 0) (ct_read lib (gather ext1 disk) (ext_size ext1) 0))
       (\<lambda>c. ct_write lib c (replicate (ext_total extt) 0) 0)"

definition disjoint_exts :: "extent list \<Rightarrow> bool" where
  "disjoint_exts exts \<longleftrightarrow>
     sorted_wrt (\<lambda>(off, len) (off', len'). unat off + unat len \<le> unat off' \<or> unat off' + unat len' \<le> unat off) exts"

definition device_size :: "spdk_bdev \<Rightarrow> nat" where
  "device_size bdev = unat (blockcnt bdev) * unat (blocklen bdev)"

lemma write_moves_apart: "disjoint_exts exts \<Longrightarrow> sorted_wrt apart (map write_move (jobs_of k pos exts))"
proof (induction k pos exts rule: jobs_of.induct)
  case (2 k pos off len exts)
  have "apart (0, unat off, pos, unat len) (write_move j)" if j: "j \<in> set (jobs_of k (pos + unat len) exts)" for j
  proof -
    obtain k' p o' l where j': "j = (k', p, o', l)" using prod_cases4 by blast
    with jobs_of_bounds [of k' p o' l] j obtain off' len' where "(off', len') \<in> set exts" "o' = unat off'" "l = unat len'"
      by blast
    with "2.prems" show ?thesis by (auto simp: j' disjoint_exts_def)
  qed
  with 2 show ?case by (auto simp: disjoint_exts_def)
qed (simp add: disjoint_exts_def)

lemma filled_buffers:
  assumes "moves_ok (input_jobs ext0 ext1) [] disk (bufs b0 b1)"
    and "length b0 = ext_total ext0" "length b1 = ext_total ext1"
  shows "b0 = gather ext0 disk" "b1 = gather ext1 disk"
proof -
  have m: "moved disk (bufs b0 b1) m" if "m \<in> set (input_jobs ext0 ext1)" for m
    using assms(1) that by (simp add: moves_ok_def)
  have "get_at 0 (ext_total ext0) b0 = gather ext0 disk"
    by (rule jobs_of_filled [of 0]) (use m in \<open>force simp: input_jobs_def dest: jobs_of_bounds\<close>)
  then show "b0 = gather ext0 disk" by (simp add: get_at_def flip: assms(2))
  have "get_at 0 (ext_total ext1) b1 = gather ext1 disk"
    by (rule jobs_of_filled [of 1]) (use m in \<open>force simp: input_jobs_def dest: jobs_of_bounds\<close>)
  then show "b1 = gather ext1 disk" by (simp add: get_at_def flip: assms(3))
qed

lemma job_in_bounds:
  assumes "(k', p, o', l) \<in> set (jobs_of k 0 exts)" "list_all (ext_ok bdev) exts" "length disk = device_size bdev"
  shows "k' = k" "p + l \<le> ext_total exts" "o' + l \<le> length disk"
proof -
  from jobs_of_bounds [OF assms(1)] obtain off len where
    *: "k' = k" "p + l \<le> ext_total exts" "(off, len) \<in> set exts" "o' = unat off" "l = unat len" by auto
  then have "ext_ok bdev (off, len)" using assms(2) by (auto simp: list_all_iff)
  with * assms(3) show "k' = k" "p + l \<le> ext_total exts" "o' + l \<le> length disk"
    by (simp_all add: ext_ok_def device_size_def)
qed

lemma write_moves_in_bounds:
  assumes "list_all (ext_ok bdev) extt" "length disk = device_size bdev" "length t = ext_total extt"
  shows "moves_ok (map write_move (target_jobs extt)) (map write_move (target_jobs extt)) t (device disk)"
proof -
  have "in_bounds t (device disk) (write_move (k, p, o', l))" if "(k, p, o', l) \<in> set (jobs_of 2 0 extt)" for k p o' l
    using job_in_bounds [OF that assms(1,2)] assms(3) by simp
  then show ?thesis by (fastforce simp: moves_ok_def target_jobs_def)
qed

lemma filling_last:
  assumes "filling desc req ext0 ext1 extt disk pend s" "length pend = 1"
    and "cipadd_result lib ext0 ext1 extt disk = Some t" "length t = ext_total extt"
    and "list_all (ext_ok (desc_bdev desc)) extt" "desc_write desc" "length disk = device_size (desc_bdev desc)"
  shows "\<exists>s'. io_done lib desc 0 True s = Some s' \<and> writing desc req extt disk t (target_jobs extt) s'"
proof -
  have i: "0 < length pend" using assms(2) by simp
  then have d: "del 0 pend = []" using assms(2) by (simp add: del_def)
  from fill_transfer [OF assms(1) i, of lib] obtain ctx b0 b1 where
    c: "input_0_buffer ctx = Some b0" "input_1_buffer ctx = Some b1"
    "length b0 = ext_total ext0" "length b1 = ext_total ext1"
    "moves_ok (input_jobs ext0 ext1) [] disk (bufs b0 b1)" "ctx_static ext0 ext1 extt ctx"
    "pending_fills ctx = 1"
    "io_done lib desc 0 True s = hs_after s disk (del 0 (hs_inflight s))
      (nvmf_heaan_buffer_fill_complete lib desc (Some ctx) (hs_th s) req True)"
    by (auto simp: assms(2) d)
  note b = filled_buffers [OF c(5,3,4)]
  have s: "hs_events s = []" "descs_for (length extt + 0) (bch (hs_th s))" "length (hs_inflight s) = 1"
    using assms(1,2) jobs_ios_length unfolding filling_def by fastforce+
  let ?ch = "submit_writes desc (req_id req) (bch (hs_th s)) 0 extt"
  from submit_writes_jobs [OF assms(5) s(2) assms(6), of "req_id req" 0] obtain new where
    new: "handed ?ch = handed (bch (hs_th s)) @ new"
    "jobs_ios (desc_bdev desc) (Heaan_Cip_Write_Complete (req_id req)) (target_jobs extt) (map snd new)"
    by (auto simp: target_jobs_def)
  let ?c = "ctx\<lparr>input_0_buffer := None, input_1_buffer := None, target_buffer := Some t,
      pending_fills := int (length extt)\<rparr>"
  have cb: "nvmf_heaan_buffer_fill_complete lib desc (Some ctx) (hs_th s) req True =
    Some (Some ?c, (hs_th s)\<lparr>bch := ?ch\<rparr>, req, [])"
    using c(1,2,6,7) b assms(3)
    by (auto simp: nvmf_heaan_buffer_fill_complete_def ctx_static_def cipadd_result_def Let_def
        bind_eq_Some_conv)
  let ?s = "\<lparr>hs_ctx = Some ?c, hs_th = (hs_th s)\<lparr>bch := ?ch\<rparr>, hs_req = req, hs_disk = disk,
    hs_inflight = map snd new, hs_events = []\<rparr>"
  have "io_done lib desc 0 True s = Some ?s"
    using s(1,3) by (simp add: c(8) cb hs_after_def new(1) del_def)
  moreover have "writing desc req extt disk t (target_jobs extt) ?s"
    unfolding writing_def
    by (rule exI [of _ ?c])
       (use new(2) write_moves_in_bounds [OF assms(5,7,4)] in \<open>simp add: untouched_def target_jobs_def\<close>)
  ultimately show ?thesis by blast
qed

subsection \<open>Writing\<close>

lemma untouched_put:
  assumes "untouched exts disk disk'" "(off, len) \<in> set exts" "unat off + unat len \<le> length disk'"
    and "length ys = unat len"
  shows "untouched exts disk (put_at (unat off) ys disk')"
proof -
  have other: "put_at (unat off) ys disk' ! p = disk' ! p"
    if "p < length disk'" "p < unat off \<or> unat off + unat len \<le> p" for p
    using that assms(3,4) by (auto simp: put_at_def nth_append)
  show ?thesis
    unfolding untouched_def
  proof (intro conjI allI impI)
    show "length (put_at (unat off) ys disk') = length disk" using assms by (simp add: untouched_def)
    fix p
    assume p: "p < length disk" "list_all (\<lambda>(off, len). p < unat off \<or> unat off + unat len \<le> p) exts"
    with assms(1,2) have "p < unat off \<or> unat off + unat len \<le> p" "disk' ! p = disk ! p" "p < length disk'"
      by (auto simp: untouched_def list_all_iff)
    with other [of p] show "put_at (unat off) ys disk' ! p = disk ! p" by simp
  qed
qed

text \<open>What the completion of a write does to the device.\<close>

lemma write_transfer:
  assumes "writing desc req extt disk t pend s" "i < length pend" "disjoint_exts extt"
  shows "\<exists>ctx disk'. moves_ok (map write_move (target_jobs extt)) (map write_move (del i pend)) t (device disk') \<and>
    untouched extt disk disk' \<and> target_buffer ctx = Some t \<and> pending_fills ctx = int (length pend) \<and>
    io_done lib desc i True s = hs_after s disk' (del i (hs_inflight s))
      (nvmf_heaan_cip_write_complete (Some ctx) (hs_th s) req True)"
proof -
  from assms(1) obtain ctx where w: "hs_ctx s = Some ctx" "hs_req s = req"
    "jobs_ios (desc_bdev desc) (Heaan_Cip_Write_Complete (req_id req)) pend (hs_inflight s)"
    "pending_fills ctx = int (length pend)" "target_buffer ctx = Some t" "set pend \<subseteq> set (target_jobs extt)"
    "moves_ok (map write_move (target_jobs extt)) (map write_move pend) t (device (hs_disk s))"
    "untouched extt disk (hs_disk s)"
    unfolding writing_def by blast
  obtain k pos off len where j: "pend ! i = (k, pos, off, len)" using prod_cases4 by blast
  have io: "io_job (desc_bdev desc) (hs_inflight s ! i) = Some (k, pos, off, len)"
    "cb (hs_inflight s ! i) = Caller_Cb (Heaan_Cip_Write_Complete (req_id req))"
    using jobs_ios_nth [OF w(3) assms(2)] by (simp_all add: j job_io_def)
  have p: "(k, pos, off, len) \<in> set pend" using assms(2) j by (metis nth_mem)
  then have "(k, pos, off, len) \<in> set (jobs_of 2 0 extt)" using w(6) by (auto simp: target_jobs_def)
  from jobs_of_bounds [OF this] obtain o' l' where
    k: "k = 2" and e: "(o', l') \<in> set extt" "off = unat o'" "len = unat l'" by blast
  have "write_move (k, pos, off, len) \<in> set (map write_move (target_jobs extt))" using p w(6) by force
  then have "in_bounds t (device (hs_disk s)) (write_move (k, pos, off, len))"
    using w(7) unfolding moves_ok_def by blast
  then have bnd: "off + len \<le> length (hs_disk s)" "pos + len \<le> length t" by simp_all
  let ?d = "put_at off (get_at pos len t) (hs_disk s)"
  have "moves_ok (map write_move (target_jobs extt)) (map write_move (del i pend)) t (device ?d)"
    using moves_ok_step [OF w(7), of i] write_moves_apart [OF assms(3)] assms(2)
    by (simp add: j map_del target_jobs_def)
  moreover have "untouched extt disk ?d"
    using untouched_put [OF w(8) e(1)] bnd by (simp add: e)
  moreover have "io_done lib desc i True s = hs_after s ?d (del i (hs_inflight s))
      (nvmf_heaan_cip_write_complete (Some ctx) (hs_th s) req True)"
    using w bnd io by (simp add: io_done_def k get_buf_def Let_def)
  ultimately show ?thesis using w(4,5) by blast
qed

lemma writing_step:
  assumes "writing desc req extt disk t pend s" "i < length pend" "disjoint_exts extt" "1 < length pend"
  shows "\<exists>s'. io_done lib desc i True s = Some s' \<and> writing desc req extt disk t (del i pend) s'"
proof -
  from write_transfer [OF assms(1-3), of lib] obtain ctx disk' where
    c: "moves_ok (map write_move (target_jobs extt)) (map write_move (del i pend)) t (device disk')"
    "untouched extt disk disk'" "target_buffer ctx = Some t" "pending_fills ctx = int (length pend)"
    "io_done lib desc i True s = hs_after s disk' (del i (hs_inflight s))
      (nvmf_heaan_cip_write_complete (Some ctx) (hs_th s) req True)" by blast
  have s: "hs_events s = []" "set pend \<subseteq> set (target_jobs extt)"
    "jobs_ios (desc_bdev desc) (Heaan_Cip_Write_Complete (req_id req)) (del i pend) (del i (hs_inflight s))"
    using assms(1) jobs_ios_del unfolding writing_def by blast+
  let ?c = "ctx\<lparr>pending_fills := int (length pend) - 1\<rparr>"
  let ?s = "\<lparr>hs_ctx = Some ?c, hs_th = hs_th s, hs_req = req, hs_disk = disk',
    hs_inflight = del i (hs_inflight s), hs_events = []\<rparr>"
  have "nvmf_heaan_cip_write_complete (Some ctx) (hs_th s) req True = Some (Some ?c, hs_th s, req, [])"
    using assms(4) c(4) by (auto simp: nvmf_heaan_cip_write_complete_def Let_def)
  then have "io_done lib desc i True s = Some ?s" by (simp add: c(5) hs_after_def s(1))
  moreover have "writing desc req extt disk t (del i pend) ?s"
    unfolding writing_def
    by (rule exI [of _ ?c]) (use c(1-3) s(2,3) set_del [OF assms(2)] assms(2,4) in auto)
  ultimately show ?thesis by blast
qed

lemma written_target:
  "\<forall>(k, p, o', l)\<in>set (jobs_of k pos exts). get_at o' l disk = get_at p l t \<Longrightarrow>
   gather exts disk = get_at pos (ext_total exts) t"
  by (induction k pos exts rule: jobs_of.induct) (auto simp: ext_total_def gather_def get_at_add)

lemma writing_last:
  assumes "writing desc req extt disk t pend s" "length pend = 1" "disjoint_exts extt" "length t = ext_total extt"
  shows "\<exists>s'. io_done lib desc 0 True s = Some s' \<and> hs_ctx s' = None \<and> hs_inflight s' = [] \<and>
    hs_events s' = [Bdev_Free_Io, Request_Complete (req_id req) (rsp (hs_req s'))] \<and>
    hs_req s' = upd_rsp (set_generic SPDK_NVME_SC_SUCCESS) req \<and>
    gather extt (hs_disk s') = t \<and> untouched extt disk (hs_disk s')"
proof -
  have i: "0 < length pend" using assms(2) by simp
  then have d: "del 0 pend = []" using assms(2) by (simp add: del_def)
  from write_transfer [OF assms(1) i assms(3), of lib] obtain ctx disk' where
    c: "moves_ok (map write_move (target_jobs extt)) [] t (device disk')"
    "untouched extt disk disk'" "pending_fills ctx = 1"
    "io_done lib desc 0 True s = hs_after s disk' (del 0 (hs_inflight s))
      (nvmf_heaan_cip_write_complete (Some ctx) (hs_th s) req True)" by (auto simp: assms(2) d)
  have s: "hs_events s = []" "del 0 (hs_inflight s) = []"
    using assms(1,2) jobs_ios_length unfolding writing_def by (fastforce simp: del_def)+
  have "\<forall>j\<in>set (target_jobs extt). moved t (device disk') (write_move j)"
    using c(1) by (simp add: moves_ok_def)
  then have "gather extt disk' = get_at 0 (ext_total extt) t"
    by (intro written_target [of 2]) (force simp: target_jobs_def)
  then have "gather extt disk' = t" by (simp add: get_at_def flip: assms(4))
  then show ?thesis
    using c(2,3) s by (simp add: c(4) nvmf_heaan_cip_write_complete_def heaan_finish_def hs_after_def Let_def)
qed


subsection \<open>The whole run\<close>

definition all_succeed :: "(nat \<times> bool) list \<Rightarrow> bool" where
  "all_succeed sched \<longleftrightarrow> list_all snd sched"

definition cipadd_done ::
  "spdk_nvmf_request \<Rightarrow> extent list \<Rightarrow> byte list \<Rightarrow> byte list \<Rightarrow> heaan_sys \<Rightarrow> bool" where
  "cipadd_done req extt disk t s \<longleftrightarrow>
     hs_ctx s = None \<and> hs_inflight s = [] \<and>
     hs_events s = [Bdev_Free_Io, Request_Complete (req_id req) (rsp (hs_req s))] \<and>
     hs_req s = upd_rsp (set_generic SPDK_NVME_SC_SUCCESS) req \<and>
     gather extt (hs_disk s) = t \<and> untouched extt disk (hs_disk s)"

lemma run_writing:
  assumes "writing desc req extt disk t pend s" "pend \<noteq> []" "length sched = length pend" "all_succeed sched"
    and "disjoint_exts extt" "length t = ext_total extt"
  shows "\<exists>s'. heaan_run lib desc sched s = Some s' \<and> cipadd_done req extt disk t s'"
  using assms(1-4)
proof (induction sched arbitrary: pend s)
  case Nil
  then show ?case by simp
next
  case (Cons x sched)
  obtain i where x: "x = (i, True)" using Cons.prems(4) by (cases x) (simp add: all_succeed_def)
  let ?i = "i mod length (hs_inflight s)"
  have len: "length (hs_inflight s) = length pend"
    using Cons.prems(1) jobs_ios_length unfolding writing_def by blast
  then have ne: "hs_inflight s \<noteq> []" and i: "?i < length pend" using Cons.prems(2) by auto
  show ?case
  proof (cases "1 < length pend")
    case True
    from writing_step [OF Cons.prems(1) i assms(5) True, of lib] obtain s1 where
      s1: "io_done lib desc ?i True s = Some s1" "writing desc req extt disk t (del ?i pend) s1" by blast
    have "del ?i pend \<noteq> []" using True length_del [OF i] by (cases "del ?i pend") auto
    moreover have "length sched = length (del ?i pend)" using Cons.prems(3) length_del [OF i] by simp
    moreover have "all_succeed sched" using Cons.prems(4) by (simp add: all_succeed_def)
    ultimately show ?thesis using Cons.IH [OF s1(2)] ne s1(1) by (simp add: x)
  next
    case False
    then have one: "length pend = 1" using Cons.prems(2) by (cases pend) auto
    with i have "?i = 0" by simp
    moreover have "sched = []" using Cons.prems(3) one by simp
    ultimately show ?thesis
      using writing_last [OF Cons.prems(1) one assms(5,6), of lib] ne by (auto simp: x cipadd_done_def)
  qed
qed

lemma heaan_run_append:
  "heaan_run lib desc (xs @ ys) s = Option.bind (heaan_run lib desc xs s) (heaan_run lib desc ys)"
proof (induction xs arbitrary: s)
  case (Cons x xs)
  obtain i ok where x: "x = (i, ok)" by fastforce
  have idle: "hs_inflight s = [] \<Longrightarrow> heaan_run lib desc ys s = Some s" by (cases ys) auto
  show ?case
  proof (cases "io_done lib desc (i mod length (hs_inflight s)) ok s")
    case None
    then show ?thesis by (simp add: x idle)
  next
    case (Some s1)
    with Cons.IH [of s1] show ?thesis by (simp add: x idle)
  qed
qed simp


text \<open>The schedule's first part completes the reads.\<close>

lemma run_filling:
  assumes "filling desc req ext0 ext1 extt disk pend s" "pend \<noteq> []"
    and "length sched = length pend" "all_succeed sched"
    and "cipadd_result lib ext0 ext1 extt disk = Some t" "length t = ext_total extt"
    and "list_all (ext_ok (desc_bdev desc)) extt" "desc_write desc" "length disk = device_size (desc_bdev desc)"
  shows "\<exists>s'. heaan_run lib desc sched s = Some s' \<and> writing desc req extt disk t (target_jobs extt) s'"
  using assms(1-4)
proof (induction sched arbitrary: pend s)
  case Nil
  then show ?case by simp
next
  case (Cons x sched)
  obtain i where x: "x = (i, True)" using Cons.prems(4) by (cases x) (simp add: all_succeed_def)
  let ?i = "i mod length (hs_inflight s)"
  have len: "length (hs_inflight s) = length pend"
    using Cons.prems(1) jobs_ios_length unfolding filling_def by blast
  then have ne: "hs_inflight s \<noteq> []" and i: "?i < length pend" using Cons.prems(2) by auto
  have ok: "all_succeed sched" using Cons.prems(4) by (simp add: all_succeed_def)
  show ?case
  proof (cases "1 < length pend")
    case True
    from filling_step [OF Cons.prems(1) i True, of lib] obtain s1 where
      s1: "io_done lib desc ?i True s = Some s1" "filling desc req ext0 ext1 extt disk (del ?i pend) s1" by blast
    have "del ?i pend \<noteq> []" using True length_del [OF i] by (cases "del ?i pend") auto
    moreover have "length sched = length (del ?i pend)" using Cons.prems(3) True length_del [OF i] by simp
    ultimately show ?thesis using Cons.IH [OF s1(2)] ok ne s1(1) by (simp add: x)
  next
    case False
    then have one: "length pend = 1" using Cons.prems(2) by (cases pend) auto
    with i have i0: "?i = 0" by simp
    have "sched = []" using Cons.prems(3) one by simp
    with filling_last [OF Cons.prems(1) one assms(5-9)] ne i0 show ?thesis by (auto simp: x)
  qed
qed

lemma run_cipadd:
  assumes "filling desc req ext0 ext1 extt disk pend s" "pend \<noteq> []" "extt \<noteq> []"
    and "length sched = length pend + length extt" "all_succeed sched"
    and "cipadd_result lib ext0 ext1 extt disk = Some t" "length t = ext_total extt" "disjoint_exts extt"
    and "list_all (ext_ok (desc_bdev desc)) extt" "desc_write desc" "length disk = device_size (desc_bdev desc)"
  shows "\<exists>s'. heaan_run lib desc sched s = Some s' \<and> cipadd_done req extt disk t s'"
proof -
  let ?a = "take (length pend) sched" and ?b = "drop (length pend) sched"
  have sp: "all_succeed ?a" "all_succeed ?b" "length ?a = length pend" "length ?b = length (target_jobs extt)"
    using assms(4,5) by (auto simp: all_succeed_def list_all_iff target_jobs_def dest: in_set_takeD in_set_dropD)
  from run_filling [OF assms(1,2) sp(3,1) assms(6,7,9-11)] obtain s1 where
    s1: "heaan_run lib desc ?a s = Some s1" "writing desc req extt disk t (target_jobs extt) s1" by blast
  have "target_jobs extt \<noteq> []" using assms(3) by (cases extt) (auto simp: target_jobs_def)
  from run_writing [OF s1(2) this sp(4,2) assms(8,7), of lib] s1(1) show ?thesis
    using heaan_run_append [of lib desc ?a ?b s] by simp
qed

subsection \<open>The handler starts the run\<close>

text \<open>A request whose table names block-aligned extents within the device, with descriptors for all its I/Os.\<close>

definition cipadd_request ::
  "spdk_bdev_desc \<Rightarrow> nvmf_thread \<Rightarrow> spdk_nvmf_request \<Rightarrow> u64 \<times> u64 \<times> u64 \<Rightarrow> extent list \<Rightarrow> extent list \<Rightarrow> extent list \<Rightarrow> bool" where
  "cipadd_request desc th req starts ext0 ext1 extt \<longleftrightarrow>
     (case starts of (s0, s1, st) \<Rightarrow>
      (let table = encode_words (cipadd_words s0 ext0 s1 ext1 st extt) in
       iov req \<noteq> [] \<and> take (length table) (hd (iov req)) = table \<and> length table \<le> length (hd (iov req)) \<and>
       length (hd (iov req)) * NVMF_REQ_MAX_BUFFERS < 2 ^ 32)) \<and>
     unat (cdw11 (req_cmd req)) = length ext0 \<and> unat (cdw12 (req_cmd req)) = length ext1 \<and>
     unat (cdw13 (req_cmd req)) = length extt \<and>
     length ext0 + length ext1 < 2 ^ 31 \<and> length extt < 2 ^ 31 \<and>
     list_all (ext_ok (desc_bdev desc)) (ext0 @ ext1 @ extt) \<and>
     ext_total ext0 < 2 ^ 64 \<and> ext_total ext1 < 2 ^ 64 \<and> ext_total extt < 2 ^ 64 \<and>
     descs_for (length ext0 + length ext1 + length extt) (bch th)"

lemma sint_small: "unat (w :: u32) < 2 ^ 31 \<Longrightarrow> sint w = int (unat w)"
proof -
  assume a: "unat w < 2 ^ 31"
  have u: "uint w = int (unat w)" by simp
  have "int (unat w) < int (2 ^ 31)" using a by (simp only: of_nat_less_iff)
  then have "uint w < 2 ^ 31" by (simp only: u of_nat_power of_nat_numeral)
  moreover have "0 \<le> uint w" by simp
  ultimately have "signed_take_bit 31 (uint w) = uint w" by (intro signed_take_bit_int_eq_self) linarith+
  then show ?thesis by (simp only: sint_uint u [symmetric]) simp
qed

lemma ext_ok_in_range: "ext_ok bdev e \<Longrightarrow> ext_in_range bdev e"
proof -
  assume e: "ext_ok bdev e"
  have "bdev_io_valid_blocks bdev (fst e div ucast (blocklen bdev)) (snd e div ucast (blocklen bdev))"
    using ext_ok_blocks [of bdev "fst e" "snd e"] e by (auto simp: bytes_to_blocks_div)
  then show ?thesis by (simp add: valid_blocks_nat ext_in_range_def unat_div)
qed

lemma submit_inputs_jobs:
  assumes "list_all (ext_ok (desc_bdev desc)) (ext0 @ ext1)" "descs_for (length ext0 + length ext1 + n) ch"
  shows "\<exists>ch' new. submit_inputs desc rid ch ext0 ext1 = (None, ch') \<and> handed ch' = handed ch @ new \<and>
    descs_for n ch' \<and>
    jobs_ios (desc_bdev desc) (Heaan_Buffer_Fill_Complete rid) (input_jobs ext0 ext1) (map snd new)"
proof -
  from submit_reads_jobs [of desc ext0 "length ext1 + n" ch rid 0 0] assms obtain ch1 new1 where
    r1: "submit_reads desc rid 0 ch 0 ext0 = (None, ch1)" "handed ch1 = handed ch @ new1"
    "descs_for (length ext1 + n) ch1"
    "jobs_ios (desc_bdev desc) (Heaan_Buffer_Fill_Complete rid) (jobs_of 0 0 ext0) (map snd new1)"
    by (auto simp: add.assoc)
  from submit_reads_jobs [of desc ext1 n ch1 rid 1 0] assms(1) r1(3) obtain ch2 new2 where
    r2: "submit_reads desc rid 1 ch1 0 ext1 = (None, ch2)" "handed ch2 = handed ch1 @ new2" "descs_for n ch2"
    "jobs_ios (desc_bdev desc) (Heaan_Buffer_Fill_Complete rid) (jobs_of 1 0 ext1) (map snd new2)" by auto
  from r1 r2 show ?thesis
    by (auto simp: submit_inputs_def jobs_ios_def input_jobs_def intro: list_all2_appendI)
qed

lemma input_moves_start:
  assumes "list_all (ext_ok bdev) (ext0 @ ext1)" "length disk = device_size bdev"
    and "length b0 = ext_total ext0" "length b1 = ext_total ext1"
  shows "moves_ok (input_jobs ext0 ext1) (input_jobs ext0 ext1) disk (bufs b0 b1)"
proof -
  have "in_bounds disk (bufs b0 b1) (k, p, o', l)" if "(k, p, o', l) \<in> set (jobs_of 0 0 ext0)" for k p o' l
    using job_in_bounds [OF that _ assms(2)] assms(1,3) by simp
  moreover have "in_bounds disk (bufs b0 b1) (k, p, o', l)" if "(k, p, o', l) \<in> set (jobs_of 1 0 ext1)" for k p o' l
    using job_in_bounds [OF that _ assms(2)] assms(1,4) by simp
  ultimately show ?thesis unfolding moves_ok_def input_jobs_def by fastforce
qed

lemma word_of_nat_nz: "0 < n \<Longrightarrow> n < 2 ^ 32 \<Longrightarrow> (word_of_nat n :: u32) \<noteq> 0"
  by (simp add: word_unat_eq_iff unat_of_nat)

lemma cipadd_starts:
  assumes "\<And>n. alloc n" "cipadd_request desc th req starts ext0 ext1 extt"
    and "length disk = device_size (desc_bdev desc)"
  shows "\<exists>th' ctx. nvmf_bdev_ctrlr_custom_heaan_cipadd_cmd alloc desc th req =
      Some (SPDK_NVMF_REQUEST_EXEC_STATUS_ASYNCHRONOUS, th', req, Some ctx) \<and>
    filling desc req ext0 ext1 extt disk (input_jobs ext0 ext1) (hs_start th th' req (Some ctx) disk)"
proof -
  obtain s0 s1 st where st: "starts = (s0, s1, st)" using prod_cases3 by blast
  let ?tab = "encode_words (cipadd_words s0 ext0 s1 ext1 st extt)"
  note r = assms(2) [unfolded cipadd_request_def st Let_def prod.case]
  obtain data rest where iov: "iov req = data # rest" using r by (cases "iov req") auto
  obtain pad where data: "data = ?tab @ pad"
    using r iov append_take_drop_id [of "length ?tab" data] by (metis list.sel(1))
  have "list_all (ext_in_range (desc_bdev desc)) (ext0 @ ext1 @ extt)"
    using r by (auto simp: list_all_iff intro: ext_ok_in_range)
  then have files: "read_files (desc_bdev desc) data True (length ext0) (length ext1) (length extt) = Parsed (ext0, ext1, extt)"
    unfolding data read_files_encoded by simp
  have "0 < length data" by (simp add: data cipadd_words_def file_words_def)
  then have nz: "(word_of_nat (length data * NVMF_REQ_MAX_BUFFERS) :: u32) \<noteq> 0"
    using r iov by (intro word_of_nat_nz) (simp_all add: NVMF_REQ_MAX_BUFFERS_def)
  have "unat (cdw11 (req_cmd req) + cdw12 (req_cmd req)) = length ext0 + length ext1"
    using r by (simp add: unat_plus_if')
  then have pend: "sint (cdw11 (req_cmd req) + cdw12 (req_cmd req)) = int (length (input_jobs ext0 ext1))"
    using r by (simp add: sint_small input_jobs_def)
  have cnt: "sint (cdw13 (req_cmd req)) = int (length extt)" using r by (simp add: sint_small)
  from submit_inputs_jobs [of desc ext0 ext1 "length extt" "bch th" "req_id req"] r obtain ch new where
    sub: "submit_inputs desc (req_id req) (bch th) ext0 ext1 = (None, ch)" "handed ch = handed (bch th) @ new"
    "descs_for (length extt) ch"
    "jobs_ios (desc_bdev desc) (Heaan_Buffer_Fill_Complete (req_id req)) (input_jobs ext0 ext1) (map snd new)" by auto
  let ?ctx = "\<lparr>input_0_buffer = zbuf alloc (ext_size ext0), input_1_buffer = zbuf alloc (ext_size ext1),
     target_buffer = zbuf alloc (ext_size extt), pending_fills = sint (cdw11 (req_cmd req) + cdw12 (req_cmd req)),
     input_0_total_size = ext_size ext0, input_1_total_size = ext_size ext1,
     input_0_start_offset = 0, input_1_start_offset = 0,
     target_extents_count = cdw13 (req_cmd req), target_ext = extt\<rparr>"
  have z: "zbuf alloc (ext_size e) = Some (replicate (ext_total e) 0)" if "ext_total e < 2 ^ 64" for e
    using assms(1) ext_size_nat [OF that] by (simp add: zbuf_def)
  have mv: "moves_ok (input_jobs ext0 ext1) (input_jobs ext0 ext1) disk
      (bufs (replicate (ext_total ext0) 0) (replicate (ext_total ext1) 0))"
    by (rule input_moves_start [OF _ assms(3)]) (use r in simp_all)
  have "nvmf_bdev_ctrlr_custom_heaan_cipadd_cmd alloc desc th req =
      Some (SPDK_NVMF_REQUEST_EXEC_STATUS_ASYNCHRONOUS, th\<lparr>bch := ch\<rparr>, req, Some ?ctx)"
    using assms(1) iov nz files r z sub(1)
    by (simp add: nvmf_bdev_ctrlr_custom_heaan_cipadd_cmd_def Let_def)
  moreover have "filling desc req ext0 ext1 extt disk (input_jobs ext0 ext1) (hs_start th (th\<lparr>bch := ch\<rparr>) req (Some ?ctx) disk)"
    unfolding filling_def hs_start_def
    by (rule exI [of _ ?ctx], rule exI [of _ "replicate (ext_total ext0) 0"], rule exI [of _ "replicate (ext_total ext1) 0"])
       (use sub pend cnt r z mv in \<open>simp add: ctx_static_def\<close>)
  ultimately show ?thesis by blast
qed

subsection \<open>Properties\<close>

lemma cipadd_runs:
  assumes "\<And>n. alloc n" "cipadd_request desc th req starts ext0 ext1 extt"
    and "ext0 @ ext1 \<noteq> []" "extt \<noteq> []" "desc_write desc" "disjoint_exts extt"
    and "length disk = device_size (desc_bdev desc)"
    and "cipadd_result lib ext0 ext1 extt disk = Some t" "length t = ext_total extt"
    and "length sched = length ext0 + length ext1 + length extt" "all_succeed sched"
  shows "\<exists>th' ctx s. nvmf_bdev_ctrlr_custom_heaan_cipadd_cmd alloc desc th req =
      Some (SPDK_NVMF_REQUEST_EXEC_STATUS_ASYNCHRONOUS, th', req, Some ctx) \<and>
    heaan_run lib desc sched (hs_start th th' req (Some ctx) disk) = Some s \<and>
    hs_inflight s = [] \<and>
    hs_events s = [Bdev_Free_Io, Request_Complete (req_id req) (rsp (hs_req s))] \<and>
    \<not> spdk_nvme_cpl_is_error (rsp (hs_req s)) \<and>
    gather extt (hs_disk s) = t \<and> untouched extt disk (hs_disk s)"
proof -
  from cipadd_starts [of alloc, OF assms(1,2,7)] obtain th' ctx where
    h: "nvmf_bdev_ctrlr_custom_heaan_cipadd_cmd alloc desc th req =
      Some (SPDK_NVMF_REQUEST_EXEC_STATUS_ASYNCHRONOUS, th', req, Some ctx)"
    "filling desc req ext0 ext1 extt disk (input_jobs ext0 ext1) (hs_start th th' req (Some ctx) disk)" by blast
  have "input_jobs ext0 ext1 \<noteq> []"
    using assms(3) by (cases ext0; cases ext1) (auto simp: input_jobs_def)
  moreover have "list_all (ext_ok (desc_bdev desc)) extt" using assms(2) by (simp add: cipadd_request_def)
  moreover have "length sched = length (input_jobs ext0 ext1) + length extt"
    using assms(10) by (simp add: input_jobs_def)
  ultimately obtain s where "heaan_run lib desc sched (hs_start th th' req (Some ctx) disk) = Some s"
    "cipadd_done req extt disk t s"
    using run_cipadd [OF h(2) _ assms(4) _ assms(11,8,9,6) _ assms(5,7)] by blast
  with h(1) show ?thesis by (simp add: cipadd_done_def spdk_nvme_cpl_is_error_def)
qed

text \<open>
  C1: A ciphertext addition whose table names block-aligned extents within the device, with
  descriptors for all its I/Os, refines its specification for every order in which its reads and
  writes complete successfully: the extents of the target file then hold the serialised sum of
  the ciphertexts stored in the extents of the input files, every other byte of the device is
  unchanged, and the request is completed exactly once, with success.
\<close>

theorem cipadd_writes_sum:
  assumes "\<And>n. alloc n" "cipadd_request desc th req starts ext0 ext1 extt"
    and "ext0 @ ext1 \<noteq> []" "extt \<noteq> []" "desc_write desc" "disjoint_exts extt"
    and "length disk = device_size (desc_bdev desc)"
    and "cipadd_result lib ext0 ext1 extt disk = Some t" "length t = ext_total extt"
    and "length sched = length ext0 + length ext1 + length extt" "all_succeed sched"
  shows "\<exists>th' ctx s. nvmf_bdev_ctrlr_custom_heaan_cipadd_cmd alloc desc th req =
      Some (SPDK_NVMF_REQUEST_EXEC_STATUS_ASYNCHRONOUS, th', req, Some ctx) \<and>
    heaan_run lib desc sched (hs_start th th' req (Some ctx) disk) = Some s \<and>
    hs_inflight s = [] \<and>
    hs_events s = [Bdev_Free_Io, Request_Complete (req_id req) (rsp (hs_req s))] \<and>
    \<not> spdk_nvme_cpl_is_error (rsp (hs_req s)) \<and>
    gather extt (hs_disk s) = t \<and> untouched extt disk (hs_disk s)"
  using assms by (rule cipadd_runs)



text \<open>
  C10: When one of two or more outstanding reads of a ciphertext addition fails, the request is
  completed with an error and the context freed while other reads are in flight, and the
  completion of any of them, successful or not, uses the freed context.
\<close>

theorem cipadd_failed_read_then_use_after_free:
  assumes "\<And>n. alloc n" "cipadd_request desc th req starts ext0 ext1 extt"
    and "2 \<le> length ext0 + length ext1" "length disk = device_size (desc_bdev desc)"
  shows "\<exists>th' ctx s. nvmf_bdev_ctrlr_custom_heaan_cipadd_cmd alloc desc th req =
      Some (SPDK_NVMF_REQUEST_EXEC_STATUS_ASYNCHRONOUS, th', req, Some ctx) \<and>
    heaan_run lib desc [(i, False)] (hs_start th th' req (Some ctx) disk) = Some s \<and>
    (\<exists>cpl. hs_events s = [Bdev_Free_Io, Request_Complete (req_id req) cpl] \<and> spdk_nvme_cpl_is_error cpl) \<and>
    hs_inflight s \<noteq> [] \<and> (\<forall>j success. io_done lib desc j success s = None)"
proof -
  from cipadd_starts [of alloc, OF assms(1,2,4)] obtain th' ctx where
    h: "nvmf_bdev_ctrlr_custom_heaan_cipadd_cmd alloc desc th req =
      Some (SPDK_NVMF_REQUEST_EXEC_STATUS_ASYNCHRONOUS, th', req, Some ctx)"
    "filling desc req ext0 ext1 extt disk (input_jobs ext0 ext1) (hs_start th th' req (Some ctx) disk)" by blast
  let ?s = "hs_start th th' req (Some ctx) disk" and ?jobs = "input_jobs ext0 ext1"
  let ?i = "i mod length (hs_inflight ?s)"
  from h(2) obtain b0 b1 where f: "hs_ctx ?s = Some ctx" "hs_disk ?s = disk" "hs_req ?s = req" "hs_events ?s = []"
    "jobs_ios (desc_bdev desc) (Heaan_Buffer_Fill_Complete (req_id req)) ?jobs (hs_inflight ?s)"
    "input_0_buffer ctx = Some b0" "input_1_buffer ctx = Some b1" "moves_ok ?jobs ?jobs disk (bufs b0 b1)"
    unfolding filling_def by (auto simp: hs_start_def)
  have two: "2 \<le> length (hs_inflight ?s)" using assms(3) jobs_ios_length [OF f(5)] by (simp add: input_jobs_def)
  then have il: "?i < length (hs_inflight ?s)" by (intro mod_less_divisor) linarith
  then have i: "?i < length ?jobs" by (simp only: jobs_ios_length [OF f(5)])
  obtain k pos off len where j: "?jobs ! ?i = (k, pos, off, len)" using prod_cases4 by blast
  have io: "io_job (desc_bdev desc) (hs_inflight ?s ! ?i) = Some (k, pos, off, len)"
    "cb (hs_inflight ?s ! ?i) = Caller_Cb (Heaan_Buffer_Fill_Complete (req_id req))"
    using jobs_ios_nth [OF f(5) i] by (simp_all add: j job_io_def)
  have m: "(k, pos, off, len) \<in> set ?jobs" using i j by (metis nth_mem)
  then have "in_bounds disk (bufs b0 b1) (k, pos, off, len)" using f(8) unfolding moves_ok_def by blast
  then obtain buf where buf: "get_buf k ctx = Some buf" "pos + len \<le> length buf" "off + len \<le> length disk"
    using input_jobs_k [OF m] f(6,7) by (auto simp: get_buf_def)
  let ?r = "upd_rsp (set_sc (generic_sc SPDK_NVME_SC_INTERNAL_DEVICE_ERROR)) req"
  have "io_done lib desc ?i False ?s =
    Some \<lparr>hs_ctx = None, hs_th = hs_th ?s, hs_req = upd_rsp (set_generic SPDK_NVME_SC_INTERNAL_DEVICE_ERROR) ?r,
      hs_disk = disk, hs_inflight = del ?i (hs_inflight ?s),
      hs_events = [Bdev_Free_Io, Request_Complete (req_id req) (rsp ?r)]\<rparr>"
    using f(1-4) buf io
    by (simp add: io_done_def nvmf_heaan_buffer_fill_complete_def hs_after_def Let_def)
  moreover have "del ?i (hs_inflight ?s) \<noteq> []"
  proof
    assume "del ?i (hs_inflight ?s) = []"
    with length_del [OF il] two show False by (metis One_nat_def diff_is_0_eq list.size(3) not_less_eq_eq numeral_2_eq_2)
  qed
  moreover have "hs_inflight ?s \<noteq> []" using two by auto
  moreover have "spdk_nvme_cpl_is_error (rsp ?r)" by (simp add: spdk_nvme_cpl_is_error_def set_sc_def)
  moreover have "io_done lib desc j success s = None" if "hs_ctx s = None" for j success s
    using that by (simp add: io_done_def Let_def)
  ultimately show ?thesis using h(1) by simp
qed




text \<open>
  C27: A table that ends after the input files although the command announces target extents is
  read behind its end: the counts are not checked against the buffer's length.
\<close>

theorem cipadd_counts_not_checked:
  assumes "\<And>n. alloc n"
    and "iov req = encode_words (file_words s0 ext0 @ file_words s1 ext1) # rest"
    and "length (hd (iov req)) * NVMF_REQ_MAX_BUFFERS < 2 ^ 32"
    and "unat (cdw11 (req_cmd req)) = length ext0" "unat (cdw12 (req_cmd req)) = length ext1"
    and "list_all (ext_in_range (desc_bdev desc)) (ext0 @ ext1)"
  shows "nvmf_bdev_ctrlr_custom_heaan_cipadd_cmd alloc desc th req = None"
proof -
  let ?ws = "file_words s0 ext0 @ file_words s1 ext1"
  have f0: "read_file (desc_bdev desc) (encode_words ?ws) (length ext0) 0 = Parsed (s0, ext0, length (file_words s0 ext0))"
    using read_file_encoded [of "desc_bdev desc" "[]" s0 ext0 "file_words s1 ext1" "[]"] assms(6) by simp
  have f1: "read_file (desc_bdev desc) (encode_words ?ws) (length ext1) (length (file_words s0 ext0)) =
      Parsed (s1, ext1, length ?ws)"
    using read_file_encoded [of "desc_bdev desc" "file_words s0 ext0" s1 ext1 "[]" "[]"] assms(6) by simp
  have "read_file (desc_bdev desc) (encode_words ?ws) n (length ?ws) = Out_Of_Buffer" for n
    by (simp add: read_file_def u64_at_def)
  with f0 f1 have files: "read_files (desc_bdev desc) (encode_words ?ws) True (length ext0) (length ext1) n = Out_Of_Buffer" for n
    by (simp add: read_files_def parse_bind_def del: length_append)
  have nz: "(word_of_nat (length (encode_words ?ws) * NVMF_REQ_MAX_BUFFERS) :: u32) \<noteq> 0"
    using assms(2,3) by (intro word_of_nat_nz) (simp_all add: NVMF_REQ_MAX_BUFFERS_def file_words_def)
  show ?thesis
    unfolding nvmf_bdev_ctrlr_custom_heaan_cipadd_cmd_def Let_def assms(4,5) assms(2) list.case
    using assms(1) nz files by (simp del: length_encode_words length_append)
qed

end
