(* ===== verification/Heaan_Samples.thy ===== *)
theory Heaan_Samples
  imports Heaan_Run Samples
begin

section \<open>The ciphertext addition at a concrete device\<close>

text \<open>
  A device of eight two-byte blocks, a library whose ciphertexts are byte lists added
  element by element, and requests on them: the inputs at which the theorems are applied.
\<close>

definition cip_bdev :: spdk_bdev where
  "cip_bdev = sample_bdev\<lparr>blocklen := 2, blockcnt := 8\<rparr>"

definition cip_desc :: spdk_bdev_desc where
  "cip_desc = sample_desc\<lparr>desc_bdev := cip_bdev\<rparr>"

definition cip_disk :: "byte list" where
  "cip_disk = [0, 1, 2, 3, 4, 5, 6, 7, 8, 9, 10, 11, 12, 13, 14, 15]"

definition byte_lib :: "byte list heaan_lib" where
  "byte_lib = \<lparr>ct_read = (\<lambda>buf sz off. buf), ct_add = (\<lambda>a b. Some (map2 (+) a b)),
     ct_write = (\<lambda>c buf off. if length c \<le> length buf then Some (put_at 0 c buf) else None)\<rparr>"

definition cip_req :: "extent list \<Rightarrow> extent list \<Rightarrow> extent list \<Rightarrow> spdk_nvmf_request" where
  "cip_req ext0 ext1 extt = sample_req\<lparr>
     req_cmd := sample_cmd\<lparr>opc := 0xe0, cdw11 := word_of_nat (length ext0), cdw12 := word_of_nat (length ext1),
                           cdw13 := word_of_nat (length extt)\<rparr>,
     iov := [encode_words (cipadd_words 0 ext0 0 ext1 0 extt)]\<rparr>"

lemmas cip_defs = cip_bdev_def cip_desc_def cip_disk_def byte_lib_def cip_req_def sample_defs
  cipadd_request_def cipadd_words_def file_words_def ext_ok_def ext_in_range_def ext_total_def descs_for_def free_descs_def
  NVMF_REQ_MAX_BUFFERS_def device_size_def

lemma cip_request:
  "cipadd_request cip_desc sample_thread (cip_req [(2, 2), (6, 2)] [(8, 4)] [(12, 2), (0, 2)]) (0, 0, 0)
     [(2, 2), (6, 2)] [(8, 4)] [(12, 2), (0, 2)]"
  by (simp add: cip_defs)


lemma cip_disk_size: "length cip_disk = device_size (desc_bdev cip_desc)"
  by (simp add: cip_defs)

lemma cip_sum:
  "cipadd_result byte_lib [(2, 2), (6, 2)] [(8, 4)] [(12, 2), (0, 2)] cip_disk = Some [10, 12, 16, 18]"
  by (simp add: cipadd_result_def gather_def cip_defs get_at_def put_at_def)

theorem cipadd_writes_sum_witness:
  "\<exists>th' ctx s. nvmf_bdev_ctrlr_custom_heaan_cipadd_cmd (\<lambda>n. True) cip_desc sample_thread
      (cip_req [(2, 2), (6, 2)] [(8, 4)] [(12, 2), (0, 2)]) =
      Some (SPDK_NVMF_REQUEST_EXEC_STATUS_ASYNCHRONOUS, th', cip_req [(2, 2), (6, 2)] [(8, 4)] [(12, 2), (0, 2)], Some ctx) \<and>
    heaan_run byte_lib cip_desc [(2, True), (0, True), (5, True), (1, True), (0, True)]
      (hs_start sample_thread th' (cip_req [(2, 2), (6, 2)] [(8, 4)] [(12, 2), (0, 2)]) (Some ctx) cip_disk) = Some s \<and>
    gather [(12, 2), (0, 2)] (hs_disk s) = [10, 12, 16, 18]"
proof -
  have "[(2, 2), (6, 2)] @ [(8, 4)] \<noteq> ([] :: extent list)" "[(12, 2), (0, 2)] \<noteq> ([] :: extent list)"
    "desc_write cip_desc" "disjoint_exts [(12, 2), (0, 2)]"
    "length [10, 12, 16, 18 :: byte] = ext_total [(12, 2), (0, 2)]"
    "length [(2 :: nat, True), (0, True), (5, True), (1, True), (0, True)] =
       length [(2 :: u64, 2 :: u64), (6, 2)] + length [(8 :: u64, 4 :: u64)] + length [(12 :: u64, 2 :: u64), (0, 2)]"
    "all_succeed [(2, True), (0, True), (5, True), (1, True), (0, True)]"
    by (simp_all add: cip_defs disjoint_exts_def all_succeed_def)
  from cipadd_writes_sum [of "\<lambda>n. True", OF _ cip_request this(1-4) cip_disk_size cip_sum this(5-7)]
  show ?thesis by blast
qed


theorem cipadd_failed_read_then_use_after_free_witness:
  "\<exists>th' ctx s. nvmf_bdev_ctrlr_custom_heaan_cipadd_cmd (\<lambda>n. True) cip_desc sample_thread
      (cip_req [(2, 2), (6, 2)] [(8, 4)] [(12, 2), (0, 2)]) =
      Some (SPDK_NVMF_REQUEST_EXEC_STATUS_ASYNCHRONOUS, th', cip_req [(2, 2), (6, 2)] [(8, 4)] [(12, 2), (0, 2)], Some ctx) \<and>
    heaan_run byte_lib cip_desc [(1, False)]
      (hs_start sample_thread th' (cip_req [(2, 2), (6, 2)] [(8, 4)] [(12, 2), (0, 2)]) (Some ctx) cip_disk) = Some s \<and>
    hs_inflight s \<noteq> [] \<and> io_done byte_lib cip_desc 0 True s = None"
proof -
  have "2 \<le> length [(2 :: u64, 2 :: u64), (6, 2)] + length [(8 :: u64, 4 :: u64)]" by simp
  from cipadd_failed_read_then_use_after_free [of "\<lambda>n. True" _ _ _ _ _ _ _ _ byte_lib 1, OF _ cip_request this cip_disk_size]
  show ?thesis by blast
qed


definition short_req :: spdk_nvmf_request where
  "short_req = (cip_req [(2, 2)] [(8, 2)] [(12, 2)])\<lparr>iov := [encode_words (file_words 0 [(2, 2)] @ file_words 0 [(8, 2)])]\<rparr>"

theorem cipadd_counts_not_checked_witness:
  "nvmf_bdev_ctrlr_custom_heaan_cipadd_cmd (\<lambda>n. True) cip_desc sample_thread short_req = None"
proof -
  have "iov short_req = encode_words (file_words 0 [(2, 2)] @ file_words 0 [(8, 2)]) # []"
    "length (hd (iov short_req)) * NVMF_REQ_MAX_BUFFERS < 2 ^ 32"
    "unat (cdw11 (req_cmd short_req)) = length [(2 :: u64, 2 :: u64)]"
    "unat (cdw12 (req_cmd short_req)) = length [(8 :: u64, 2 :: u64)]"
    "list_all (ext_in_range (desc_bdev cip_desc)) ([(2, 2)] @ [(8, 2)])"
    by (simp_all add: short_req_def cip_defs)
  from cipadd_counts_not_checked [of "\<lambda>n. True", OF _ this] show ?thesis by simp
qed

end
