(* ===== verification/Host_Cli.thy ===== *)
theory Host_Cli
  imports Ndp_Heaan
begin

section \<open>The host side (\<open>nvme-cli/nvme.c\<close>)\<close>

text \<open>
  The pass-through command of nvme-cli with what was added for the near-data commands: the layout of a file
  on the device, as the FIEMAP ioctl reports it, becomes command dwords (0xd1) or a table in the data buffer
  (0xe0). The operating system is a parameter, \<open>host_os\<close>: what \<open>open\<close>, \<open>read\<close>, the ioctl, \<open>fallocate\<close>
  and the allocators return (\<open>os_fallocate\<close> includes the \<open>open\<close> of the target before it). The model ends where the command is sent; printing is left out.
\<close>

subsection \<open>Allocation (\<open>util/mem.c\<close>)\<close>

definition ROUND_UP :: "nat \<Rightarrow> nat \<Rightarrow> nat" where
  "ROUND_UP n s = (n + s - 1) div s * s"

definition HUGE_MIN :: nat where "HUGE_MIN = 0x80000"

record nvme_mem_huge =
  mh_len :: nat
  posix_memalign :: bool

record host_alloc =
  os_memalign :: "nat \<Rightarrow> bool"
  os_mmap_huge :: "nat \<Rightarrow> bool"
  os_madvise :: "nat \<Rightarrow> bool"
  os_malloc :: "nat \<Rightarrow> bool"

text \<open>The buffer, zeroed by the allocator or by the kernel, and its descriptor.\<close>

definition nvme_alloc :: "host_alloc \<Rightarrow> nat \<Rightarrow> byte list option" where
  "nvme_alloc os len =
     (let len' = ROUND_UP len 0x1000 in
      if os_memalign os len' then Some (replicate len' 0) else None)"

definition nvme_alloc_huge :: "host_alloc \<Rightarrow> nat \<Rightarrow> (byte list \<times> nvme_mem_huge) option" where
  "nvme_alloc_huge os len =
     (let len1 = ROUND_UP len 0x1000 in
      if len1 < HUGE_MIN then
        map_option (\<lambda>p. (p, \<lparr>mh_len = len1, posix_memalign = True\<rparr>)) (nvme_alloc os len1)
      else if os_mmap_huge os len1 then
        Some (replicate len1 0, \<lparr>mh_len = len1, posix_memalign = False\<rparr>)
      else
        let len2 = ROUND_UP len1 0x200000 in
        if \<not> os_memalign os len2 then None
        else if \<not> os_madvise os len2 then None
        else Some (replicate len2 0, \<lparr>mh_len = len2, posix_memalign = True\<rparr>))"

subsection \<open>File layouts\<close>

definition MAX_EXTENTS :: nat where "MAX_EXTENTS = 1024"

record extent_info_t =
  logical_offset :: u64
  physical_offset :: u64
  ext_length :: u64
  lba_start :: u64
  lba_count :: u64

record file_layout_t =
  extent_count :: nat
  start_offset :: u64
  total_length :: u64
  extents :: "extent_info_t list"

text \<open>What the kernel's ioctl leaves in \<open>struct fiemap\<close>: logical offset, physical offset and length of each extent.\<close>

record fiemap =
  fm_start :: u64
  fm_extents :: "(u64 \<times> u64 \<times> u64) list"

datatype open_flags = O_RDONLY | O_WRONLY_CREAT | Flags_Uninit

datatype host_fd = No_Fd | Stdin_Fd | Stdout_Fd | File_Fd string

record host_os = host_alloc +
  os_open :: "string \<Rightarrow> open_flags \<Rightarrow> bool"
  os_read :: "host_fd \<Rightarrow> nat \<Rightarrow> int + byte list"
  os_fiemap :: "string \<Rightarrow> fiemap option"
  os_fallocate :: "string \<Rightarrow> u64 \<Rightarrow> bool"

datatype 'a host_result = Host_Fault | Host_Exit int | Host_Ok 'a

primrec host_bind :: "'a host_result \<Rightarrow> ('a \<Rightarrow> 'b host_result) \<Rightarrow> 'b host_result" where
  "host_bind Host_Fault f = Host_Fault"
| "host_bind (Host_Exit e) f = Host_Exit e"
| "host_bind (Host_Ok a) f = f a"

definition copy_extent :: "u64 \<times> u64 \<times> u64 \<Rightarrow> extent_info_t" where
  "copy_extent e =
     (case e of (fe_logical, fe_physical, fe_length) \<Rightarrow>
      \<lparr>logical_offset = fe_logical, physical_offset = fe_physical, ext_length = fe_length,
       lba_start = fe_physical, lba_count = fe_length\<rparr>)"

text \<open>
  The allocations are not checked: a NULL \<open>layout\<close> or \<open>fiemap\<close> is a fault at once, a NULL array of extents
  at the first store. The ioctl maps at most as many extents as it is offered.
\<close>

definition get_file_layout :: "host_os \<Rightarrow> string \<Rightarrow> file_layout_t option host_result" where
  "get_file_layout os filename =
     (if \<not> os_malloc os 40 \<or> \<not> os_malloc os (32 + MAX_EXTENTS * 56) then Host_Fault
      else if \<not> os_open os filename O_RDONLY then Host_Ok None
      else case os_fiemap os filename of
        None \<Rightarrow> Host_Ok None
      | Some fm \<Rightarrow>
          if fm_extents fm \<noteq> [] \<and> \<not> os_malloc os (MAX_EXTENTS * 40) \<or> MAX_EXTENTS < length (fm_extents fm) then Host_Fault
          else Host_Ok (Some \<lparr>extent_count = length (fm_extents fm), start_offset = fm_start fm,
                 total_length = foldl (\<lambda>t (fe_logical, fe_physical, fe_length). t + fe_length) 0 (fm_extents fm),
                 extents = map copy_extent (fm_extents fm)\<rparr>))"

text \<open>\<open>split_path\<close>, with the allocation of both results.\<close>

definition split_path :: "(nat \<Rightarrow> bool) \<Rightarrow> string \<Rightarrow> string option \<times> string option" where
  "split_path alloc full_path =
     (if CHR ''/'' \<notin> set full_path then
        (if alloc 3 then Some ''./'' else None,
         if alloc (length full_path + 1) then Some full_path else None)
      else
        let filename = rev (takeWhile (\<lambda>c. c \<noteq> CHR ''/'') (rev full_path));
            path_len = length full_path - length filename
        in (if alloc (path_len + 1) then Some (take path_len full_path) else None,
            if alloc (length filename + 1) then Some filename else None))"

subsection \<open>The pass-through command\<close>

record passthru_config =
  c_opcode :: u8
  c_flags :: u8
  c_rsvd :: u16
  c_namespace_id :: u32
  c_data_len :: u32
  c_metadata_len :: u32
  c_cdw2 :: u32
  c_cdw3 :: u32
  c_cdw10 :: u32
  c_cdw11 :: u32
  c_cdw12 :: u32
  c_cdw13 :: u32
  c_cdw14 :: u32
  c_cdw15 :: u32
  c_input_file :: string
  c_metadata :: string
  c_dry_run :: bool
  c_read :: bool
  c_write :: bool
  c_prefill :: u8
  c_target_file :: string

text \<open>What is sent: the configuration with the data and metadata buffers.\<close>

record passthru_args =
  a_cfg :: passthru_config
  a_data :: "byte list option"
  a_mdata :: "byte list option"

definition set_direction :: "passthru_config \<Rightarrow> passthru_config \<times> open_flags \<times> host_fd" where
  "set_direction cfg =
     (let (cfg1, fl1, fd1) =
        (if c_opcode cfg AND 0x01 \<noteq> 0 then (cfg\<lparr>c_write := True\<rparr>, O_RDONLY, Stdin_Fd)
         else (cfg, Flags_Uninit, No_Fd))
      in if c_opcode cfg AND 0x02 \<noteq> 0 then (cfg1\<lparr>c_read := True\<rparr>, O_WRONLY_CREAT, Stdout_Fd)
         else (cfg1, fl1, fd1))"

definition open_files :: "host_os \<Rightarrow> passthru_config \<Rightarrow> open_flags \<Rightarrow> host_fd \<Rightarrow> (host_fd \<times> host_fd) host_result" where
  "open_files os cfg fl fd =
     host_bind
       (if c_opcode cfg \<noteq> 0xe0 \<and> c_input_file cfg \<noteq> [] then
          if os_open os (c_input_file cfg) fl then Host_Ok (File_Fd (c_input_file cfg)) else Host_Exit (-22)
        else Host_Ok fd)
       (\<lambda>dfd.
        if c_metadata cfg \<noteq> [] then
          if os_open os (c_metadata cfg) fl then Host_Ok (dfd, File_Fd (c_metadata cfg)) else Host_Exit (-22)
        else Host_Ok (dfd, fd))"

text \<open>A layout or the exit with status 1.\<close>

definition need_layout :: "host_os \<Rightarrow> string \<Rightarrow> file_layout_t host_result" where
  "need_layout os filename =
     host_bind (get_file_layout os filename)
       (\<lambda>l. case l of None \<Rightarrow> Host_Exit 1 | Some layout \<Rightarrow> Host_Ok layout)"

definition prepare_grep :: "host_os \<Rightarrow> passthru_config \<Rightarrow> passthru_config host_result" where
  "prepare_grep os cfg =
     host_bind (need_layout os (c_target_file cfg))
       (\<lambda>layout. Host_Ok
          ((foldl (\<lambda>c ext. c\<lparr>c_cdw11 := ucast (lba_start ext), c_cdw12 := ucast (lba_count ext)\<rparr>)
              cfg (extents layout))\<lparr>c_data_len := 8192\<rparr>))"

definition fill_buffer :: "u8 \<Rightarrow> nat \<Rightarrow> byte list \<Rightarrow> byte list" where
  "fill_buffer c n buf = put_at 0 (replicate n c) buf"

text \<open>Stores \<open>u64data[bufnum++] = w\<close>, one after the other.\<close>

fun put_u64s :: "byte list \<Rightarrow> nat \<Rightarrow> u64 list \<Rightarrow> byte list option" where
  "put_u64s data bufnum [] = Some data"
| "put_u64s data bufnum (w # ws) =
     (if 8 * bufnum + 8 \<le> length data
      then put_u64s (put_at (8 * bufnum) (le64_bytes w) data) (bufnum + 1) ws else None)"

definition layout_words :: "file_layout_t \<Rightarrow> u64 list" where
  "layout_words layout =
     start_offset layout # concat (map (\<lambda>ext. [lba_start ext, lba_count ext]) (extents layout))"

definition prepare_cipadd :: "host_os \<Rightarrow> passthru_config \<Rightarrow> (passthru_config \<times> byte list) host_result" where
  "prepare_cipadd os cfg =
     host_bind (need_layout os (c_input_file cfg)) (\<lambda>layout0.
     host_bind (need_layout os (c_metadata cfg)) (\<lambda>layout1.
     if \<not> os_fallocate os (c_target_file cfg) (total_length layout0) then Host_Exit 1
     else host_bind (need_layout os (c_target_file cfg)) (\<lambda>layoutt.
       let cfg' = cfg\<lparr>c_write := True, c_cdw11 := word_of_nat (extent_count layout0),
                      c_cdw12 := word_of_nat (extent_count layout1), c_cdw13 := word_of_nat (extent_count layoutt),
                      c_data_len := 4096\<rparr>
       in case nvme_alloc_huge (host_alloc.truncate os) 4096 of
            None \<Rightarrow> Host_Exit (-12)
          | Some (buf, mh) \<Rightarrow>
              (case put_u64s (fill_buffer (c_prefill cfg) 4096 buf) 0
                      (layout_words layout0 @ layout_words layout1 @ layout_words layoutt) of
                 None \<Rightarrow> Host_Fault
               | Some data \<Rightarrow> Host_Ok (cfg', data)))))"

definition read_into :: "host_os \<Rightarrow> host_fd \<Rightarrow> nat \<Rightarrow> byte list \<Rightarrow> byte list host_result" where
  "read_into os fd n buf =
     (case os_read os fd n of Inl e \<Rightarrow> Host_Exit (- e) | Inr bytes \<Rightarrow> Host_Ok (put_at 0 (take n bytes) buf))"

definition fill_data :: "host_os \<Rightarrow> passthru_config \<Rightarrow> host_fd \<Rightarrow> byte list option host_result" where
  "fill_data os cfg dfd =
     (let n = unat (c_data_len cfg) in
      if n = 0 then Host_Ok None
      else case nvme_alloc_huge (host_alloc.truncate os) n of
        None \<Rightarrow> Host_Exit (-12)
      | Some (buf, mh) \<Rightarrow>
          let buf' = fill_buffer (c_prefill cfg) n buf in
          if \<not> c_read cfg \<and> \<not> c_write cfg then Host_Exit (-22)
          else if c_write cfg then host_bind (read_into os dfd n buf') (\<lambda>b. Host_Ok (Some b))
          else Host_Ok (Some buf'))"

definition fill_mdata :: "host_os \<Rightarrow> passthru_config \<Rightarrow> host_fd \<Rightarrow> byte list option host_result" where
  "fill_mdata os cfg mfd =
     (let n = unat (c_metadata_len cfg) in
      if n = 0 then Host_Ok None
      else if \<not> os_malloc os n then Host_Exit (-12)
      else if c_write cfg then host_bind (read_into os mfd n (replicate n 0)) (\<lambda>b. Host_Ok (Some b))
      else Host_Ok (Some (replicate n (c_prefill cfg))))"

text \<open>The command up to the point where it is sent.\<close>

definition passthru :: "host_os \<Rightarrow> passthru_config \<Rightarrow> passthru_args host_result" where
  "passthru os cfg0 =
     (case set_direction cfg0 of (cfg, fl, fd) \<Rightarrow>
      host_bind (open_files os cfg fl fd) (\<lambda>(dfd, mfd).
      host_bind (if c_opcode cfg = 0xd1 then prepare_grep os cfg else Host_Ok cfg) (\<lambda>cfg1.
      host_bind
        (if c_opcode cfg = 0xe0 then
           host_bind (prepare_cipadd os cfg1) (\<lambda>(cfg2, data). Host_Ok \<lparr>a_cfg = cfg2, a_data = Some data, a_mdata = None\<rparr>)
         else
           host_bind (fill_data os cfg1 dfd) (\<lambda>data.
           host_bind (fill_mdata os cfg1 mfd) (\<lambda>mdata.
           Host_Ok \<lparr>a_cfg = cfg1, a_data = data, a_mdata = mdata\<rparr>)))
        (\<lambda>args. if c_dry_run cfg then Host_Exit 0 else Host_Ok args))))"


subsection \<open>Lemmas\<close>

lemma round_up_ge: "0 < s \<Longrightarrow> n \<le> ROUND_UP n s" and round_up_dvd: "s dvd ROUND_UP n s"
proof -
  show "s dvd ROUND_UP n s" by (simp add: ROUND_UP_def)
  assume s: "0 < s"
  have "n + s - 1 = (n + s - 1) div s * s + (n + s - 1) mod s" by simp
  moreover have "(n + s - 1) mod s < s" using s by simp
  ultimately show "n \<le> ROUND_UP n s" unfolding ROUND_UP_def by linarith
qed

lemma round_up_again: "s dvd n \<Longrightarrow> 0 < s \<Longrightarrow> ROUND_UP n s = n"
proof -
  assume s: "s dvd n" "0 < s"
  then obtain k where n: "n = k * s" by (metis dvdE mult.commute)
  have "(n + s - 1) div s = ((s - 1) + k * s) div s" using s(2) by (simp add: n add.commute)
  also have "\<dots> = k + (s - 1) div s" using s(2) by (intro div_mult_self1) simp
  also have "\<dots> = k" using s(2) by simp
  finally show ?thesis by (simp add: ROUND_UP_def n)
qed

lemma host_bind_Ok: "host_bind m f = Host_Ok b \<longleftrightarrow> (\<exists>a. m = Host_Ok a \<and> f a = Host_Ok b)"
  by (cases m) auto

lemma put_u64s_encode:
  "put_u64s data bufnum ws =
     (if ws = [] then Some data
      else if 8 * (bufnum + length ws) \<le> length data then Some (put_at (8 * bufnum) (encode_words ws) data) else None)"
proof (induction ws arbitrary: data bufnum)
  case Nil
  then show ?case by simp
next
  case (Cons w ws)
  have e: "encode_words (w # ws) = le64_bytes w @ encode_words ws" by (simp add: encode_words_def)
  have "put_at (8 * bufnum + 8) (encode_words ws) (put_at (8 * bufnum) (le64_bytes w) data) =
      put_at (8 * bufnum) (encode_words (w # ws)) data" if "8 * bufnum + 8 \<le> length data"
    using put_at_twice_adjacent [of "8 * bufnum" data "le64_bytes w" "encode_words ws"] that by (simp add: e)
  then show ?case by (auto simp: Cons.IH encode_words_def algebra_simps)
qed

definition layout_exts :: "file_layout_t \<Rightarrow> extent list" where
  "layout_exts layout = map (\<lambda>ext. (lba_start ext, lba_count ext)) (extents layout)"

lemma layout_words_file: "layout_words layout = file_words (start_offset layout) (layout_exts layout)"
  by (simp add: layout_words_def file_words_def layout_exts_def comp_def)

lemma length_file_words [simp]: "length (file_words start exts) = 1 + 2 * length exts"
  by (induction exts) (auto simp: file_words_def)

lemma get_file_layout_count: "get_file_layout os f = Host_Ok (Some l) \<Longrightarrow> extent_count l = length (layout_exts l)"
  by (auto simp: get_file_layout_def layout_exts_def split: if_splits option.splits)

lemma get_file_layout_bound: "get_file_layout os f = Host_Ok (Some l) \<Longrightarrow> length (layout_exts l) \<le> 1024"
  by (auto simp: get_file_layout_def layout_exts_def MAX_EXTENTS_def split: if_splits option.splits)

subsection \<open>Properties\<close>

text \<open>A buffer has the requested length at least, rounded up to pages.\<close>

theorem alloc_huge_large_enough:
  assumes "nvme_alloc_huge os len = Some (buf, mh)"
  shows "len \<le> length buf \<and> mh_len mh = length buf \<and> 4096 dvd length buf \<and> set buf \<subseteq> {0}"
proof -
  have a: "len \<le> ROUND_UP len 4096" "4096 dvd ROUND_UP len 4096" by (simp_all add: round_up_ge round_up_dvd)
  have b: "ROUND_UP len 4096 \<le> ROUND_UP (ROUND_UP len 4096) 2097152" by (simp add: round_up_ge)
  have "2097152 dvd ROUND_UP (ROUND_UP len 4096) 2097152" by (rule round_up_dvd)
  moreover have "(4096 :: nat) dvd 2097152" by simp
  ultimately have c: "4096 dvd ROUND_UP (ROUND_UP len 4096) 2097152" using dvd_trans by blast
  have "ROUND_UP (ROUND_UP len 4096) 4096 = ROUND_UP len 4096" using a(2) by (simp add: round_up_again)
  with assms a b c show ?thesis
    by (auto simp: nvme_alloc_huge_def nvme_alloc_def Let_def split: if_splits)
qed

lemma cipadd_table_sent:
  assumes "c_opcode cfg = 0xe0" "\<not> c_dry_run cfg" "c_metadata cfg \<noteq> []" "os_open os (c_metadata cfg) Flags_Uninit"
    and "get_file_layout os (c_input_file cfg) = Host_Ok (Some l0)"
    and "get_file_layout os (c_metadata cfg) = Host_Ok (Some l1)"
    and "get_file_layout os (c_target_file cfg) = Host_Ok (Some lt)"
    and "os_fallocate os (c_target_file cfg) (total_length l0)" "os_memalign os 4096"
  defines "ws \<equiv> cipadd_words (start_offset l0) (layout_exts l0) (start_offset l1) (layout_exts l1) (start_offset lt) (layout_exts lt)"
  shows "if length ws \<le> 512
    then \<exists>args. passthru os cfg = Host_Ok args \<and>
      a_data args = Some (encode_words ws @ replicate (4096 - 8 * length ws) (c_prefill cfg)) \<and>
      c_data_len (a_cfg args) = 4096 \<and> c_opcode (a_cfg args) = 0xe0 \<and> unat (c_cdw11 (a_cfg args)) = length (layout_exts l0) \<and>
      unat (c_cdw12 (a_cfg args)) = length (layout_exts l1) \<and> unat (c_cdw13 (a_cfg args)) = length (layout_exts lt)
    else passthru os cfg = Host_Fault"
proof -
  have al: "nvme_alloc_huge (host_alloc.truncate os) 4096 = Some (replicate 4096 0, \<lparr>mh_len = 4096, posix_memalign = True\<rparr>)"
    using assms(9) by (simp add: nvme_alloc_huge_def nvme_alloc_def ROUND_UP_def HUGE_MIN_def host_alloc.truncate_def)
  have fill: "fill_buffer c 4096 (replicate 4096 0) = replicate 4096 c" for c
    unfolding fill_buffer_def by (rule put_at_0_full) simp
  have ws: "layout_words l0 @ layout_words l1 @ layout_words lt = ws" "ws \<noteq> []"
    unfolding ws_def cipadd_words_def by (simp_all add: layout_words_file file_words_def)
  have n: "unat (word_of_nat (length (layout_exts l)) :: u32) = length (layout_exts l)"
    if "length (layout_exts l) \<le> 1024" for l
    using that by (simp add: unat_of_nat)
  have put: "put_u64s (replicate 4096 c) 0 ws = (if length ws \<le> 512 then
      Some (encode_words ws @ replicate (4096 - 8 * length ws) c) else None)" for c
    using ws(2) by (simp add: put_u64s_encode put_at_def)
  have p: "passthru os cfg = host_bind (prepare_cipadd os cfg)
      (\<lambda>(cfg2, data). Host_Ok \<lparr>a_cfg = cfg2, a_data = Some data, a_mdata = None\<rparr>)"
    using assms(1-4)
    by (cases "prepare_cipadd os cfg") (auto simp: passthru_def set_direction_def open_files_def Let_def)
  show ?thesis
    using assms(1,5-8) get_file_layout_count get_file_layout_bound n
    by (simp add: p prepare_cipadd_def need_layout_def al fill ws(1) put Let_def)
qed

text \<open>
  C8: For opcode 0xe0 the host puts start offset and extents of the three files into the
  4096-byte buffer in the order the target reads them, with the extent counts in dwords 11 to
  13, when the table has at most 512 words; with more words it stores behind the end of the
  buffer.
\<close>

theorem cipadd_table_fits_or_overflows:
  assumes "c_opcode cfg = 0xe0" "\<not> c_dry_run cfg" "c_metadata cfg \<noteq> []" "os_open os (c_metadata cfg) Flags_Uninit"
    and "get_file_layout os (c_input_file cfg) = Host_Ok (Some l0)"
    and "get_file_layout os (c_metadata cfg) = Host_Ok (Some l1)"
    and "get_file_layout os (c_target_file cfg) = Host_Ok (Some lt)"
    and "os_fallocate os (c_target_file cfg) (total_length l0)" "os_memalign os 4096"
  defines "ws \<equiv> cipadd_words (start_offset l0) (layout_exts l0) (start_offset l1) (layout_exts l1) (start_offset lt) (layout_exts lt)"
  shows "if length ws \<le> 512
    then \<exists>args. passthru os cfg = Host_Ok args \<and>
      a_data args = Some (encode_words ws @ replicate (4096 - 8 * length ws) (c_prefill cfg)) \<and>
      c_data_len (a_cfg args) = 4096 \<and> unat (c_cdw11 (a_cfg args)) = length (layout_exts l0) \<and>
      unat (c_cdw12 (a_cfg args)) = length (layout_exts l1) \<and> unat (c_cdw13 (a_cfg args)) = length (layout_exts lt)
    else passthru os cfg = Host_Fault"
  using cipadd_table_sent [OF assms(1-9)] by (auto simp: ws_def split: if_splits)

text \<open>
  C28: For opcode 0xd1 the host sends the physical byte offset and byte length of the file's
  last extent only, cut to 32 bits, where the target expects a starting LBA and a number of
  blocks.
\<close>

theorem grep_host_sends_last_extent_in_bytes:
  assumes "c_opcode cfg = 0xd1" "passthru os cfg = Host_Ok args"
    and "os_fiemap os (c_target_file cfg) = Some fm" "fm_extents fm = before @ [(fe_logical, fe_physical, fe_length)]"
  shows "c_cdw11 (a_cfg args) = ucast fe_physical \<and> c_cdw12 (a_cfg args) = ucast fe_length \<and>
    c_data_len (a_cfg args) = 8192 \<and> c_cdw10 (a_cfg args) = c_cdw10 cfg"
proof -
  obtain cfg1 fl fd where d: "set_direction cfg = (cfg1, fl, fd)" using prod_cases3 by blast
  then have c: "c_opcode cfg1 = 0xd1" "c_target_file cfg1 = c_target_file cfg" "c_cdw10 cfg1 = c_cdw10 cfg"
    using assms(1) by (auto simp: set_direction_def Let_def split: if_splits)
  obtain cfg2 where p: "prepare_grep os cfg1 = Host_Ok cfg2" "a_cfg args = cfg2"
    using assms(2) c(1) by (auto simp: passthru_def d host_bind_Ok split: if_splits)
  then obtain l where l: "get_file_layout os (c_target_file cfg) = Host_Ok (Some l)"
    and cfg2: "cfg2 = (foldl (\<lambda>c ext. c\<lparr>c_cdw11 := ucast (lba_start ext), c_cdw12 := ucast (lba_count ext)\<rparr>)
              cfg1 (extents l))\<lparr>c_data_len := 8192\<rparr>"
    using c(2) by (auto simp: prepare_grep_def need_layout_def host_bind_Ok split: option.splits)
  have "extents l = map copy_extent before @ [copy_extent (fe_logical, fe_physical, fe_length)]"
    using l assms(3,4) by (auto simp: get_file_layout_def split: if_splits)
  moreover have "c_cdw10 (foldl (\<lambda>c ext. c\<lparr>c_cdw11 := ucast (lba_start ext), c_cdw12 := ucast (lba_count ext)\<rparr>) c0 exts)
      = c_cdw10 c0" for c0 :: passthru_config and exts :: "extent_info_t list"
    by (induction exts arbitrary: c0) auto
  ultimately show ?thesis using c(3) by (simp add: p(2) cfg2 copy_extent_def)
qed

text \<open>The two parts of a path make up the path.\<close>

theorem split_path_rejoins:
  assumes "\<And>n. alloc n"
  shows "\<exists>path filename. split_path alloc full_path = (Some path, Some filename) \<and> CHR ''/'' \<notin> set filename \<and>
    (if CHR ''/'' \<in> set full_path then path @ filename = full_path \<and> last path = CHR ''/''
     else path = ''./'' \<and> filename = full_path)"
proof (cases "CHR ''/'' \<in> set full_path")
  case False
  then show ?thesis using assms by (simp add: split_path_def)
next
  case True
  let ?f = "takeWhile (\<lambda>c. c \<noteq> CHR ''/'') (rev full_path)" and ?p = "dropWhile (\<lambda>c. c \<noteq> CHR ''/'') (rev full_path)"
  have full: "full_path = rev ?p @ rev ?f" by (metis rev_append rev_rev_ident takeWhile_dropWhile_id)
  have "?p \<noteq> []" using True by (auto simp: dropWhile_eq_Nil_conv)
  then have l: "last (rev ?p) = CHR ''/''" using hd_dropWhile [of "\<lambda>c. c \<noteq> CHR ''/''" "rev full_path"]
    by (simp add: last_rev)
  have "take (length full_path - length (rev ?f)) full_path = rev ?p"
    by (subst (2) full, subst full) simp
  moreover have "CHR ''/'' \<notin> set (rev ?f)" by (auto dest: set_takeWhileD)
  ultimately show ?thesis using True assms full l by (simp add: split_path_def Let_def)
qed


subsection \<open>Witnesses\<close>

definition sample_fiemap :: "string \<Rightarrow> fiemap option" where
  "sample_fiemap f =
     (if f = ''a'' then Some \<lparr>fm_start = 0, fm_extents = [(0, 8192, 4096), (4096, 65536, 4096)]\<rparr>
      else if f = ''b'' then Some \<lparr>fm_start = 0, fm_extents = [(0, 16384, 8192)]\<rparr>
      else if f = ''c'' then Some \<lparr>fm_start = 0, fm_extents = [(0, 32768, 8192)]\<rparr>
      else None)"

definition sample_os :: host_os where
  "sample_os = \<lparr>os_memalign = (\<lambda>n. True), os_mmap_huge = (\<lambda>n. True), os_madvise = (\<lambda>n. True), os_malloc = (\<lambda>n. True),
     os_open = (\<lambda>f fl. True), os_read = (\<lambda>fd n. Inr [107, 10]), os_fiemap = sample_fiemap, os_fallocate = (\<lambda>f n. True)\<rparr>"

definition sample_cfg :: "u8 \<Rightarrow> passthru_config" where
  "sample_cfg op = \<lparr>c_opcode = op, c_flags = 0, c_rsvd = 0, c_namespace_id = 1, c_data_len = 0, c_metadata_len = 0,
     c_cdw2 = 0, c_cdw3 = 0, c_cdw10 = 2, c_cdw11 = 0, c_cdw12 = 0, c_cdw13 = 0, c_cdw14 = 0, c_cdw15 = 0,
     c_input_file = ''a'', c_metadata = ''b'', c_dry_run = False, c_read = False, c_write = False, c_prefill = 0,
     c_target_file = ''c''\<rparr>"

lemmas host_sample_defs = sample_os_def sample_cfg_def sample_fiemap_def get_file_layout_def copy_extent_def MAX_EXTENTS_def

theorem alloc_huge_large_enough_witness:
  "\<exists>buf mh. nvme_alloc_huge (host_alloc.truncate sample_os) 5000 = Some (buf, mh) \<and> 5000 \<le> length buf"
proof -
  have "\<exists>buf mh. nvme_alloc_huge (host_alloc.truncate sample_os) 5000 = Some (buf, mh)"
    by (simp add: nvme_alloc_huge_def nvme_alloc_def ROUND_UP_def HUGE_MIN_def host_alloc.truncate_def sample_os_def)
  then obtain buf mh where "nvme_alloc_huge (host_alloc.truncate sample_os) 5000 = Some (buf, mh)" by blast
  with alloc_huge_large_enough [OF this] show ?thesis by blast
qed

theorem cipadd_table_fits_or_overflows_witness:
  "\<exists>args. passthru sample_os (sample_cfg 0xe0) = Host_Ok args \<and> unat (c_cdw11 (a_cfg args)) = 2 \<and>
     a_data args = Some (encode_words [0, 8192, 4096, 65536, 4096, 0, 16384, 8192, 0, 32768, 8192] @ replicate 4008 0)"
proof -
  let ?cfg = "sample_cfg 0xe0"
  have l: "get_file_layout sample_os (c_input_file ?cfg) = Host_Ok (Some
      \<lparr>extent_count = 2, start_offset = 0, total_length = 8192, extents = map copy_extent [(0, 8192, 4096), (4096, 65536, 4096)]\<rparr>)"
    "get_file_layout sample_os (c_metadata ?cfg) = Host_Ok (Some
      \<lparr>extent_count = 1, start_offset = 0, total_length = 8192, extents = map copy_extent [(0, 16384, 8192)]\<rparr>)"
    "get_file_layout sample_os (c_target_file ?cfg) = Host_Ok (Some
      \<lparr>extent_count = 1, start_offset = 0, total_length = 8192, extents = map copy_extent [(0, 32768, 8192)]\<rparr>)"
    by (simp_all add: host_sample_defs)
  have "c_opcode ?cfg = 0xe0" "\<not> c_dry_run ?cfg" "c_metadata ?cfg \<noteq> []"
    "os_open sample_os (c_metadata ?cfg) Flags_Uninit" by (simp_all add: host_sample_defs)
  from cipadd_table_fits_or_overflows [OF this l] show ?thesis
    by (auto simp: numeral_2_eq_2 host_sample_defs layout_exts_def cipadd_words_def file_words_def)
qed

theorem grep_host_sends_last_extent_in_bytes_witness:
  "\<exists>args. passthru sample_os ((sample_cfg 0xd1)\<lparr>c_target_file := ''a''\<rparr>) = Host_Ok args \<and>
     c_cdw11 (a_cfg args) = 65536 \<and> c_cdw12 (a_cfg args) = 4096"
proof -
  let ?cfg = "(sample_cfg 0xd1)\<lparr>c_target_file := ''a''\<rparr>"
  have al: "\<exists>buf mh. nvme_alloc_huge (host_alloc.truncate sample_os) 8192 = Some (buf, mh)"
    by (simp add: nvme_alloc_huge_def nvme_alloc_def ROUND_UP_def HUGE_MIN_def host_alloc.truncate_def sample_os_def)
  then have "\<exists>args. passthru sample_os ?cfg = Host_Ok args"
    by (auto simp: passthru_def set_direction_def open_files_def prepare_grep_def need_layout_def fill_data_def
        fill_mdata_def read_into_def host_sample_defs Let_def)
  then obtain args where a: "passthru sample_os ?cfg = Host_Ok args" by blast
  have "c_opcode ?cfg = 0xd1"
    "os_fiemap sample_os (c_target_file ?cfg) = Some \<lparr>fm_start = 0, fm_extents = [(0, 8192, 4096), (4096, 65536, 4096)]\<rparr>"
    "fm_extents \<lparr>fm_start = 0, fm_extents = [(0, 8192, 4096), (4096, 65536, 4096)]\<rparr> =
       [(0, 8192, 4096)] @ [(4096, 65536, 4096)]"
    by (simp_all add: host_sample_defs)
  from grep_host_sends_last_extent_in_bytes [OF this(1) a this(2,3)] a show ?thesis by auto
qed

theorem split_path_rejoins_witness:
  "\<exists>path filename. split_path (\<lambda>n. True) ''/mnt/a'' = (Some path, Some filename) \<and> path @ filename = ''/mnt/a''"
  using split_path_rejoins [of "\<lambda>n. True" "''/mnt/a''"] by auto

end
