(* ===== verification/Spec2Isabelle.thy ===== *)
theory Spec2Isabelle
  imports Dsm_Unmap Bdev_Split_Run Nvmf_Pause Reservation_Run Heaan_Samples Host_Cli
begin

text \<open>
  This development models the near-data processing extension of an NVMe-oF target (SPDK, under
  \<open>src/spdk\<close>) and of the host's command line (nvme-cli, under \<open>src/nvme-cli\<close>), and the parts of both
  the extension runs through.

  \<^bold>\<open>The program.\<close> The host's \<open>passthru\<close> command asks the file system for the extents of files and sends
  them, with opcode 0xd0 (echo), 0xd1 (grep) or 0xe0 (addition of two ciphertexts), to the target. There the
  transport delivers a request; \<open>spdk_nvmf_request_exec\<close> admits it, \<open>nvmf_ctrlr_process_io_cmd\<close> checks and dispatches
  it, a handler of \<open>ctrlr_bdev.c\<close> submits reads and writes to the block layer \<open>bdev.c\<close>, and completion callbacks compute
  the result and complete the request. A handler that finds no I/O descriptor queues the request, and the return of
  a descriptor runs it again.

  \<^bold>\<open>Theories and what they model.\<close>
  \<^item> \<open>Prelude\<close>: C integer types as words, stores into and loads from byte buffers, little-endian words, error numbers.
  \<^item> \<open>Util\<close>: the integer helpers of \<open>include/spdk/util.h\<close> and \<open>lib/util/math.c\<close>.
  \<^item> \<open>Iov\<close>, \<open>Iov_Iter\<close>: \<open>lib/util/iov.c\<close>. An iovec array is the list of its segments' bytes; \<open>concat\<close> is the
    abstraction to a flat buffer, and the locale \<open>flat_buffer\<close> states the contract of fill, store and load over it.
  \<^item> \<open>Nvme_Spec\<close>: commands, completions, opcodes and status codes of \<open>include/spdk/nvme_spec.h\<close>.
  \<^item> \<open>Bdev\<close>: the submission side of \<open>lib/bdev/bdev.c\<close>. A channel holds the descriptor cache and pool, the wait queue,
    the locked ranges and the list \<open>handed\<close> of the I/Os given to the module. The locale \<open>bdev_submit\<close> is the contract of
    a submit function (refused: nothing changed; accepted: in range, one descriptor taken, one I/O handed on), interpreted
    for all eight that have it; \<open>bdev_waiters\<close> is the contract of the functions that wait for a descriptor.
  \<^item> \<open>Bdev_Split\<close>, \<open>Bdev_Split_Run\<close>: the splitting of an I/O into children, same file: \<open>bdev_io_split\<close> starts the first round,
    \<open>bdev_io_split_done\<close> is the callback of a child, \<open>split_step\<close> the events in the life of a parent.
  \<^item> \<open>Nvmf_Request\<close>: the request of \<open>include/spdk/nvmf_transport.h\<close> and the direction of its data.
  \<^item> \<open>Ctrlr_Bdev\<close>, \<open>Dsm_Unmap\<close>: the NVM command handlers of \<open>lib/nvmf/ctrlr_bdev.c\<close>; the locale \<open>rw_handler\<close> is what
    read, write and zero-copy start share.
  \<^item> \<open>Ndp_Grep\<close>, \<open>Ndp_Echo\<close>, \<open>Ndp_Heaan\<close>: the three near-data handlers and their callbacks, same file. The HEaaN
    library is not part of the sources: it is the record \<open>heaan_lib\<close> of the three functions the callbacks call.
  \<^item> \<open>Heaan_Run\<close>: the ciphertext addition with the device below it, run by a schedule that picks which I/O completes next.
  \<^item> \<open>Ctrlr\<close>: reservation check, fused commands and dispatch of \<open>lib/nvmf/ctrlr.c\<close>, and what a woken waiter does.
  \<^item> \<open>Reservation\<close>, \<open>Reservation_Run\<close>: the reservation commands of \<open>lib/nvmf/subsystem.c\<close> on the registrants of a namespace, what is
    saved of them, and the copies in the poll groups; then sequences of commands. The locale \<open>resv_command\<close> is the contract of
    register, acquire and release.
  \<^item> \<open>Nvmf_Exec\<close>: admission, execution and completion of requests (\<open>ctrlr.c\<close>) and pause and resume of a subsystem
    (\<open>nvmf.c\<close>); \<open>Nvmf_Acct\<close>, \<open>Nvmf_Pause\<close>: their invariant and what follows from it in every reachable state.
  \<^item> \<open>Host_Cli\<close>: \<open>passthru\<close>, \<open>get_file_layout\<close> and \<open>split_path\<close> of \<open>nvme-cli/nvme.c\<close>, the allocator of \<open>util/mem.c\<close>.
    The operating system is the record \<open>host_os\<close>.
  \<^item> \<open>Samples\<close>, \<open>Heaan_Samples\<close>: concrete devices, requests and a concrete library at which theorems are applied.

  \<^bold>\<open>Conventions.\<close> A C function is a HOL function on the state it touches, returned updated; an \<open>int\<close> return code is
  an optional error number; freed memory is \<open>None\<close>; a model that runs into undefined behaviour of C (a store behind
  a buffer, a use after free, a null callback) has the value \<open>None\<close> or a fault constructor. Allocations are
  parameters that may fail. Messages between threads are function calls. There is no fuel: loops are structural recursion, or
  recursion with a measure (\<open>grep_scan\<close>, \<open>iov_xfer_loop\<close>, \<open>rw_split_loop\<close>); the one loop that may run forever, \<open>bdev_wake\<close>, is a partial
  function whose value \<open>None\<close> is non-termination, and the interpretation of \<open>bdev_waiters\<close> shows that it ends. Numbers of
  outstanding requests are below \<open>2 ^ 32\<close> where a theorem counts them, which the queue depths of the target respect.

  \<^bold>\<open>What is shown.\<close>
  \<^item> The ciphertext addition writes the sum and nothing else, for every order of completion, from the handler's request and from
    the host's command line (\<open>cipadd_writes_sum\<close>, \<open>cipadd_host_to_device\<close>); its error paths use freed memory, leave reads in
    flight, or never complete.
  \<^item> The grep returns exactly the matching lines; long lines overflow its buffer, and a resubmission loses the keyword. The echo
    never returns the target file's data.
  \<^item> Handlers submit only ranges within the device and leave the state alone when they fail; the unmap handler submits each range
    and completes once, but not when it is resumed or meets an oversized range.
  \<^item> Counters of outstanding requests are exact, a paused namespace is drained, a resume answers every queued request; one opcode
    escapes the counting. Returning a descriptor wakes waiters and ends.
  \<^item> The children of a split I/O tile its range, take their part of its buffers and keep the device's limits, and the parent completes
    once; an empty I/O at a boundary is lost, and a boundary of zero faults.
  \<^item> Reservations stay well-formed, the check in a poll group decides as the namespace's reservation says, and a saved reservation
    is restored; not so with more than sixteen registrants, after the holder replaced its key, with the reserved type 0, or for
    near-data commands.
  \<^item> Scatter-gather operations refine operations on flat buffers; range checks in wrapping arithmetic are exact.

  \<^bold>\<open>Not modelled\<close>, and why: the transports (network I/O; the models start at a delivered request, \<open>delivered\<close> below is what
  is relied on); the block device modules, QoS, resets and accel sequences (the model ends where an I/O is handed to the module,
  \<open>Heaan_Run\<close> excepted); fabrics and admin commands (parameters of \<open>Nvmf_Exec\<close>); blobstore, thread library, JSON-RPC and event
  framework (not on the path of a command); the other commands and plugins of nvme-cli, its option parsing and output
  (I/O); debug output of the handlers.
\<close>

section \<open>From the command line to the device\<close>

text \<open>
  What the kernel driver and the transport do between the two programs: the request carries
  the fields and the data of the command as it was sent, in one buffer.
\<close>

definition delivered :: "passthru_args \<Rightarrow> spdk_nvmf_request \<Rightarrow> bool" where
  "delivered args req \<longleftrightarrow>
     opc (req_cmd req) = c_opcode (a_cfg args) \<and> cdw11 (req_cmd req) = c_cdw11 (a_cfg args) \<and>
     cdw12 (req_cmd req) = c_cdw12 (a_cfg args) \<and> cdw13 (req_cmd req) = c_cdw13 (a_cfg args) \<and>
     (case a_data args of None \<Rightarrow> iov req = [] | Some data \<Rightarrow> iov req = [data])"

lemma cipadd_dispatched:
  assumes "path_open ctrlr ns_infos desc rid s" "opc (req_cmd (io_reqs s rid)) = 0xe0"
    and "nvmf_bdev_ctrlr_custom_heaan_cipadd_cmd (heap al) desc (io_th s) (io_reqs (preset rid s) rid) = Some (st, th', req', Some ctx)"
  shows "\<exists>s'. nvmf_ctrlr_process_io_cmd al ctrlr ns_infos rid s = Some (st, s') \<and> io_th s' = th' \<and>
    io_reqs s' rid = req' \<and> io_ctxs s' rid = Some (Heaan_Ctx ctx) \<and> io_events s' = io_events s"
  using assms(2,3)
  by (simp add: process_io_cmd_dispatch [OF assms(1)] dispatch_opcode_def lift_ndp_def preset_def set_ctx_def put_req_def)

lemma delivered_request:
  assumes "delivered args req" "a_data args = Some (encode_words (cipadd_words s0 ext0 s1 ext1 st extt) @ pad)"
    and "length (encode_words (cipadd_words s0 ext0 s1 ext1 st extt) @ pad) = 4096"
    and "unat (c_cdw11 (a_cfg args)) = length ext0" "unat (c_cdw12 (a_cfg args)) = length ext1"
    and "unat (c_cdw13 (a_cfg args)) = length extt"
    and "length ext0 + length ext1 + length extt \<le> 512"
    and "list_all (ext_ok (desc_bdev desc)) (ext0 @ ext1 @ extt)"
    and "ext_total ext0 < 2 ^ 64" "ext_total ext1 < 2 ^ 64" "ext_total extt < 2 ^ 64"
    and "descs_for (length ext0 + length ext1 + length extt) (bch th)"
  shows "cipadd_request desc th (upd_rsp f req) (s0, s1, st) ext0 ext1 extt"
  using assms by (simp add: cipadd_request_def delivered_def Let_def NVMF_REQ_MAX_BUFFERS_def upd_rsp_def)

text \<open>
  C2: From the command line to the device: when the host program sends opcode 0xe0 for three
  files, the transport delivers the command and its data as sent, and nothing stands between the
  command and its handler, the target's dispatcher starts the ciphertext addition on the extents
  the host's file system reported, and for every order in which its reads and writes succeed the
  extents of the target file end with the serialised sum of the ciphertexts stored in the input
  files, nothing else on the device having changed, and the response is no error.
\<close>

theorem cipadd_host_to_device:
  assumes cli: "c_opcode cfg = 0xe0" "\<not> c_dry_run cfg" "c_metadata cfg \<noteq> []" "os_open os (c_metadata cfg) Flags_Uninit"
      "get_file_layout os (c_input_file cfg) = Host_Ok (Some l0)"
      "get_file_layout os (c_metadata cfg) = Host_Ok (Some l1)"
      "get_file_layout os (c_target_file cfg) = Host_Ok (Some lt)"
      "os_fallocate os (c_target_file cfg) (total_length l0)" "os_memalign os 4096"
    and args: "passthru os cfg = Host_Ok args" "delivered args (io_reqs s rid)"
    and path: "path_open ctrlr ns_infos desc rid s" "\<And>n. heap al n" "desc_write desc"
    and exts: "e0 = layout_exts l0" "e1 = layout_exts l1" "et = layout_exts lt" "e0 @ e1 \<noteq> []" "et \<noteq> []" "disjoint_exts et"
      "list_all (ext_ok (desc_bdev desc)) (e0 @ e1 @ et)"
      "ext_total e0 < 2 ^ 64" "ext_total e1 < 2 ^ 64" "ext_total et < 2 ^ 64"
      "descs_for (length e0 + length e1 + length et) (bch (io_th s))"
    and disk: "length disk = device_size (desc_bdev desc)"
      "cipadd_result lib e0 e1 et disk = Some t" "length t = ext_total et"
    and sched: "length sched = length e0 + length e1 + length et" "all_succeed sched"
  shows "\<exists>s' ctx final. nvmf_ctrlr_process_io_cmd al ctrlr ns_infos rid s =
      Some (SPDK_NVMF_REQUEST_EXEC_STATUS_ASYNCHRONOUS, s') \<and> io_ctxs s' rid = Some (Heaan_Ctx ctx) \<and>
    heaan_run lib desc sched (hs_start (io_th s) (io_th s') (io_reqs s' rid) (Some ctx) disk) = Some final \<and>
    hs_inflight final = [] \<and> \<not> spdk_nvme_cpl_is_error (rsp (hs_req final)) \<and>
    gather et (hs_disk final) = t \<and> untouched et disk (hs_disk final)"
proof -
  let ?ws = "cipadd_words (start_offset l0) e0 (start_offset l1) e1 (start_offset lt) et"
  let ?req = "io_reqs (preset rid s) rid"
  from cipadd_table_sent [OF cli] args(1) have fits: "length ?ws \<le> 512"
    by (auto simp: exts(1-3) split: if_splits)
  with cipadd_table_sent [OF cli] args(1)
  have sent: "a_data args = Some (encode_words ?ws @ replicate (4096 - 8 * length ?ws) (c_prefill cfg))"
    "c_opcode (a_cfg args) = 0xe0" "unat (c_cdw11 (a_cfg args)) = length e0"
    "unat (c_cdw12 (a_cfg args)) = length e1" "unat (c_cdw13 (a_cfg args)) = length et"
    by (auto simp: exts(1-3) split: if_splits)
  have len: "length (encode_words ?ws @ replicate (4096 - 8 * length ?ws) (c_prefill cfg)) = 4096"
    "length e0 + length e1 + length et \<le> 512"
    using fits by (simp_all add: cipadd_words_def)
  have "?req = upd_rsp (set_sc (generic_sc SPDK_NVME_SC_SUCCESS)) (io_reqs s rid)" by (simp add: preset_def)
  then have "cipadd_request desc (io_th s) ?req (start_offset l0, start_offset l1, start_offset lt) e0 e1 et"
    using delivered_request [OF args(2) sent(1) len(1) sent(3-5) len(2) exts(7-11)] by simp
  from cipadd_runs [of "heap al", OF path(2) this exts(4,5) path(3) exts(6) disk sched] obtain th' ctx final where
    h: "nvmf_bdev_ctrlr_custom_heaan_cipadd_cmd (heap al) desc (io_th s) ?req =
        Some (SPDK_NVMF_REQUEST_EXEC_STATUS_ASYNCHRONOUS, th', ?req, Some ctx)"
    and r: "heaan_run lib desc sched (hs_start (io_th s) th' ?req (Some ctx) disk) = Some final" "hs_inflight final = []"
      "\<not> spdk_nvme_cpl_is_error (rsp (hs_req final))" "gather et (hs_disk final) = t" "untouched et disk (hs_disk final)"
    by blast
  have "opc (req_cmd (io_reqs s rid)) = 0xe0" using args(2) sent(2) by (simp add: delivered_def)
  from cipadd_dispatched [OF path(1) this h] obtain s' where
    "nvmf_ctrlr_process_io_cmd al ctrlr ns_infos rid s = Some (SPDK_NVMF_REQUEST_EXEC_STATUS_ASYNCHRONOUS, s')"
    "io_th s' = th'" "io_reqs s' rid = ?req" "io_ctxs s' rid = Some (Heaan_Ctx ctx)" by blast
  with r show ?thesis by metis
qed

text \<open>Three small files on the sample device, and the state in which the request arrives.\<close>

definition small_fiemap :: "string \<Rightarrow> fiemap option" where
  "small_fiemap f =
     (if f = ''a'' then Some \<lparr>fm_start = 0, fm_extents = [(0, 2, 2), (2, 6, 2)]\<rparr>
      else if f = ''b'' then Some \<lparr>fm_start = 0, fm_extents = [(0, 8, 4)]\<rparr>
      else if f = ''c'' then Some \<lparr>fm_start = 0, fm_extents = [(0, 12, 2), (2, 0, 2)]\<rparr>
      else None)"

definition small_os :: host_os where
  "small_os = sample_os\<lparr>os_fiemap := small_fiemap\<rparr>"

definition arrival :: "passthru_args \<Rightarrow> io_state" where
  "arrival args = \<lparr>io_th = sample_thread,
     io_reqs = (\<lambda>_. sample_req\<lparr>
       req_cmd := sample_cmd\<lparr>opc := c_opcode (a_cfg args), nsid := 1, fuse := 0, cdw11 := c_cdw11 (a_cfg args),
                             cdw12 := c_cdw12 (a_cfg args), cdw13 := c_cdw13 (a_cfg args)\<rparr>,
       iov := (case a_data args of None \<Rightarrow> [] | Some data \<Rightarrow> [data])\<rparr>),
     qpair_first_fused_req = None, io_ctxs = (\<lambda>_. None), io_events = [], io_msgs = []\<rparr>"

definition cip_ctrlr :: spdk_nvmf_ctrlr where
  "cip_ctrlr = sample_ctrlr\<lparr>subsys_ns := [Some \<lparr>ns_anagrpid = 1, ns_desc = Some cip_desc, ns_zcopy = False\<rparr>]\<rparr>"

lemma arrival_open:
  "path_open cip_ctrlr (\<lambda>_. sample_ns_info\<lparr>rtype := SPDK_NVME_RESERVE_NONE\<rparr>) cip_desc 0 (arrival args)"
  by (simp add: path_open_def arrival_def cip_ctrlr_def sample_ctrlr_def nvmf_ctrlr_get_ns_def
      nvmf_subsystem_get_ns_def nvmf_ctrlr_get_ana_state_def spdk_nvmf_request_using_zcopy_def sample_defs)

lemma arrival_delivered: "delivered args (io_reqs (arrival args) 0)"
  by (simp add: delivered_def arrival_def split: option.split)

theorem cipadd_host_to_device_witness:
  "\<exists>args s' ctx final. passthru small_os (sample_cfg 0xe0) = Host_Ok args \<and>
     nvmf_ctrlr_process_io_cmd \<lparr>heap = \<lambda>n. True, grep_ctx_ok = True, calloc_ok = True\<rparr> cip_ctrlr
       (\<lambda>_. sample_ns_info\<lparr>rtype := SPDK_NVME_RESERVE_NONE\<rparr>) 0 (arrival args) =
       Some (SPDK_NVMF_REQUEST_EXEC_STATUS_ASYNCHRONOUS, s') \<and> io_ctxs s' 0 = Some (Heaan_Ctx ctx) \<and>
     heaan_run byte_lib cip_desc [(2, True), (0, True), (5, True), (1, True), (0, True)]
       (hs_start sample_thread (io_th s') (io_reqs s' 0) (Some ctx) cip_disk) = Some final \<and>
     gather [(12, 2), (0, 2)] (hs_disk final) = [10, 12, 16, 18]"
proof -
  let ?cfg = "sample_cfg 0xe0" and ?al = "\<lparr>heap = \<lambda>n. True, grep_ctx_ok = True, calloc_ok = True\<rparr>"
  let ?l0 = "\<lparr>extent_count = 2, start_offset = 0, total_length = 4, extents = map copy_extent [(0, 2, 2), (2, 6, 2)]\<rparr>"
  let ?l1 = "\<lparr>extent_count = 1, start_offset = 0, total_length = 4, extents = map copy_extent [(0, 8, 4)]\<rparr>"
  let ?lt = "\<lparr>extent_count = 2, start_offset = 0, total_length = 4, extents = map copy_extent [(0, 12, 2), (2, 0, 2)]\<rparr>"
  have cli: "c_opcode ?cfg = 0xe0" "\<not> c_dry_run ?cfg" "c_metadata ?cfg \<noteq> []" "os_open small_os (c_metadata ?cfg) Flags_Uninit"
    "get_file_layout small_os (c_input_file ?cfg) = Host_Ok (Some ?l0)"
    "get_file_layout small_os (c_metadata ?cfg) = Host_Ok (Some ?l1)"
    "get_file_layout small_os (c_target_file ?cfg) = Host_Ok (Some ?lt)"
    "os_fallocate small_os (c_target_file ?cfg) (total_length ?l0)" "os_memalign small_os 4096"
    by (simp_all add: small_os_def small_fiemap_def host_sample_defs)
  from cipadd_table_sent [OF cli] obtain args where args: "passthru small_os ?cfg = Host_Ok args"
    by (auto simp: layout_exts_def cipadd_words_def)
  have exts: "[(2, 2), (6, 2)] = layout_exts ?l0" "[(8, 4)] = layout_exts ?l1" "[(12, 2), (0, 2)] = layout_exts ?lt"
    by (simp_all add: layout_exts_def copy_extent_def)
  have ok: "[(2, 2), (6, 2)] @ [(8, 4)] \<noteq> ([] :: extent list)" "[(12, 2), (0, 2)] \<noteq> ([] :: extent list)"
    "disjoint_exts [(12, 2), (0, 2)]"
    "list_all (ext_ok (desc_bdev cip_desc)) ([(2, 2), (6, 2)] @ [(8, 4)] @ [(12, 2), (0, 2)])"
    "ext_total [(2, 2), (6, 2)] < 2 ^ 64" "ext_total [(8, 4)] < 2 ^ 64" "ext_total [(12, 2), (0, 2)] < 2 ^ 64"
    "descs_for (length [(2 :: u64, 2 :: u64), (6, 2)] + length [(8 :: u64, 4 :: u64)] + length [(12 :: u64, 2 :: u64), (0, 2)])
       (bch (io_th (arrival args)))"
    by (simp_all add: cip_defs disjoint_exts_def arrival_def)
  have run: "length [10, 12, 16, 18 :: byte] = ext_total [(12, 2), (0, 2)]"
    "length [(2 :: nat, True), (0, True), (5, True), (1, True), (0, True)] =
       length [(2 :: u64, 2 :: u64), (6, 2)] + length [(8 :: u64, 4 :: u64)] + length [(12 :: u64, 2 :: u64), (0, 2)]"
    "all_succeed [(2, True), (0, True), (5, True), (1, True), (0, True)]" "desc_write cip_desc"
    by (simp_all add: cip_defs all_succeed_def)
  have heap: "heap ?al n" for n by simp
  have "io_th (arrival args) = sample_thread" by (simp add: arrival_def)
  with cipadd_host_to_device [of ?cfg small_os, OF cli args arrival_delivered arrival_open heap run(4) exts ok
      cip_disk_size cip_sum run(1-3)] args
  show ?thesis by metis
qed

end
